(* ===== verification/JsNumber.thy ===== *)
theory JsNumber
  imports Complex_Main "HOL-Library.Log_Nat"
begin

text \<open>
  The language's numbers. A TypeScript \<open>number\<close> is an IEEE 754 binary64 value: a finite
  double, an infinity or NaN, and every operation rounds its exact result to the nearest
  double, ties to even. \<open>rnd\<close> is that rounding on exact rationals: 53 significant bits, the
  least exponent \<open>-1074\<close>, overflow to an infinity. The arithmetic the services use
  (\<open>+\<close>, \<open>-\<close>, \<open>*\<close>, \<open>/\<close>, the comparisons, \<open>===\<close>, \<open>Math.abs\<close>,
  \<open>Number.isFinite\<close>) is defined from it. The sign of zero is not kept: the program never
  divides by a zero and prints both zeros as \<open>0\<close>, so it cannot tell them apart.

  The lemmas are the facts of floating point arithmetic the services rely on: exact results stay
  exact, rounding is monotone, its error is bounded, and subtraction of close numbers is exact
  (Sterbenz).
\<close>

section \<open>Rounding\<close>

definition round_even :: "rat \<Rightarrow> int" where
  "round_even y =
     (let f = \<lfloor>y\<rfloor>; d = y - of_int f
      in if d < 1/2 then f else if 1/2 < d then f + 1 else if even f then f else f + 1)"

definition ilog2 :: "rat \<Rightarrow> int" where
  "ilog2 x =
     (let (p, q) = quotient_of x; e = bitlen p - bitlen q
      in if x < 2 powi e then e - 1 else e)"

definition ulp_exp :: "rat \<Rightarrow> int" where
  "ulp_exp x = max (ilog2 \<bar>x\<bar> - 52) (- 1074)"

definition rndv :: "rat \<Rightarrow> rat" where
  "rndv x =
     (if x = 0 then 0
      else of_int (round_even (x / 2 powi ulp_exp x)) * 2 powi ulp_exp x)"

datatype number = NaN | PInf | NInf | Fin rat

definition overflow_bound :: rat where
  "overflow_bound = 2 ^ 1024"

definition rnd :: "rat \<Rightarrow> number" where
  "rnd x =
     (let r = rndv x
      in if overflow_bound \<le> r then PInf else if r \<le> - overflow_bound then NInf else Fin r)"

section \<open>Arithmetic\<close>

fun neg_number :: "number \<Rightarrow> number" where
  "neg_number (Fin a) = Fin (- a)"
| "neg_number NaN = NaN"
| "neg_number PInf = NInf"
| "neg_number NInf = PInf"

fun sign_inf :: "bool \<Rightarrow> number" where
  "sign_inf True = PInf"
| "sign_inf False = NInf"

fun positive :: "number \<Rightarrow> bool" where
  "positive (Fin a) = (0 < a)"
| "positive PInf = True"
| "positive _ = False"

instantiation number :: "{zero, one, plus, minus, times, inverse, ord}"
begin

definition zero_number :: number where "zero_number = Fin 0"

definition one_number :: number where "one_number = Fin 1"

fun plus_number :: "number \<Rightarrow> number \<Rightarrow> number" where
  "plus_number (Fin a) (Fin b) = rnd (a + b)"
| "plus_number NaN _ = NaN"
| "plus_number _ NaN = NaN"
| "plus_number PInf NInf = NaN"
| "plus_number NInf PInf = NaN"
| "plus_number PInf _ = PInf"
| "plus_number NInf _ = NInf"
| "plus_number _ PInf = PInf"
| "plus_number _ NInf = NInf"

definition minus_number :: "number \<Rightarrow> number \<Rightarrow> number" where
  "minus_number x y = x + neg_number y"

fun times_number :: "number \<Rightarrow> number \<Rightarrow> number" where
  "times_number (Fin a) (Fin b) = rnd (a * b)"
| "times_number x y =
     (if x = NaN \<or> y = NaN \<or> x = Fin 0 \<or> y = Fin 0 then NaN
      else sign_inf (positive x = positive y))"

fun divide_number :: "number \<Rightarrow> number \<Rightarrow> number" where
  "divide_number (Fin a) (Fin b) =
     (if b \<noteq> 0 then rnd (a / b) else if a = 0 then NaN else sign_inf (0 < a))"
| "divide_number (Fin a) PInf = Fin 0"
| "divide_number (Fin a) NInf = Fin 0"
| "divide_number x y =
     (if x = NaN \<or> y = NaN \<or> y = PInf \<or> y = NInf then NaN
      else sign_inf (positive x = (positive y \<or> y = Fin 0)))"

definition inverse_number :: "number \<Rightarrow> number" where
  "inverse_number x = Fin 1 div x"

fun less_number :: "number \<Rightarrow> number \<Rightarrow> bool" where
  "less_number (Fin a) (Fin b) = (a < b)"
| "less_number NInf (Fin b) = True"
| "less_number NInf PInf = True"
| "less_number (Fin a) PInf = True"
| "less_number _ _ = False"

definition less_eq_number :: "number \<Rightarrow> number \<Rightarrow> bool" where
  "less_eq_number x y = (x < y \<or> (x = y \<and> x \<noteq> NaN))"

instance ..

end

definition strict_eq :: "number \<Rightarrow> number \<Rightarrow> bool" where
  "strict_eq x y = (x = y \<and> x \<noteq> NaN)"

fun abs_num :: "number \<Rightarrow> number" where
  "abs_num (Fin a) = Fin \<bar>a\<bar>"
| "abs_num NaN = NaN"
| "abs_num _ = PInf"

fun is_finite :: "number \<Rightarrow> bool" where
  "is_finite (Fin _) = True"
| "is_finite _ = False"

text \<open>A decimal literal of the source is the double nearest to it; an integer below \<open>2^53\<close> is
  itself.\<close>

definition lit :: "rat \<Rightarrow> number" where
  "lit r = rnd r"

definition num_of_int :: "int \<Rightarrow> number" where
  "num_of_int i = rnd (of_int i)"

text \<open>The values a program can hold: a finite one is a double.\<close>

definition representable :: "rat \<Rightarrow> bool" where
  "representable x \<longleftrightarrow>
     (\<exists>m e. x = of_int m * 2 powi e \<and> \<bar>m\<bar> \<le> 2 ^ 53 \<and> - 1074 \<le> e) \<and> \<bar>x\<bar> < overflow_bound"

fun is_double :: "number \<Rightarrow> bool" where
  "is_double (Fin a) = representable a"
| "is_double _ = True"

section \<open>Rounding to an integer\<close>

lemma round_even_bounds:
  "of_int (round_even y) \<le> y + 1/2" "y \<le> of_int (round_even y) + 1/2"
  unfolding round_even_def Let_def by (simp_all, linarith+)

lemma round_even_of_int [simp]: "round_even (of_int n) = n"
  by (simp add: round_even_def)

lemma round_even_0 [simp]: "round_even 0 = 0"
  using round_even_of_int [of 0] by simp

lemma round_even_mono:
  assumes "x \<le> y"
  shows "round_even x \<le> round_even y"
proof (cases "\<lfloor>x\<rfloor> = \<lfloor>y\<rfloor>")
  case True
  with assms show ?thesis by (auto simp: round_even_def Let_def)
next
  case False
  with assms have "\<lfloor>x\<rfloor> + 1 \<le> \<lfloor>y\<rfloor>" by (meson floor_mono le_neq_trans zless_imp_add1_zle)
  moreover have "round_even x \<le> \<lfloor>x\<rfloor> + 1" "\<lfloor>y\<rfloor> \<le> round_even y"
    by (auto simp: round_even_def Let_def)
  ultimately show ?thesis by linarith
qed

lemma round_even_le_int: "y \<le> of_int n \<Longrightarrow> round_even y \<le> n"
  using round_even_mono [of y "of_int n"] by simp

lemma int_le_round_even: "of_int n \<le> y \<Longrightarrow> n \<le> round_even y"
  using round_even_mono [of "of_int n" y] by simp

lemma round_even_minus: "round_even (- y) = - round_even y"
proof (cases "y = of_int \<lfloor>y\<rfloor>")
  case True
  then have "round_even (- y) = round_even (of_int (- \<lfloor>y\<rfloor>))" by simp
  also have "\<dots> = - \<lfloor>y\<rfloor>" by (rule round_even_of_int)
  also have "\<lfloor>y\<rfloor> = round_even y" using True round_even_of_int [of "\<lfloor>y\<rfloor>"] by simp
  finally show ?thesis .
next
  case False
  then have fl: "\<lfloor>- y\<rfloor> = - \<lfloor>y\<rfloor> - 1"
    by (simp add: floor_minus ceiling_altdef)
  show ?thesis by (auto simp: round_even_def Let_def fl)
qed

section \<open>The binary exponent\<close>

lemma powi_2_pos [simp]: "0 < (2::rat) powi e"
  by simp

lemma powi_2_add: "(2::rat) powi (a + b) = 2 powi a * 2 powi b"
  by (simp add: power_int_add)

lemma powi_2_diff: "(2::rat) powi (a - b) = 2 powi a / 2 powi b"
  by (simp add: power_int_diff)

lemma powi_2_int: "0 \<le> e \<Longrightarrow> (2::rat) powi e = of_int (2 ^ nat e)"
  by (simp add: power_int_def)

lemma powi_53: "(2::rat) powi 53 = of_int (2 ^ 53)"
  by simp

lemma powi_2_le: "a \<le> b \<Longrightarrow> (2::rat) powi a \<le> 2 powi b"
  by (rule power_int_increasing) auto

lemma powi_2_less: "a < b \<Longrightarrow> (2::rat) powi a < 2 powi b"
  by (rule power_int_strict_increasing) auto

lemma powi_2_less_D: "(2::rat) powi a < 2 powi b \<Longrightarrow> a < b"
  by (meson not_le powi_2_le)

lemma ilog2_bounds:
  assumes "0 < x"
  shows "2 powi ilog2 x \<le> x" "x < 2 powi (ilog2 x + 1)"
proof -
  obtain p q where pq: "quotient_of x = (p, q)" by force
  have q: "0 < q" using quotient_of_denom_pos [OF pq] .
  have x: "x = of_int p / of_int q" using quotient_of_div [OF pq] .
  with assms q have p: "0 < p" by (simp add: zero_less_divide_iff)
  have b1: "0 < bitlen p" "0 < bitlen q"
    using p q bitlen_nonneg [of p] bitlen_nonneg [of q] bitlen_eq_zero_iff [of p]
      bitlen_eq_zero_iff [of q] by linarith+
  have "of_int p < (of_int (2 ^ nat (bitlen p)) :: rat)"
    using bitlen_bounds [OF p] by (simp only: of_int_less_iff)
  with b1 have p_up: "of_int p < (2::rat) powi bitlen p" by (simp add: powi_2_int)
  have "(of_int (2 ^ nat (bitlen p - 1)) :: rat) \<le> of_int p"
    using bitlen_bounds [OF p] by (simp only: of_int_le_iff)
  with b1 have p_lo: "(2::rat) powi (bitlen p - 1) \<le> of_int p" by (simp add: powi_2_int)
  have "of_int q < (of_int (2 ^ nat (bitlen q)) :: rat)"
    using bitlen_bounds [OF q] by (simp only: of_int_less_iff)
  with b1 have q_up: "of_int q < (2::rat) powi bitlen q" by (simp add: powi_2_int)
  have "(of_int (2 ^ nat (bitlen q - 1)) :: rat) \<le> of_int q"
    using bitlen_bounds [OF q] by (simp only: of_int_le_iff)
  with b1 have q_lo: "(2::rat) powi (bitlen q - 1) \<le> of_int q" by (simp add: powi_2_int)
  define e where "e = bitlen p - bitlen q"
  have "x < 2 powi bitlen p / 2 powi (bitlen q - 1)"
    unfolding x using p_up q_lo p q by (intro frac_less) auto
  then have up: "x < 2 powi (e + 1)"
    by (simp add: e_def powi_2_diff powi_2_add field_simps)
  have "2 powi (bitlen p - 1) / 2 powi bitlen q < x"
    unfolding x using p_lo q_up p q by (intro frac_less2) auto
  then have lo: "2 powi (e - 1) < x"
    by (simp add: e_def powi_2_diff powi_2_add field_simps)
  have "ilog2 x = (if x < 2 powi e then e - 1 else e)"
    by (simp add: ilog2_def pq e_def Let_def)
  with up lo show "2 powi ilog2 x \<le> x" "x < 2 powi (ilog2 x + 1)"
    by (auto split: if_splits)
qed

lemma ilog2_mono:
  assumes "0 < x" "x \<le> y"
  shows "ilog2 x \<le> ilog2 y"
proof -
  have "2 powi ilog2 x < (2::rat) powi (ilog2 y + 1)"
    using ilog2_bounds(1) [OF assms(1)] ilog2_bounds(2) [of y] assms by linarith
  then show ?thesis using powi_2_less_D by fastforce
qed

section \<open>Rounding to a double\<close>

lemma rndv_0 [simp]: "rndv 0 = 0"
  by (simp add: rndv_def)

lemma ulp_exp_minus [simp]: "ulp_exp (- x) = ulp_exp x"
  by (simp add: ulp_exp_def)

lemma rndv_minus: "rndv (- x) = - rndv x"
  by (simp add: rndv_def round_even_minus)

lemma ulp_exp_ge: "- 1074 \<le> ulp_exp x"
  by (simp add: ulp_exp_def)

text \<open>A grid point above \<open>x\<close> stays above the rounded value, and one below stays below.\<close>

lemma rndv_le_grid:
  assumes "x \<le> of_int n * 2 powi ulp_exp x"
  shows "rndv x \<le> of_int n * 2 powi ulp_exp x"
proof (cases "x = 0")
  case False
  from assms have "x / 2 powi ulp_exp x \<le> of_int n" by (simp add: field_simps)
  then have "round_even (x / 2 powi ulp_exp x) \<le> n" by (rule round_even_le_int)
  with False show ?thesis by (simp add: rndv_def)
qed (use assms in simp)

lemma grid_le_rndv:
  assumes "of_int n * 2 powi ulp_exp x \<le> x"
  shows "of_int n * 2 powi ulp_exp x \<le> rndv x"
  using rndv_le_grid [of "- x" "- n"] assms by (simp add: rndv_minus)

lemma rndv_le_power:
  assumes "x \<le> 2 powi k" "ulp_exp x \<le> k"
  shows "rndv x \<le> 2 powi k"
proof -
  have k: "(2::rat) powi k = of_int (2 ^ nat (k - ulp_exp x)) * 2 powi ulp_exp x"
    using assms(2) powi_2_int [of "k - ulp_exp x"] by (simp add: powi_2_diff field_simps)
  show ?thesis using rndv_le_grid [of x "2 ^ nat (k - ulp_exp x)"] assms(1) by (simp only: k)
qed

lemma power_le_rndv:
  assumes "2 powi k \<le> x" "ulp_exp x \<le> k"
  shows "2 powi k \<le> rndv x"
proof -
  have k: "(2::rat) powi k = of_int (2 ^ nat (k - ulp_exp x)) * 2 powi ulp_exp x"
    using assms(2) powi_2_int [of "k - ulp_exp x"] by (simp add: powi_2_diff field_simps)
  show ?thesis using grid_le_rndv [of "2 ^ nat (k - ulp_exp x)" x] assms(1) by (simp only: k)
qed

lemma rndv_nonneg: "0 \<le> x \<Longrightarrow> 0 \<le> rndv x"
  using grid_le_rndv [of 0 x] by simp

lemma rndv_mono_pos:
  assumes "0 < x" "x \<le> y"
  shows "rndv x \<le> rndv y"
proof (cases "ulp_exp x = ulp_exp y")
  case True
  have "round_even (x / 2 powi ulp_exp y) \<le> round_even (y / 2 powi ulp_exp y)"
    using assms by (intro round_even_mono divide_right_mono) auto
  with assms True show ?thesis by (simp add: rndv_def)
next
  case False
  let ?k = "ilog2 y"
  have y: "0 < y" using assms by simp
  have "ilog2 x \<le> ?k" using ilog2_mono assms by simp
  with False assms have k: "ilog2 x < ?k" "ulp_exp y = ?k - 52" "ulp_exp x \<le> ?k"
    by (auto simp: ulp_exp_def max_def split: if_splits)
  have "x < 2 powi (ilog2 x + 1)" by (rule ilog2_bounds) fact
  also have "(2::rat) powi (ilog2 x + 1) \<le> 2 powi ?k" using k by (intro powi_2_le) simp
  finally have "rndv x \<le> 2 powi ?k" using k by (intro rndv_le_power) auto
  also have "\<dots> \<le> rndv y" using ilog2_bounds(1) [OF y] k by (intro power_le_rndv) auto
  finally show ?thesis .
qed

lemma rndv_mono:
  assumes "x \<le> y"
  shows "rndv x \<le> rndv y"
proof -
  consider "0 < x" | "x \<le> 0" "0 \<le> y" | "y < 0" by linarith
  then show ?thesis
  proof cases
    case 2
    then show ?thesis using rndv_nonneg [of y] rndv_nonneg [of "- x"] by (simp add: rndv_minus)
  next
    case 3
    then show ?thesis using rndv_mono_pos [of "- y" "- x"] assms by (simp add: rndv_minus)
  qed (use assms rndv_mono_pos in auto)
qed

text \<open>What is exactly representable is not changed, and what rounding returns is representable.\<close>

lemma overflow_bound_pos [simp]: "0 < overflow_bound"
  by (simp add: overflow_bound_def)

lemma representable_0 [simp]: "representable 0"
  unfolding representable_def by (intro conjI exI [of _ 0]) auto

lemma representable_minus: "representable x \<Longrightarrow> representable (- x)"
proof -
  assume "representable x"
  then obtain m e where "x = of_int m * 2 powi e" "\<bar>m\<bar> \<le> 2 ^ 53" "- 1074 \<le> e" "\<bar>x\<bar> < overflow_bound"
    unfolding representable_def by blast
  then have "- x = of_int (- m) * 2 powi e \<and> \<bar>- m\<bar> \<le> 2 ^ 53 \<and> - 1074 \<le> e" "\<bar>- x\<bar> < overflow_bound"
    by auto
  then show "representable (- x)" unfolding representable_def by blast
qed

lemma rndv_multiple:
  assumes "x = of_int n * 2 powi ulp_exp x"
  shows "rndv x = x"
  using rndv_le_grid [of x n] grid_le_rndv [of n x] assms by simp

lemma rndv_representable:
  assumes "representable x"
  shows "rndv x = x"
proof (cases "x = 0")
  case nz: False
  obtain m e where x: "x = of_int m * 2 powi e" "\<bar>m\<bar> \<le> 2 ^ 53" "- 1074 \<le> e"
    using assms by (auto simp: representable_def)
  show ?thesis
  proof (cases "ulp_exp x \<le> e")
    case True
    then have "x = of_int (m * 2 ^ nat (e - ulp_exp x)) * 2 powi ulp_exp x"
      using x powi_2_int [of "e - ulp_exp x"] by (simp add: powi_2_diff field_simps)
    then show ?thesis by (rule rndv_multiple)
  next
    case False
    define k where "k = ilog2 \<bar>x\<bar>"
    have u: "ulp_exp x = k - 52" using False x(3) by (auto simp: ulp_exp_def k_def max_def split: if_splits)
    have "(2::rat) powi k \<le> \<bar>x\<bar>" using ilog2_bounds(1) [of "\<bar>x\<bar>"] nz by (simp add: k_def)
    also have "\<bar>x\<bar> = of_int \<bar>m\<bar> * 2 powi e" by (simp add: x(1) abs_mult)
    finally have "(2::rat) powi (k - e) \<le> of_int \<bar>m\<bar>" by (simp add: powi_2_diff field_simps)
    moreover have ke: "53 \<le> k - e" using False u by simp
    moreover have "(2::rat) powi 53 \<le> 2 powi (k - e)" by (rule powi_2_le) (rule ke)
    moreover have "of_int \<bar>m\<bar> \<le> (2::rat) powi 53"
      using x(2) by (simp only: powi_53 of_int_le_iff)
    ultimately have "(2::rat) powi (k - e) = 2 powi 53" and m: "of_int \<bar>m\<bar> = (2::rat) powi 53"
      by linarith+
    then have e: "e = k - 53" using ke powi_2_less [of 53 "k - e"] by (cases "k - e = 53") auto
    have "\<bar>m\<bar> = 2 ^ 53" using m
      by (simp only: powi_53 of_int_eq_iff)
    then have "2 dvd \<bar>m\<bar>" by simp
    then obtain n where n: "m = 2 * n" by auto
    have "(2::rat) * 2 powi e = 2 powi ulp_exp x" by (simp add: u e powi_2_diff)
    then have "x = of_int n * 2 powi ulp_exp x" unfolding x(1) n by simp
    then show ?thesis by (rule rndv_multiple)
  qed
qed simp

lemma rndv_is_multiple:
  obtains n where "rndv x = of_int n * 2 powi ulp_exp x" "\<bar>n\<bar> \<le> 2 ^ 53"
proof (cases "x = 0")
  case True
  then show ?thesis using that [of 0] by simp
next
  case False
  define n where "n = round_even (x / 2 powi ulp_exp x)"
  have up: "ilog2 \<bar>x\<bar> + 1 \<le> 53 + ulp_exp x" by (simp add: ulp_exp_def)
  have "\<bar>x\<bar> < 2 powi (ilog2 \<bar>x\<bar> + 1)" using False by (intro ilog2_bounds) simp
  also have "(2::rat) powi (ilog2 \<bar>x\<bar> + 1) \<le> 2 powi (53 + ulp_exp x)" using up by (rule powi_2_le)
  also have "\<dots> = of_int (2 ^ 53) * 2 powi ulp_exp x" by (simp only: powi_2_add powi_53)
  finally have "\<bar>x\<bar> \<le> of_int (2 ^ 53) * 2 powi ulp_exp x" by simp
  then have "\<bar>x\<bar> / 2 powi ulp_exp x \<le> of_int (2 ^ 53)" by (simp only: pos_divide_le_eq powi_2_pos)
  then have "\<bar>x / 2 powi ulp_exp x\<bar> \<le> of_int (2 ^ 53)" by (simp add: abs_divide)
  then have "x / 2 powi ulp_exp x \<le> of_int (2 ^ 53)" "of_int (- (2 ^ 53)) \<le> x / 2 powi ulp_exp x"
    by linarith+
  then have "n \<le> 2 ^ 53" "- (2 ^ 53) \<le> n"
    unfolding n_def by (simp_all only: round_even_le_int int_le_round_even)
  then show ?thesis using that [of n] False by (simp add: rndv_def n_def)
qed

lemma representable_rndv: "\<bar>rndv x\<bar> < overflow_bound \<Longrightarrow> representable (rndv x)"
  by (rule rndv_is_multiple [of x]) (use ulp_exp_ge in \<open>auto simp: representable_def\<close>)

lemma rndv_error: "\<bar>rndv x - x\<bar> \<le> 2 powi ulp_exp x / 2"
proof (cases "x = 0")
  case False
  let ?q = "2 powi ulp_exp x :: rat"
  have "\<bar>of_int (round_even (x / ?q)) - x / ?q\<bar> \<le> 1/2"
    using round_even_bounds [of "x / ?q"] by linarith
  then have "\<bar>of_int (round_even (x / ?q)) - x / ?q\<bar> * ?q \<le> 1/2 * ?q"
    by (intro mult_right_mono) auto
  moreover have "rndv x - x = (of_int (round_even (x / ?q)) - x / ?q) * ?q"
    using False by (simp add: rndv_def left_diff_distrib)
  ultimately show ?thesis by (simp add: abs_mult)
qed simp

text \<open>Where the result is not subnormal the relative error is at most \<open>2^-53\<close>.\<close>

lemma rndv_rel_error:
  assumes "2 powi (- 1022) \<le> \<bar>x\<bar>"
  shows "\<bar>rndv x - x\<bar> \<le> \<bar>x\<bar> * 2 powi (- 53)"
proof -
  let ?k = "ilog2 \<bar>x\<bar>"
  have x: "0 < \<bar>x\<bar>" using assms powi_2_pos [of "- 1022"] by linarith
  have "2 powi (- 1022) < (2::rat) powi (?k + 1)" using assms ilog2_bounds(2) [OF x] by linarith
  then have "ulp_exp x = ?k - 52" using powi_2_less_D [of "- 1022" "?k + 1"] by (simp add: ulp_exp_def)
  then have "ulp_exp x = (?k + - 53) + 1" by simp
  then have "2 powi ulp_exp x / 2 = 2 powi ?k * (2::rat) powi (- 53)"
    by (simp only: powi_2_add) simp
  moreover have "2 powi ?k * (2::rat) powi (- 53) \<le> \<bar>x\<bar> * 2 powi (- 53)"
    using ilog2_bounds(1) [OF x] by (intro mult_right_mono) auto
  ultimately show ?thesis using rndv_error [of x] by simp
qed

text \<open>Sterbenz: the difference of two doubles within a factor of two of each other is a double.\<close>

lemma representable_multiple:
  assumes "x = of_int m * 2 powi e" "- 1074 \<le> e" "\<bar>x\<bar> \<le> \<bar>y\<bar>" "y = of_int n * 2 powi e" "\<bar>n\<bar> \<le> 2 ^ 53"
    "\<bar>y\<bar> < overflow_bound"
  shows "representable x"
proof -
  have "\<bar>of_int m\<bar> * (2::rat) powi e \<le> \<bar>of_int n\<bar> * 2 powi e"
    using assms by (simp add: abs_mult)
  then have "\<bar>of_int m\<bar> \<le> (\<bar>of_int n\<bar> :: rat)" by simp
  then have "\<bar>m\<bar> \<le> \<bar>n\<bar>" by (simp only: of_int_le_iff flip: of_int_abs)
  with assms show ?thesis unfolding representable_def by force
qed

lemma shift_exponent:
  assumes "e \<le> e'"
  obtains n where "of_int m * (2::rat) powi e' = of_int n * 2 powi e"
proof (rule that [of "m * 2 ^ nat (e' - e)"])
  show "of_int m * (2::rat) powi e' = of_int (m * 2 ^ nat (e' - e)) * 2 powi e"
    using assms powi_2_int [of "e' - e"] by (simp add: powi_2_diff field_simps)
qed

lemma sterbenz_ordered:
  assumes "representable x" "representable y" "0 \<le> y" "y \<le> x" "x \<le> 2 * y"
  shows "representable (x - y)"
proof -
  obtain m e where x: "x = of_int m * 2 powi e" "\<bar>m\<bar> \<le> 2 ^ 53" "- 1074 \<le> e" "\<bar>x\<bar> < overflow_bound"
    using assms(1) by (auto simp: representable_def)
  obtain n f where y: "y = of_int n * 2 powi f" "\<bar>n\<bar> \<le> 2 ^ 53" "- 1074 \<le> f" "\<bar>y\<bar> < overflow_bound"
    using assms(2) by (auto simp: representable_def)
  show ?thesis
  proof (cases "e \<le> f")
    case True
    then obtain n' where n': "y = of_int n' * 2 powi e" using shift_exponent [OF True, of n] y by metis
    show ?thesis
      by (rule representable_multiple [of _ "m - n'" e x m])
        (use x n' assms in \<open>auto simp: algebra_simps\<close>)
  next
    case False
    then obtain m' where m': "x = of_int m' * 2 powi f" using shift_exponent [of f e m] x by force
    show ?thesis
      by (rule representable_multiple [of _ "m' - n" f y n])
        (use y m' assms in \<open>auto simp: algebra_simps\<close>)
  qed
qed

lemma sterbenz:
  assumes "representable x" "representable y" "0 \<le> y" "y / 2 \<le> x" "x \<le> 2 * y"
  shows "representable (x - y)"
proof (cases "y \<le> x")
  case False
  have "representable (y - x)" using assms False by (intro sterbenz_ordered) auto
  then show ?thesis using representable_minus by fastforce
qed (use assms sterbenz_ordered in auto)

section \<open>Facts about the operations\<close>

lemma rnd_representable: "representable a \<Longrightarrow> rnd a = Fin a"
  using rndv_representable [of a] by (auto simp: rnd_def representable_def Let_def abs_less_iff)

lemma rnd_Fin_iff: "rnd a = Fin r \<longleftrightarrow> r = rndv a \<and> \<bar>rndv a\<bar> < overflow_bound"
  by (auto simp: rnd_def Let_def abs_less_iff)

lemma is_double_rnd [simp]: "is_double (rnd a)"
  using representable_rndv [of a] by (auto simp: rnd_def Let_def abs_less_iff)

lemma rnd_not_NaN [simp]: "rnd a \<noteq> NaN"
  by (simp add: rnd_def Let_def)

lemma rnd_0 [simp]: "rnd 0 = Fin 0"
  by (rule rnd_representable) simp

lemma representable_int:
  assumes "\<bar>n\<bar> \<le> 2 ^ 53"
  shows "representable (of_int n)"
proof -
  have "of_int \<bar>n\<bar> \<le> (of_int (2 ^ 53) :: rat)" using assms by (simp only: of_int_le_iff)
  then have "\<bar>of_int n\<bar> \<le> (2 ^ 53 :: rat)" by simp
  also have "(2 ^ 53 :: rat) < overflow_bound"
    unfolding overflow_bound_def by (rule power_strict_increasing) auto
  finally have "\<bar>of_int n\<bar> < overflow_bound" .
  moreover have "of_int n = (of_int n :: rat) * 2 powi 0 \<and> \<bar>n\<bar> \<le> 2 ^ 53 \<and> (- 1074 :: int) \<le> 0"
    using assms by simp
  ultimately show ?thesis unfolding representable_def by blast
qed

lemma representable_1 [simp]: "representable 1"
  using representable_int [of 1] by simp

lemma rnd_1 [simp]: "rnd 1 = Fin 1"
  by (rule rnd_representable) simp

lemma rnd_numeral [simp]: "(numeral k :: int) \<le> 2 ^ 53 \<Longrightarrow> rnd (numeral k) = Fin (numeral k)"
  using representable_int [of "numeral k"] by (simp add: rnd_representable)

lemma num_of_int_exact: "\<bar>n\<bar> \<le> 2 ^ 53 \<Longrightarrow> num_of_int n = Fin (of_int n)"
  by (simp add: num_of_int_def rnd_representable representable_int)

lemma rnd_mono: "a \<le> b \<Longrightarrow> rnd a \<le> rnd b"
  using rndv_mono [of a b] by (auto simp: rnd_def Let_def less_eq_number_def)

lemma is_double_lit [simp]: "is_double (lit r)"
  by (simp add: lit_def)

lemma is_double_plus [simp]: "is_double x \<Longrightarrow> is_double y \<Longrightarrow> is_double (x + y)"
  for x y :: number
  by (cases x; cases y) auto

lemma is_double_neg [simp]: "is_double x \<Longrightarrow> is_double (neg_number x)"
  by (cases x) (auto simp: representable_minus)

lemma is_double_minus [simp]: "is_double x \<Longrightarrow> is_double y \<Longrightarrow> is_double (x - y)"
  for x y :: number
  by (simp add: minus_number_def)

lemma is_double_sign_inf [simp]: "is_double (sign_inf b)"
  by (cases b) auto

lemma is_double_times [simp]: "is_double (x * y)"
  for x y :: number
  by (cases x; cases y) auto

lemma is_double_divide [simp]: "is_double (x / y)"
  for x y :: number
  by (cases x; cases y) auto

lemma is_double_0 [simp]: "is_double 0" "is_double 1"
  by (simp_all add: zero_number_def one_number_def)

lemma is_finite_0 [simp]: "is_finite 0" "is_finite 1"
  by (simp_all add: zero_number_def one_number_def)

lemma is_finite_iff: "is_finite x \<longleftrightarrow> (\<exists>a. x = Fin a)"
  by (cases x) auto

lemma minus_self: "is_finite x \<Longrightarrow> x - x = (0 :: number)"
  by (cases x) (auto simp: minus_number_def zero_number_def)

lemma zero_plus_double: "is_double x \<Longrightarrow> 0 + x = (x :: number)"
  by (cases x) (auto simp: zero_number_def rnd_representable)

lemma plus_zero_double: "is_double x \<Longrightarrow> x + 0 = (x :: number)"
  by (cases x) (auto simp: zero_number_def rnd_representable)

lemma minus_zero_double: "is_double x \<Longrightarrow> x - 0 = (x :: number)"
  by (cases x) (auto simp: minus_number_def zero_number_def rnd_representable)

lemma number_le_refl: "x \<noteq> NaN \<Longrightarrow> x \<le> (x :: number)"
  by (simp add: less_eq_number_def)

lemma number_le_trans: "x \<le> y \<Longrightarrow> y \<le> z \<Longrightarrow> x \<le> (z :: number)"
  by (cases x; cases y; cases z) (auto simp: less_eq_number_def)

lemma number_le_NaN [simp]: "\<not> NaN \<le> x" "\<not> x \<le> NaN"
  by (auto simp: less_eq_number_def)

lemma Fin_le_iff [simp]: "Fin a \<le> Fin b \<longleftrightarrow> a \<le> b"
  by (auto simp: less_eq_number_def)

lemma number_le_inf [simp]: "x \<le> PInf \<longleftrightarrow> x \<noteq> NaN" "NInf \<le> x \<longleftrightarrow> x \<noteq> NaN"
  "\<not> PInf \<le> Fin a" "\<not> Fin a \<le> NInf" "\<not> PInf \<le> NInf"
  by (cases x; auto simp: less_eq_number_def)+

lemma number_not_less: "x \<noteq> NaN \<Longrightarrow> y \<noteq> NaN \<Longrightarrow> \<not> x < y \<longleftrightarrow> y \<le> (x :: number)"
  by (cases x; cases y) (auto simp: less_eq_number_def)

text \<open>Addition is monotone, so a sum never falls below a term when the other is not negative.\<close>

lemma plus_mono_right:
  fixes x y z :: number
  assumes "y \<le> z" "is_finite x"
  shows "x + y \<le> x + z"
  using assms by (cases x; cases y; cases z) (auto intro: rnd_mono)

lemma le_plus_nonneg:
  fixes x y :: number
  assumes "is_double x" "is_finite x" "0 \<le> y"
  shows "x \<le> x + y"
  using plus_mono_right [OF assms(3,2)] assms(1) by (simp add: plus_zero_double)

end
