(* ===== verification/Prelude.thy ===== *)
theory Prelude
  imports JsNumber "HOL-Library.State_Monad" "HOL-Library.Sublist" "HOL-Library.List_Lexorder"
    "HOL-Library.Char_ord"
begin

text \<open>
  What every component shares. The services are written as \<open>async\<close> methods that read and
  write the database one \<open>await\<close> at a time; each is a computation of the state monad, one
  bind for every \<open>await\<close>. A method that can throw returns a sum, \<open>Inl\<close> being the
  exception; the effects made before the throw stay, as they do in the program, so the state is
  returned either way and \<open>tryM\<close> only skips what follows. \<open>forE\<close> is a \<open>for\<close>
  loop over a throwing body.

  The three functions of the runtime and of third-party code that the model does not define are
  the fields of \<open>env\<close>: the SHA-256 digest of \<open>node:crypto\<close>, \<open>Math.log10\<close>
  (implementation-approximated in ECMAScript) and the decimal rendering of a number.

  Strings are byte strings: a JavaScript string stands for its UTF-8 encoding, which is what the
  digest reads.
\<close>

section \<open>Errors and the runtime\<close>

datatype error = NotFoundException string | Error string | EntityNotFoundError

record env =
  sha256 :: "string \<Rightarrow> string"
  log10 :: "number \<Rightarrow> number"
  numStr :: "number \<Rightarrow> string"

definition intStr :: "env \<Rightarrow> int \<Rightarrow> string" where
  "intStr E i = numStr E (num_of_int i)"

text \<open>A runtime for concrete runs: the digest is the text itself, so no two texts collide.\<close>

definition plain_env :: env where
  "plain_env = \<lparr>sha256 = (\<lambda>t. t), log10 = (\<lambda>x. x - 1), numStr = (\<lambda>_. ''0'')\<rparr>"

section \<open>Computations\<close>

abbreviation return :: "'a \<Rightarrow> ('s, 'a) state" where
  "return \<equiv> State_Monad.return"

definition gets :: "('s \<Rightarrow> 'a) \<Rightarrow> ('s, 'a) state" where
  "gets f = State (\<lambda>s. (f s, s))"

definition modify :: "('s \<Rightarrow> 's) \<Rightarrow> ('s, unit) state" where
  "modify f = State (\<lambda>s. ((), f s))"

abbreviation throw :: "error \<Rightarrow> ('s, error + 'a) state" where
  "throw e \<equiv> return (Inl e)"

definition tryM ::
  "('s, 'e + 'a) state \<Rightarrow> ('a \<Rightarrow> ('s, 'e + 'b) state) \<Rightarrow> ('s, 'e + 'b) state" where
  "tryM m f = State_Monad.bind m (\<lambda>r. case r of Inl e \<Rightarrow> return (Inl e) | Inr a \<Rightarrow> f a)"

fun forE :: "('a \<Rightarrow> ('s, 'e + unit) state) \<Rightarrow> 'a list \<Rightarrow> ('s, 'e + unit) state" where
  "forE f [] = return (Inr ())"
| "forE f (x # xs) = tryM (f x) (\<lambda>_. forE f xs)"

definition exec :: "('s, 'a) state \<Rightarrow> 's \<Rightarrow> 's" where
  "exec m s = snd (run_state m s)"

definition result :: "('s, 'a) state \<Rightarrow> 's \<Rightarrow> 'a" where
  "result m s = fst (run_state m s)"

text \<open>The equations that run a computation, kept in one collection.\<close>

named_theorems run_simps

text \<open>What an operation leaves alone, field by field.\<close>

named_theorems frame

lemma run_state_eq: "run_state m s = (result m s, exec m s)"
  by (simp add: result_def exec_def)

lemma exec_return [simp, run_simps]: "exec (return a) s = s"
  and result_return [simp, run_simps]: "result (return a) s = a"
  by (simp_all add: exec_def result_def)

lemma exec_gets [simp, run_simps]: "exec (gets f) s = s"
  and result_gets [simp, run_simps]: "result (gets f) s = f s"
  by (simp_all add: exec_def result_def gets_def)

lemma exec_modify [simp, run_simps]: "exec (modify f) s = f s"
  and result_modify [simp, run_simps]: "result (modify f) s = ()"
  by (simp_all add: exec_def result_def modify_def)

lemma exec_bind [simp, run_simps]:
    "exec (State_Monad.bind m f) s = exec (f (result m s)) (exec m s)"
  and result_bind [simp, run_simps]:
    "result (State_Monad.bind m f) s = result (f (result m s)) (exec m s)"
  by (simp_all add: exec_def result_def split: prod.splits)

lemma exec_tryM:
  "exec (tryM m f) s =
     (case result m s of Inl e \<Rightarrow> exec m s | Inr a \<Rightarrow> exec (f a) (exec m s))"
  by (simp add: tryM_def split: sum.splits)

lemma result_tryM:
  "result (tryM m f) s =
     (case result m s of Inl e \<Rightarrow> Inl e | Inr a \<Rightarrow> result (f a) (exec m s))"
  by (simp add: tryM_def split: sum.splits)

lemmas tryM_simps = exec_tryM result_tryM

section \<open>What a computation keeps\<close>

text \<open>
  \<open>I\<close> is a state invariant and \<open>R\<close> a preorder between the state before and after:
  \<open>safe I R m\<close> says that \<open>m\<close>, started where \<open>I\<close> holds, ends where \<open>I\<close> holds and
  \<open>R\<close> relates the two states, however it ends. The rules follow the structure of the code.
\<close>

definition safe :: "('s \<Rightarrow> bool) \<Rightarrow> ('s \<Rightarrow> 's \<Rightarrow> bool) \<Rightarrow> ('s, 'a) state \<Rightarrow> bool" where
  "safe I R m \<longleftrightarrow> (\<forall>s. I s \<longrightarrow> I (exec m s) \<and> R s (exec m s))"

lemma safeI: "(\<And>s. I s \<Longrightarrow> I (exec m s) \<and> R s (exec m s)) \<Longrightarrow> safe I R m"
  by (simp add: safe_def)

lemma safeD: "safe I R m \<Longrightarrow> I s \<Longrightarrow> I (exec m s)" "safe I R m \<Longrightarrow> I s \<Longrightarrow> R s (exec m s)"
  by (simp_all add: safe_def)

locale preorder_rel =
  fixes R :: "'s \<Rightarrow> 's \<Rightarrow> bool"
  assumes R_refl: "R s s"
    and R_trans: "R s t \<Longrightarrow> R t u \<Longrightarrow> R s u"
begin

lemma safe_return: "safe I R (return a)"
  by (simp add: safe_def R_refl)

lemma safe_gets: "safe I R (gets f)"
  by (simp add: safe_def R_refl)

lemma safe_bind:
  assumes "safe I R m" "\<And>a. safe I R (f a)"
  shows "safe I R (State_Monad.bind m f)"
  using assms unfolding safe_def by (auto intro: R_trans)

lemma safe_tryM:
  assumes "safe I R m" "\<And>a. safe I R (f a)"
  shows "safe I R (tryM m f)"
  unfolding tryM_def by (rule safe_bind [OF assms(1)]) (auto split: sum.splits intro: safe_return assms(2))

lemma safe_forE:
  assumes "\<And>x. x \<in> set xs \<Longrightarrow> safe I R (f x)"
  shows "safe I R (forE f xs)"
  using assms by (induction xs) (auto intro: safe_return safe_tryM)

lemma safe_if: "safe I R m \<Longrightarrow> safe I R n \<Longrightarrow> safe I R (if b then m else n)"
  by simp

lemmas safe_rules = safe_return safe_gets safe_bind safe_tryM safe_forE safe_if

end

section \<open>Lists\<close>

text \<open>A list sorted strictly by a key is determined by its elements.\<close>

lemma sorted_key_unique:
  fixes key :: "'r \<Rightarrow> 'k::linorder"
  assumes "sorted_wrt (<) (map key xs)" "sorted_wrt (<) (map key ys)" "set xs = set ys"
  shows "xs = ys"
proof -
  have inj: "inj_on key (set xs)" using assms(1)
    by (metis distinct_map strict_sorted_iff)
  have "map key xs = map key ys"
    using assms by (intro strict_sorted_equal) (auto simp: strict_sorted_iff)
  then show ?thesis using inj assms(3) by (simp add: inj_on_map_eq_map)
qed

fun concatWith :: "string \<Rightarrow> string list \<Rightarrow> string" where
  "concatWith sep [] = []"
| "concatWith sep [x] = x"
| "concatWith sep (x # y # xs) = x @ sep @ concatWith sep (y # xs)"

text \<open>Decimal digits of a count.\<close>

fun decimal :: "nat \<Rightarrow> string" where
  "decimal n = (if n < 10 then [''0123456789'' ! n] else decimal (n div 10) @ [''0123456789'' ! (n mod 10)])"

declare decimal.simps [simp del]

end
