(* ===== verification/Json.thy ===== *)
theory Json
  imports Prelude
begin

text \<open>
  Payload values and their serialisation. A \<open>Record<string, unknown>\<close> is an object literal:
  its properties in insertion order. \<open>stringify\<close> is \<open>JSON.stringify\<close> on such values,
  \<open>Number(v)\<close> and the nullish default \<open>v ?? 0\<close> are \<open>to_number\<close> and
  \<open>number_or_0\<close>. Property names are not array indices, so insertion order is the order
  \<open>JSON.stringify\<close> writes them in.
\<close>

datatype json =
    JNull
  | JBool bool
  | JNum number
  | JStr string
  | JArr "json list"
  | JObj "(string \<times> json) list"

type_synonym object = "(string \<times> json) list"

definition hex_digit :: "nat \<Rightarrow> char" where
  "hex_digit n = ''0123456789abcdef'' ! n"

definition escape_char :: "char \<Rightarrow> string" where
  "escape_char c =
     (let n = (of_char c :: nat) in
      if n = 34 then [CHR 0x5C, CHR 0x22]
      else if n = 92 then [CHR 0x5C, CHR 0x5C]
      else if n = 8 then [CHR 0x5C, CHR ''b'']
      else if n = 9 then [CHR 0x5C, CHR ''t'']
      else if n = 10 then [CHR 0x5C, CHR ''n'']
      else if n = 12 then [CHR 0x5C, CHR ''f'']
      else if n = 13 then [CHR 0x5C, CHR ''r'']
      else if n < 32 then [CHR 0x5C, CHR ''u'', CHR ''0'', CHR ''0'', hex_digit (n div 16), hex_digit (n mod 16)]
      else [c])"

definition quote :: "string \<Rightarrow> string" where
  "quote s = CHR 0x22 # concat (map escape_char s) @ [CHR 0x22]"

fun stringify :: "env \<Rightarrow> json \<Rightarrow> string"
  and stringify_list :: "env \<Rightarrow> json list \<Rightarrow> string list"
  and stringify_props :: "env \<Rightarrow> object \<Rightarrow> string list" where
  "stringify E JNull = ''null''"
| "stringify E (JBool b) = (if b then ''true'' else ''false'')"
| "stringify E (JNum x) = (if is_finite x then numStr E x else ''null'')"
| "stringify E (JStr s) = quote s"
| "stringify E (JArr vs) = ''['' @ concatWith '','' (stringify_list E vs) @ '']''"
| "stringify E (JObj ps) = ''{'' @ concatWith '','' (stringify_props E ps) @ ''}''"
| "stringify_list E [] = []"
| "stringify_list E (v # vs) = stringify E v # stringify_list E vs"
| "stringify_props E [] = []"
| "stringify_props E ((k, v) # ps) = (quote k @ '':'' @ stringify E v) # stringify_props E ps"

text \<open>\<open>Number(v)\<close> on the values that occur; strings, arrays and objects never reach it here
  and give NaN, as a text that is no numeral does.\<close>

fun to_number :: "json \<Rightarrow> number" where
  "to_number (JNum x) = x"
| "to_number JNull = 0"
| "to_number (JBool b) = (if b then 1 else 0)"
| "to_number _ = NaN"

definition number_or_0 :: "object \<Rightarrow> string \<Rightarrow> number" where
  "number_or_0 p k = (case map_of p k of None \<Rightarrow> 0 | Some v \<Rightarrow> if v = JNull then 0 else to_number v)"

abbreviation jint :: "int \<Rightarrow> json" where
  "jint i \<equiv> JNum (num_of_int i)"

section \<open>Escaping loses nothing\<close>

text \<open>Reading one escaped character back.\<close>

definition hex_value :: "char \<Rightarrow> nat" where
  "hex_value c = (let n = (of_char c :: nat) in if n < 58 then n - 48 else n - 87)"

definition unescape :: "string \<Rightarrow> nat \<times> string" where
  "unescape s =
     (if hd s \<noteq> CHR 0x5C then (of_char (hd s), tl s)
      else if s ! 1 = CHR ''u'' then (16 * hex_value (s ! 4) + hex_value (s ! 5), drop 6 s)
      else (the (map_of [(CHR 0x22, 34), (CHR 0x5C, 92), (CHR ''b'', 8), (CHR ''t'', 9), (CHR ''n'', 10),
              (CHR ''f'', 12), (CHR ''r'', 13)] (s ! 1)), drop 2 s))"

lemma hex_value_digit: "n < 16 \<Longrightarrow> hex_value (hex_digit n) = n"
proof -
  have "list_all (\<lambda>n. hex_value (hex_digit n) = n) [0..<16]" by code_simp
  then show "n < 16 \<Longrightarrow> hex_value (hex_digit n) = n" by (simp add: list_all_iff)
qed

lemma unescape_escape: "unescape (escape_char c @ x) = (of_char c, x)"
proof -
  let ?n = "of_char c :: nat"
  have c: "c = char_of ?n" by simp
  consider "?n = 34" | "?n = 92" | "?n = 8" | "?n = 9" | "?n = 10" | "?n = 12" | "?n = 13"
    | "?n < 32" "?n \<notin> {8, 9, 10, 12, 13}" | "32 \<le> ?n" "?n \<noteq> 34" "?n \<noteq> 92" by force
  then show ?thesis
  proof cases
    case 8
    then show ?thesis
      by (simp add: escape_char_def Let_def unescape_def hex_value_digit)
  next
    case 9
    then have "c \<noteq> CHR 0x5C" by auto
    with 9 show ?thesis by (simp add: escape_char_def Let_def unescape_def)
  qed (simp_all add: escape_char_def Let_def unescape_def)
qed

lemma escape_char_cancel: "escape_char c @ x = escape_char d @ y \<Longrightarrow> c = d \<and> x = y"
  using unescape_escape [of c x] unescape_escape [of d y] by (metis char_of_char prod.inject)

lemma escape_no_quote: "escape_char d @ z \<noteq> CHR 0x22 # x"
  by (auto simp: escape_char_def Let_def)

lemma escape_inj:
  assumes "concat (map escape_char s) @ CHR 0x22 # x = concat (map escape_char t) @ CHR 0x22 # y"
  shows "s = t \<and> x = y"
  using assms
proof (induction s arbitrary: t)
  case Nil
  then show ?case by (cases t) (simp_all add: escape_no_quote [symmetric])
next
  case (Cons c s)
  then obtain d t' where t: "t = d # t'" by (cases t) (simp_all add: escape_no_quote)
  have "escape_char c @ concat (map escape_char s) @ CHR 0x22 # x = escape_char d @ concat (map escape_char t') @ CHR 0x22 # y"
    using Cons.prems by (simp add: t)
  then show ?case using escape_char_cancel Cons.IH t by blast
qed

lemma quote_cancel: "quote s @ x = quote t @ y \<longleftrightarrow> s = t \<and> x = y"
  using escape_inj [of s x t y] by (auto simp: quote_def)

lemma quote_inj: "quote s = quote t \<longleftrightarrow> s = t"
  using quote_cancel [of s "[]" t "[]"] by simp

end
