(* ===== verification/Entities.thy ===== *)
theory Entities
  imports Json
begin

text \<open>
  The persisted rows (\<open>src/*/entities/*.entity.ts\<close>) and the repository through which the
  services reach them.

  A table is the list of its rows. How rows are found, ordered and written is the business of
  TypeORM and the database, which are not part of the repository: a \<open>repo\<close> holds these
  operations as parameters, and the locale \<open>repository\<close> states what their documentation
  promises. \<open>save\<close> writes a row under its primary key; \<open>findOne\<close> returns the row with
  a given key, as it was saved; \<open>find\<close> returns every row once, in no promised order;
  \<open>findAsc\<close> returns them in ascending key order and \<open>findDesc1\<close> is the descending
  query limited to one row. \<open>database\<close> collects the seven repositories, with the identity
  the database generates for a new oversight entry.
\<close>

section \<open>Rows\<close>

record ExecutionSnapshot =
  sequenceId :: int
  eventType :: string
  payload :: object
  timestamp :: int
  prevHash :: string
  hash :: string

record OversightLogEntry =
  logId :: int
  logEventType :: string
  layer :: string
  description :: string
  logHash :: string
  logPrevHash :: string
  logTimestamp :: int
  signature :: string

record PotVerdict =
  verdictProcessId :: string
  verified :: int
  reasons :: "string list"
  verdictTimestamp :: int
  snapshotSequenceId :: int

record ArosCoinLedger =
  ledgerId :: int
  processMinted :: number
  processBurned :: number
  earnedRetained :: number

definition LEDGER_ID :: int where
  "LEDGER_ID = 1"

record DistributionEntry =
  distNodeId :: string
  distAmount :: number
  distReason :: string

datatype EpochStatus = Open | Finalized | Archived

record Epoch =
  epochNumber :: int
  startTime :: int
  endTime :: int
  totalFees :: number
  distributionLog :: "DistributionEntry list"
  epochStatus :: EpochStatus
  operationalMargin :: number

datatype NodeStatus = Active | Penalized | Disconnected

record NodeEntity =
  nodeId :: string
  nodeType :: string
  uptime :: number
  successes :: nat
  total :: nat
  nodeStatus :: NodeStatus
  weight :: number
  reputation :: number

record ReleasePhase =
  phaseId :: int
  active :: bool
  activatedAt :: "int option"
  reserveIndexAtActivation :: "number option"
  velocityAtActivation :: "number option"

definition PHASE_ID :: int where
  "PHASE_ID = 1"

section \<open>Repositories\<close>

type_synonym 'r table = "'r list"

record ('k, 'r) repo =
  findOne :: "'k \<Rightarrow> 'r table \<Rightarrow> 'r option"
  find :: "'r table \<Rightarrow> 'r list"
  findAsc :: "'r table \<Rightarrow> 'r list"
  findDesc1 :: "'r table \<Rightarrow> 'r option"
  save :: "'r \<Rightarrow> 'r table \<Rightarrow> 'r table"

record database =
  snapshots :: "(int, ExecutionSnapshot) repo"
  oversight :: "(int, OversightLogEntry) repo"
  generatedId :: "OversightLogEntry table \<Rightarrow> int"
  verdicts :: "(string, PotVerdict) repo"
  ledgers :: "(int, ArosCoinLedger) repo"
  epochs :: "(int, Epoch) repo"
  nodes :: "(string, NodeEntity) repo"
  phases :: "(int, ReleasePhase) repo"

locale repository =
  fixes R :: "('k::linorder, 'r) repo" and key :: "'r \<Rightarrow> 'k"
  assumes findOne_empty: "findOne R k [] = None"
    and findOne_save: "findOne R k (save R r t) = (if k = key r then Some r else findOne R k t)"
    and findOne_key: "findOne R k t = Some r \<Longrightarrow> key r = k"
    and find_rows: "r \<in> set (find R t) \<longleftrightarrow> findOne R (key r) t = Some r"
    and find_distinct: "distinct (find R t)"
    and findAsc_rows: "r \<in> set (findAsc R t) \<longleftrightarrow> findOne R (key r) t = Some r"
    and findAsc_sorted: "sorted_wrt (<) (map key (findAsc R t))"
    and findDesc1_last:
      "findDesc1 R t = (if findAsc R t = [] then None else Some (last (findAsc R t)))"
begin

lemma findAsc_empty: "findAsc R [] = []"
  using findAsc_rows [of _ "[]"] findOne_empty by (cases "findAsc R []") auto

lemma find_empty: "find R [] = []"
  using find_rows [of _ "[]"] findOne_empty by (cases "find R []") auto

lemma findDesc1_Some: "findDesc1 R t = Some r \<Longrightarrow> findOne R (key r) t = Some r"
  using last_in_set [of "findAsc R t"] findAsc_rows [of "last (findAsc R t)" t]
  by (auto simp: findDesc1_last split: if_splits)

text \<open>A row saved under a key above every other is the last of the ascending list.\<close>

lemma findAsc_save_last:
  assumes "\<And>x. x \<in> set (findAsc R t) \<Longrightarrow> key x < key r"
  shows "findAsc R (save R r t) = findAsc R t @ [r]"
proof (rule sorted_key_unique)
  have "findOne R (key r) t = None"
  proof (rule ccontr)
    assume "findOne R (key r) t \<noteq> None"
    then obtain x where "findOne R (key r) t = Some x" by blast
    then have "key x = key r" "x \<in> set (findAsc R t)"
      using findOne_key [of "key r" t x] by (auto simp: findAsc_rows)
    then show False using assms by fastforce
  qed
  then have "x \<in> set (findAsc R (save R r t)) \<longleftrightarrow> x \<in> set (findAsc R t @ [r])" for x
    by (cases "key x = key r") (auto simp: findAsc_rows findOne_save)
  then show "set (findAsc R (save R r t)) = set (findAsc R t @ [r])" by blast
  show "sorted_wrt (<) (map key (findAsc R t @ [r]))"
    using findAsc_sorted [of t] assms by (auto simp: sorted_wrt_append)
qed (rule findAsc_sorted)

lemma key_le_last:
  assumes "x \<in> set (findAsc R t)" "findDesc1 R t = Some h"
  shows "key x \<le> key h"
proof -
  obtain ys where ys: "findAsc R t = ys @ [h]"
    using assms(2) by (auto simp: findDesc1_last split: if_splits) (metis append_butlast_last_id)
  then show ?thesis using assms(1) findAsc_sorted [of t]
    by (auto simp: sorted_wrt_append intro: less_imp_le)
qed

lemma findDesc1_None_iff: "findDesc1 R t = None \<longleftrightarrow> findAsc R t = []"
  by (simp add: findDesc1_last)

end

locale datastore =
  snap: repository "snapshots D" sequenceId +
  over: repository "oversight D" logId +
  verd: repository "verdicts D" verdictProcessId +
  ledg: repository "ledgers D" ledgerId +
  epoc: repository "epochs D" epochNumber +
  node: repository "nodes D" nodeId +
  phas: repository "phases D" phaseId
  for D :: database +
  assumes generatedId_above: "x \<in> set (findAsc (oversight D) t) \<Longrightarrow> logId x < generatedId D t"

section \<open>An in-memory store\<close>

text \<open>
  A store that keeps what the documentation promises: rows in insertion order, a save that
  replaces the row of the same key. It shows that the laws can be met and is the store of every
  concrete run.
\<close>

definition mem_findOne :: "('r \<Rightarrow> 'k) \<Rightarrow> 'k \<Rightarrow> 'r table \<Rightarrow> 'r option" where
  "mem_findOne key k t = List.find (\<lambda>r. key r = k) t"

definition mem_rows :: "('r \<Rightarrow> 'k) \<Rightarrow> 'r table \<Rightarrow> 'r list" where
  "mem_rows key t = filter (\<lambda>r. mem_findOne key (key r) t = Some r) (remdups t)"

definition mem_repo :: "('r \<Rightarrow> 'k::linorder) \<Rightarrow> ('k, 'r) repo" where
  "mem_repo key =
     \<lparr>findOne = mem_findOne key,
      find = mem_rows key,
      findAsc = (\<lambda>t. sort_key key (mem_rows key t)),
      findDesc1 = (\<lambda>t. let xs = sort_key key (mem_rows key t) in if xs = [] then None else Some (last xs)),
      save = (\<lambda>r t. filter (\<lambda>x. key x \<noteq> key r) t @ [r])\<rparr>"

definition mem_db :: database where
  "mem_db =
     \<lparr>snapshots = mem_repo sequenceId, oversight = mem_repo logId,
      generatedId = (\<lambda>t. foldr max (map logId t) 0 + 1),
      verdicts = mem_repo verdictProcessId, ledgers = mem_repo ledgerId,
      epochs = mem_repo epochNumber, nodes = mem_repo nodeId, phases = mem_repo phaseId\<rparr>"

lemma mem_findOne_Some: "mem_findOne key k t = Some r \<Longrightarrow> key r = k \<and> r \<in> set t"
  by (auto simp: mem_findOne_def find_Some_iff)

lemma mem_findOne_save:
  "mem_findOne key k (filter (\<lambda>x. key x \<noteq> key r) t @ [r]) =
     (if k = key r then Some r else mem_findOne key k t)"
  by (induction t) (auto simp: mem_findOne_def)

lemma set_mem_rows: "r \<in> set (mem_rows key t) \<longleftrightarrow> mem_findOne key (key r) t = Some r"
  using mem_findOne_Some [of key "key r" t r] by (auto simp: mem_rows_def)

lemma mem_rows_inj: "inj_on key (set (mem_rows key t))"
  by (auto simp: inj_on_def set_mem_rows)

lemma mem_repo_laws: "repository (mem_repo key) key"
proof
  fix k r t
  let ?R = "mem_repo key"
  show "findOne ?R k [] = None" by (simp add: mem_repo_def mem_findOne_def)
  show "findOne ?R k (save ?R r t) = (if k = key r then Some r else findOne ?R k t)"
    by (simp add: mem_repo_def mem_findOne_save)
  show "findOne ?R k t = Some r \<Longrightarrow> key r = k"
    using mem_findOne_Some [of key k t r] by (simp add: mem_repo_def)
  show "(r \<in> set (find ?R t)) = (findOne ?R (key r) t = Some r)"
    by (simp add: mem_repo_def set_mem_rows)
  show "distinct (find ?R t)" by (simp add: mem_repo_def mem_rows_def)
  show "(r \<in> set (findAsc ?R t)) = (findOne ?R (key r) t = Some r)"
    by (simp add: mem_repo_def set_mem_rows)
  show "findDesc1 ?R t = (if findAsc ?R t = [] then None else Some (last (findAsc ?R t)))"
    by (simp add: mem_repo_def Let_def)
  have "distinct (map key (sort_key key (mem_rows key t)))"
    using mem_rows_inj by (auto simp: distinct_map mem_rows_def)
  then show "sorted_wrt (<) (map key (findAsc ?R t))"
    by (simp add: mem_repo_def strict_sorted_iff)
qed

lemma foldr_max_ge: "(x::int) \<in> set xs \<Longrightarrow> x \<le> foldr max xs a"
  by (induction xs) (auto simp: le_max_iff_disj)

interpretation mem: datastore mem_db
proof -
  have above: "logId x < generatedId mem_db t" if "x \<in> set (findAsc (oversight mem_db) t)" for x t
  proof -
    have "x \<in> set t"
      using that mem_findOne_Some [of logId "logId x" t x]
      by (simp add: mem_db_def mem_repo_def set_mem_rows)
    then show ?thesis using foldr_max_ge [of "logId x" "map logId t" 0] by (simp add: mem_db_def)
  qed
  show "datastore mem_db"
    by (rule datastore.intro; (rule datastore_axioms.intro)?)
      (use above in \<open>auto simp: mem_db_def intro: mem_repo_laws\<close>)
qed

end
