(* ===== verification/HashChain.thy ===== *)
theory HashChain
  imports Prelude
begin

text \<open>
  The interface of a hash-linked log. NodeChain and the Oversight Ledger store rows that carry
  the digest of their own content and the digest of the row before, and both replay the whole
  log to find the first row that does not fit. The locale fixes what such a log is made of and
  assumes only the equations of the replay loop and that the digested text determines the body
  of a row once the text's fixed-width parts are known. What a replay accepts, what it detects
  and what it cannot detect is proved here once, for every log of this kind. Nothing is assumed
  of the digest: a change that goes unnoticed exhibits two texts, both digested in the logs at
  hand, that have the same digest.
\<close>

definition head_hash :: "('r \<Rightarrow> string) \<Rightarrow> string \<Rightarrow> 'r list \<Rightarrow> string" where
  "head_hash hash_of g rs = (if rs = [] then g else hash_of (last rs))"

lemma head_hash_simps [simp]:
  "head_hash h g [] = g" "head_hash h g (rs @ [r]) = h r" "head_hash h g (r # rs) = head_hash h (h r) rs"
  by (simp_all add: head_hash_def)

text \<open>The texts a replay digests, row by row, and a clash between two sets of texts.\<close>

fun digested :: "('r \<Rightarrow> string \<Rightarrow> string) \<Rightarrow> ('r \<Rightarrow> string) \<Rightarrow> string \<Rightarrow> 'r list \<Rightarrow> string list" where
  "digested pre hash_of g [] = []"
| "digested pre hash_of g (r # rs) = pre r g # digested pre hash_of (hash_of r) rs"

definition clash :: "(string \<Rightarrow> string) \<Rightarrow> string list \<Rightarrow> string list \<Rightarrow> bool" where
  "clash H ts us \<longleftrightarrow> (\<exists>t \<in> set ts. \<exists>u \<in> set us. t \<noteq> u \<and> H t = H u)"

lemma digested_append [simp]:
  "digested pre h g (xs @ ys) = digested pre h g xs @ digested pre h (head_hash h g xs) ys"
  by (induction xs arbitrary: g) auto

lemma clash_append: "clash H ts us \<Longrightarrow> clash H (ts @ ts') (us @ us')"
  by (auto simp: clash_def)

locale hash_chain =
  fixes H :: "string \<Rightarrow> string"
    and pre :: "'r \<Rightarrow> string \<Rightarrow> string"
    and prev_of :: "'r \<Rightarrow> string"
    and hash_of :: "'r \<Rightarrow> string"
    and key :: "'r \<Rightarrow> int"
    and tag :: "'r \<Rightarrow> int"
    and body :: "'r \<Rightarrow> string"
    and check :: "string \<Rightarrow> 'r list \<Rightarrow> int option"
  assumes check_Nil: "check g [] = None"
    and check_Cons: "check g (r # rs) =
      (if prev_of r \<noteq> g \<or> hash_of r \<noteq> H (pre r g) then Some (key r) else check (hash_of r) rs)"
    and pre_cancel: "tag x = tag y \<Longrightarrow> length p = length q \<Longrightarrow> pre x p = pre y q \<Longrightarrow>
      p = q \<and> body x = body y"
begin

lemma check_append:
  "check g (xs @ ys) = None \<longleftrightarrow> check g xs = None \<and> check (head_hash hash_of g xs) ys = None"
  by (induction xs arbitrary: g) (auto simp: check_Nil check_Cons)

text \<open>Appending a row linked to the head keeps the log intact, and only such a row does.\<close>

lemma check_snoc:
  "check g (rs @ [r]) = None \<longleftrightarrow>
     check g rs = None \<and> prev_of r = head_hash hash_of g rs \<and>
     hash_of r = H (pre r (head_hash hash_of g rs))"
  by (simp add: check_append check_Cons check_Nil)

text \<open>A log cut off at the end still replays.\<close>

lemma check_prefix: "check g ys = None \<Longrightarrow> prefix xs ys \<Longrightarrow> check g xs = None"
  by (auto simp: check_append prefix_def)

lemma check_append_Some: "check g xs = Some k \<Longrightarrow> check g (xs @ ys) = Some k"
  by (induction xs arbitrary: g) (auto simp: check_Nil check_Cons split: if_splits)

text \<open>The reported row is the first that does not fit: everything before it does.\<close>

lemma check_Some:
  assumes "check g rs = Some k"
  obtains xs r ys where "rs = xs @ r # ys" "check g xs = None" "key r = k"
    "prev_of r \<noteq> head_hash hash_of g xs \<or> hash_of r \<noteq> H (pre r (head_hash hash_of g xs))"
  using assms
proof (induction rs arbitrary: g thesis)
  case (Cons r rs)
  show ?case
  proof (cases "prev_of r \<noteq> g \<or> hash_of r \<noteq> H (pre r g)")
    case True
    then show ?thesis using Cons.prems(1) [of "[]" r rs] Cons.prems(2) by (simp add: check_Nil check_Cons)
  next
    case False
    then have "check (hash_of r) rs = Some k" using Cons.prems(2) by (simp add: check_Cons)
    then obtain xs r' ys where "rs = xs @ r' # ys" "check (hash_of r) xs = None" "key r' = k"
      "prev_of r' \<noteq> head_hash hash_of (hash_of r) xs \<or>
       hash_of r' \<noteq> H (pre r' (head_hash hash_of (hash_of r) xs))"
      using Cons.IH by blast
    then show ?thesis using False Cons.prems(1) [of "r # xs" r' ys] by (simp add: check_Cons)
  qed
qed (simp add: check_Nil)

text \<open>A row that is not the last cannot change its body without breaking the replay, whatever
  digest the changed row is given, unless the two texts digested for it clash.\<close>

lemma tamper_detected:
  assumes intact: "check g (xs @ r # y # ys) = None"
    and "tag r' = tag r" "body r' \<noteq> body r"
  shows "check g (xs @ r' # y # ys) \<noteq> None \<or>
    clash H [pre r' (head_hash hash_of g xs)] [pre r (head_hash hash_of g xs)]"
proof (rule disjCI)
  let ?p = "head_hash hash_of g xs"
  assume nc: "\<not> clash H [pre r' ?p] [pre r ?p]"
  show "check g (xs @ r' # y # ys) \<noteq> None"
  proof
    assume "check g (xs @ r' # y # ys) = None"
    with intact have "hash_of r' = H (pre r' ?p)" "hash_of r = H (pre r ?p)" "hash_of r' = hash_of r"
      by (auto simp: check_append check_Cons split: if_splits)
    then have "pre r' ?p = pre r ?p" using nc by (auto simp: clash_def)
    then show False using pre_cancel [of r' r ?p ?p] assms(2,3) by auto
  qed
qed

text \<open>The digest of the last row fixes the whole log: two intact logs with the same fixed-width
  parts that end in the same digest carry the same bodies, unless texts of the two logs clash.\<close>

lemma head_fixes_log:
  assumes "check g xs = None" "check g ys = None" "map tag xs = map tag ys"
    and "head_hash hash_of g xs = head_hash hash_of g ys"
    and width: "\<And>x y. length (H x) = length (H y)"
    and nc: "\<not> clash H (digested pre hash_of g xs) (digested pre hash_of g ys)"
  shows "map body xs = map body ys \<and> map hash_of xs = map hash_of ys"
  using assms(1-4) nc
proof (induction xs arbitrary: ys rule: rev_induct)
  case (snoc x xs)
  then obtain y ys' where ys: "ys = ys' @ [y]" "map tag xs = map tag ys'" "tag x = tag y"
    by (cases ys rule: rev_cases) auto
  let ?p = "head_hash hash_of g xs" and ?q = "head_hash hash_of g ys'"
  have x: "check g xs = None" "hash_of x = H (pre x ?p)" and y: "check g ys' = None" "hash_of y = H (pre y ?q)"
    using snoc.prems ys by (auto simp: check_snoc)
  have "hash_of x = hash_of y" using snoc.prems(4) ys by simp
  then have "pre x ?p = pre y ?q" using x y snoc.prems(5) ys by (auto simp: clash_def)
  moreover have "length ?p = length ?q"
  proof (cases xs rule: rev_cases)
    case Nil
    with ys show ?thesis by simp
  next
    case (snoc zs z)
    with ys obtain vs v where "ys' = vs @ [v]" by (cases ys' rule: rev_cases) auto
    then show ?thesis using x(1) y(1) snoc width by (simp add: check_snoc)
  qed
  ultimately have "?p = ?q" "body x = body y" using pre_cancel ys by blast+
  moreover have "\<not> clash H (digested pre hash_of g xs) (digested pre hash_of g ys')"
    using snoc.prems(5) ys clash_append by fastforce
  ultimately show ?case using snoc.IH [OF x(1) y(1)] ys \<open>hash_of x = hash_of y\<close> by simp
qed simp

end

end
