(* ===== verification/NodeChain.thy ===== *)
theory NodeChain
  imports Entities HashChain
begin

text \<open>
  The clock (\<open>src/common/clock.service.ts\<close>) and the append-only system of record
  (\<open>src/nodechain/nodechain.service.ts\<close>). \<open>append\<close> reads the head, links the new
  snapshot to it and saves it; \<open>reconstruct\<close> replays the history. The history of a state is
  the table in ascending sequence order. Shown: an append extends the history by one linked
  snapshot and changes nothing else, an intact history stays intact, sequence numbers run
  \<open>1, 2, \<dots>\<close> without a gap, and what the replay detects and does not detect.
\<close>

section \<open>Clock\<close>

record clock_state =
  clockT :: int

definition clock_start :: int where
  "clock_start = 1700000000000"

definition now :: "('z clock_state_scheme, int) state" where
  "now = do {
     modify (\<lambda>s. s\<lparr>clockT := clockT s + 1\<rparr>);
     gets clockT
   }"

lemma now_run [simp]: "exec now s = s\<lparr>clockT := clockT s + 1\<rparr>" "result now s = clockT s + 1"
  by (simp_all add: now_def)

section \<open>NodeChain\<close>

record chain_state = clock_state +
  chainTbl :: "ExecutionSnapshot table"

definition append ::
  "env \<Rightarrow> database \<Rightarrow> string \<Rightarrow> object \<Rightarrow> ('z chain_state_scheme, ExecutionSnapshot) state" where
  "append E D evType body = do {
     head \<leftarrow> gets (\<lambda>s. findDesc1 (snapshots D) (chainTbl s));
     let seqId = (case head of Some h \<Rightarrow> sequenceId h + 1 | None \<Rightarrow> 1);
     let prev = (case head of Some h \<Rightarrow> hash h | None \<Rightarrow> []);
     let payloadJson = stringify E (JObj body);
     let digest = sha256 E (payloadJson @ prev @ intStr E seqId);
     ts \<leftarrow> now;
     let snapshot = \<lparr>sequenceId = seqId, eventType = evType, payload = body, timestamp = ts,
                     prevHash = prev, hash = digest\<rparr>;
     modify (\<lambda>s. s\<lparr>chainTbl := save (snapshots D) snapshot (chainTbl s)\<rparr>);
     return snapshot
   }"

definition latest :: "database \<Rightarrow> ('z chain_state_scheme, ExecutionSnapshot option) state" where
  "latest D = gets (\<lambda>s. findDesc1 (snapshots D) (chainTbl s))"

definition getBySequence ::
  "database \<Rightarrow> int \<Rightarrow> ('z chain_state_scheme, ExecutionSnapshot option) state" where
  "getBySequence D seqId = gets (\<lambda>s. findOne (snapshots D) seqId (chainTbl s))"

definition list_page ::
  "database \<Rightarrow> nat option \<Rightarrow> nat option \<Rightarrow> ('z chain_state_scheme, ExecutionSnapshot list) state" where
  "list_page D limit offset = gets (\<lambda>s.
     let rows = findAsc (snapshots D) (chainTbl s);
         rest = (case offset of Some n \<Rightarrow> drop n rows | None \<Rightarrow> rows)
     in case limit of Some n \<Rightarrow> take n rest | None \<Rightarrow> rest)"

abbreviation list_chain :: "database \<Rightarrow> ('z chain_state_scheme, ExecutionSnapshot list) state" where
  "list_chain D \<equiv> list_page D None None"

record ChainCheck =
  ok :: bool
  brokenAt :: "int option"

fun replay :: "env \<Rightarrow> string \<Rightarrow> ExecutionSnapshot list \<Rightarrow> int option" where
  "replay E expectedPrevHash [] = None"
| "replay E expectedPrevHash (snap # snaps) =
     (let payloadJson = stringify E (JObj (payload snap));
          expectedHash = sha256 E (payloadJson @ expectedPrevHash @ intStr E (sequenceId snap))
      in if prevHash snap \<noteq> expectedPrevHash \<or> hash snap \<noteq> expectedHash
         then Some (sequenceId snap)
         else replay E (hash snap) snaps)"

definition reconstruct :: "env \<Rightarrow> database \<Rightarrow> ('z chain_state_scheme, ChainCheck) state" where
  "reconstruct E D = do {
     snaps \<leftarrow> list_chain D;
     let broken = replay E [] snaps;
     return \<lparr>ok = (broken = None), brokenAt = broken\<rparr>
   }"

section \<open>The history\<close>

definition history :: "database \<Rightarrow> 'z chain_state_scheme \<Rightarrow> ExecutionSnapshot list" where
  "history D s = findAsc (snapshots D) (chainTbl s)"

lemma result_list_chain [simp]: "result (list_chain D) s = history D s" "exec (list_chain D) s = s"
  by (simp_all add: list_page_def history_def)

lemma reconstruct_run [simp]:
  "exec (reconstruct E D) s = s" "ok (result (reconstruct E D) s) \<longleftrightarrow> replay E [] (history D s) = None"
  "brokenAt (result (reconstruct E D) s) = replay E [] (history D s)"
  by (simp_all add: reconstruct_def Let_def)

text \<open>The snapshot an append adds to a history.\<close>

definition next_snapshot ::
  "env \<Rightarrow> string \<Rightarrow> object \<Rightarrow> int \<Rightarrow> ExecutionSnapshot list \<Rightarrow> ExecutionSnapshot" where
  "next_snapshot E evType body ts hs =
     (let seqId = (if hs = [] then 1 else sequenceId (last hs) + 1); prev = head_hash hash [] hs
      in \<lparr>sequenceId = seqId, eventType = evType, payload = body, timestamp = ts, prevHash = prev,
          hash = sha256 E (stringify E (JObj body) @ prev @ intStr E seqId)\<rparr>)"

lemma next_snapshot_sel [simp]:
  "eventType (next_snapshot E e p ts hs) = e" "payload (next_snapshot E e p ts hs) = p"
  "timestamp (next_snapshot E e p ts hs) = ts"
  by (simp_all add: next_snapshot_def Let_def)

text \<open>The texts NodeChain digests, for the interface of hash-linked logs.\<close>

definition snap_text :: "env \<Rightarrow> ExecutionSnapshot \<Rightarrow> string \<Rightarrow> string" where
  "snap_text E r p = stringify E (JObj (payload r)) @ p @ intStr E (sequenceId r)"

definition snap_body :: "env \<Rightarrow> ExecutionSnapshot \<Rightarrow> string" where
  "snap_body E r = stringify E (JObj (payload r))"

interpretation nc: hash_chain "sha256 E" "snap_text E" prevHash hash sequenceId sequenceId
  "snap_body E" "replay E" for E
  by unfold_locales (auto simp: snap_text_def snap_body_def Let_def)

lemma replay_next:
  "replay E [] (hs @ [next_snapshot E e p ts hs]) = None \<longleftrightarrow> replay E [] hs = None"
  by (auto simp: nc.check_snoc next_snapshot_def snap_text_def Let_def)

text \<open>Sequence numbers run from 1 without a gap.\<close>

definition numbered :: "ExecutionSnapshot list \<Rightarrow> bool" where
  "numbered hs \<longleftrightarrow> map sequenceId hs = map int [1 ..< length hs + 1]"

lemma numbered_next: "numbered hs \<Longrightarrow> numbered (hs @ [next_snapshot E e p ts hs])"
proof (cases hs rule: rev_cases)
  case (snoc ys y)
  moreover assume "numbered hs"
  ultimately have "sequenceId y = int (length hs)" by (auto simp: numbered_def)
  with \<open>numbered hs\<close> snoc show ?thesis by (simp add: numbered_def next_snapshot_def Let_def)
qed (simp add: numbered_def next_snapshot_def Let_def)

text \<open>Two views of the chain: what was recorded, without the links, and whether the links hold.\<close>

definition entries :: "database \<Rightarrow> 'z chain_state_scheme \<Rightarrow> (string \<times> object) list" where
  "entries D s = map (\<lambda>x. (eventType x, payload x)) (history D s)"

definition intact :: "env \<Rightarrow> database \<Rightarrow> 'z chain_state_scheme \<Rightarrow> bool" where
  "intact E D s \<longleftrightarrow> replay E [] (history D s) = None"

context datastore
begin

lemma append_run:
  "result (append E D e p) s = next_snapshot E e p (clockT s + 1) (history D s)"
  "exec (append E D e p) s =
     s\<lparr>clockT := clockT s + 1,
       chainTbl := save (snapshots D) (next_snapshot E e p (clockT s + 1) (history D s)) (chainTbl s)\<rparr>"
  by (simp_all add: append_def next_snapshot_def history_def snap.findDesc1_last head_hash_def Let_def)

lemma history_append:
  "history D (exec (append E D e p) s) = history D s @ [next_snapshot E e p (clockT s + 1) (history D s)]"
proof -
  have "sequenceId x < sequenceId (next_snapshot E e p (clockT s + 1) (history D s))"
    if "x \<in> set (history D s)" for x
  proof -
    have ne: "history D s \<noteq> []" using that by auto
    then have "findDesc1 (snapshots D) (chainTbl s) = Some (last (history D s))"
      by (simp add: snap.findDesc1_last history_def)
    then have "sequenceId x \<le> sequenceId (last (history D s))"
      using snap.key_le_last that by (simp add: history_def)
    then show ?thesis using ne by (simp add: next_snapshot_def Let_def)
  qed
  then show ?thesis unfolding history_def append_run(2) by (simp add: snap.findAsc_save_last history_def)
qed

lemma entries_append [simp]: "entries D (exec (append E D e p) s) = entries D s @ [(e, p)]"
  by (simp add: entries_def history_append)

lemma intact_append [simp]: "intact E D (exec (append E D e p) s) = intact E D s"
  by (simp add: intact_def history_append replay_next)

lemma numbered_append: "numbered (history D s) \<Longrightarrow> numbered (history D (exec (append E D e p) s))"
  by (simp add: history_append numbered_next)

end

section \<open>Properties\<close>

text \<open>C31: a recorded snapshot that has a successor cannot have its payload changed without the replay
  noticing. Whatever row is put in its place under the same sequence number, with whatever event
  type, timestamp, link and digest, if the text of its payload differs then the replay reports a
  break, unless SHA-256 maps the two different texts digested for that row to the same digest.\<close>

theorem payload_tampering_detected:
  assumes "replay E [] (xs @ r # y # ys) = None"
    and "sequenceId r' = sequenceId r" "stringify E (JObj (payload r')) \<noteq> stringify E (JObj (payload r))"
  shows "replay E [] (xs @ r' # y # ys) \<noteq> None \<or>
    clash (sha256 E) [snap_text E r' (head_hash hash [] xs)] [snap_text E r (head_hash hash [] xs)]"
  using nc.tamper_detected [OF assms(1,2)] assms(3) by (simp add: snap_body_def)

definition two_snaps :: "ExecutionSnapshot list" where
  "two_snaps = (let a = next_snapshot plain_env ''a'' [(''k'', JStr ''x'')] 1 []
                in [a, next_snapshot plain_env ''b'' [] 2 [a]])"

lemma two_snaps_intact: "replay plain_env [] two_snaps = None"
  by (simp add: two_snaps_def next_snapshot_def Let_def)

theorem payload_tampering_detected_witness:
  "replay plain_env [] [(two_snaps ! 0)\<lparr>payload := []\<rparr>, two_snaps ! 1] \<noteq> None"
proof -
  have two: "two_snaps = [] @ two_snaps ! 0 # two_snaps ! 1 # []" by (simp add: two_snaps_def Let_def)
  have "replay plain_env [] ([] @ two_snaps ! 0 # two_snaps ! 1 # []) = None"
    using two_snaps_intact two by simp
  moreover have "stringify plain_env (JObj (payload ((two_snaps ! 0)\<lparr>payload := []\<rparr>))) \<noteq>
      stringify plain_env (JObj (payload (two_snaps ! 0)))"
    by (simp add: two_snaps_def Let_def quote_def)
  moreover have "\<not> clash (sha256 plain_env) ts us" for ts us by (simp add: clash_def plain_env_def)
  ultimately show ?thesis
    using payload_tampering_detected [of plain_env "[]" "two_snaps ! 0" "two_snaps ! 1" "[]"
        "(two_snaps ! 0)\<lparr>payload := []\<rparr>"] by simp
qed

text \<open>C32: the digest of the newest snapshot fixes the whole recorded content. Two intact histories of
  the same sequence numbers that end in the same digest have the same payload texts and the same
  digests throughout, for every digest of fixed width, unless two texts digested in these two
  histories clash.\<close>

theorem head_digest_fixes_history:
  assumes "replay E [] xs = None" "replay E [] ys = None" "map sequenceId xs = map sequenceId ys"
    and "head_hash hash [] xs = head_hash hash [] ys" "\<forall>t u. length (sha256 E t) = length (sha256 E u)"
    and "\<not> clash (sha256 E) (digested (snap_text E) hash [] xs) (digested (snap_text E) hash [] ys)"
  shows "map (\<lambda>x. stringify E (JObj (payload x))) xs = map (\<lambda>x. stringify E (JObj (payload x))) ys
    \<and> map hash xs = map hash ys"
proof -
  have "map (snap_body E) xs = map (snap_body E) ys \<and> map hash xs = map hash ys"
    by (rule nc.head_fixes_log [OF assms(1-4)]) (use assms(5,6) in blast)+
  then show ?thesis unfolding snap_body_def [abs_def] .
qed

text \<open>A digest of fixed width, for a concrete history.\<close>

definition flat_env :: env where
  "flat_env = plain_env\<lparr>sha256 := (\<lambda>t. if t = ''{}0'' then ''A'' else ''B'')\<rparr>"

theorem head_digest_fixes_history_witness:
  "map hash [next_snapshot flat_env ''a'' [] 1 []] = map hash [next_snapshot flat_env ''z'' [] 9 []]"
proof -
  let ?x = "next_snapshot flat_env ''a'' [] 1 []" and ?y = "next_snapshot flat_env ''z'' [] 9 []"
  have ok: "replay flat_env [] [?x] = None" "replay flat_env [] [?y] = None"
    "map sequenceId [?x] = map sequenceId [?y]" "head_hash hash [] [?x] = head_hash hash [] [?y]"
    by (simp_all add: next_snapshot_def Let_def)
  have "\<forall>t u. length (sha256 flat_env t) = length (sha256 flat_env u)" by (simp add: flat_env_def)
  moreover have "\<not> clash (sha256 flat_env) (digested (snap_text flat_env) hash [] [?x])
      (digested (snap_text flat_env) hash [] [?y])"
    by (simp add: clash_def snap_text_def next_snapshot_def Let_def)
  ultimately show ?thesis using head_digest_fixes_history [OF ok] by blast
qed

text \<open>The event type and the timestamp of a snapshot are not covered by its digest: changing
  either, in any row of an intact history, goes unnoticed by the replay.\<close>

theorem event_type_not_covered:
  "replay E g (xs @ r\<lparr>eventType := e, timestamp := t\<rparr> # ys) = replay E g (xs @ r # ys)"
  by (induction xs arbitrary: g) (simp_all add: Let_def)

text \<open>Snapshots cut off at the end go unnoticed: every prefix of an intact history replays.\<close>

theorem truncation_not_noticed:
  assumes "replay E [] ys = None" "prefix xs ys"
  shows "replay E [] xs = None"
  using nc.check_prefix assms by blast

theorem truncation_not_noticed_witness: "replay plain_env [] [two_snaps ! 0] = None"
proof -
  have "prefix [two_snaps ! 0] two_snaps" by (simp add: two_snaps_def Let_def)
  from truncation_not_noticed [OF two_snaps_intact this] show ?thesis .
qed

text \<open>An append links one snapshot to the head, numbers it one above it, stamps it with the next
  clock tick, and leaves every earlier snapshot as it is.\<close>

theorem append_extends_history:
  fixes s :: "'z chain_state_scheme"
  assumes "datastore D"
  shows "history D (exec (append E D e p) s) = history D s @ [result (append E D e p) s]
    \<and> eventType (result (append E D e p) s) = e \<and> payload (result (append E D e p) s) = p
    \<and> timestamp (result (append E D e p) s) = clockT s + 1
    \<and> prevHash (result (append E D e p) s) = head_hash hash [] (history D s)
    \<and> sequenceId (result (append E D e p) s) =
        (if history D s = [] then 1 else sequenceId (last (history D s)) + 1)
    \<and> replay E [] (history D (exec (append E D e p) s)) = replay E [] (history D s)"
proof -
  let ?n = "next_snapshot E e p (clockT s + 1) (history D s)"
  have "replay E [] (history D s @ [?n]) = replay E [] (history D s)"
    using replay_next [of E "history D s" e p "clockT s + 1"] nc.check_append_Some [of E "[]" "history D s"]
    by (cases "replay E [] (history D s)") auto
  then show ?thesis
    using datastore.history_append [OF assms, of E e p s] datastore.append_run(1) [OF assms, of E e p s]
    by (simp add: next_snapshot_def Let_def)
qed

theorem append_extends_history_witness:
  "sequenceId (result (append plain_env mem_db ''a'' [])
     \<lparr>clockT = clock_start, chainTbl = [] :: ExecutionSnapshot table\<rparr>) = 1"
  using append_extends_history [OF mem.datastore_axioms, of plain_env "''a''" "[]"
      "\<lparr>clockT = clock_start, chainTbl = [] :: ExecutionSnapshot table\<rparr>"]
  by (simp add: history_def mem.snap.findAsc_empty)

end
