(* ===== verification/StateRecording.thy ===== *)
theory StateRecording
  imports NodeChain "HOL-Library.Multiset"
begin

text \<open>
  Event capture (\<open>src/state-recording/state-recording.service.ts\<close>): every captured event is
  appended to NodeChain with a canonical payload, and its type is remembered for the process.
  Shown: a capture is one append, the index of captured types only grows, the completeness check
  names exactly the required types that are missing, and the canonical payload does not depend
  on the order in which the caller wrote the properties.
\<close>

definition REQUIRED_BEFORE_VERDICT :: "string list" where
  "REQUIRED_BEFORE_VERDICT =
     [''initiation'', ''task_assignment'', ''stage_transition'', ''execution_complete'']"

record recording_state = chain_state +
  captured :: "string \<rightharpoonup> string set"

record CompletenessResult =
  complete :: bool
  missing :: "string list"

definition sortKeys :: "object \<Rightarrow> object" where
  "sortKeys value = sort_key fst value"

definition buildPayload :: "string \<Rightarrow> object \<Rightarrow> string option \<Rightarrow> object" where
  "buildPayload processId data validatorId =
     [(''processId'', JStr processId),
      (''data'', JObj (sortKeys data)),
      (''validatorId'', case validatorId of None \<Rightarrow> JNull | Some v \<Rightarrow> JStr v)]"

definition capture ::
  "env \<Rightarrow> database \<Rightarrow> string \<Rightarrow> string \<Rightarrow> object \<Rightarrow> string option \<Rightarrow>
   ('z recording_state_scheme, ExecutionSnapshot) state" where
  "capture E D processId evType data validatorId = do {
     let body = buildPayload processId data validatorId;
     snapshot \<leftarrow> append E D evType body;
     modify (\<lambda>s. if captured s processId = None
                  then s\<lparr>captured := (captured s)(processId \<mapsto> {})\<rparr> else s);
     modify (\<lambda>s. s\<lparr>captured := (captured s)(processId := map_option (insert evType) (captured s processId))\<rparr>);
     return snapshot
   }"

definition record_event ::
  "env \<Rightarrow> database \<Rightarrow> string \<Rightarrow> string \<Rightarrow> object \<Rightarrow> string option \<Rightarrow>
   ('z recording_state_scheme, ExecutionSnapshot) state" where
  "record_event E D processId evType data validatorId = capture E D processId evType data validatorId"

definition capturedEvents :: "string \<Rightarrow> ('z recording_state_scheme, string set) state" where
  "capturedEvents processId =
     gets (\<lambda>s. case captured s processId of None \<Rightarrow> {} | Some current \<Rightarrow> current)"

definition checkCompleteness :: "string \<Rightarrow> ('z recording_state_scheme, CompletenessResult) state" where
  "checkCompleteness processId = do {
     have \<leftarrow> gets (\<lambda>s. case captured s processId of None \<Rightarrow> {} | Some current \<Rightarrow> current);
     let missing = filter (\<lambda>event. event \<notin> have) REQUIRED_BEFORE_VERDICT;
     return \<lparr>complete = (length missing = 0), missing = missing\<rparr>
   }"

section \<open>Lemmas\<close>

definition captured_of :: "'z recording_state_scheme \<Rightarrow> string \<Rightarrow> string set" where
  "captured_of s pid = (case captured s pid of None \<Rightarrow> {} | Some evs \<Rightarrow> evs)"

lemma capturedEvents_run [simp]:
  "result (capturedEvents pid) s = captured_of s pid" "exec (capturedEvents pid) s = s"
  by (simp_all add: capturedEvents_def captured_of_def)

lemma checkCompleteness_run:
  "result (checkCompleteness pid) s =
     (let missing = filter (\<lambda>e. e \<notin> captured_of s pid) REQUIRED_BEFORE_VERDICT
      in \<lparr>complete = (missing = []), missing = missing\<rparr>)"
  "exec (checkCompleteness pid) s = s"
  by (simp_all add: checkCompleteness_def captured_of_def Let_def)

text \<open>The canonical body of a payload depends on the properties, not on their order.\<close>

lemma sortKeys_cong:
  assumes "distinct (map fst xs)" "mset xs = mset ys"
  shows "sortKeys xs = sortKeys ys"
proof (unfold sortKeys_def, rule sorted_key_unique [where key = fst])
  have "mset (map fst xs) = mset (map fst ys)" using assms(2) by simp
  then have ys: "distinct (map fst ys)" using assms(1) mset_eq_imp_distinct_iff by blast
  show "sorted_wrt (<) (map fst (sort_key fst xs))"
    using assms(1) by (auto simp: strict_sorted_iff distinct_map)
  show "sorted_wrt (<) (map fst (sort_key fst ys))"
    using ys by (auto simp: strict_sorted_iff distinct_map)
  show "set (sort_key fst xs) = set (sort_key fst ys)"
    using mset_eq_setD [OF assms(2)] by simp
qed

context datastore
begin

lemma append_captured [frame, simp]: "captured (exec (append E D e p) s) = captured s"
  by (simp add: append_run)

lemma capture_run:
  "result (capture E D pid e d v) s =
     next_snapshot E e (buildPayload pid d v) (clockT s + 1) (history D s)"
  "exec (capture E D pid e d v) s =
     (exec (append E D e (buildPayload pid d v)) s)
       \<lparr>captured := (captured s)(pid \<mapsto> insert e (captured_of s pid))\<rparr>"
  by (simp_all add: capture_def append_run captured_of_def Let_def split: option.splits)

lemma capture_captured_of [simp]:
  "captured_of (exec (capture E D pid e d v) s) p =
     (if p = pid then insert e (captured_of s pid) else captured_of s p)"
  by (simp add: capture_run captured_of_def)

lemma history_upd_captured [simp]: "history D (s\<lparr>captured := c\<rparr>) = history D s"
  by (simp add: history_def)

lemma history_capture:
  "history D (exec (capture E D pid e d v) s) =
     history D s @ [next_snapshot E e (buildPayload pid d v) (clockT s + 1) (history D s)]"
  by (simp add: capture_run history_append)

lemma capture_chain [simp]:
  "entries D (exec (capture E D pid e d v) s) = entries D s @ [(e, buildPayload pid d v)]"
  "intact E D (exec (capture E D pid e d v) s) = intact E D s"
  by (simp_all add: entries_def intact_def history_capture replay_next)

end

section \<open>Properties\<close>

text \<open>The recorded form of an event does not depend on the order in which the caller wrote the
  properties of its data: the same properties in any order give the same payload, hence the same
  snapshot with the same digest.\<close>

lemma payload_is_canonical:
  assumes "distinct (map fst d)" "mset d = mset d'"
  shows "buildPayload pid d v = buildPayload pid d' v
    \<and> run_state (capture E D pid e d v) s = run_state (capture E D pid e d' v) s"
  using sortKeys_cong [OF assms] by (simp add: buildPayload_def capture_def)

text \<open>The completeness check reports a process complete exactly when every required event type has
  been captured for it, lists exactly the missing ones in the required order, and changes nothing;
  a capture for one process never affects the report of another.\<close>

theorem completeness_report:
  fixes s :: "'z recording_state_scheme"
  assumes "datastore D"
  shows "(complete (result (checkCompleteness pid) s) \<longleftrightarrow> set REQUIRED_BEFORE_VERDICT \<subseteq> captured_of s pid)
    \<and> missing (result (checkCompleteness pid) s) = filter (\<lambda>e. e \<notin> captured_of s pid) REQUIRED_BEFORE_VERDICT
    \<and> exec (checkCompleteness pid) s = s
    \<and> missing (result (checkCompleteness pid) (exec (capture E D q e d v) s)) =
        filter (\<lambda>x. x \<notin> captured_of s pid \<and> (q = pid \<longrightarrow> x \<noteq> e)) REQUIRED_BEFORE_VERDICT"
  by (auto simp: checkCompleteness_run Let_def datastore.capture_captured_of [OF assms] filter_empty_conv
      intro!: filter_cong)

theorem completeness_report_witness:
  "missing (result (checkCompleteness ''p'') (exec (capture plain_env mem_db ''p'' ''initiation'' [] None)
     \<lparr>clockT = clock_start, chainTbl = [], captured = Map.empty\<rparr>)) =
   [''task_assignment'', ''stage_transition'', ''execution_complete'']"
  using completeness_report [OF mem.datastore_axioms, where pid = "''p''" and q = "''p''" and e = "''initiation''"
      and d = "[]" and v = None and E = plain_env and s = "\<lparr>clockT = clock_start, chainTbl = [], captured = Map.empty\<rparr>"]
  by (simp add: captured_of_def REQUIRED_BEFORE_VERDICT_def)

end
