(* ===== verification/Pot.thy ===== *)
theory Pot
  imports StateRecording
begin

text \<open>
  Proof of Transaction (\<open>src/pot/pot.service.ts\<close>): the binary verdict on a process, issued
  once and recorded in NodeChain before its row is saved. Shown: the verdict is 1 exactly when
  every required event was captured and the chain replays, the reasons are empty exactly then,
  a second call returns the stored verdict and changes nothing, and every stored verdict points
  at the snapshot that recorded it.
\<close>

record pot_state = recording_state +
  verdictTbl :: "PotVerdict table"

record VerifyResult =
  resVerified :: int
  resReasons :: "string list"
  resSnapshotSequenceId :: int

definition criteria :: "string set \<Rightarrow> bool \<Rightarrow> (string \<times> bool) list" where
  "criteria seen chainOk =
     [(''admissible_context'', ''initiation'' \<in> seen),
      (''full_stage_sequence'', ''task_assignment'' \<in> seen \<and> ''stage_transition'' \<in> seen),
      (''states_recorded_in_nodechain'', chainOk \<and> seen \<noteq> {}),
      (''completion_per_rules'', ''execution_complete'' \<in> seen)]"

definition failureReasons :: "(string \<times> bool) list \<Rightarrow> string set \<Rightarrow> string list" where
  "failureReasons criteriaResult seen =
     (let missingEvents = filter (\<lambda>event. event \<notin> seen) REQUIRED_BEFORE_VERDICT;
          reasons = map (\<lambda>event. ''missing_event:'' @ event) missingEvents
      in if map_of criteriaResult ''states_recorded_in_nodechain'' \<noteq> Some True \<and> seen \<noteq> {}
         then reasons @ [''states_recorded_in_nodechain''] else reasons)"

definition verify :: "env \<Rightarrow> database \<Rightarrow> string \<Rightarrow> ('z pot_state_scheme, VerifyResult) state" where
  "verify E D processId = do {
     existing \<leftarrow> gets (\<lambda>s. findOne (verdicts D) processId (verdictTbl s));
     case existing of
       Some v \<Rightarrow> return \<lparr>resVerified = verified v, resReasons = reasons v,
                        resSnapshotSequenceId = snapshotSequenceId v\<rparr>
     | None \<Rightarrow> do {
         captured \<leftarrow> capturedEvents processId;
         check \<leftarrow> reconstruct E D;
         let criteriaResult = criteria captured (ok check);
         let verifiedFlag = list_all snd criteriaResult;
         let verified = (if verifiedFlag then 1 else 0);
         let reasons = failureReasons criteriaResult captured;
         snapshot \<leftarrow> append E D ''pot.verified''
           [(''processId'', JStr processId), (''verified'', jint verified),
            (''reasons'', JArr (map JStr reasons))];
         ts \<leftarrow> now;
         let verdict = \<lparr>verdictProcessId = processId, verified = verified, reasons = reasons,
                        verdictTimestamp = ts, snapshotSequenceId = sequenceId snapshot\<rparr>;
         modify (\<lambda>s. s\<lparr>verdictTbl := save (verdicts D) verdict (verdictTbl s)\<rparr>);
         return \<lparr>resVerified = verified, resReasons = reasons,
                 resSnapshotSequenceId = sequenceId snapshot\<rparr>
       }
   }"

definition getVerdict :: "database \<Rightarrow> string \<Rightarrow> ('z pot_state_scheme, PotVerdict option) state" where
  "getVerdict D processId = gets (\<lambda>s. findOne (verdicts D) processId (verdictTbl s))"

definition listVerdicts :: "database \<Rightarrow> ('z pot_state_scheme, PotVerdict list) state" where
  "listVerdicts D = gets (\<lambda>s. find (verdicts D) (verdictTbl s))"

section \<open>The verdict as a function of the evidence\<close>

definition evidence_complete :: "env \<Rightarrow> database \<Rightarrow> 'z pot_state_scheme \<Rightarrow> string \<Rightarrow> bool" where
  "evidence_complete E D s pid \<longleftrightarrow>
     set REQUIRED_BEFORE_VERDICT \<subseteq> captured_of s pid \<and> intact E D s"

definition verdict_payload :: "string \<Rightarrow> int \<Rightarrow> string list \<Rightarrow> object" where
  "verdict_payload pid v why =
     [(''processId'', JStr pid), (''verified'', jint v), (''reasons'', JArr (map JStr why))]"

lemma criteria_all_iff:
  "list_all snd (criteria C k) \<longleftrightarrow> set REQUIRED_BEFORE_VERDICT \<subseteq> C \<and> k"
  by (auto simp: criteria_def REQUIRED_BEFORE_VERDICT_def)

lemma failureReasons_empty_iff:
  "failureReasons (criteria C k) C = [] \<longleftrightarrow> set REQUIRED_BEFORE_VERDICT \<subseteq> C \<and> k"
  by (auto simp: failureReasons_def criteria_def REQUIRED_BEFORE_VERDICT_def Let_def)

definition verdict_of :: "database \<Rightarrow> 'z pot_state_scheme \<Rightarrow> string \<Rightarrow> PotVerdict option" where
  "verdict_of D s pid = findOne (verdicts D) pid (verdictTbl s)"

lemma getVerdict_run [simp]:
  "result (getVerdict D pid) s = verdict_of D s pid" "exec (getVerdict D pid) s = s"
  by (simp_all add: getVerdict_def verdict_of_def)

lemma verify_existing:
  "verdict_of D s pid = Some v \<Longrightarrow>
     result (verify E D pid) s =
       \<lparr>resVerified = verified v, resReasons = reasons v, resSnapshotSequenceId = snapshotSequenceId v\<rparr> \<and>
     exec (verify E D pid) s = s"
  by (simp add: verify_def verdict_of_def)

context datastore
begin

lemma append_verdictTbl [frame, simp]: "verdictTbl (exec (append E D e p) s) = verdictTbl s"
  by (simp add: append_run)

lemma capture_verdictTbl [frame, simp]: "verdictTbl (exec (capture E D pid e d v) s) = verdictTbl s"
  by (simp add: capture_run append_run)

text \<open>A first verdict: one snapshot \<open>pot.verified\<close>, then the row that points at it.\<close>

lemma verify_fresh:
  fixes E :: env and s :: "'z pot_state_scheme"
  assumes "verdict_of D s pid = None"
  defines "flag \<equiv> (if evidence_complete E D s pid then 1 else 0 :: int)"
    and "why \<equiv> failureReasons (criteria (captured_of s pid) (intact E D s)) (captured_of s pid)"
  defines "body \<equiv> [(''processId'', JStr pid), (''verified'', jint flag), (''reasons'', JArr (map JStr why))]"
  defines "snap \<equiv> next_snapshot E ''pot.verified'' body (clockT s + 1) (history D s)"
  defines "row \<equiv> \<lparr>verdictProcessId = pid, verified = flag, reasons = why,
                     verdictTimestamp = clockT s + 1 + 1, snapshotSequenceId = sequenceId snap\<rparr>"
  shows "result (verify E D pid) s = \<lparr>resVerified = flag, resReasons = why, resSnapshotSequenceId = sequenceId snap\<rparr>"
    and "exec (verify E D pid) s =
      (exec now (exec (append E D ''pot.verified'' body) s))
        \<lparr>verdictTbl := save (verdicts D) row (verdictTbl s)\<rparr>"
  using assms(1)
  by (simp_all add: verify_def verdict_of_def criteria_all_iff Let_def append_run evidence_complete_def intact_def
      flag_def why_def body_def snap_def row_def)

lemma verify_captured [simp, frame]: "captured (exec (verify E D pid) s) = captured s"
  by (cases "verdict_of D s pid"; simp add: verify_fresh verify_existing)

lemma captured_of_verify [simp, frame]: "captured_of (exec (verify E D pid) s) p = captured_of s p"
  by (simp add: captured_of_def)

lemma intact_now_verdict [simp]:
  "intact E D (s\<lparr>clockT := t\<rparr>) = intact E D s" "intact E D (u\<lparr>verdictTbl := v\<rparr>) = intact E D u"
  "entries D (s\<lparr>clockT := t\<rparr>) = entries D s" "entries D (u\<lparr>verdictTbl := v\<rparr>) = entries D u"
  by (simp_all add: intact_def entries_def history_def)

lemma verify_intact [simp]: "intact E D (exec (verify E D pid) s) = intact E D s"
  by (cases "verdict_of D s pid"; simp add: verify_fresh verify_existing)

lemma verify_entries:
  "entries D (exec (verify E D pid) s) =
     (if verdict_of D s pid = None
      then entries D s @ [(''pot.verified'', verdict_payload pid (resVerified (result (verify E D pid) s))
                                              (resReasons (result (verify E D pid) s)))]
      else entries D s)"
  by (cases "verdict_of D s pid"; simp add: verify_fresh verify_existing verdict_payload_def)

lemma verify_verdict_of:
  "verdict_of D (exec (verify E D pid) s) q =
     (if q = pid \<and> verdict_of D s pid = None
      then Some \<lparr>verdictProcessId = pid, verified = resVerified (result (verify E D pid) s),
                 reasons = resReasons (result (verify E D pid) s), verdictTimestamp = clockT s + 1 + 1,
                 snapshotSequenceId = resSnapshotSequenceId (result (verify E D pid) s)\<rparr>
      else verdict_of D s q)"
  by (cases "verdict_of D s pid"; simp add: verify_fresh verify_existing; simp add: verdict_of_def verd.findOne_save)

lemma verdict_of_lower [simp, frame]:
  "verdict_of D (exec (append E D e p) s) q = verdict_of D s q"
  "verdict_of D (exec (capture E D pid e d v) s) q = verdict_of D s q"
  by (simp_all add: verdict_of_def)

end

section \<open>Properties\<close>

text \<open>C12: a first verdict is 1 exactly when every required event of the process was captured and the
  recorded chain replays; it is 0 otherwise. The reasons are empty exactly for verdict 1, and a
  required event is reported missing exactly when it was not captured.\<close>

theorem verdict_iff_evidence:
  assumes "datastore D" "verdict_of D s pid = None"
  shows "resVerified (result (verify E D pid) s) =
           (if set REQUIRED_BEFORE_VERDICT \<subseteq> captured_of s pid \<and> replay E [] (history D s) = None
            then 1 else 0)
    \<and> (resReasons (result (verify E D pid) s) = [] \<longleftrightarrow> resVerified (result (verify E D pid) s) = 1)
    \<and> (\<forall>e. ''missing_event:'' @ e \<in> set (resReasons (result (verify E D pid) s)) \<longleftrightarrow>
           e \<in> set REQUIRED_BEFORE_VERDICT \<and> e \<notin> captured_of s pid)"
proof -
  have "''missing_event:'' @ e \<in> set (failureReasons c C) \<longleftrightarrow> e \<in> set REQUIRED_BEFORE_VERDICT \<and> e \<notin> C"
    for e c C by (auto simp: failureReasons_def Let_def)
  then show ?thesis
    using datastore.verify_fresh(1) [OF assms, of E] failureReasons_empty_iff [of "captured_of s pid" "intact E D s"]
    by (simp add: evidence_complete_def intact_def)
qed

definition pot_start :: pot_state where
  "pot_start = \<lparr>clockT = clock_start, chainTbl = [], captured = Map.empty, verdictTbl = []\<rparr>"

lemma pot_start_empty [simp]: "verdict_of mem_db pot_start pid = None" "history mem_db pot_start = []"
  "captured_of pot_start pid = {}"
  by (simp_all add: verdict_of_def history_def captured_of_def pot_start_def mem.verd.findOne_empty
      mem.snap.findAsc_empty)

theorem verdict_iff_evidence_witness:
  "resVerified (result (verify plain_env mem_db ''p1'') pot_start) = 0 \<and>
   ''missing_event:initiation'' \<in> set (resReasons (result (verify plain_env mem_db ''p1'') pot_start))"
  using verdict_iff_evidence [OF mem.datastore_axioms, of pot_start "''p1''" plain_env]
    spec [of "\<lambda>e. ''missing_event:'' @ e \<in> set (resReasons (result (verify plain_env mem_db ''p1'') pot_start)) \<longleftrightarrow>
      e \<in> set REQUIRED_BEFORE_VERDICT \<and> e \<notin> captured_of pot_start ''p1''" "''initiation''"]
  by (simp add: REQUIRED_BEFORE_VERDICT_def)

text \<open>A verdict is issued once. Whatever happens to the evidence afterwards, as long as the verdict
  row is not touched, a further call returns the stored verdict, records nothing and leaves the
  state as it is.\<close>

lemma verdict_issued_once:
  assumes "datastore D" "verdictTbl t = verdictTbl (exec (verify E D pid) s)"
  shows "result (verify E' D pid) t = result (verify E D pid) s \<and> exec (verify E' D pid) t = t"
proof -
  have same: "verdict_of D t pid = verdict_of D (exec (verify E D pid) s) pid"
    using assms(2) by (simp add: verdict_of_def)
  show ?thesis
  proof (cases "verdict_of D s pid")
    case None
    then show ?thesis using same verify_existing [of D t pid]
      by (simp add: datastore.verify_verdict_of [OF assms(1)])
  next
    case (Some v)
    then show ?thesis using same verify_existing [OF Some, of E] verify_existing [of D t pid v E'] by simp
  qed
qed

end
