(* ===== verification/ArosCoin.thy ===== *)
theory ArosCoin
  imports Pot
begin

text \<open>
  The unit ledger (\<open>src/aroscoin/aroscoin.service.ts\<close>): three running tallies in one row,
  created on first access. The service remembers that it has initialised the row
  (\<open>coinInit\<close>, the cached promise) and does not look again, so reading the row can fail
  with \<open>EntityNotFoundError\<close> when the row has gone; \<open>coin_ok\<close> is the invariant that
  excludes it. Shown: the tallies of a state are a total function of it, every record operation
  adds its amount to one tally and keeps the others, the derived supply is the identity the
  service documents, and when the process part nets to zero the supply is the earned part
  exactly, in double arithmetic.
\<close>

record coin_state = pot_state +
  ledgerTbl :: "ArosCoinLedger table"
  coinInit :: bool

record SupplySnapshot =
  snapMinted :: number
  snapBurned :: number
  snapEarned :: number
  snapTimestamp :: int

record SupplyView =
  viewTotalSupply :: number
  viewRetained :: number

definition coin_base :: number where
  "coin_base = 1"

definition zeroLedger :: ArosCoinLedger where
  "zeroLedger = \<lparr>ledgerId = LEDGER_ID, processMinted = 0, processBurned = 0, earnedRetained = 0\<rparr>"

definition ensureLedger :: "database \<Rightarrow> ('z coin_state_scheme, unit) state" where
  "ensureLedger D = do {
     initialization \<leftarrow> gets coinInit;
     if \<not> initialization then do {
       modify (\<lambda>s. s\<lparr>coinInit := True\<rparr>);
       existing \<leftarrow> gets (\<lambda>s. findOne (ledgers D) LEDGER_ID (ledgerTbl s));
       if existing = None
       then modify (\<lambda>s. s\<lparr>ledgerTbl := save (ledgers D) zeroLedger (ledgerTbl s)\<rparr>)
       else return ()
     } else return ()
   }"

definition ledger :: "database \<Rightarrow> ('z coin_state_scheme, error + ArosCoinLedger) state" where
  "ledger D = do {
     ensureLedger D;
     found \<leftarrow> gets (\<lambda>s. findOne (ledgers D) LEDGER_ID (ledgerTbl s));
     case found of None \<Rightarrow> throw EntityNotFoundError | Some row \<Rightarrow> return (Inr row)
   }"

definition saveLedger :: "database \<Rightarrow> ArosCoinLedger \<Rightarrow> ('z coin_state_scheme, error + unit) state" where
  "saveLedger D row = do {
     modify (\<lambda>s. s\<lparr>ledgerTbl := save (ledgers D) row (ledgerTbl s)\<rparr>);
     return (Inr ())
   }"

definition recordMint :: "database \<Rightarrow> number \<Rightarrow> ('z coin_state_scheme, error + unit) state" where
  "recordMint D amount = tryM (ledger D) (\<lambda>row.
     saveLedger D (row\<lparr>processMinted := processMinted row + amount\<rparr>))"

definition recordBurn :: "database \<Rightarrow> number \<Rightarrow> ('z coin_state_scheme, error + unit) state" where
  "recordBurn D amount = tryM (ledger D) (\<lambda>row.
     saveLedger D (row\<lparr>processBurned := processBurned row + amount\<rparr>))"

definition recordEarned :: "database \<Rightarrow> number \<Rightarrow> ('z coin_state_scheme, error + unit) state" where
  "recordEarned D amount = tryM (ledger D) (\<lambda>row.
     saveLedger D (row\<lparr>earnedRetained := earnedRetained row + amount\<rparr>))"

definition totalSupply :: "database \<Rightarrow> ('z coin_state_scheme, error + number) state" where
  "totalSupply D = tryM (ledger D) (\<lambda>row.
     return (Inr ((processMinted row - processBurned row) + earnedRetained row)))"

definition processNet :: "database \<Rightarrow> ('z coin_state_scheme, error + number) state" where
  "processNet D = tryM (ledger D) (\<lambda>row. return (Inr (processMinted row - processBurned row)))"

definition retained :: "database \<Rightarrow> ('z coin_state_scheme, error + number) state" where
  "retained D = tryM (ledger D) (\<lambda>row. return (Inr (earnedRetained row)))"

definition coinInternalPrice :: "number \<Rightarrow> number" where
  "coinInternalPrice reserveIndex = coin_base * reserveIndex"

definition coinSnapshot :: "database \<Rightarrow> ('z coin_state_scheme, error + SupplySnapshot) state" where
  "coinSnapshot D = tryM (ledger D) (\<lambda>row. do {
     ts \<leftarrow> now;
     return (Inr \<lparr>snapMinted = processMinted row, snapBurned = processBurned row,
                  snapEarned = earnedRetained row, snapTimestamp = ts\<rparr>)
   })"

definition supplyView :: "database \<Rightarrow> ('z coin_state_scheme, error + SupplyView) state" where
  "supplyView D = tryM (ledger D) (\<lambda>row.
     return (Inr \<lparr>viewTotalSupply = (processMinted row - processBurned row) + earnedRetained row,
                  viewRetained = earnedRetained row\<rparr>))"

section \<open>The tallies of a state\<close>

definition tallies :: "database \<Rightarrow> 'z coin_state_scheme \<Rightarrow> ArosCoinLedger" where
  "tallies D s = (case findOne (ledgers D) LEDGER_ID (ledgerTbl s) of None \<Rightarrow> zeroLedger | Some r \<Rightarrow> r)"

definition coin_ok :: "database \<Rightarrow> 'z coin_state_scheme \<Rightarrow> bool" where
  "coin_ok D s \<longleftrightarrow> (coinInit s \<longrightarrow> findOne (ledgers D) LEDGER_ID (ledgerTbl s) \<noteq> None)"

definition supply_of :: "ArosCoinLedger \<Rightarrow> number" where
  "supply_of r = (processMinted r - processBurned r) + earnedRetained r"

text \<open>The state after the row has been read: initialised, and the row there.\<close>

definition with_ledger :: "database \<Rightarrow> 'z coin_state_scheme \<Rightarrow> 'z coin_state_scheme" where
  "with_ledger D s = exec (ensureLedger D) s"

lemma with_ledger_frame [simp, frame]:
  "clockT (with_ledger D s) = clockT s" "chainTbl (with_ledger D s) = chainTbl s"
  "captured (with_ledger D s) = captured s" "verdictTbl (with_ledger D s) = verdictTbl s"
  "coinInit (with_ledger D s)" "coin_state.more (with_ledger D s) = coin_state.more s"
  by (simp_all add: with_ledger_def ensureLedger_def)

text \<open>When the process part nets to zero, the supply is the earned part, to the last bit.\<close>

lemma supply_of_balanced:
  assumes "processMinted r = processBurned r" "is_finite (processMinted r)" "is_double (earnedRetained r)"
  shows "supply_of r = earnedRetained r"
  using assms minus_self [of "processBurned r"] by (simp add: supply_of_def zero_plus_double)

context datastore
begin

lemma tallies_ledgerId: "ledgerId (tallies D s) = LEDGER_ID"
  using ledg.findOne_key by (auto simp: tallies_def zeroLedger_def split: option.splits)

lemma ensureLedger_row:
  assumes "coin_ok D s"
  shows "findOne (ledgers D) LEDGER_ID (ledgerTbl (with_ledger D s)) = Some (tallies D s)"
  using assms ledg.findOne_save [of LEDGER_ID zeroLedger]
  by (auto simp: with_ledger_def ensureLedger_def coin_ok_def tallies_def zeroLedger_def split: option.splits)

lemma ledger_run:
  "coin_ok D s \<Longrightarrow> result (ledger D) s = Inr (tallies D s)"
  "exec (ledger D) s = with_ledger D s"
  using ensureLedger_row [of s] by (auto simp: ledger_def with_ledger_def split: option.splits)

lemma with_ledger_ok [simp]:
  assumes "coin_ok D s"
  shows "coin_ok D (with_ledger D s)" "tallies D (with_ledger D s) = tallies D s"
  using ensureLedger_row [OF assms] by (simp_all add: coin_ok_def tallies_def)

lemma saveLedger_run:
  assumes "ledgerId r = LEDGER_ID"
  shows "result (saveLedger D r) s = Inr ()" "tallies D (exec (saveLedger D r) s) = r"
    "coin_ok D (exec (saveLedger D r) s)"
  using assms by (simp_all add: saveLedger_def tallies_def coin_ok_def ledg.findOne_save)

lemmas coin_defs = recordMint_def recordBurn_def recordEarned_def totalSupply_def processNet_def
  retained_def supplyView_def coinSnapshot_def

lemma record_run:
  assumes "coin_ok D s"
  shows "result (recordMint D a) s = Inr ()" "result (recordBurn D a) s = Inr ()"
    "result (recordEarned D a) s = Inr ()"
    "coin_ok D (exec (recordMint D a) s)" "coin_ok D (exec (recordBurn D a) s)"
    "coin_ok D (exec (recordEarned D a) s)"
    "tallies D (exec (recordMint D a) s) = (tallies D s)\<lparr>processMinted := processMinted (tallies D s) + a\<rparr>"
    "tallies D (exec (recordBurn D a) s) = (tallies D s)\<lparr>processBurned := processBurned (tallies D s) + a\<rparr>"
    "tallies D (exec (recordEarned D a) s) = (tallies D s)\<lparr>earnedRetained := earnedRetained (tallies D s) + a\<rparr>"
  using assms by (simp_all add: coin_defs tryM_simps ledger_run saveLedger_run tallies_ledgerId)

lemma read_run:
  assumes "coin_ok D s"
  shows "result (totalSupply D) s = Inr (supply_of (tallies D s))"
    "result (processNet D) s = Inr (processMinted (tallies D s) - processBurned (tallies D s))"
    "result (retained D) s = Inr (earnedRetained (tallies D s))"
    "result (supplyView D) s = Inr \<lparr>viewTotalSupply = supply_of (tallies D s), viewRetained = earnedRetained (tallies D s)\<rparr>"
    "exec (totalSupply D) s = with_ledger D s" "exec (processNet D) s = with_ledger D s"
    "exec (retained D) s = with_ledger D s" "exec (supplyView D) s = with_ledger D s"
  using assms by (simp_all add: coin_defs tryM_simps ledger_run supply_of_def)

text \<open>What the lower layers leave of the ledger, and the ledger of the lower layers.\<close>

lemma append_coin [simp, frame]:
  "ledgerTbl (exec (append E D e p) s) = ledgerTbl s" "coinInit (exec (append E D e p) s) = coinInit s"
  by (simp_all add: append_run)

lemma capture_coin [simp, frame]:
  "ledgerTbl (exec (capture E D pid e d v) s) = ledgerTbl s"
  "coinInit (exec (capture E D pid e d v) s) = coinInit s"
  by (simp_all add: capture_run)

lemma verify_coin [simp, frame]:
  "ledgerTbl (exec (verify E D pid) s) = ledgerTbl s" "coinInit (exec (verify E D pid) s) = coinInit s"
  by (cases "verdict_of D s pid"; simp add: verify_fresh verify_existing)+

lemma coin_lower [simp, frame]:
  "tallies D (exec (append E D e p) s) = tallies D s" "coin_ok D (exec (append E D e p) s) = coin_ok D s"
  "tallies D (exec (capture E D pid e d v) s) = tallies D s"
  "coin_ok D (exec (capture E D pid e d v) s) = coin_ok D s"
  "tallies D (exec (verify E D pid) s) = tallies D s" "coin_ok D (exec (verify E D pid) s) = coin_ok D s"
  by (simp_all add: tallies_def coin_ok_def)

lemma saveLedger_frame [simp]:
  "clockT (exec (saveLedger D r) s) = clockT s" "chainTbl (exec (saveLedger D r) s) = chainTbl s"
  "captured (exec (saveLedger D r) s) = captured s" "verdictTbl (exec (saveLedger D r) s) = verdictTbl s"
  "coin_state.more (exec (saveLedger D r) s) = coin_state.more s"
  by (simp_all add: saveLedger_def)

lemma record_frame [simp, frame]:
  "clockT (exec (recordMint D a) s) = clockT s" "clockT (exec (recordBurn D a) s) = clockT s"
  "clockT (exec (recordEarned D a) s) = clockT s"
  "chainTbl (exec (recordMint D a) s) = chainTbl s" "chainTbl (exec (recordBurn D a) s) = chainTbl s"
  "chainTbl (exec (recordEarned D a) s) = chainTbl s"
  "captured (exec (recordMint D a) s) = captured s" "captured (exec (recordBurn D a) s) = captured s"
  "captured (exec (recordEarned D a) s) = captured s"
  "verdictTbl (exec (recordMint D a) s) = verdictTbl s" "verdictTbl (exec (recordBurn D a) s) = verdictTbl s"
  "verdictTbl (exec (recordEarned D a) s) = verdictTbl s"
  "coin_state.more (exec (recordMint D a) s) = coin_state.more s"
  "coin_state.more (exec (recordBurn D a) s) = coin_state.more s"
  "coin_state.more (exec (recordEarned D a) s) = coin_state.more s"
  by (simp_all add: coin_defs exec_tryM ledger_run(2) split: sum.splits)

lemma history_coin [simp, frame]:
  "history D (with_ledger D s) = history D s" "history D (exec (recordMint D a) s) = history D s"
  "history D (exec (recordBurn D a) s) = history D s" "history D (exec (recordEarned D a) s) = history D s"
  by (simp_all add: history_def)

lemma chain_coin [simp, frame]:
  "entries D (with_ledger D s) = entries D s" "entries D (exec (recordMint D a) s) = entries D s"
  "entries D (exec (recordBurn D a) s) = entries D s" "entries D (exec (recordEarned D a) s) = entries D s"
  "intact E D (with_ledger D s) = intact E D s" "intact E D (exec (recordMint D a) s) = intact E D s"
  "intact E D (exec (recordBurn D a) s) = intact E D s" "intact E D (exec (recordEarned D a) s) = intact E D s"
  by (simp_all add: entries_def intact_def)

lemma pot_coin [simp, frame]:
  "captured_of (with_ledger D s) p = captured_of s p" "captured_of (exec (recordMint D a) s) p = captured_of s p"
  "captured_of (exec (recordBurn D a) s) p = captured_of s p"
  "captured_of (exec (recordEarned D a) s) p = captured_of s p"
  "verdict_of D (with_ledger D s) p = verdict_of D s p" "verdict_of D (exec (recordMint D a) s) p = verdict_of D s p"
  "verdict_of D (exec (recordBurn D a) s) p = verdict_of D s p"
  "verdict_of D (exec (recordEarned D a) s) p = verdict_of D s p"
  by (simp_all add: captured_of_def verdict_of_def)

end

end
