(* ===== verification/Emission.thy ===== *)
theory Emission
  imports ArosCoin
begin

text \<open>
  Supply control (\<open>src/emission/emission.service.ts\<close>): the process part is minted for a
  process whose recorded verdict is 1, and burned when its cycle completes. Shown: the gate (with
  no such verdict \<open>emit\<close> answers unauthorised and \<open>mint\<close> throws, and neither changes
  anything), the exact effect behind the gate, the symmetry of the cycle, and the 75/25 split of
  \<open>calculate\<close>.
\<close>

record EmitResult =
  authorized :: bool
  emitMinted :: number
  emitBurned :: number
  emitProcessId :: string

record EmissionFigures =
  figEmission :: number
  figCommission :: number
  figNodeShare :: number
  figAfcShare :: number
  figNet :: number

definition refusal :: "string \<Rightarrow> error" where
  "refusal processId =
     Error (''emission refused for '' @ processId @ '': no PoT confirmation (verified === 1 required)'')"

definition mint :: "env \<Rightarrow> database \<Rightarrow> string \<Rightarrow> number \<Rightarrow> ('z coin_state_scheme, error + number) state" where
  "mint E D processId amount = do {
     verdict \<leftarrow> getVerdict D processId;
     if (case verdict of None \<Rightarrow> True | Some v \<Rightarrow> verified v \<noteq> 1)
     then throw (refusal processId)
     else tryM (recordMint D amount) (\<lambda>_. do {
       append E D ''emission.minted'' [(''processId'', JStr processId), (''minted'', JNum amount)];
       return (Inr amount)
     })
   }"

definition burn :: "env \<Rightarrow> database \<Rightarrow> string \<Rightarrow> number \<Rightarrow> ('z coin_state_scheme, error + number) state" where
  "burn E D processId amount = tryM (recordBurn D amount) (\<lambda>_. do {
     append E D ''emission.burned'' [(''processId'', JStr processId), (''burned'', JNum amount)];
     return (Inr amount)
   })"

definition emit :: "env \<Rightarrow> database \<Rightarrow> string \<Rightarrow> number \<Rightarrow> ('z coin_state_scheme, error + EmitResult) state" where
  "emit E D processId amount = do {
     verdict \<leftarrow> getVerdict D processId;
     if (case verdict of None \<Rightarrow> True | Some v \<Rightarrow> verified v \<noteq> 1)
     then return (Inr \<lparr>authorized = False, emitMinted = 0, emitBurned = 0, emitProcessId = processId\<rparr>)
     else tryM (mint E D processId amount) (\<lambda>minted.
            tryM (burn E D processId minted) (\<lambda>burned.
              return (Inr \<lparr>authorized = True, emitMinted = minted, emitBurned = burned,
                           emitProcessId = processId\<rparr>)))
   }"

definition emissionTotalSupply :: "database \<Rightarrow> ('z coin_state_scheme, error + number) state" where
  "emissionTotalSupply D = totalSupply D"

definition calculate :: "number \<Rightarrow> number \<Rightarrow> EmissionFigures" where
  "calculate txAmount commissionRate =
     (let emission = txAmount; commission = txAmount * commissionRate
      in \<lparr>figEmission = emission, figCommission = commission,
          figNodeShare = commission * lit (3 / 4), figAfcShare = commission * lit (1 / 4), figNet = 0\<rparr>)"

definition default_commissionRate :: number where
  "default_commissionRate = lit (5 / 1000)"

section \<open>The gate\<close>

definition confirmed :: "database \<Rightarrow> 'z pot_state_scheme \<Rightarrow> string \<Rightarrow> bool" where
  "confirmed D s pid \<longleftrightarrow> (case verdict_of D s pid of None \<Rightarrow> False | Some v \<Rightarrow> verified v = 1)"

lemma gate_iff [simp]:
  "(case verdict_of D s pid of None \<Rightarrow> True | Some v \<Rightarrow> verified v \<noteq> 1) \<longleftrightarrow> \<not> confirmed D s pid"
  by (simp add: confirmed_def split: option.splits)

lemma mint_refused:
  "\<not> confirmed D s pid \<Longrightarrow> result (mint E D pid a) s = Inl (refusal pid) \<and> exec (mint E D pid a) s = s"
  by (simp add: mint_def)

lemma emit_refused:
  "\<not> confirmed D s pid \<Longrightarrow>
     result (emit E D pid a) s =
       Inr \<lparr>authorized = False, emitMinted = 0, emitBurned = 0, emitProcessId = pid\<rparr> \<and>
     exec (emit E D pid a) s = s"
  by (simp add: emit_def)

definition minted_payload :: "string \<Rightarrow> number \<Rightarrow> object" where
  "minted_payload pid a = [(''processId'', JStr pid), (''minted'', JNum a)]"

definition burned_payload :: "string \<Rightarrow> number \<Rightarrow> object" where
  "burned_payload pid a = [(''processId'', JStr pid), (''burned'', JNum a)]"

context datastore
begin

lemma mint_run:
  assumes "confirmed D s pid" "coin_ok D s"
  shows "result (mint E D pid a) s = Inr a"
    "exec (mint E D pid a) s =
       exec (append E D ''emission.minted'' (minted_payload pid a)) (exec (recordMint D a) s)"
  using assms by (simp_all add: mint_def tryM_simps record_run minted_payload_def)

lemma burn_run:
  assumes "coin_ok D s"
  shows "result (burn E D pid a) s = Inr a"
    "exec (burn E D pid a) s =
       exec (append E D ''emission.burned'' (burned_payload pid a)) (exec (recordBurn D a) s)"
  using assms by (simp_all add: burn_def tryM_simps record_run burned_payload_def)

lemma confirmed_lower [simp, frame]:
  "confirmed D (exec (append E D e p) s) q = confirmed D s q"
  "confirmed D (exec (recordMint D a) t) q = confirmed D t q"
  "confirmed D (exec (recordBurn D a) t) q = confirmed D t q"
  "confirmed D (exec (recordEarned D a) t) q = confirmed D t q"
  by (simp_all add: confirmed_def verdict_of_def)

lemma emit_run:
  assumes "confirmed D s pid" "coin_ok D s"
  shows "result (emit E D pid a) s =
      Inr \<lparr>authorized = True, emitMinted = a, emitBurned = a, emitProcessId = pid\<rparr>"
    "exec (emit E D pid a) s = exec (burn E D pid a) (exec (mint E D pid a) s)"
    "tallies D (exec (emit E D pid a) s) = (tallies D s)
       \<lparr>processMinted := processMinted (tallies D s) + a, processBurned := processBurned (tallies D s) + a\<rparr>"
  using assms by (simp_all add: emit_def tryM_simps mint_run burn_run record_run)

lemma emit_entries:
  assumes "confirmed D s pid" "coin_ok D s"
  shows "entries D (exec (emit E D pid a) s) = entries D s
    @ [(''emission.minted'', minted_payload pid a), (''emission.burned'', burned_payload pid a)]"
  using assms by (simp add: emit_run mint_run burn_run record_run)

end

section \<open>Properties\<close>

text \<open>C29: without a stored verdict of 1 nothing is emitted: \<open>emit\<close> answers unauthorised with zero
  amounts, \<open>mint\<close> throws the refusal, and neither changes the state in any way. With such a
  verdict \<open>emit\<close> mints and burns exactly the amount, so the net of the process part moves by
  nothing, and records the mint before the burn.\<close>

theorem emission_gate:
  fixes s :: "'z coin_state_scheme"
  assumes "datastore D" "coin_ok D s"
  shows "if confirmed D s pid
    then result (emit E D pid a) s = Inr \<lparr>authorized = True, emitMinted = a, emitBurned = a, emitProcessId = pid\<rparr>
      \<and> tallies D (exec (emit E D pid a) s) = (tallies D s)
          \<lparr>processMinted := processMinted (tallies D s) + a, processBurned := processBurned (tallies D s) + a\<rparr>
      \<and> entries D (exec (emit E D pid a) s) = entries D s
          @ [(''emission.minted'', minted_payload pid a), (''emission.burned'', burned_payload pid a)]
    else result (emit E D pid a) s = Inr \<lparr>authorized = False, emitMinted = 0, emitBurned = 0, emitProcessId = pid\<rparr>
      \<and> exec (emit E D pid a) s = s
      \<and> result (mint E D pid a) s = Inl (refusal pid) \<and> exec (mint E D pid a) s = s"
proof (cases "confirmed D s pid")
  case True
  note run = datastore.emit_run [OF assms(1) True assms(2), of E a]
  show ?thesis using True run(1,3) datastore.emit_entries [OF assms(1) True assms(2)] by simp
next
  case False
  then show ?thesis using mint_refused [OF False] emit_refused [OF False] by simp
qed

theorem emission_gate_witness:
  "result (mint plain_env mem_db ''p1'' 1)
     \<lparr>clockT = clock_start, chainTbl = [], captured = Map.empty, verdictTbl = [], ledgerTbl = [], coinInit = False\<rparr>
   = Inl (refusal ''p1'')"
proof -
  let ?s = "\<lparr>clockT = clock_start, chainTbl = [], captured = Map.empty, verdictTbl = [], ledgerTbl = [], coinInit = False\<rparr>"
  have "coin_ok mem_db ?s" "\<not> confirmed mem_db ?s ''p1''"
    by (simp_all add: coin_ok_def confirmed_def verdict_of_def mem.verd.findOne_empty)
  then show ?thesis using emission_gate [OF mem.datastore_axioms, of ?s "''p1''" plain_env 1] by simp
qed

text \<open>A quarter of a double that is not tiny is a double.\<close>

lemma representable_quarter:
  assumes "representable c" "2 powi (- 1000) \<le> c"
  shows "representable (c / 4)"
proof -
  obtain m e where c: "c = of_int m * 2 powi e" "\<bar>m\<bar> \<le> 2 ^ 53" "\<bar>c\<bar> < overflow_bound"
    using assms(1) by (auto simp: representable_def)
  have "rat_of_int m \<le> of_int (2 ^ 53)" using c(2) by (simp only: of_int_le_iff)
  then have "c \<le> of_int (2 ^ 53) * 2 powi e" unfolding c(1) by (intro mult_right_mono) simp_all
  then have "(2::rat) powi (- 1000) \<le> 2 powi (53 + e)" using assms(2) by (simp only: powi_2_add powi_53 [symmetric])
  then have "- 1000 \<le> 53 + e" using powi_2_less [of "53 + e" "- 1000"] by linarith
  moreover have "c / 4 = of_int m * 2 powi (e - 2)" by (simp add: c(1) powi_2_diff)
  ultimately show ?thesis
    unfolding representable_def using c(2,3) by (intro conjI exI [of _ m] exI [of _ "e - 2"]) auto
qed

text \<open>The canonical figures: the emission is the amount, the commission is amount times rate, and
  the net is zero. When the commission is at least \<open>2 ^ -1000\<close>, the reserve share is exactly a
  quarter of it and the node share is three quarters of it up to one rounding.\<close>

theorem canonical_split:
  assumes "txAmount * rate = Fin c" "2 powi (- 1000) \<le> c"
  shows "figEmission (calculate txAmount rate) = txAmount \<and> figCommission (calculate txAmount rate) = Fin c
    \<and> figNet (calculate txAmount rate) = 0
    \<and> figAfcShare (calculate txAmount rate) = Fin (c / 4)
    \<and> (\<exists>x. figNodeShare (calculate txAmount rate) = Fin x \<and> \<bar>x - 3 * c / 4\<bar> \<le> (3 * c / 4) * 2 powi (- 53))"
proof -
  have c: "representable c" using is_double_times [of txAmount rate] by (simp add: assms(1))
  have pos: "0 < c" using assms(2) powi_2_pos [of "- 1000"] by linarith
  have "representable (1 / 4)" using representable_quarter [of 1] powi_2_le [of "- 1000" 0] by simp
  moreover have "representable (3 / 4)"
    using representable_quarter [of 3] representable_int [of 3] powi_2_le [of "- 1000" 0] by simp
  ultimately have rates: "lit (1 / 4) = Fin (1 / 4)" "lit (3 / 4) = Fin (3 / 4)" by (simp_all add: lit_def rnd_representable)
  have quarter: "rnd (c * (1 / 4)) = Fin (c / 4)" using representable_quarter [OF c assms(2)] by (simp add: rnd_representable)
  let ?x = "c * (3 / 4)"
  have "0 \<le> rndv ?x" "rndv ?x \<le> rndv c" using pos by (auto intro: rndv_nonneg rndv_mono)
  then have fin: "rnd ?x = Fin (rndv ?x)"
    using c pos by (auto simp: rnd_Fin_iff rndv_representable representable_def)
  have "(2::rat) powi (- 1022) \<le> ?x"
  proof -
    have "(2::rat) powi (- 1022) \<le> 2 powi (- 1001)" by (rule powi_2_le) simp
    also have "(2::rat) powi (- 1001) = 2 powi (- 1000) / 2" using powi_2_diff [of "- 1000" 1] by simp
    finally show ?thesis using assms(2) pos by linarith
  qed
  then have "\<bar>rndv ?x - ?x\<bar> \<le> ?x * 2 powi (- 53)" using rndv_rel_error [of ?x] pos by simp
  then show ?thesis using fin quarter by (simp add: calculate_def Let_def assms(1) rates mult.commute)
qed

theorem canonical_split_witness:
  "figAfcShare (calculate 1 1) = Fin (1 / 4) \<and> figEmission (calculate 1 1) = 1"
proof -
  have "(1::number) * 1 = Fin 1" by (simp add: one_number_def)
  moreover have "(2::rat) powi (- 1000) \<le> 1" using powi_2_le [of "- 1000" 0] by simp
  ultimately show ?thesis using canonical_split [of 1 1 1] by simp
qed

end
