(* ===== verification/Nodes.thy ===== *)
theory Nodes
  imports Emission
begin

text \<open>
  The workforce registry (\<open>src/nodes/nodes.service.ts\<close>). A node carries work counters and the
  reputation and weight derived from them in double arithmetic. Shown: a registry only ever holds
  nodes whose counters and derived scores agree (\<open>node_ok\<close>), reputation and weight stay in
  \<open>[0, 1]\<close>, a payment receipt changes no node, and operations on an unregistered id throw
  and change nothing.
\<close>

record node_state = coin_state +
  nodeTbl :: "NodeEntity table"

definition nodeNotFound :: "string \<Rightarrow> error" where
  "nodeNotFound i = NotFoundException (''Node '' @ i @ '' is not registered'')"

definition requireNode :: "database \<Rightarrow> string \<Rightarrow> ('z node_state_scheme, error + NodeEntity) state" where
  "requireNode D i = do {
     found \<leftarrow> gets (\<lambda>s. findOne (nodes D) i (nodeTbl s));
     case found of None \<Rightarrow> throw (nodeNotFound i) | Some node \<Rightarrow> return (Inr node)
   }"

definition computeReputation :: "nat \<Rightarrow> nat \<Rightarrow> number \<Rightarrow> number" where
  "computeReputation succ tot up =
     (if tot = 0 then 1 else (num_of_int (int succ) / num_of_int (int tot)) * up)"

definition computeWeight :: "number \<Rightarrow> number \<Rightarrow> number" where
  "computeWeight rep up = rep * up"

definition register ::
  "env \<Rightarrow> database \<Rightarrow> string \<Rightarrow> string \<Rightarrow> ('z node_state_scheme, NodeEntity) state" where
  "register E D i type = do {
     let saved = \<lparr>nodeId = i, nodeType = type, uptime = 1, successes = 0, total = 0,
                  nodeStatus = Active, weight = 1, reputation = 1\<rparr>;
     modify (\<lambda>s. s\<lparr>nodeTbl := save (nodes D) saved (nodeTbl s)\<rparr>);
     append E D ''node.registered''
       [(''nodeId'', JStr (nodeId saved)), (''type'', JStr (nodeType saved)),
        (''uptime'', JNum (uptime saved)), (''reputation'', JNum (reputation saved)),
        (''weight'', JNum (weight saved))];
     return saved
   }"

definition listNodes :: "database \<Rightarrow> ('z node_state_scheme, NodeEntity list) state" where
  "listNodes D = gets (\<lambda>s. find (nodes D) (nodeTbl s))"

definition getNode :: "database \<Rightarrow> string \<Rightarrow> ('z node_state_scheme, NodeEntity option) state" where
  "getNode D i = gets (\<lambda>s. findOne (nodes D) i (nodeTbl s))"

definition worked :: "bool \<Rightarrow> NodeEntity \<Rightarrow> NodeEntity" where
  "worked success node =
     (let n1 = node\<lparr>total := total node + 1\<rparr>;
          n2 = (if success then n1\<lparr>successes := successes n1 + 1\<rparr> else n1);
          n3 = n2\<lparr>reputation := computeReputation (successes n2) (total n2) (uptime n2)\<rparr>
      in n3\<lparr>weight := computeWeight (reputation n3) (uptime n3)\<rparr>)"

definition recordExecution ::
  "database \<Rightarrow> string \<Rightarrow> bool \<Rightarrow> ('z node_state_scheme, error + NodeEntity) state" where
  "recordExecution D i success = tryM (requireNode D i) (\<lambda>node. do {
     let node' = worked success node;
     modify (\<lambda>s. s\<lparr>nodeTbl := save (nodes D) node' (nodeTbl s)\<rparr>);
     return (Inr node')
   })"

definition currentWeight :: "database \<Rightarrow> string \<Rightarrow> ('z node_state_scheme, error + number) state" where
  "currentWeight D i = tryM (requireNode D i) (\<lambda>node. return (Inr (weight node)))"

definition receivePayment ::
  "env \<Rightarrow> database \<Rightarrow> string \<Rightarrow> number \<Rightarrow> ('z node_state_scheme, error + unit) state" where
  "receivePayment E D i amount = tryM (requireNode D i) (\<lambda>node. do {
     append E D ''node.payment.received''
       [(''nodeId'', JStr (nodeId node)), (''amount'', JNum amount), (''weight'', JNum (weight node))];
     return (Inr ())
   })"

section \<open>The registry of a state\<close>

definition node_of :: "database \<Rightarrow> 'z node_state_scheme \<Rightarrow> string \<Rightarrow> NodeEntity option" where
  "node_of D s i = findOne (nodes D) i (nodeTbl s)"

definition fresh_node :: "string \<Rightarrow> string \<Rightarrow> NodeEntity" where
  "fresh_node i type = \<lparr>nodeId = i, nodeType = type, uptime = 1, successes = 0, total = 0,
                  nodeStatus = Active, weight = 1, reputation = 1\<rparr>"

definition registered_payload :: "string \<Rightarrow> string \<Rightarrow> object" where
  "registered_payload i type = [(''nodeId'', JStr i), (''type'', JStr type),
        (''uptime'', JNum 1), (''reputation'', JNum 1), (''weight'', JNum 1)]"

definition payment_payload :: "NodeEntity \<Rightarrow> number \<Rightarrow> object" where
  "payment_payload n a =
     [(''nodeId'', JStr (nodeId n)), (''amount'', JNum a), (''weight'', JNum (weight n))]"

text \<open>What holds of every row: full availability, counters in order, scores derived from them.\<close>

definition node_ok :: "NodeEntity \<Rightarrow> bool" where
  "node_ok n \<longleftrightarrow> uptime n = 1 \<and> successes n \<le> total n \<and> nodeStatus n = Active \<and>
     reputation n = computeReputation (successes n) (total n) (uptime n) \<and>
     weight n = computeWeight (reputation n) (uptime n)"

lemma worked_sel [simp]:
  "nodeId (worked b n) = nodeId n" "nodeType (worked b n) = nodeType n" "uptime (worked b n) = uptime n"
  "total (worked b n) = total n + 1" "successes (worked b n) = successes n + (if b then 1 else 0)"
  "nodeStatus (worked b n) = nodeStatus n"
  "reputation (worked b n) = computeReputation (successes (worked b n)) (total (worked b n)) (uptime n)"
  "weight (worked b n) = computeWeight (reputation (worked b n)) (uptime n)"
  by (simp_all add: worked_def Let_def)

lemma num_one_times [simp]: "is_double x \<Longrightarrow> x * 1 = (x :: number)"
  by (cases x) (auto simp: one_number_def rnd_representable)

lemma node_ok_fresh: "node_ok (fresh_node i t)"
  by (simp add: node_ok_def fresh_node_def computeReputation_def computeWeight_def)

lemma node_ok_worked: "node_ok n \<Longrightarrow> node_ok (worked b n)"
  by (simp add: node_ok_def)

text \<open>The quotient of two counters of at most \<open>2 ^ 53\<close> lies in the unit interval after rounding.\<close>

lemma quotient_unit:
  assumes "m \<le> n" "0 < n" "n \<le> 2 ^ 53"
  shows "0 \<le> num_of_int (int m) / num_of_int (int n)" "num_of_int (int m) / num_of_int (int n) \<le> 1"
proof -
  have b: "\<bar>int m\<bar> \<le> 2 ^ 53" "\<bar>int n\<bar> \<le> 2 ^ 53"
    using assms by simp_all
  then have q: "num_of_int (int m) / num_of_int (int n) = rnd (rat_of_nat m / rat_of_nat n)"
    using assms(2) by (simp add: num_of_int_exact)
  show "0 \<le> num_of_int (int m) / num_of_int (int n)"
    using rnd_mono [of 0 "rat_of_nat m / rat_of_nat n"] by (simp add: q zero_number_def)
  show "num_of_int (int m) / num_of_int (int n) \<le> 1"
    using rnd_mono [of "rat_of_nat m / rat_of_nat n" 1] assms by (simp add: q one_number_def)
qed

lemma unit_bounds [simp]: "0 \<le> (1 :: number)" "1 \<le> (1 :: number)"
  by (simp_all add: zero_number_def one_number_def)

lemma node_scores_unit:
  assumes "node_ok n" "total n \<le> 2 ^ 53"
  shows "0 \<le> reputation n \<and> reputation n \<le> 1 \<and> weight n = reputation n"
  using assms quotient_unit [of "successes n" "total n"]
  by (auto simp: node_ok_def computeReputation_def computeWeight_def)

text \<open>Only successes: the weight is exactly 1.\<close>

lemma full_score:
  assumes "node_ok n" "successes n = total n" "total n \<le> 2 ^ 53"
  shows "weight n = 1"
proof (cases "total n = 0")
  case False
  have "\<bar>int (total n)\<bar> \<le> 2 ^ 53" using assms(3) by simp
  then show ?thesis using assms False
    by (simp add: node_ok_def computeReputation_def computeWeight_def num_of_int_exact one_number_def)
qed (use assms in \<open>simp add: node_ok_def computeReputation_def computeWeight_def\<close>)

context datastore
begin

lemma node_of_nodeId: "node_of D s i = Some n \<Longrightarrow> nodeId n = i"
  by (simp add: node_of_def node.findOne_key)

lemma requireNode_run:
  "result (requireNode D i) s = (case node_of D s i of None \<Rightarrow> Inl (nodeNotFound i) | Some n \<Rightarrow> Inr n)"
  "exec (requireNode D i) s = s"
  by (auto simp: requireNode_def node_of_def split: option.splits)

lemma register_run:
  "result (register E D i t) s = fresh_node i t"
  "exec (register E D i t) s =
     exec (append E D ''node.registered'' (registered_payload i t))
       (s\<lparr>nodeTbl := save (nodes D) (fresh_node i t) (nodeTbl s)\<rparr>)"
  by (simp_all add: register_def fresh_node_def registered_payload_def Let_def)

lemma recordExecution_run:
  "result (recordExecution D i b) s =
     (case node_of D s i of None \<Rightarrow> Inl (nodeNotFound i) | Some n \<Rightarrow> Inr (worked b n))"
  "exec (recordExecution D i b) s =
     (case node_of D s i of None \<Rightarrow> s | Some n \<Rightarrow> s\<lparr>nodeTbl := save (nodes D) (worked b n) (nodeTbl s)\<rparr>)"
  by (auto simp: recordExecution_def tryM_simps requireNode_run Let_def split: option.splits)

lemma currentWeight_run:
  "result (currentWeight D i) s =
     (case node_of D s i of None \<Rightarrow> Inl (nodeNotFound i) | Some n \<Rightarrow> Inr (weight n))"
  "exec (currentWeight D i) s = s"
  by (auto simp: currentWeight_def tryM_simps requireNode_run split: option.splits)

lemma receivePayment_run:
  "result (receivePayment E D i a) s =
     (case node_of D s i of None \<Rightarrow> Inl (nodeNotFound i) | Some n \<Rightarrow> Inr ())"
  "exec (receivePayment E D i a) s =
     (case node_of D s i of None \<Rightarrow> s
      | Some n \<Rightarrow> exec (append E D ''node.payment.received'' (payment_payload n a)) s)"
  by (auto simp: receivePayment_def tryM_simps requireNode_run payment_payload_def split: option.splits)

lemma node_lower [simp, frame]:
  "nodeTbl (exec (append E D e p) s) = nodeTbl s" "nodeTbl (exec (capture E D pid e d v) s) = nodeTbl s"
  "nodeTbl (with_ledger D s) = nodeTbl s"
  by (simp_all add: append_run capture_run with_ledger_def ensureLedger_def)

lemma node_verify [simp, frame]: "nodeTbl (exec (verify E D pid) s) = nodeTbl s"
  by (cases "verdict_of D s pid"; simp add: verify_fresh verify_existing)

lemma node_record [simp, frame]:
  "nodeTbl (exec (recordMint D a) s) = nodeTbl s" "nodeTbl (exec (recordBurn D a) s) = nodeTbl s"
  "nodeTbl (exec (recordEarned D a) s) = nodeTbl s"
  by (simp_all add: coin_defs exec_tryM ledger_run(2) saveLedger_def split: sum.splits)

lemma node_of_frame [simp, frame]:
  "node_of D (exec (append E D e p) s) i = node_of D s i"
  "node_of D (exec (capture E D pid e d v) s) i = node_of D s i"
  "node_of D (exec (verify E D pid) s) i = node_of D s i" "node_of D (with_ledger D s) i = node_of D s i"
  "node_of D (exec (recordMint D a) s) i = node_of D s i"
  "node_of D (exec (recordBurn D a) s) i = node_of D s i"
  "node_of D (exec (recordEarned D a) s) i = node_of D s i"
  by (simp_all add: node_of_def)

lemma node_of_ops:
  "node_of D (exec (register E D i t) s) j = (if j = i then Some (fresh_node i t) else node_of D s j)"
  "node_of D (exec (recordExecution D i b) s) j =
     (if j = i then map_option (worked b) (node_of D s i) else node_of D s j)"
  "node_of D (exec (receivePayment E D i a) s) j = node_of D s j"
  using node.findOne_key [of i "nodeTbl s"]
  by (auto simp: register_run recordExecution_run receivePayment_run append_run node_of_def
      node.findOne_save fresh_node_def split: option.splits)

lemma receivePayment_frame [simp, frame]:
  "captured (exec (receivePayment E D i a) s) = captured s"
  "verdictTbl (exec (receivePayment E D i a) s) = verdictTbl s"
  "tallies D (exec (receivePayment E D i a) s) = tallies D s"
  "coin_ok D (exec (receivePayment E D i a) s) = coin_ok D s"
  "nodeTbl (exec (receivePayment E D i a) s) = nodeTbl s"
  "intact E D (exec (receivePayment E D i a) s) = intact E D s"
  by (simp_all add: receivePayment_run split: option.splits)

lemma receivePayment_entries:
  "node_of D s i = Some n \<Longrightarrow>
     entries D (exec (receivePayment E D i a) s) = entries D s @ [(''node.payment.received'', payment_payload n a)]"
  by (simp add: receivePayment_run)

text \<open>Register and work leave everything below the registry alone, except the chain entry of an admission.\<close>

lemma node_ops_frame [simp, frame]:
  "captured (exec (register E D i t) s) = captured s" "verdictTbl (exec (register E D i t) s) = verdictTbl s"
  "tallies D (exec (register E D i t) s) = tallies D s" "coin_ok D (exec (register E D i t) s) = coin_ok D s"
  "entries D (exec (register E D i t) s) = entries D s @ [(''node.registered'', registered_payload i t)]"
  "intact E D (exec (register E D i t) s) = intact E D s"
  by (simp_all add: register_run) (simp_all add: tallies_def coin_ok_def entries_def intact_def history_def)

lemma work_frame [simp, frame]:
  "captured (exec (recordExecution D i b) s) = captured s"
  "verdictTbl (exec (recordExecution D i b) s) = verdictTbl s"
  "tallies D (exec (recordExecution D i b) s) = tallies D s"
  "coin_ok D (exec (recordExecution D i b) s) = coin_ok D s"
  "clockT (exec (recordExecution D i b) s) = clockT s"
  "history D (exec (recordExecution D i b) s) = history D s"
  "entries D (exec (recordExecution D i b) s) = entries D s"
  "intact E D (exec (recordExecution D i b) s) = intact E D s"
  by (simp_all add: recordExecution_run tallies_def coin_ok_def entries_def intact_def history_def split: option.splits)

lemma node_pot_frame [simp, frame]:
  "captured_of (exec (receivePayment E D i a) s) p = captured_of s p"
  "captured_of (exec (register E D i t) s) p = captured_of s p"
  "captured_of (exec (recordExecution D i b) s) p = captured_of s p"
  "verdict_of D (exec (receivePayment E D i a) s) p = verdict_of D s p"
  "verdict_of D (exec (register E D i t) s) p = verdict_of D s p"
  "verdict_of D (exec (recordExecution D i b) s) p = verdict_of D s p"
  by (simp_all add: captured_of_def verdict_of_def)

end

section \<open>Properties\<close>

text \<open>Recording a unit of work on a registered, consistent node raises its total by one and its
  successes by one exactly when the work succeeded, refreshes reputation and weight from the
  counters, keeps the node consistent, and, up to \<open>2 ^ 53\<close> executions, leaves both scores in the
  unit interval in double arithmetic. No other node changes. On an unregistered id it throws and
  changes nothing.\<close>

lemma work_keeps_scores:
  fixes s :: "'z node_state_scheme"
  assumes "datastore D"
  shows "case node_of D s i of
      None \<Rightarrow> result (recordExecution D i b) s = Inl (nodeNotFound i) \<and> exec (recordExecution D i b) s = s
    | Some n \<Rightarrow> \<exists>m. result (recordExecution D i b) s = Inr m
        \<and> (\<forall>j. node_of D (exec (recordExecution D i b) s) j = (if j = i then Some m else node_of D s j))
        \<and> total m = total n + 1 \<and> successes m = successes n + (if b then 1 else 0)
        \<and> reputation m = computeReputation (successes m) (total m) (uptime m)
        \<and> weight m = computeWeight (reputation m) (uptime m)
        \<and> (node_ok n \<longrightarrow> node_ok m \<and>
            (total m \<le> 2 ^ 53 \<longrightarrow> 0 \<le> reputation m \<and> reputation m \<le> 1 \<and> 0 \<le> weight m \<and> weight m \<le> 1))"
proof (cases "node_of D s i")
  case None
  then show ?thesis by (simp add: datastore.recordExecution_run [OF assms])
next
  case (Some n)
  have sc: "0 \<le> reputation (worked b n) \<and> reputation (worked b n) \<le> 1 \<and> 0 \<le> weight (worked b n) \<and> weight (worked b n) \<le> 1"
    if "node_ok n" "total (worked b n) \<le> 2 ^ 53"
    using node_scores_unit [OF node_ok_worked [OF that(1), of b] that(2)] by metis
  have upd: "node_of D (exec (recordExecution D i b) s) j = (if j = i then Some (worked b n) else node_of D s j)" for j
    using Some by (simp add: datastore.node_of_ops(2) [OF assms])
  have res: "result (recordExecution D i b) s = Inr (worked b n)"
    using Some by (simp add: datastore.recordExecution_run(1) [OF assms])
  show ?thesis unfolding Some option.case
    by (rule exI [of _ "worked b n"]) (use sc upd res node_ok_worked [of n b] in \<open>auto simp only: worked_sel(3-8)\<close>)
qed

text \<open>A payment receipt is one chain entry; the registry, the tallies and the verdicts are exactly
  as before, so no balance is attached to a node.\<close>

theorem payment_touches_no_node:
  fixes s :: "'z node_state_scheme"
  assumes "datastore D" "node_of D s i = Some n"
  shows "result (receivePayment E D i a) s = Inr ()
    \<and> entries D (exec (receivePayment E D i a) s) = entries D s @ [(''node.payment.received'', payment_payload n a)]
    \<and> nodeTbl (exec (receivePayment E D i a) s) = nodeTbl s
    \<and> tallies D (exec (receivePayment E D i a) s) = tallies D s
    \<and> verdictTbl (exec (receivePayment E D i a) s) = verdictTbl s"
  using assms(2)
  by (simp add: datastore.receivePayment_run(1) [OF assms(1)] datastore.receivePayment_entries [OF assms(1)]
      datastore.receivePayment_frame [OF assms(1)])

definition one_node :: node_state where
  "one_node = \<lparr>clockT = clock_start, chainTbl = [], captured = Map.empty, verdictTbl = [], ledgerTbl = [],
     coinInit = False, nodeTbl = [fresh_node ''n1'' ''validator'']\<rparr>"

lemma one_node_view: "node_of mem_db one_node ''n1'' = Some (fresh_node ''n1'' ''validator'')"
  by (simp add: node_of_def one_node_def mem_db_def mem_repo_def mem_findOne_def fresh_node_def)

theorem payment_touches_no_node_witness:
  "nodeTbl (exec (receivePayment plain_env mem_db ''n1'' 1) one_node) = nodeTbl one_node"
  using payment_touches_no_node [OF mem.datastore_axioms one_node_view] by simp

end
