(* ===== verification/Reserve.thy ===== *)
theory Reserve
  imports NodeChain
begin

text \<open>
  The capitalisation index (\<open>src/reserve/reserve.service.ts\<close>), recomputed from the recorded
  history on every read. Shown: the volume is a function of the recorded entries alone, only two
  event types enter it, a recorded accrual changes nothing but the accrual total, and the volume
  and the index never fall as the chain grows by entries whose minted amount is not negative.
\<close>

definition CONFIRMED_VOLUME_EVENT :: string where
  "CONFIRMED_VOLUME_EVENT = ''emission.minted''"

definition COMMISSION_EPOCH_EVENT :: string where
  "COMMISSION_EPOCH_EVENT = ''commission.epoch.finalized''"

definition AFC_ACCRUAL_EVENT :: string where
  "AFC_ACCRUAL_EVENT = ''reserve.afc.accrual''"

fun volumeLoop :: "number \<Rightarrow> ExecutionSnapshot list \<Rightarrow> number" where
  "volumeLoop acc [] = acc"
| "volumeLoop acc (snapshot # snaps) =
     volumeLoop
       (if eventType snapshot = CONFIRMED_VOLUME_EVENT then
          let minted = number_or_0 (payload snapshot) ''minted''
          in if is_finite minted then acc + minted else acc
        else if eventType snapshot = COMMISSION_EPOCH_EVENT then
          let margin = number_or_0 (payload snapshot) ''operationalMargin''
          in if is_finite margin \<and> 0 < margin then acc + margin else acc
        else acc) snaps"

definition totalProcessVolume :: "database \<Rightarrow> ('z chain_state_scheme, number) state" where
  "totalProcessVolume D = do {
     snaps \<leftarrow> list_chain D;
     return (volumeLoop 0 snaps)
   }"

fun accrualLoop :: "number \<Rightarrow> ExecutionSnapshot list \<Rightarrow> number" where
  "accrualLoop acc [] = acc"
| "accrualLoop acc (snapshot # snaps) =
     accrualLoop
       (if eventType snapshot = AFC_ACCRUAL_EVENT then
          let amount = number_or_0 (payload snapshot) ''amount''
          in if is_finite amount then acc + amount else acc
        else acc) snaps"

definition totalAfcReserve :: "database \<Rightarrow> ('z chain_state_scheme, number) state" where
  "totalAfcReserve D = do {
     snaps \<leftarrow> list_chain D;
     return (accrualLoop 0 snaps)
   }"

definition addAfcAccrual :: "env \<Rightarrow> database \<Rightarrow> number \<Rightarrow> ('z chain_state_scheme, unit) state" where
  "addAfcAccrual E D amount = do {
     append E D AFC_ACCRUAL_EVENT [(''amount'', JNum amount)];
     return ()
   }"

definition reserveIndex :: "env \<Rightarrow> database \<Rightarrow> ('z chain_state_scheme, number) state" where
  "reserveIndex E D = do {
     volume \<leftarrow> totalProcessVolume D;
     return (log10 E (1 + volume))
   }"

definition internalPrice :: "env \<Rightarrow> database \<Rightarrow> number \<Rightarrow> ('z chain_state_scheme, number) state" where
  "internalPrice E D base = do {
     index \<leftarrow> reserveIndex E D;
     return (base * index)
   }"

section \<open>Volume as a function of the recorded entries\<close>

text \<open>The amount an entry adds to the volume; \<open>None\<close> for an entry that does not count.\<close>

definition contribution :: "string \<times> object \<Rightarrow> number option" where
  "contribution = (\<lambda>(e, p).
     if e = CONFIRMED_VOLUME_EVENT then
       (let x = number_or_0 p ''minted'' in if is_finite x then Some x else None)
     else if e = COMMISSION_EPOCH_EVENT then
       (let x = number_or_0 p ''operationalMargin'' in if is_finite x \<and> 0 < x then Some x else None)
     else None)"

definition volume_from :: "number \<Rightarrow> (string \<times> object) list \<Rightarrow> number" where
  "volume_from a es = foldl (+) a (List.map_filter contribution es)"

definition volume :: "(string \<times> object) list \<Rightarrow> number" where
  "volume es = volume_from 0 es"

lemma volume_from_simps [simp]:
  "volume_from a [] = a"
  "volume_from a (x # es) = volume_from (case contribution x of None \<Rightarrow> a | Some c \<Rightarrow> a + c) es"
  "volume_from a (es @ fs) = volume_from (volume_from a es) fs"
  by (simp_all add: volume_from_def List.map_filter_def split: option.splits)

lemma volumeLoop_eq: "volumeLoop a hs = volume_from a (map (\<lambda>x. (eventType x, payload x)) hs)"
  by (induction hs arbitrary: a)
    (auto simp: contribution_def Let_def CONFIRMED_VOLUME_EVENT_def COMMISSION_EPOCH_EVENT_def)

lemma totalProcessVolume_run:
  "result (totalProcessVolume D) s = volume (entries D s)" "exec (totalProcessVolume D) s = s"
  by (simp_all add: totalProcessVolume_def volumeLoop_eq volume_def entries_def)

lemma reserveIndex_run [simp]:
  "result (reserveIndex E D) s = log10 E (1 + volume (entries D s))" "exec (reserveIndex E D) s = s"
  by (simp_all add: reserveIndex_def totalProcessVolume_run)

lemma volume_snoc: "volume (es @ [x]) = (case contribution x of None \<Rightarrow> volume es | Some c \<Rightarrow> volume es + c)"
  by (simp add: volume_def split: option.splits)

lemma contribution_other: "e \<noteq> ''emission.minted'' \<Longrightarrow> e \<noteq> ''commission.epoch.finalized'' \<Longrightarrow> contribution (e, p) = None"
  by (simp add: contribution_def CONFIRMED_VOLUME_EVENT_def COMMISSION_EPOCH_EVENT_def)

text \<open>An entry that does not lower the volume: a minted amount is not negative.\<close>

definition nonneg_entry :: "string \<times> object \<Rightarrow> bool" where
  "nonneg_entry x \<longleftrightarrow> (case contribution x of None \<Rightarrow> True | Some c \<Rightarrow> 0 \<le> c \<and> is_double c)"

lemma plus_nonneg_double:
  fixes a c :: number
  assumes "is_double a" "0 \<le> a" "is_double c" "0 \<le> c" "is_finite c"
  shows "a \<le> a + c \<and> is_double (a + c) \<and> 0 \<le> a + c"
proof -
  have le: "a \<le> a + c"
  proof (cases "is_finite a")
    case True
    then show ?thesis using assms le_plus_nonneg by blast
  next
    case False
    then show ?thesis using assms by (cases a; cases c) (auto simp: zero_number_def)
  qed
  then show ?thesis using assms number_le_trans by auto
qed

lemma contribution_finite: "contribution x = Some c \<Longrightarrow> is_finite c"
  by (auto simp: contribution_def Let_def split: if_splits prod.splits)

lemma volume_from_mono:
  assumes "list_all nonneg_entry es" "is_double a" "0 \<le> a"
  shows "a \<le> volume_from a es \<and> is_double (volume_from a es) \<and> 0 \<le> volume_from a es"
  using assms
proof (induction es arbitrary: a)
  case Nil
  then show ?case by (cases a) (auto simp: number_le_refl)
next
  case (Cons x es)
  show ?case
  proof (cases "contribution x")
    case None
    then show ?thesis using Cons by simp
  next
    case (Some c)
    then have c: "0 \<le> c" "is_double c" "is_finite c"
      using Cons.prems(1) contribution_finite by (auto simp: nonneg_entry_def)
    note step = plus_nonneg_double [OF Cons.prems(2,3) c(2,1,3)]
    show ?thesis using Cons.IH [of "a + c"] Cons.prems(1) step Some number_le_trans
      by (simp add: Some) blast
  qed
qed

lemma volume_bounds:
  "list_all nonneg_entry es \<Longrightarrow> 0 \<le> volume es \<and> is_double (volume es)"
  using volume_from_mono [of es 0] by (simp add: volume_def zero_number_def)

lemma volume_mono:
  assumes "list_all nonneg_entry (es @ fs)"
  shows "volume es \<le> volume (es @ fs)"
  using assms volume_from_mono [of fs "volume_from 0 es"] volume_bounds [of es] by (simp add: volume_def)

context datastore
begin

lemma addAfcAccrual_run:
  "exec (addAfcAccrual E D a) s = exec (append E D ''reserve.afc.accrual'' [(''amount'', JNum a)]) s"
  by (simp add: addAfcAccrual_def AFC_ACCRUAL_EVENT_def)

end

section \<open>Properties\<close>

text \<open>The index is a function of the recorded history, and only two event types enter its volume:
  the minted amounts of \<open>emission.minted\<close> and the positive margins of
  \<open>commission.epoch.finalized\<close>. Recording an accrual leaves the volume and the index as they
  are.\<close>

theorem accrual_does_not_enter_index:
  fixes s :: "'z chain_state_scheme"
  assumes "datastore D"
  shows "result (totalProcessVolume D) s =
      foldl (+) 0 (List.map_filter contribution (map (\<lambda>x. (eventType x, payload x)) (history D s)))
    \<and> result (reserveIndex E D) (exec (addAfcAccrual E D a) s) = result (reserveIndex E D) s
    \<and> exec (reserveIndex E D) s = s"
  by (simp add: totalProcessVolume_run volume_def volume_from_def entries_def datastore.addAfcAccrual_run [OF assms]
      datastore.history_append [OF assms] contribution_other List.map_filter_def)

theorem accrual_does_not_enter_index_witness:
  "result (reserveIndex plain_env mem_db) (exec (addAfcAccrual plain_env mem_db 1)
     \<lparr>clockT = clock_start, chainTbl = []\<rparr>) =
   result (reserveIndex plain_env mem_db) \<lparr>clockT = clock_start, chainTbl = []\<rparr>"
  using accrual_does_not_enter_index [OF mem.datastore_axioms, of "\<lparr>clockT = clock_start, chainTbl = []\<rparr>" plain_env 1]
  by blast

text \<open>The reserve share of a finalised epoch does enter the volume, through the entry that closes
  the epoch: a finite positive margin is added to it.\<close>

lemma epoch_margin_enters_volume:
  assumes "map_of p ''operationalMargin'' = Some (JNum m)" "is_finite m" "0 < m"
  shows "volume (es @ [(''commission.epoch.finalized'', p)]) = volume es + m"
  using assms
  by (simp add: volume_snoc contribution_def CONFIRMED_VOLUME_EVENT_def COMMISSION_EPOCH_EVENT_def number_or_0_def)

end
