(* ===== verification/Commission.thy ===== *)
theory Commission
  imports Nodes Reserve "HOL-Library.AList"
begin

text \<open>
  Settlement (\<open>src/commission/commission.service.ts\<close>): fees are pooled per epoch and
  distributed when the epoch is finalised, 75 per cent to the nodes by confirmed weight, the
  remainder to the reserve. The weight table is a JavaScript \<open>Map\<close>, an association list in
  insertion order; the loop that fills it remembers the verdicts it has looked up. Shown: that
  cache changes nothing, only participations in confirmed processes earn, payments are made in
  ascending order of node id and add up to what the tallies receive, a finalised epoch is never
  distributed again, and unknown epochs and unregistered nodes throw.
\<close>

record Participation =
  partProcessId :: string
  partNodeId :: string

record commission_state = node_state +
  epochTbl :: "Epoch table"
  participation :: "int \<rightharpoonup> Participation list"

record FinalizeResult =
  finEpochNumber :: int
  finDistributionLog :: "DistributionEntry list"
  finOperationalMargin :: number
  finPaid :: number
  finTotalFees :: number
  reconciled :: bool

definition RECONCILE_EPSILON :: number where
  "RECONCILE_EPSILON = lit (1 / 10 ^ 9)"

definition MARGIN_RECIPIENT :: string where
  "MARGIN_RECIPIENT = ''AFC_RESERVE''"

definition REASON_WORK :: string where
  "REASON_WORK = ''work_weight''"

definition feeRate :: number where
  "feeRate = lit (5 / 1000)"

definition marginRate :: number where
  "marginRate = lit (1 / 4)"

definition computeFee :: "number \<Rightarrow> number \<Rightarrow> number" where
  "computeFee amount overloadRate = (let fee = amount * feeRate in fee * (1 + overloadRate))"

definition epochNotFound :: "env \<Rightarrow> int \<Rightarrow> error" where
  "epochNotFound E n = NotFoundException (''Epoch '' @ intStr E n @ '' does not exist'')"

definition openEpoch :: "database \<Rightarrow> int \<Rightarrow> ('z commission_state_scheme, Epoch) state" where
  "openEpoch D n = do {
     existing \<leftarrow> gets (\<lambda>s. findOne (epochs D) n (epochTbl s));
     case existing of
       Some epoch \<Rightarrow> return epoch
     | None \<Rightarrow> do {
         start \<leftarrow> now;
         return \<lparr>epochNumber = n, startTime = start, endTime = 0, totalFees = 0, distributionLog = [],
                 epochStatus = Open, operationalMargin = 0\<rparr>
       }
   }"

definition requireEpoch :: "env \<Rightarrow> database \<Rightarrow> int \<Rightarrow> ('z commission_state_scheme, error + Epoch) state" where
  "requireEpoch E D n = do {
     found \<leftarrow> gets (\<lambda>s. findOne (epochs D) n (epochTbl s));
     case found of None \<Rightarrow> throw (epochNotFound E n) | Some epoch \<Rightarrow> return (Inr epoch)
   }"

definition accrue ::
  "database \<Rightarrow> int \<Rightarrow> number \<Rightarrow> Participation list \<Rightarrow> ('z commission_state_scheme, Epoch) state" where
  "accrue D n fee participants = do {
     epoch \<leftarrow> openEpoch D n;
     let saved = epoch\<lparr>totalFees := totalFees epoch + fee\<rparr>;
     modify (\<lambda>s. s\<lparr>epochTbl := save (epochs D) saved (epochTbl s)\<rparr>);
     recorded \<leftarrow> gets (\<lambda>s. case participation s n of None \<Rightarrow> [] | Some ps \<Rightarrow> ps);
     modify (\<lambda>s. s\<lparr>participation := (participation s)(n \<mapsto> recorded @ participants)\<rparr>);
     return saved
   }"

fun weighLoop ::
  "database \<Rightarrow> Participation list \<Rightarrow> (string \<rightharpoonup> bool) \<Rightarrow> (string \<times> number) list \<Rightarrow>
   ('z commission_state_scheme, error + (string \<times> number) list) state" where
  "weighLoop D [] verdictCache weights = return (Inr weights)"
| "weighLoop D (part # parts) verdictCache weights = do {
     cached \<leftarrow> (case verdictCache (partProcessId part) of
       Some known \<Rightarrow> return (known, verdictCache)
     | None \<Rightarrow> do {
         verdict \<leftarrow> getVerdict D (partProcessId part);
         let known = (case verdict of None \<Rightarrow> False | Some v \<Rightarrow> verified v = 1);
         return (known, verdictCache(partProcessId part \<mapsto> known))
       });
     if \<not> fst cached then weighLoop D parts (snd cached) weights
     else tryM (currentWeight D (partNodeId part)) (\<lambda>w.
            weighLoop D parts (snd cached)
              (AList.update (partNodeId part)
                 ((case map_of weights (partNodeId part) of None \<Rightarrow> 0 | Some x \<Rightarrow> x) + w) weights))
   }"

definition confirmedWeights ::
  "database \<Rightarrow> int \<Rightarrow> ('z commission_state_scheme, error + (string \<times> number) list) state" where
  "confirmedWeights D n = do {
     parts \<leftarrow> gets (\<lambda>s. case participation s n of None \<Rightarrow> [] | Some ps \<Rightarrow> ps);
     weighLoop D parts Map.empty []
   }"

fun payLoop ::
  "env \<Rightarrow> database \<Rightarrow> (string \<times> number) list \<Rightarrow> number \<Rightarrow> number \<Rightarrow> string list \<Rightarrow> number \<Rightarrow>
   DistributionEntry list \<Rightarrow> ('z commission_state_scheme, error + number \<times> DistributionEntry list) state" where
  "payLoop E D weights distributable totalWeight [] paid dlog = return (Inr (paid, dlog))"
| "payLoop E D weights distributable totalWeight (i # nodeIds) paid dlog =
     (let w = (case map_of weights i of None \<Rightarrow> NaN | Some x \<Rightarrow> x);
          amount = (w * distributable) / totalWeight
      in tryM (receivePayment E D i amount) (\<lambda>_.
           tryM (recordEarned D amount) (\<lambda>_.
             payLoop E D weights distributable totalWeight nodeIds (paid + amount)
               (dlog @ [\<lparr>distNodeId = i, distAmount = amount, distReason = REASON_WORK\<rparr>]))))"

definition toResult :: "Epoch \<Rightarrow> FinalizeResult" where
  "toResult epoch =
     (let paid = foldl (\<lambda>sum e. sum + distAmount e) 0
                   (filter (\<lambda>e. distReason e \<noteq> ''afc_reserve'') (distributionLog epoch));
          flag = abs_num (paid + operationalMargin epoch - totalFees epoch) < RECONCILE_EPSILON
      in \<lparr>finEpochNumber = epochNumber epoch, finDistributionLog = distributionLog epoch,
          finOperationalMargin = operationalMargin epoch, finPaid = paid,
          finTotalFees = totalFees epoch, reconciled = flag\<rparr>)"

definition distributionJson :: "DistributionEntry \<Rightarrow> json" where
  "distributionJson e =
     JObj [(''nodeId'', JStr (distNodeId e)), (''amount'', JNum (distAmount e)), (''reason'', JStr (distReason e))]"

definition finalizeEpoch :: "env \<Rightarrow> database \<Rightarrow> int \<Rightarrow> ('z commission_state_scheme, error + FinalizeResult) state" where
  "finalizeEpoch E D n = tryM (requireEpoch E D n) (\<lambda>epoch.
     if epochStatus epoch \<noteq> Open then return (Inr (toResult epoch))
     else tryM (confirmedWeights D n) (\<lambda>weights.
       let totalWeight = foldl (+) 0 (map snd weights);
           poolTotal = totalFees epoch;
           distributable = poolTotal * (1 - marginRate)
       in tryM (if 0 < totalWeight
                then payLoop E D weights distributable totalWeight (sort (map fst weights)) 0 []
                else return (Inr (0, [])))
         (\<lambda>(paid, payments). do {
           let allocatedMargin = poolTotal - paid;
           addAfcAccrual E D allocatedMargin;
           let dlog = payments @ [\<lparr>distNodeId = MARGIN_RECIPIENT, distAmount = allocatedMargin,
                                  distReason = ''afc_reserve''\<rparr>];
           end \<leftarrow> now;
           let saved = epoch\<lparr>distributionLog := dlog, operationalMargin := allocatedMargin,
                             epochStatus := Finalized, endTime := end\<rparr>;
           modify (\<lambda>s. s\<lparr>epochTbl := save (epochs D) saved (epochTbl s)\<rparr>);
           let reconciledFlag = (abs_num (paid + allocatedMargin - poolTotal) < RECONCILE_EPSILON);
           append E D ''commission.epoch.finalized''
             [(''epochNumber'', jint n), (''totalFees'', JNum poolTotal),
              (''operationalMargin'', JNum allocatedMargin), (''paid'', JNum paid),
              (''reconciled'', JBool reconciledFlag), (''distributionLog'', JArr (map distributionJson dlog))];
           modify (\<lambda>s. s\<lparr>participation := (participation s)(n := None)\<rparr>);
           return (Inr \<lparr>finEpochNumber = n, finDistributionLog = dlog, finOperationalMargin = allocatedMargin,
                        finPaid = paid, finTotalFees = poolTotal, reconciled = reconciledFlag\<rparr>)
         })))"

definition getEpoch :: "database \<Rightarrow> int \<Rightarrow> ('z commission_state_scheme, Epoch option) state" where
  "getEpoch D n = gets (\<lambda>s. findOne (epochs D) n (epochTbl s))"

definition listEpochs :: "database \<Rightarrow> ('z commission_state_scheme, Epoch list) state" where
  "listEpochs D = gets (\<lambda>s. findAsc (epochs D) (epochTbl s))"

section \<open>Epochs and participations of a state\<close>

definition epoch_of :: "database \<Rightarrow> 'z commission_state_scheme \<Rightarrow> int \<Rightarrow> Epoch option" where
  "epoch_of D s n = findOne (epochs D) n (epochTbl s)"

definition parts_of :: "'z commission_state_scheme \<Rightarrow> int \<Rightarrow> Participation list" where
  "parts_of s n = (case participation s n of None \<Rightarrow> [] | Some ps \<Rightarrow> ps)"

text \<open>The weights without the verdict cache: the reference the loop is compared with.\<close>

definition add_weight :: "string \<Rightarrow> number \<Rightarrow> (string \<times> number) list \<Rightarrow> (string \<times> number) list" where
  "add_weight i w ws = AList.update i ((case map_of ws i of None \<Rightarrow> 0 | Some x \<Rightarrow> x) + w) ws"

fun weigh ::
  "database \<Rightarrow> 'z node_state_scheme \<Rightarrow> (string \<times> number) list \<Rightarrow> Participation list \<Rightarrow>
   error + (string \<times> number) list" where
  "weigh D s ws [] = Inr ws"
| "weigh D s ws (p # ps) =
     (if confirmed D s (partProcessId p)
      then case node_of D s (partNodeId p) of
             None \<Rightarrow> Inl (nodeNotFound (partNodeId p))
           | Some nd \<Rightarrow> weigh D s (add_weight (partNodeId p) (weight nd) ws) ps
      else weigh D s ws ps)"

text \<open>What an open epoch distributes, as a function of the weights and the pool.\<close>

definition total_weight :: "(string \<times> number) list \<Rightarrow> number" where
  "total_weight ws = foldl (+) 0 (map snd ws)"

definition weight_at :: "(string \<times> number) list \<Rightarrow> string \<Rightarrow> number" where
  "weight_at ws i = (case map_of ws i of None \<Rightarrow> NaN | Some x \<Rightarrow> x)"

definition payouts :: "(string \<times> number) list \<Rightarrow> number \<Rightarrow> (string \<times> number) list" where
  "payouts ws pool =
     (if 0 < total_weight ws
      then map (\<lambda>i. (i, (weight_at ws i * (pool * (1 - marginRate))) / total_weight ws)) (sort (map fst ws))
      else [])"

definition paid_of :: "(string \<times> number) list \<Rightarrow> number" where
  "paid_of ps = foldl (+) 0 (map snd ps)"

definition log_of :: "(string \<times> number) list \<Rightarrow> number \<Rightarrow> DistributionEntry list" where
  "log_of ps pool =
     map (\<lambda>(i, a). \<lparr>distNodeId = i, distAmount = a, distReason = ''work_weight''\<rparr>) ps @
     [\<lparr>distNodeId = ''AFC_RESERVE'', distAmount = pool - paid_of ps, distReason = ''afc_reserve''\<rparr>]"

definition balances :: "(string \<times> number) list \<Rightarrow> number \<Rightarrow> bool" where
  "balances ps pool \<longleftrightarrow> abs_num (paid_of ps + (pool - paid_of ps) - pool) < RECONCILE_EPSILON"

definition finalize_result :: "int \<Rightarrow> (string \<times> number) list \<Rightarrow> number \<Rightarrow> FinalizeResult" where
  "finalize_result n ps pool =
     \<lparr>finEpochNumber = n, finDistributionLog = log_of ps pool, finOperationalMargin = pool - paid_of ps,
      finPaid = paid_of ps, finTotalFees = pool, reconciled = balances ps pool\<rparr>"

definition finalized_payload :: "int \<Rightarrow> (string \<times> number) list \<Rightarrow> number \<Rightarrow> object" where
  "finalized_payload n ps pool =
     [(''epochNumber'', jint n), (''totalFees'', JNum pool),
      (''operationalMargin'', JNum (pool - paid_of ps)), (''paid'', JNum (paid_of ps)),
      (''reconciled'', JBool (balances ps pool)), (''distributionLog'', JArr (map distributionJson (log_of ps pool)))]"

text \<open>The payments of an open epoch, as one computation.\<close>

definition pay_phase ::
  "env \<Rightarrow> database \<Rightarrow> (string \<times> number) list \<Rightarrow> number \<Rightarrow>
   ('z commission_state_scheme, error + number \<times> DistributionEntry list) state" where
  "pay_phase E D ws pool =
     (if 0 < total_weight ws
      then payLoop E D ws (pool * (1 - marginRate)) (total_weight ws) (sort (map fst ws)) 0 []
      else return (Inr (0, [])))"

definition finalized_epoch :: "Epoch \<Rightarrow> (string \<times> number) list \<Rightarrow> int \<Rightarrow> Epoch" where
  "finalized_epoch ep ps t = ep\<lparr>distributionLog := log_of ps (totalFees ep),
     operationalMargin := totalFees ep - paid_of ps, epochStatus := Finalized, endTime := t\<rparr>"

lemma weighLoop_exec [simp]: "exec (weighLoop D ps cache ws) s = s"
proof (induction ps arbitrary: cache ws)
  case (Cons p ps)
  then show ?case
    by (auto simp: exec_tryM currentWeight_def requireNode_def Let_def split: option.splits sum.splits)
qed simp

text \<open>The cache holds what the verdict table holds, so the loop computes the reference.\<close>

lemma weighLoop_result:
  assumes "\<And>pid b. cache pid = Some b \<Longrightarrow> b = confirmed D s pid"
  shows "result (weighLoop D ps cache ws) s = weigh D s ws ps"
  using assms
proof (induction ps arbitrary: cache ws)
  case (Cons p ps)
  let ?c = "confirmed D s (partProcessId p)"
  have look: "result (case cache (partProcessId p) of Some known \<Rightarrow> return (known, cache)
      | None \<Rightarrow> do { verdict \<leftarrow> getVerdict D (partProcessId p);
          let known = (case verdict of None \<Rightarrow> False | Some v \<Rightarrow> verified v = 1);
          return (known, cache(partProcessId p \<mapsto> known)) }) s
      = (?c, cache(partProcessId p \<mapsto> ?c))" (is "result ?m s = _")
    using Cons.prems [of "partProcessId p"]
    by (cases "cache (partProcessId p)") (auto simp: confirmed_def fun_upd_idem Let_def)
  have keep: "exec ?m s = s" by (simp add: Let_def split: option.splits)
  have "result (weighLoop D ps (cache(partProcessId p \<mapsto> ?c)) ws) s = weigh D s ws ps" for ws
    by (rule Cons.IH) (auto simp: Cons.prems split: if_splits)
  then show ?case
    by (cases ?c; simp only: weighLoop.simps result_bind look keep;
        simp add: result_tryM currentWeight_def requireNode_def exec_tryM node_of_def add_weight_def
        split: option.splits)
qed simp

lemma confirmedWeights_run:
  "result (confirmedWeights D n) s = weigh D s [] (parts_of s n)" "exec (confirmedWeights D n) s = s"
  using weighLoop_result [of Map.empty D s "parts_of s n" "[]"]
  by (simp_all add: confirmedWeights_def parts_of_def)

lemma distinct_add_weight: "distinct (map fst ws) \<Longrightarrow> distinct (map fst (add_weight i w ws))"
  by (simp add: add_weight_def distinct_update)

lemma weigh_distinct: "weigh D s ws ps = Inr out \<Longrightarrow> distinct (map fst ws) \<Longrightarrow> distinct (map fst out)"
  by (induction ps arbitrary: ws) (auto simp: distinct_add_weight split: if_splits option.splits)

text \<open>The recipients: the nodes of the confirmed participations, each registered.\<close>

lemma weigh_keys:
  "weigh D s ws ps = Inr out \<Longrightarrow>
     fst ` set out = fst ` set ws \<union> partNodeId ` {p \<in> set ps. confirmed D s (partProcessId p)} \<and>
     (\<forall>p \<in> set ps. confirmed D s (partProcessId p) \<longrightarrow> node_of D s (partNodeId p) \<noteq> None)"
proof (induction ps arbitrary: ws)
  case (Cons p ps)
  show ?case
  proof (cases "confirmed D s (partProcessId p)")
    case True
    then obtain nd where nd: "node_of D s (partNodeId p) = Some nd"
      "weigh D s (add_weight (partNodeId p) (weight nd) ws) ps = Inr out"
      using Cons.prems by (auto split: option.splits)
    have "fst ` set (add_weight (partNodeId p) (weight nd) ws) = insert (partNodeId p) (fst ` set ws)"
      by (simp add: add_weight_def dom_update flip: dom_map_of_conv_image_fst)
        (auto simp: AList.update_conv' dom_map_of_conv_image_fst)
    with Cons.IH [OF nd(2)] nd(1) True show ?thesis by auto
  next
    case False
    then show ?thesis using Cons.IH [of ws] Cons.prems by auto
  qed
qed simp

lemma weigh_ok:
  "(\<And>p. p \<in> set ps \<Longrightarrow> confirmed D s (partProcessId p) \<Longrightarrow> node_of D s (partNodeId p) \<noteq> None) \<Longrightarrow>
     \<exists>out. weigh D s ws ps = Inr out"
proof (induction ps arbitrary: ws)
  case (Cons p ps)
  then have "\<exists>out. weigh D s w ps = Inr out" for w by simp
  with Cons.prems [of p] show ?case by (auto split: option.splits)
qed simp

text \<open>The weight a node reaches: its current weight, added once for each confirmed participation.\<close>

fun add_times :: "nat \<Rightarrow> number \<Rightarrow> number \<Rightarrow> number" where
  "add_times 0 w x = x"
| "add_times (Suc k) w x = add_times k w (x + w)"

definition confirmed_count :: "database \<Rightarrow> 'z pot_state_scheme \<Rightarrow> Participation list \<Rightarrow> string \<Rightarrow> nat" where
  "confirmed_count D s ps i = length (filter (\<lambda>p. confirmed D s (partProcessId p) \<and> partNodeId p = i) ps)"

lemma add_weight_lookup:
  "map_of (add_weight i w ws) j =
     (if j = i then Some ((case map_of ws i of None \<Rightarrow> 0 | Some x \<Rightarrow> x) + w) else map_of ws j)"
  by (simp add: add_weight_def AList.update_conv')

lemma weigh_value:
  assumes "weigh D s ws ps = Inr out" "node_of D s i = Some nd"
  shows "map_of out i =
    (if confirmed_count D s ps i = 0 then map_of ws i
     else Some (add_times (confirmed_count D s ps i) (weight nd) (case map_of ws i of None \<Rightarrow> 0 | Some x \<Rightarrow> x)))"
  using assms(1)
proof (induction ps arbitrary: ws)
  case (Cons p ps)
  show ?case
  proof (cases "confirmed D s (partProcessId p)")
    case True
    then obtain m where m: "node_of D s (partNodeId p) = Some m"
      "weigh D s (add_weight (partNodeId p) (weight m) ws) ps = Inr out"
      using Cons.prems by (auto split: option.splits)
    show ?thesis using Cons.IH [OF m(2)] m(1) assms(2) True
      by (auto simp: add_weight_lookup confirmed_count_def split: option.splits)
  next
    case False
    then show ?thesis using Cons.IH [of ws] Cons.prems by (simp add: confirmed_count_def)
  qed
qed (simp add: confirmed_count_def)

lemma toResult_finalized:
  "epochNumber ep = n \<Longrightarrow> toResult (finalized_epoch ep ps k) = finalize_result n ps (totalFees ep)"
proof -
  have "foldl (\<lambda>sum e. sum + distAmount e) x (map (\<lambda>(i, a). \<lparr>distNodeId = i, distAmount = a, distReason = r\<rparr>) qs)
      = foldl (+) x (map snd qs)" for x qs r by (induction qs arbitrary: x) auto
  moreover have "filter (\<lambda>e. distReason e \<noteq> ''afc_reserve'') (log_of ps pool) =
      map (\<lambda>(i, a). \<lparr>distNodeId = i, distAmount = a, distReason = ''work_weight''\<rparr>) ps" for pool
    by (induction ps) (auto simp: log_of_def)
  ultimately show "epochNumber ep = n \<Longrightarrow> toResult (finalized_epoch ep ps k) = finalize_result n ps (totalFees ep)"
    by (simp add: toResult_def finalized_epoch_def finalize_result_def balances_def paid_of_def Let_def)
qed

context datastore
begin

lemma commission_lower [simp, frame]:
  "epochTbl (exec (append E D e p) s) = epochTbl s" "participation (exec (append E D e p) s) = participation s"
  "epochTbl (exec (capture E D pid e d v) s) = epochTbl s"
  "participation (exec (capture E D pid e d v) s) = participation s"
  "epochTbl (with_ledger D s) = epochTbl s" "participation (with_ledger D s) = participation s"
  by (simp_all add: append_run capture_run with_ledger_def ensureLedger_def)

lemma commission_verify [simp, frame]:
  "epochTbl (exec (verify E D pid) s) = epochTbl s" "participation (exec (verify E D pid) s) = participation s"
  by (cases "verdict_of D s pid"; simp add: verify_fresh verify_existing)+

lemma commission_record [simp, frame]:
  "epochTbl (exec (recordMint D a) s) = epochTbl s" "epochTbl (exec (recordBurn D a) s) = epochTbl s"
  "epochTbl (exec (recordEarned D a) s) = epochTbl s"
  "participation (exec (recordMint D a) s) = participation s"
  "participation (exec (recordBurn D a) s) = participation s"
  "participation (exec (recordEarned D a) s) = participation s"
  by (simp_all add: coin_defs exec_tryM ledger_run(2) saveLedger_def split: sum.splits)

lemma commission_node [simp, frame]:
  "epochTbl (exec (receivePayment E D i a) s) = epochTbl s"
  "participation (exec (receivePayment E D i a) s) = participation s"
  "epochTbl (exec (register E D i t) s) = epochTbl s"
  "participation (exec (register E D i t) s) = participation s"
  "epochTbl (exec (recordExecution D i b) s) = epochTbl s"
  "participation (exec (recordExecution D i b) s) = participation s"
  by (simp_all add: receivePayment_run register_run recordExecution_run split: option.splits)

lemma payLoop_frame [simp, frame]:
  "captured (exec (payLoop E D ws d W ids paid dl) s) = captured s"
  "verdictTbl (exec (payLoop E D ws d W ids paid dl) s) = verdictTbl s"
  "nodeTbl (exec (payLoop E D ws d W ids paid dl) s) = nodeTbl s"
  "epochTbl (exec (payLoop E D ws d W ids paid dl) s) = epochTbl s"
  "participation (exec (payLoop E D ws d W ids paid dl) s) = participation s"
  "intact E D (exec (payLoop E D ws d W ids paid dl) s) = intact E D s"
  by (induction ids arbitrary: paid dl s; simp add: exec_tryM Let_def split: sum.splits)+

lemma payLoop_run:
  fixes s :: "'z commission_state_scheme" and ws :: "(string \<times> number) list" and d W :: number
  assumes "coin_ok D s" "\<And>i. i \<in> set ids \<Longrightarrow> node_of D s i \<noteq> None"
  defines "amt \<equiv> \<lambda>i. (weight_at ws i * d) / W"
  shows "result (payLoop E D ws d W ids paid dl) s =
      Inr (foldl (+) paid (map amt ids),
           dl @ map (\<lambda>i. \<lparr>distNodeId = i, distAmount = amt i, distReason = ''work_weight''\<rparr>) ids)
    \<and> coin_ok D (exec (payLoop E D ws d W ids paid dl) s)
    \<and> tallies D (exec (payLoop E D ws d W ids paid dl) s) =
        (tallies D s)\<lparr>earnedRetained := foldl (+) (earnedRetained (tallies D s)) (map amt ids)\<rparr>
    \<and> entries D (exec (payLoop E D ws d W ids paid dl) s) =
        entries D s @ map (\<lambda>i. (''node.payment.received'', payment_payload (the (node_of D s i)) (amt i))) ids"
  using assms(1,2)
proof (induction ids arbitrary: s paid dl)
  case (Cons i ids)
  obtain n where n: "node_of D s i = Some n" using Cons.prems(2) by auto
  let ?t = "exec (recordEarned D (amt i)) (exec (receivePayment E D i (amt i)) s)"
  have t: "coin_ok D ?t" "node_of D ?t j = node_of D s j" for j
    using Cons.prems(1) by (simp_all add: record_run node_of_ops)
  have run: "result (payLoop E D ws d W (i # ids) paid dl) s = result (payLoop E D ws d W ids (paid + amt i)
        (dl @ [\<lparr>distNodeId = i, distAmount = amt i, distReason = ''work_weight''\<rparr>])) ?t"
    "exec (payLoop E D ws d W (i # ids) paid dl) s = exec (payLoop E D ws d W ids (paid + amt i)
        (dl @ [\<lparr>distNodeId = i, distAmount = amt i, distReason = ''work_weight''\<rparr>])) ?t"
    using n Cons.prems(1)
    by (simp_all add: tryM_simps receivePayment_run(1) record_run REASON_WORK_def amt_def weight_at_def Let_def)
  have "\<And>j. j \<in> set ids \<Longrightarrow> node_of D ?t j \<noteq> None" using Cons.prems(2) t(2) by simp
  note ih = Cons.IH [OF t(1) this]
  show ?case unfolding run using ih t(2) n Cons.prems(1)
    by (simp add: record_run receivePayment_entries)
qed simp

lemma accrue_run:
  "result (accrue D n f ps) s =
     (case epoch_of D s n of
        Some ep \<Rightarrow> ep\<lparr>totalFees := totalFees ep + f\<rparr>
      | None \<Rightarrow> \<lparr>epochNumber = n, startTime = clockT s + 1, endTime = 0, totalFees = 0 + f, distributionLog = [],
                 epochStatus = Open, operationalMargin = 0\<rparr>)"
  "exec (accrue D n f ps) s =
     (if epoch_of D s n = None then exec now s else s)
       \<lparr>epochTbl := save (epochs D) (result (accrue D n f ps) s) (epochTbl s),
        participation := (participation s)(n \<mapsto> parts_of s n @ ps)\<rparr>"
  by (simp_all add: accrue_def openEpoch_def epoch_of_def parts_of_def Let_def split: option.splits)

lemma accrue_epoch_of:
  "epoch_of D (exec (accrue D n f ps) s) m = (if m = n then Some (result (accrue D n f ps) s) else epoch_of D s m)"
proof -
  have "epochNumber (result (accrue D n f ps) s) = n"
    using epoc.findOne_key by (auto simp: accrue_run(1) epoch_of_def split: option.splits)
  then show ?thesis by (simp add: accrue_run(2)) (simp add: epoch_of_def epoc.findOne_save)
qed

lemma accrue_frame [simp, frame]:
  "captured (exec (accrue D n f ps) s) = captured s" "verdictTbl (exec (accrue D n f ps) s) = verdictTbl s"
  "ledgerTbl (exec (accrue D n f ps) s) = ledgerTbl s" "coinInit (exec (accrue D n f ps) s) = coinInit s"
  "chainTbl (exec (accrue D n f ps) s) = chainTbl s" "nodeTbl (exec (accrue D n f ps) s) = nodeTbl s"
  "commission_state.more (exec (accrue D n f ps) s) = commission_state.more s"
  "parts_of (exec (accrue D n f ps) s) m = (if m = n then parts_of s n @ ps else parts_of s m)"
  by (simp_all add: accrue_run(2)) (simp add: parts_of_def)

lemma finalize_missing:
  "epoch_of D s n = None \<Longrightarrow>
     result (finalizeEpoch E D n) s = Inl (epochNotFound E n) \<and> exec (finalizeEpoch E D n) s = s"
  by (simp add: finalizeEpoch_def tryM_simps requireEpoch_def epoch_of_def)

lemma finalize_closed:
  "epoch_of D s n = Some ep \<Longrightarrow> epochStatus ep \<noteq> Open \<Longrightarrow>
     result (finalizeEpoch E D n) s = Inr (toResult ep) \<and> exec (finalizeEpoch E D n) s = s"
  by (simp add: finalizeEpoch_def tryM_simps requireEpoch_def epoch_of_def)

lemma finalize_unregistered:
  "epoch_of D s n = Some ep \<Longrightarrow> epochStatus ep = Open \<Longrightarrow> weigh D s [] (parts_of s n) = Inl err \<Longrightarrow>
     result (finalizeEpoch E D n) s = Inl err \<and> exec (finalizeEpoch E D n) s = s"
  by (simp add: finalizeEpoch_def tryM_simps requireEpoch_def confirmedWeights_run epoch_of_def)

lemma pay_phase_frame [simp]:
  "captured (exec (pay_phase E D ws pool) s) = captured s"
  "verdictTbl (exec (pay_phase E D ws pool) s) = verdictTbl s"
  "nodeTbl (exec (pay_phase E D ws pool) s) = nodeTbl s"
  "epochTbl (exec (pay_phase E D ws pool) s) = epochTbl s"
  "participation (exec (pay_phase E D ws pool) s) = participation s"
  "intact E D (exec (pay_phase E D ws pool) s) = intact E D s"
  by (simp_all add: pay_phase_def)

lemma pay_phase_run:
  assumes "coin_ok D s" "\<And>i. i \<in> fst ` set ws \<Longrightarrow> node_of D s i \<noteq> None"
  shows "result (pay_phase E D ws pool) s =
      Inr (paid_of (payouts ws pool),
           map (\<lambda>(i, a). \<lparr>distNodeId = i, distAmount = a, distReason = ''work_weight''\<rparr>) (payouts ws pool))
    \<and> coin_ok D (exec (pay_phase E D ws pool) s)
    \<and> tallies D (exec (pay_phase E D ws pool) s) =
        (tallies D s)\<lparr>earnedRetained := foldl (+) (earnedRetained (tallies D s)) (map snd (payouts ws pool))\<rparr>
    \<and> entries D (exec (pay_phase E D ws pool) s) = entries D s @
        map (\<lambda>(i, a). (''node.payment.received'', payment_payload (the (node_of D s i)) a)) (payouts ws pool)"
proof (cases "0 < total_weight ws")
  case True
  have "\<And>i. i \<in> set (sort (map fst ws)) \<Longrightarrow> node_of D s i \<noteq> None" using assms(2) by simp
  note run = payLoop_run [where ws = ws and d = "pool * (1 - marginRate)" and W = "total_weight ws"
      and E = E and paid = 0 and dl = "[]" and ids = "sort (map fst ws)", OF assms(1) this]
  show ?thesis using True run by (simp add: pay_phase_def payouts_def paid_of_def comp_def)
qed (use assms in \<open>simp add: pay_phase_def payouts_def paid_of_def\<close>)

text \<open>An open epoch is finalised: the steps after the payments.\<close>

lemma finalize_open:
  fixes s :: "'z commission_state_scheme" and E :: env
  assumes "epoch_of D s n = Some ep" "epochStatus ep = Open" "coin_ok D s"
    and "weigh D s [] (parts_of s n) = Inr ws"
  defines "ps \<equiv> payouts ws (totalFees ep)" and "pool \<equiv> totalFees ep"
  defines "u \<equiv> exec (append E D ''reserve.afc.accrual'' [(''amount'', JNum (pool - paid_of ps))])
                 (exec (pay_phase E D ws pool) s)"
  shows "result (finalizeEpoch E D n) s = Inr (finalize_result n ps pool)"
    and "exec (finalizeEpoch E D n) s =
      (exec (append E D ''commission.epoch.finalized'' (finalized_payload n ps pool))
        ((exec now u)\<lparr>epochTbl := save (epochs D) (finalized_epoch ep ps (clockT u + 1)) (epochTbl s)\<rparr>))
      \<lparr>participation := (participation s)(n := None)\<rparr>"
proof -
  have reg: "\<And>i. i \<in> fst ` set ws \<Longrightarrow> node_of D s i \<noteq> None"
    using weigh_keys [OF assms(4)] by auto
  have pay: "(if 0 < foldl (+) 0 (map snd ws)
      then payLoop E D ws (totalFees ep * (1 - marginRate)) (foldl (+) 0 (map snd ws)) (sort (map fst ws)) 0 []
      else return (Inr (0, []))) = pay_phase E D ws pool"
    by (simp add: pay_phase_def total_weight_def pool_def)
  note run = conjunct1 [OF pay_phase_run [OF assms(3) reg, where ws = ws and E = E and pool = pool]]
  have out: "run_state (finalizeEpoch E D n) s = (Inr (finalize_result n ps pool),
      (exec (append E D ''commission.epoch.finalized'' (finalized_payload n ps pool))
        ((exec now u)\<lparr>epochTbl := save (epochs D) (finalized_epoch ep ps (clockT u + 1)) (epochTbl s)\<rparr>))
      \<lparr>participation := (participation s)(n := None)\<rparr>)"
    using assms(1,2,4) run
    by (simp add: run_state_eq finalizeEpoch_def tryM_simps requireEpoch_def confirmedWeights_run pay
        addAfcAccrual_run epoch_of_def Let_def ps_def pool_def u_def MARGIN_RECIPIENT_def log_of_def
        finalize_result_def finalized_epoch_def finalized_payload_def balances_def)
  show "result (finalizeEpoch E D n) s = Inr (finalize_result n ps pool)"
    using out by (simp add: result_def)
  show "exec (finalizeEpoch E D n) s =
      (exec (append E D ''commission.epoch.finalized'' (finalized_payload n ps pool))
        ((exec now u)\<lparr>epochTbl := save (epochs D) (finalized_epoch ep ps (clockT u + 1)) (epochTbl s)\<rparr>))
      \<lparr>participation := (participation s)(n := None)\<rparr>"
    using out by (simp add: exec_def)
qed

lemma upd_views [simp]:
  "entries D (s\<lparr>epochTbl := e\<rparr>) = entries D s" "entries D (s\<lparr>participation := q\<rparr>) = entries D s"
  "intact E D (s\<lparr>epochTbl := e\<rparr>) = intact E D s" "intact E D (s\<lparr>participation := q\<rparr>) = intact E D s"
  "tallies D (s\<lparr>epochTbl := e\<rparr>) = tallies D s" "tallies D (s\<lparr>participation := q\<rparr>) = tallies D s"
  "coin_ok D (s\<lparr>epochTbl := e\<rparr>) = coin_ok D s" "coin_ok D (s\<lparr>participation := q\<rparr>) = coin_ok D s"
  "tallies D (s\<lparr>clockT := k\<rparr>) = tallies D s" "coin_ok D (s\<lparr>clockT := k\<rparr>) = coin_ok D s"
  by (simp_all add: entries_def intact_def history_def tallies_def coin_ok_def)

lemma finalize_views:
  fixes s :: "'z commission_state_scheme" and E :: env
  assumes "epoch_of D s n = Some ep" "epochStatus ep = Open" "coin_ok D s"
    and "weigh D s [] (parts_of s n) = Inr ws"
  defines "ps \<equiv> payouts ws (totalFees ep)" and "pool \<equiv> totalFees ep" and "t \<equiv> exec (finalizeEpoch E D n) s"
  shows "coin_ok D t"
    and "tallies D t = (tallies D s)\<lparr>earnedRetained := foldl (+) (earnedRetained (tallies D s)) (map snd ps)\<rparr>"
    and "entries D t = entries D s
      @ map (\<lambda>(i, a). (''node.payment.received'', payment_payload (the (node_of D s i)) a)) ps
      @ [(''reserve.afc.accrual'', [(''amount'', JNum (pool - paid_of ps))]),
         (''commission.epoch.finalized'', finalized_payload n ps pool)]"
    and "intact E D t = intact E D s"
    and "\<exists>k. epoch_of D t n = Some (finalized_epoch ep ps k)" and "m \<noteq> n \<Longrightarrow> epoch_of D t m = epoch_of D s m"
    and "parts_of t m = (if m = n then [] else parts_of s m)"
    and "captured t = captured s" "verdictTbl t = verdictTbl s" "nodeTbl t = nodeTbl s"
proof -
  have reg: "\<And>i. i \<in> fst ` set ws \<Longrightarrow> node_of D s i \<noteq> None"
    using weigh_keys [OF assms(4)] by auto
  note pay = pay_phase_run [OF assms(3) reg, where ws = ws and E = E and pool = pool]
  note run = finalize_open(2) [OF assms(1-4), where E = E, folded ps_def pool_def t_def]
  have key: "epochNumber (finalized_epoch ep ps k) = n" for k
    using epoc.findOne_key assms(1) by (simp add: finalized_epoch_def epoch_of_def)
  show "coin_ok D t" "intact E D t = intact E D s"
    and "tallies D t = (tallies D s)\<lparr>earnedRetained := foldl (+) (earnedRetained (tallies D s)) (map snd ps)\<rparr>"
    and "captured t = captured s" "verdictTbl t = verdictTbl s" "nodeTbl t = nodeTbl s"
    using pay by (simp_all add: run ps_def pool_def)
  show "entries D t = entries D s
      @ map (\<lambda>(i, a). (''node.payment.received'', payment_payload (the (node_of D s i)) a)) ps
      @ [(''reserve.afc.accrual'', [(''amount'', JNum (pool - paid_of ps))]),
         (''commission.epoch.finalized'', finalized_payload n ps pool)]"
    using pay by (simp add: run ps_def pool_def)
  have "epoch_of D t q = (if q = n then Some (finalized_epoch ep ps
      (clockT (exec (append E D ''reserve.afc.accrual'' [(''amount'', JNum (pool - paid_of ps))])
                 (exec (pay_phase E D ws pool) s)) + 1)) else epoch_of D s q)" for q
    by (simp add: run epoch_of_def epoc.findOne_save key)
  then show "\<exists>k. epoch_of D t n = Some (finalized_epoch ep ps k)" "m \<noteq> n \<Longrightarrow> epoch_of D t m = epoch_of D s m"
    by auto
  show "parts_of t m = (if m = n then [] else parts_of s m)" by (simp add: run parts_of_def)
qed

end

end
