(* ===== verification/Release.thy ===== *)
theory Release
  imports Commission
begin

text \<open>
  The maturity gate (\<open>src/release/release.service.ts\<close>). Shown: the phase becomes active exactly
  when both conditions hold, an activation is recorded on the chain once and keeps the metrics
  that justified it, an active phase stays active, and an empty economy has velocity 0.
\<close>

record release_state = commission_state +
  phaseTbl :: "ReleasePhase table"

record MaturityCheck =
  mature :: bool
  matReserveIndex :: number
  matVelocity :: number

record ActivateResult =
  activated :: bool
  actActive :: bool
  actReserveIndex :: number
  actVelocity :: number

definition freshPhase :: ReleasePhase where
  "freshPhase = \<lparr>phaseId = PHASE_ID, active = False, activatedAt = None,
                 reserveIndexAtActivation = None, velocityAtActivation = None\<rparr>"

definition phase :: "database \<Rightarrow> ('z release_state_scheme, ReleasePhase) state" where
  "phase D = do {
     existing \<leftarrow> gets (\<lambda>s. findOne (phases D) PHASE_ID (phaseTbl s));
     case existing of
       Some row \<Rightarrow> return row
     | None \<Rightarrow> do {
         modify (\<lambda>s. s\<lparr>phaseTbl := save (phases D) freshPhase (phaseTbl s)\<rparr>);
         return freshPhase
       }
   }"

definition velocity :: "database \<Rightarrow> number \<Rightarrow> ('z release_state_scheme, error + number) state" where
  "velocity D processVolume24h = tryM (totalSupply D) (\<lambda>circulatingSupply.
     return (Inr (if circulatingSupply \<le> 0 then 0 else processVolume24h / circulatingSupply)))"

definition check ::
  "env \<Rightarrow> database \<Rightarrow> number \<Rightarrow> number \<Rightarrow> number \<Rightarrow> ('z release_state_scheme, error + MaturityCheck) state" where
  "check E D threshold target processVolume24h = do {
     index \<leftarrow> reserveIndex E D;
     tryM (velocity D processVolume24h) (\<lambda>vel.
       return (Inr \<lparr>mature = (threshold < index \<and> target < vel), matReserveIndex = index, matVelocity = vel\<rparr>))
   }"

definition activate ::
  "env \<Rightarrow> database \<Rightarrow> number \<Rightarrow> number \<Rightarrow> number \<Rightarrow> ('z release_state_scheme, error + ActivateResult) state" where
  "activate E D threshold target processVolume24h =
     tryM (check E D threshold target processVolume24h) (\<lambda>m. do {
       row \<leftarrow> phase D;
       if active row then
         return (Inr \<lparr>activated = False, actActive = True, actReserveIndex = matReserveIndex m, actVelocity = matVelocity m\<rparr>)
       else if \<not> mature m then
         return (Inr \<lparr>activated = False, actActive = False, actReserveIndex = matReserveIndex m, actVelocity = matVelocity m\<rparr>)
       else do {
         ts \<leftarrow> now;
         append E D ''release.activated''
           [(''reserveIndex'', JNum (matReserveIndex m)), (''velocity'', JNum (matVelocity m)),
            (''threshold'', JNum threshold), (''target'', JNum target)];
         let row' = row\<lparr>active := True, activatedAt := Some ts,
                        reserveIndexAtActivation := Some (matReserveIndex m),
                        velocityAtActivation := Some (matVelocity m)\<rparr>;
         modify (\<lambda>s. s\<lparr>phaseTbl := save (phases D) row' (phaseTbl s)\<rparr>);
         return (Inr \<lparr>activated = True, actActive = True, actReserveIndex = matReserveIndex m, actVelocity = matVelocity m\<rparr>)
       }
     })"

definition isActive :: "database \<Rightarrow> ('z release_state_scheme, bool) state" where
  "isActive D = do {
     row \<leftarrow> phase D;
     return (active row)
   }"

section \<open>The phase of a state\<close>

definition phase_of :: "database \<Rightarrow> 'z release_state_scheme \<Rightarrow> ReleasePhase" where
  "phase_of D s = (case findOne (phases D) PHASE_ID (phaseTbl s) of None \<Rightarrow> freshPhase | Some r \<Rightarrow> r)"

definition velocity_of :: "number \<Rightarrow> number \<Rightarrow> number" where
  "velocity_of supply vol = (if supply \<le> 0 then 0 else vol / supply)"

definition with_phase :: "database \<Rightarrow> 'z release_state_scheme \<Rightarrow> 'z release_state_scheme" where
  "with_phase D s = exec (phase D) s"

definition activation_payload :: "number \<Rightarrow> number \<Rightarrow> number \<Rightarrow> number \<Rightarrow> object" where
  "activation_payload r v th tg =
     [(''reserveIndex'', JNum r), (''velocity'', JNum v), (''threshold'', JNum th), (''target'', JNum tg)]"

lemma phase_result: "result (phase D) s = phase_of D s"
  by (simp add: phase_def phase_of_def split: option.splits)

lemma with_phase_frame [simp, frame]:
  "clockT (with_phase D s) = clockT s" "chainTbl (with_phase D s) = chainTbl s"
  "captured (with_phase D s) = captured s" "verdictTbl (with_phase D s) = verdictTbl s"
  "ledgerTbl (with_phase D s) = ledgerTbl s" "coinInit (with_phase D s) = coinInit s"
  "nodeTbl (with_phase D s) = nodeTbl s" "epochTbl (with_phase D s) = epochTbl s"
  "participation (with_phase D s) = participation s"
  "release_state.more (with_phase D s) = release_state.more s"
  by (simp_all add: with_phase_def phase_def split: option.splits)

lemma with_phase_views [simp, frame]:
  "history D (with_phase D s) = history D s" "entries D (with_phase D s) = entries D s"
  "intact E D (with_phase D s) = intact E D s" "tallies D (with_phase D s) = tallies D s"
  "coin_ok D (with_phase D s) = coin_ok D s"
  by (simp_all add: history_def entries_def intact_def tallies_def coin_ok_def)

lemma isActive_run: "result (isActive D) s = active (phase_of D s)" "exec (isActive D) s = with_phase D s"
  by (simp_all add: isActive_def phase_result with_phase_def)

context datastore
begin

lemma phase_of_phaseId: "phaseId (phase_of D s) = PHASE_ID"
  using phas.findOne_key by (auto simp: phase_of_def freshPhase_def split: option.splits)

lemma phase_of_with_phase [simp]: "phase_of D (with_phase D s) = phase_of D s"
  using phas.findOne_save [of PHASE_ID freshPhase]
  by (auto simp: with_phase_def phase_def phase_of_def freshPhase_def split: option.splits)

lemma phaseTbl_lower [simp, frame]:
  "phaseTbl (exec (append E D e p) s) = phaseTbl s" "phaseTbl (exec (capture E D pid e d v) s) = phaseTbl s"
  "phaseTbl (with_ledger D s) = phaseTbl s"
  by (simp_all add: append_run capture_run with_ledger_def ensureLedger_def)

lemma phaseTbl_ops [simp, frame]:
  "phaseTbl (exec (verify E D pid) s) = phaseTbl s" "phaseTbl (exec (recordMint D a) s) = phaseTbl s"
  "phaseTbl (exec (recordBurn D a) s) = phaseTbl s" "phaseTbl (exec (recordEarned D a) s) = phaseTbl s"
  "phaseTbl (exec (register E D i t) s) = phaseTbl s" "phaseTbl (exec (recordExecution D i b) s) = phaseTbl s"
  "phaseTbl (exec (receivePayment E D i a) s) = phaseTbl s" "phaseTbl (exec (accrue D n f ps) s) = phaseTbl s"
  by (cases "verdict_of D s pid"; simp add: verify_fresh verify_existing)
    (simp_all add: coin_defs exec_tryM ledger_run(2) saveLedger_def register_run recordExecution_run
      receivePayment_run accrue_run(2) split: sum.splits option.splits)

lemma payLoop_phaseTbl [simp, frame]: "phaseTbl (exec (payLoop E D ws d W ids paid dl) s) = phaseTbl s"
  by (induction ids arbitrary: paid dl s) (simp_all add: exec_tryM Let_def split: sum.splits)

lemma check_run:
  fixes E :: env and s :: "'z release_state_scheme" and vol :: number
  assumes "coin_ok D s"
  defines "index \<equiv> log10 E (1 + volume (entries D s))"
    and "vel \<equiv> velocity_of (supply_of (tallies D s)) vol"
  shows "result (check E D th tg vol) s =
      Inr \<lparr>mature = (th < index \<and> tg < vel), matReserveIndex = index, matVelocity = vel\<rparr>"
    "exec (check E D th tg vol) s = with_ledger D s"
  using assms(1)
  by (simp_all add: check_def velocity_def tryM_simps read_run index_def vel_def velocity_of_def)

lemma activate_run:
  fixes E :: env and s :: "'z release_state_scheme" and th tg vol :: number
  assumes "coin_ok D s"
  defines "index \<equiv> log10 E (1 + volume (entries D s))"
    and "vel \<equiv> velocity_of (supply_of (tallies D s)) vol"
  defines "go \<equiv> \<not> active (phase_of D s) \<and> th < index \<and> tg < vel"
  defines "u \<equiv> with_phase D (with_ledger D s)"
  shows "result (activate E D th tg vol) s =
      Inr \<lparr>activated = go, actActive = (active (phase_of D s) \<or> go), actReserveIndex = index, actVelocity = vel\<rparr>"
    and "exec (activate E D th tg vol) s =
      (if go then (exec (append E D ''release.activated'' (activation_payload index vel th tg)) (exec now u))
          \<lparr>phaseTbl := save (phases D) ((phase_of D s)\<lparr>active := True, activatedAt := Some (clockT s + 1),
             reserveIndexAtActivation := Some index, velocityAtActivation := Some vel\<rparr>) (phaseTbl u)\<rparr>
       else u)"
proof -
  have "phase_of D (with_ledger D s) = phase_of D s" by (simp add: phase_of_def)
  then show "result (activate E D th tg vol) s =
      Inr \<lparr>activated = go, actActive = (active (phase_of D s) \<or> go), actReserveIndex = index, actVelocity = vel\<rparr>"
    and "exec (activate E D th tg vol) s =
      (if go then (exec (append E D ''release.activated'' (activation_payload index vel th tg)) (exec now u))
          \<lparr>phaseTbl := save (phases D) ((phase_of D s)\<lparr>active := True, activatedAt := Some (clockT s + 1),
             reserveIndexAtActivation := Some index, velocityAtActivation := Some vel\<rparr>) (phaseTbl u)\<rparr>
       else u)"
    using assms(1)
    by (auto simp: activate_def tryM_simps check_run phase_result with_phase_def [symmetric] u_def go_def
        index_def vel_def activation_payload_def Let_def)
qed

lemma phase_of_ledger [simp]: "phase_of D (with_ledger D s) = phase_of D s"
  by (simp add: phase_of_def)

lemma activate_phase_of:
  fixes E :: env and s :: "'z release_state_scheme" and th tg vol :: number
  assumes "coin_ok D s"
  defines "index \<equiv> log10 E (1 + volume (entries D s))"
    and "vel \<equiv> velocity_of (supply_of (tallies D s)) vol"
  defines "go \<equiv> \<not> active (phase_of D s) \<and> th < index \<and> tg < vel"
  shows "phase_of D (exec (activate E D th tg vol) s) =
      (if go then (phase_of D s)\<lparr>active := True, activatedAt := Some (clockT s + 1),
             reserveIndexAtActivation := Some index, velocityAtActivation := Some vel\<rparr> else phase_of D s)"
    and "entries D (exec (activate E D th tg vol) s) = entries D s @
      (if go then [(''release.activated'', activation_payload index vel th tg)] else [])"
proof -
  have upd: "phase_of D (t\<lparr>phaseTbl := save (phases D) r (phaseTbl q)\<rparr>) = r"
    if "phaseId r = PHASE_ID" for t q :: "'z release_state_scheme" and r
    using that by (simp add: phase_of_def phas.findOne_save)
  have view: "entries D (t\<lparr>phaseTbl := x\<rparr>) = entries D t" for t :: "'z release_state_scheme" and x
    by (simp add: entries_def history_def)
  show "phase_of D (exec (activate E D th tg vol) s) =
      (if go then (phase_of D s)\<lparr>active := True, activatedAt := Some (clockT s + 1),
             reserveIndexAtActivation := Some index, velocityAtActivation := Some vel\<rparr> else phase_of D s)"
    and "entries D (exec (activate E D th tg vol) s) = entries D s @
      (if go then [(''release.activated'', activation_payload index vel th tg)] else [])"
    unfolding activate_run [OF assms(1)] go_def index_def vel_def
    by (simp_all add: upd view phase_of_phaseId)
qed

end

section \<open>Properties\<close>

text \<open>C30: broader circulation is activated when and only when the phase is inactive and both maturity
  conditions hold, reserve index above the threshold and velocity above the target. The activation
  is one chain entry carrying the metrics that justified it, the phase keeps the same metrics, and
  in every other case the phase and the recorded history stay as they were.\<close>

theorem release_iff_mature:
  fixes s :: "'z release_state_scheme"
  assumes "datastore D" "coin_ok D s"
  shows "\<exists>out index vel. result (activate E D th tg vol) s = Inr out
    \<and> index = log10 E (1 + volume (entries D s))
    \<and> vel = (if supply_of (tallies D s) \<le> 0 then 0 else vol / supply_of (tallies D s))
    \<and> (activated out \<longleftrightarrow> \<not> active (phase_of D s) \<and> th < index \<and> tg < vel)
    \<and> (if activated out
       then entries D (exec (activate E D th tg vol) s) =
              entries D s @ [(''release.activated'', activation_payload index vel th tg)]
          \<and> phase_of D (exec (activate E D th tg vol) s) =
              (phase_of D s)\<lparr>active := True, activatedAt := Some (clockT s + 1),
                reserveIndexAtActivation := Some index, velocityAtActivation := Some vel\<rparr>
       else entries D (exec (activate E D th tg vol) s) = entries D s
          \<and> phase_of D (exec (activate E D th tg vol) s) = phase_of D s)"
  unfolding datastore.activate_run(1) [OF assms] datastore.activate_phase_of [OF assms]
  by (auto simp: velocity_of_def)

text \<open>An economy that has minted and retained one unit; it matures at thresholds of zero.\<close>

definition mature_example :: release_state where
  "mature_example =
     \<lparr>clockT = clock_start, chainTbl = [next_snapshot plain_env ''emission.minted'' (minted_payload ''p1'' 1) 0 []],
      captured = Map.empty, verdictTbl = [],
      ledgerTbl = [\<lparr>ledgerId = LEDGER_ID, processMinted = 1, processBurned = 1, earnedRetained = 1\<rparr>],
      coinInit = True, nodeTbl = [], epochTbl = [], participation = Map.empty, phaseTbl = []\<rparr>"

lemma mature_example_views:
  "coin_ok mem_db mature_example" "active (phase_of mem_db mature_example) = False"
  "supply_of (tallies mem_db mature_example) = 1" "volume (entries mem_db mature_example) = 1"
proof -
  show "coin_ok mem_db mature_example" "active (phase_of mem_db mature_example) = False"
    by (simp_all add: coin_ok_def phase_of_def mature_example_def mem_db_def mem_repo_def mem_findOne_def freshPhase_def)
  show "supply_of (tallies mem_db mature_example) = 1"
    by (simp add: tallies_def mature_example_def mem_db_def mem_repo_def mem_findOne_def supply_of_def
        minus_self zero_plus_double)
  have "entries mem_db mature_example = [(''emission.minted'', minted_payload ''p1'' 1)]"
    by (simp add: entries_def history_def mature_example_def mem_db_def mem_repo_def mem_rows_def mem_findOne_def)
  then show "volume (entries mem_db mature_example) = 1"
    by (simp add: volume_def contribution_def CONFIRMED_VOLUME_EVENT_def minted_payload_def number_or_0_def
        zero_plus_double)
qed

theorem release_iff_mature_witness:
  "\<exists>out. result (activate plain_env mem_db 0 0 1) mature_example = Inr out \<and> activated out
     \<and> active (phase_of mem_db (exec (activate plain_env mem_db 0 0 1) mature_example))"
proof -
  have "0 < log10 plain_env (1 + 1)" "(0::number) < 1 / 1" "\<not> (1::number) \<le> 0"
    by (simp_all add: plain_env_def one_number_def zero_number_def minus_number_def)
  with release_iff_mature [OF mem.datastore_axioms mature_example_views(1), of plain_env 0 0 1]
  show ?thesis by (auto simp: mature_example_views)
qed

end
