(* ===== verification/AllSeeingEye.thy ===== *)
theory AllSeeingEye
  imports Release
begin

text \<open>
  The passive observer (\<open>src/all-seeing-eye/all-seeing-eye.service.ts\<close>) and its Oversight
  Ledger, the second hash-linked log of the system. The state of the whole system is completed
  here with the ledger's table. Shown: every operation of the observer leaves everything but its
  own ledger and the clock as it was, an observation extends an intact ledger by one linked entry,
  an anomaly is logged exactly when the comparison fails, and what the ledger's self-audit detects.
\<close>

record sys = release_state +
  logTbl :: "OversightLogEntry table"

record SupplyVerdict =
  consistent :: bool

definition eyeLog ::
  "env \<Rightarrow> database \<Rightarrow> string \<Rightarrow> string \<Rightarrow> string \<Rightarrow> ('z sys_scheme, OversightLogEntry) state" where
  "eyeLog E D evType lay descr = do {
     head \<leftarrow> gets (\<lambda>s. findDesc1 (oversight D) (logTbl s));
     let prev = (case head of Some h \<Rightarrow> logHash h | None \<Rightarrow> ''GENESIS'');
     ts \<leftarrow> now;
     let digest = sha256 E (evType @ lay @ descr @ prev @ intStr E ts);
     newId \<leftarrow> gets (\<lambda>s. generatedId D (logTbl s));
     let entry = \<lparr>logId = newId, logEventType = evType, layer = lay, description = descr,
                  logHash = digest, logPrevHash = prev, logTimestamp = ts, signature = []\<rparr>;
     modify (\<lambda>s. s\<lparr>logTbl := save (oversight D) entry (logTbl s)\<rparr>);
     return entry
   }"

definition compareSupply :: "env \<Rightarrow> database \<Rightarrow> SupplyView \<Rightarrow> ('z sys_scheme, SupplyVerdict) state" where
  "compareSupply E D observed = do {
     let same = strict_eq (viewTotalSupply observed) (viewRetained observed);
     if \<not> same then do {
       eyeLog E D ''anomaly_detected'' ''token_management''
         (''supply drift: totalSupply='' @ numStr E (viewTotalSupply observed) @
          '' retained='' @ numStr E (viewRetained observed));
       return \<lparr>consistent = same\<rparr>
     } else return \<lparr>consistent = same\<rparr>
   }"

definition verifyChain :: "env \<Rightarrow> database \<Rightarrow> ('z sys_scheme, ChainCheck) state" where
  "verifyChain E D = do {
     outcome \<leftarrow> reconstruct E D;
     if \<not> ok outcome then do {
       eyeLog E D ''anomaly_detected'' ''ledger_anchoring''
         (''nodechain integrity break at sequenceId='' @
          (case brokenAt outcome of Some k \<Rightarrow> intStr E k | None \<Rightarrow> ''undefined''));
       return outcome
     } else return outcome
   }"

fun auditLoop :: "env \<Rightarrow> string \<Rightarrow> OversightLogEntry list \<Rightarrow> int option" where
  "auditLoop E expectedPrevHash [] = None"
| "auditLoop E expectedPrevHash (entry # rows) =
     (let expectedHash = sha256 E (logEventType entry @ layer entry @ description entry @ expectedPrevHash @
            intStr E (logTimestamp entry))
      in if logPrevHash entry \<noteq> expectedPrevHash \<or> logHash entry \<noteq> expectedHash
         then Some (logId entry)
         else auditLoop E (logHash entry) rows)"

definition getLog :: "database \<Rightarrow> ('z sys_scheme, OversightLogEntry list) state" where
  "getLog D = gets (\<lambda>s. findAsc (oversight D) (logTbl s))"

definition verifyLog :: "env \<Rightarrow> database \<Rightarrow> ('z sys_scheme, ChainCheck) state" where
  "verifyLog E D = do {
     rows \<leftarrow> getLog D;
     let broken = auditLoop E ''GENESIS'' rows;
     return \<lparr>ok = (broken = None), brokenAt = broken\<rparr>
   }"

section \<open>The ledger of a state\<close>

definition ledger_log :: "database \<Rightarrow> 'z sys_scheme \<Rightarrow> OversightLogEntry list" where
  "ledger_log D s = findAsc (oversight D) (logTbl s)"

definition log_text :: "env \<Rightarrow> OversightLogEntry \<Rightarrow> string \<Rightarrow> string" where
  "log_text E r p = logEventType r @ layer r @ description r @ p @ intStr E (logTimestamp r)"

definition log_body :: "OversightLogEntry \<Rightarrow> string" where
  "log_body r = logEventType r @ layer r @ description r"

interpretation ol: hash_chain "sha256 E" "log_text E" logPrevHash logHash logId logTimestamp
  log_body "auditLoop E" for E
proof
  fix x y :: OversightLogEntry and p q :: string
  assume "logTimestamp x = logTimestamp y" "length p = length q" "log_text E x p = log_text E y q"
  then have "log_body x @ p = log_body y @ q" by (simp add: log_text_def log_body_def)
  with \<open>length p = length q\<close> show "p = q \<and> log_body x = log_body y" by simp
qed (simp_all add: log_text_def Let_def)

text \<open>The observer's own part of the state put back: what is left is what it must not touch.\<close>

definition untouched :: "'z sys_scheme \<Rightarrow> 'z sys_scheme \<Rightarrow> bool" where
  "untouched s t \<longleftrightarrow> t\<lparr>clockT := clockT s, logTbl := logTbl s\<rparr> = s"

lemma untouched_refl [simp]: "untouched s s"
  by (simp add: untouched_def)

lemma eyeLog_untouched: "untouched s (exec (eyeLog E D e l d) s)"
  by (simp add: eyeLog_def untouched_def Let_def)

lemma untouched_sel:
  assumes "untouched s t"
  shows "chainTbl t = chainTbl s" "captured t = captured s" "verdictTbl t = verdictTbl s"
    "ledgerTbl t = ledgerTbl s" "coinInit t = coinInit s" "nodeTbl t = nodeTbl s" "epochTbl t = epochTbl s"
    "participation t = participation s" "phaseTbl t = phaseTbl s"
proof -
  define u where "u = t\<lparr>clockT := clockT s, logTbl := logTbl s\<rparr>"
  then have s: "s = u" using assms by (simp add: untouched_def)
  show "chainTbl t = chainTbl s" "captured t = captured s" "verdictTbl t = verdictTbl s"
    "ledgerTbl t = ledgerTbl s" "coinInit t = coinInit s" "nodeTbl t = nodeTbl s" "epochTbl t = epochTbl s"
    "participation t = participation s" "phaseTbl t = phaseTbl s"
    unfolding s by (simp_all add: u_def)
qed

lemma compareSupply_untouched: "untouched s (exec (compareSupply E D v) s)"
  by (simp add: compareSupply_def eyeLog_untouched Let_def)

lemma verifyChain_untouched: "untouched s (exec (verifyChain E D) s)"
  by (simp add: verifyChain_def eyeLog_untouched)

lemma eye_frame [simp, frame]:
  "chainTbl (exec (eyeLog E D e l d) s) = chainTbl s" "captured (exec (eyeLog E D e l d) s) = captured s"
  "verdictTbl (exec (eyeLog E D e l d) s) = verdictTbl s" "ledgerTbl (exec (eyeLog E D e l d) s) = ledgerTbl s"
  "coinInit (exec (eyeLog E D e l d) s) = coinInit s" "nodeTbl (exec (eyeLog E D e l d) s) = nodeTbl s"
  "epochTbl (exec (eyeLog E D e l d) s) = epochTbl s"
  "participation (exec (eyeLog E D e l d) s) = participation s"
  "phaseTbl (exec (eyeLog E D e l d) s) = phaseTbl s"
  by (simp_all add: untouched_sel [OF eyeLog_untouched])

lemma compare_frame [simp, frame]:
  "chainTbl (exec (compareSupply E D v) s) = chainTbl s" "captured (exec (compareSupply E D v) s) = captured s"
  "verdictTbl (exec (compareSupply E D v) s) = verdictTbl s"
  "ledgerTbl (exec (compareSupply E D v) s) = ledgerTbl s"
  "coinInit (exec (compareSupply E D v) s) = coinInit s" "nodeTbl (exec (compareSupply E D v) s) = nodeTbl s"
  "epochTbl (exec (compareSupply E D v) s) = epochTbl s"
  "participation (exec (compareSupply E D v) s) = participation s"
  "phaseTbl (exec (compareSupply E D v) s) = phaseTbl s"
  by (simp_all add: untouched_sel [OF compareSupply_untouched])

lemma eye_views [simp, frame]:
  "history D (exec (eyeLog E D e l d) s) = history D s"
  "entries D (exec (eyeLog E D e l d) s) = entries D s"
  "intact E' D (exec (eyeLog E D e l d) s) = intact E' D s"
  "tallies D (exec (eyeLog E D e l d) s) = tallies D s"
  "coin_ok D (exec (eyeLog E D e l d) s) = coin_ok D s"
  "phase_of D (exec (eyeLog E D e l d) s) = phase_of D s"
  "captured_of (exec (eyeLog E D e l d) s) p = captured_of s p"
  "verdict_of D (exec (eyeLog E D e l d) s) p = verdict_of D s p"
  "confirmed D (exec (eyeLog E D e l d) s) p = confirmed D s p"
  "node_of D (exec (eyeLog E D e l d) s) i = node_of D s i"
  "epoch_of D (exec (eyeLog E D e l d) s) n = epoch_of D s n"
  "parts_of (exec (eyeLog E D e l d) s) n = parts_of s n"
  by (simp_all add: history_def entries_def intact_def tallies_def coin_ok_def phase_of_def captured_of_def verdict_of_def
      confirmed_def node_of_def epoch_of_def parts_of_def)

lemma compare_views [simp, frame]:
  "history D (exec (compareSupply E D v) s) = history D s"
  "entries D (exec (compareSupply E D v) s) = entries D s"
  "intact E' D (exec (compareSupply E D v) s) = intact E' D s"
  "tallies D (exec (compareSupply E D v) s) = tallies D s"
  "coin_ok D (exec (compareSupply E D v) s) = coin_ok D s"
  "phase_of D (exec (compareSupply E D v) s) = phase_of D s"
  "captured_of (exec (compareSupply E D v) s) p = captured_of s p"
  "verdict_of D (exec (compareSupply E D v) s) p = verdict_of D s p"
  "confirmed D (exec (compareSupply E D v) s) p = confirmed D s p"
  "node_of D (exec (compareSupply E D v) s) i = node_of D s i"
  "epoch_of D (exec (compareSupply E D v) s) n = epoch_of D s n"
  "parts_of (exec (compareSupply E D v) s) n = parts_of s n"
  by (simp_all add: history_def entries_def intact_def tallies_def coin_ok_def phase_of_def captured_of_def verdict_of_def
      confirmed_def node_of_def epoch_of_def parts_of_def)

text \<open>The entry an observation adds.\<close>

definition next_entry ::
  "env \<Rightarrow> int \<Rightarrow> string \<Rightarrow> string \<Rightarrow> string \<Rightarrow> int \<Rightarrow> OversightLogEntry list \<Rightarrow> OversightLogEntry" where
  "next_entry E k e l d ts ls =
     (let prev = head_hash logHash ''GENESIS'' ls
      in \<lparr>logId = k, logEventType = e, layer = l, description = d,
          logHash = sha256 E (e @ l @ d @ prev @ intStr E ts), logPrevHash = prev, logTimestamp = ts,
          signature = []\<rparr>)"

lemma audit_next:
  "auditLoop E ''GENESIS'' (ls @ [next_entry E k e l d ts ls]) = None \<longleftrightarrow> auditLoop E ''GENESIS'' ls = None"
  by (auto simp: ol.check_snoc next_entry_def log_text_def Let_def)

context datastore
begin

lemma eyeLog_run:
  "result (eyeLog E D e l d) s = next_entry E (generatedId D (logTbl s)) e l d (clockT s + 1) (ledger_log D s)"
  "ledger_log D (exec (eyeLog E D e l d) s) =
     ledger_log D s @ [next_entry E (generatedId D (logTbl s)) e l d (clockT s + 1) (ledger_log D s)]"
proof -
  show res: "result (eyeLog E D e l d) s =
      next_entry E (generatedId D (logTbl s)) e l d (clockT s + 1) (ledger_log D s)"
    by (simp add: eyeLog_def next_entry_def ledger_log_def over.findDesc1_last head_hash_def Let_def)
  have "logTbl (exec (eyeLog E D e l d) s) =
      save (oversight D) (next_entry E (generatedId D (logTbl s)) e l d (clockT s + 1) (ledger_log D s)) (logTbl s)"
    by (simp add: eyeLog_def next_entry_def ledger_log_def over.findDesc1_last head_hash_def Let_def)
  then show "ledger_log D (exec (eyeLog E D e l d) s) =
     ledger_log D s @ [next_entry E (generatedId D (logTbl s)) e l d (clockT s + 1) (ledger_log D s)]"
    using generatedId_above by (simp add: ledger_log_def over.findAsc_save_last next_entry_def Let_def)
qed

lemma accrue_views [simp, frame]:
  "history D (exec (accrue D n' f ps) s) = history D s"
  "entries D (exec (accrue D n' f ps) s) = entries D s"
  "intact E' D (exec (accrue D n' f ps) s) = intact E' D s"
  "tallies D (exec (accrue D n' f ps) s) = tallies D s"
  "coin_ok D (exec (accrue D n' f ps) s) = coin_ok D s"
  "phase_of D (exec (accrue D n' f ps) s) = phase_of D s"
  "captured_of (exec (accrue D n' f ps) s) p = captured_of s p"
  "verdict_of D (exec (accrue D n' f ps) s) p = verdict_of D s p"
  "confirmed D (exec (accrue D n' f ps) s) p = confirmed D s p"
  "node_of D (exec (accrue D n' f ps) s) i = node_of D s i"
  by (simp_all add: history_def entries_def intact_def tallies_def coin_ok_def phase_of_def captured_of_def verdict_of_def
      confirmed_def node_of_def epoch_of_def parts_of_def)

lemma work_views [simp, frame]:
  "phase_of D (exec (recordExecution D i' b) s) = phase_of D s"
  "confirmed D (exec (recordExecution D i' b) s) p = confirmed D s p"
  "epoch_of D (exec (recordExecution D i' b) s) n = epoch_of D s n"
  "parts_of (exec (recordExecution D i' b) s) n = parts_of s n"
  by (simp_all add: history_def entries_def intact_def tallies_def coin_ok_def phase_of_def captured_of_def verdict_of_def
      confirmed_def node_of_def epoch_of_def parts_of_def)

lemma register_views [simp, frame]:
  "phase_of D (exec (register E D i' t) s) = phase_of D s"
  "confirmed D (exec (register E D i' t) s) p = confirmed D s p"
  "epoch_of D (exec (register E D i' t) s) n = epoch_of D s n"
  "parts_of (exec (register E D i' t) s) n = parts_of s n"
  by (simp_all add: history_def entries_def intact_def tallies_def coin_ok_def phase_of_def captured_of_def verdict_of_def
      confirmed_def node_of_def epoch_of_def parts_of_def)

lemma capture_views [simp, frame]:
  "phase_of D (exec (capture E D pid e d v) s) = phase_of D s"
  "confirmed D (exec (capture E D pid e d v) s) p = confirmed D s p"
  "epoch_of D (exec (capture E D pid e d v) s) n = epoch_of D s n"
  "parts_of (exec (capture E D pid e d v) s) n = parts_of s n"
  by (simp_all add: history_def entries_def intact_def tallies_def coin_ok_def phase_of_def captured_of_def verdict_of_def
      confirmed_def node_of_def epoch_of_def parts_of_def)

lemma append_views [simp, frame]:
  "phase_of D (exec (append E D e d) s) = phase_of D s"
  "epoch_of D (exec (append E D e d) s) n = epoch_of D s n"
  "parts_of (exec (append E D e d) s) n = parts_of s n"
  "captured_of (exec (append E D e d) s) p = captured_of s p"
  by (simp_all add: history_def entries_def intact_def tallies_def coin_ok_def phase_of_def captured_of_def verdict_of_def
      confirmed_def node_of_def epoch_of_def parts_of_def)

lemma verify_views [simp, frame]:
  "phase_of D (exec (verify E D pid) s) = phase_of D s"
  "epoch_of D (exec (verify E D pid) s) n = epoch_of D s n"
  "parts_of (exec (verify E D pid) s) n = parts_of s n"
  by (simp_all add: history_def entries_def intact_def tallies_def coin_ok_def phase_of_def captured_of_def verdict_of_def
      confirmed_def node_of_def epoch_of_def parts_of_def)

lemma ledger_views [simp, frame]:
  "confirmed D (with_ledger D s) p = confirmed D s p"
  "epoch_of D (with_ledger D s) n = epoch_of D s n"
  "parts_of (with_ledger D s) n = parts_of s n"
  by (simp_all add: history_def entries_def intact_def tallies_def coin_ok_def phase_of_def captured_of_def verdict_of_def
      confirmed_def node_of_def epoch_of_def parts_of_def)

lemma mint_views [simp, frame]:
  "phase_of D (exec (recordMint D a) s) = phase_of D s"
  "epoch_of D (exec (recordMint D a) s) n = epoch_of D s n"
  "parts_of (exec (recordMint D a) s) n = parts_of s n"
  "phase_of D (exec (recordBurn D a) s) = phase_of D s"
  "epoch_of D (exec (recordBurn D a) s) n = epoch_of D s n"
  "parts_of (exec (recordBurn D a) s) n = parts_of s n"
  "phase_of D (exec (recordEarned D a) s) = phase_of D s"
  "epoch_of D (exec (recordEarned D a) s) n = epoch_of D s n"
  "parts_of (exec (recordEarned D a) s) n = parts_of s n"
  by (simp_all add: history_def entries_def intact_def tallies_def coin_ok_def phase_of_def captured_of_def verdict_of_def
      confirmed_def node_of_def epoch_of_def parts_of_def)

end

section \<open>Properties\<close>

text \<open>The observer is passive. Whatever it observes, and whether or not it finds an anomaly, putting
  its own ledger and the clock back gives the state it started from: no chain entry, verdict,
  tally, node, epoch or phase is touched. Its two read operations change nothing at all.\<close>

lemma observer_is_passive:
  "(exec (eyeLog E D e l d) s)\<lparr>clockT := clockT s, logTbl := logTbl s\<rparr> = s
   \<and> (exec (compareSupply E D v) s)\<lparr>clockT := clockT s, logTbl := logTbl s\<rparr> = s
   \<and> (exec (verifyChain E D) s)\<lparr>clockT := clockT s, logTbl := logTbl s\<rparr> = s
   \<and> exec (verifyLog E D) s = s \<and> exec (getLog D) s = s"
  using eyeLog_untouched [of s E D e l d] compareSupply_untouched [of s E D v] verifyChain_untouched [of s E D]
  by (simp add: untouched_def verifyLog_def getLog_def Let_def)

text \<open>An anomaly is logged exactly when there is one. A supply comparison adds one
  \<open>anomaly_detected\<close> entry to the Oversight Ledger when the two figures differ (or either is
  not a number) and nothing when they are equal; a chain verification adds one exactly when the
  replay of NodeChain finds a break, and returns the outcome of the replay.\<close>

theorem anomaly_logged_iff:
  fixes s :: "'z sys_scheme"
  assumes "datastore D"
  shows "consistent (result (compareSupply E D v) s) = strict_eq (viewTotalSupply v) (viewRetained v)
    \<and> map logEventType (ledger_log D (exec (compareSupply E D v) s)) = map logEventType (ledger_log D s) @
        (if strict_eq (viewTotalSupply v) (viewRetained v) then [] else [''anomaly_detected''])
    \<and> ok (result (verifyChain E D) s) = (replay E [] (history D s) = None)
    \<and> brokenAt (result (verifyChain E D) s) = replay E [] (history D s)
    \<and> map logEventType (ledger_log D (exec (verifyChain E D) s)) = map logEventType (ledger_log D s) @
        (if replay E [] (history D s) = None then [] else [''anomaly_detected''])"
  by (simp add: compareSupply_def verifyChain_def datastore.eyeLog_run [OF assms] next_entry_def Let_def)

definition eye_start :: sys where
  "eye_start = \<lparr>clockT = clock_start, chainTbl = [], captured = Map.empty, verdictTbl = [], ledgerTbl = [],
     coinInit = False, nodeTbl = [], epochTbl = [], participation = Map.empty, phaseTbl = [], logTbl = []\<rparr>"

theorem anomaly_logged_iff_witness:
  "map logEventType (ledger_log mem_db (exec (compareSupply plain_env mem_db
     \<lparr>viewTotalSupply = 1, viewRetained = 0\<rparr>) eye_start)) = [''anomaly_detected'']"
  using anomaly_logged_iff [OF mem.datastore_axioms, where s = eye_start and E = plain_env
      and v = "\<lparr>viewTotalSupply = 1, viewRetained = 0\<rparr>"]
  by (simp add: eye_start_def ledger_log_def mem.over.findAsc_empty strict_eq_def one_number_def zero_number_def)

text \<open>C34: the self-audit of the Oversight Ledger detects any change to the text of an entry that has a
  successor, whatever the changed entry's link and digest, as long as its timestamp is kept and the
  two texts digested for it do not clash under SHA-256.\<close>

theorem oversight_tampering_detected:
  assumes "auditLoop E ''GENESIS'' (xs @ r # y # ys) = None" "logTimestamp r' = logTimestamp r"
    and "logEventType r' @ layer r' @ description r' \<noteq> logEventType r @ layer r @ description r"
  shows "auditLoop E ''GENESIS'' (xs @ r' # y # ys) \<noteq> None \<or>
    clash (sha256 E) [log_text E r' (head_hash logHash ''GENESIS'' xs)] [log_text E r (head_hash logHash ''GENESIS'' xs)]"
  using ol.tamper_detected [OF assms(1,2)] assms(3) by (simp add: log_body_def)

definition two_entries :: "OversightLogEntry list" where
  "two_entries = (let a = next_entry plain_env 1 ''mint'' ''token'' ''x'' 1 []
                  in [a, next_entry plain_env 2 ''burn'' ''token'' ''y'' 2 [a]])"

theorem oversight_tampering_detected_witness:
  "auditLoop plain_env ''GENESIS'' [(two_entries ! 0)\<lparr>description := ''z''\<rparr>, two_entries ! 1] \<noteq> None"
proof -
  have "auditLoop plain_env ''GENESIS'' ([] @ two_entries ! 0 # two_entries ! 1 # []) = None"
    by (simp add: two_entries_def next_entry_def Let_def)
  moreover have "logEventType ((two_entries ! 0)\<lparr>description := ''z''\<rparr>) @ layer ((two_entries ! 0)\<lparr>description := ''z''\<rparr>)
      @ description ((two_entries ! 0)\<lparr>description := ''z''\<rparr>)
      \<noteq> logEventType (two_entries ! 0) @ layer (two_entries ! 0) @ description (two_entries ! 0)"
    by (simp add: two_entries_def next_entry_def Let_def)
  moreover have "\<not> clash (sha256 plain_env) ts us" for ts us by (simp add: clash_def plain_env_def)
  ultimately show ?thesis
    using oversight_tampering_detected [of plain_env "[]" "two_entries ! 0" "two_entries ! 1" "[]"
        "(two_entries ! 0)\<lparr>description := ''z''\<rparr>"] by simp
qed

end
