(* ===== verification/Orchestrator.thy ===== *)
theory Orchestrator
  imports AllSeeingEye
begin

text \<open>
  The process lifecycle (\<open>src/orchestrator/orchestrator.service.ts\<close>) over the whole state.
  \<open>runProcess\<close> is the method of that name, with its two endings after the verdict, the
  rejection and the settlement, as definitions of their own. Shown: what an inadmissible, an
  unverified and a verified run record and change, field by field.
\<close>

record RunProcessDto =
  dtoProcessId :: string
  dtoAmount :: number
  dtoType :: string
  dtoAdmissible :: bool
  dtoNodeIds :: "string list option"
  dtoEpoch :: "int option"

record RunProcessResult =
  runProcessId :: string
  runVerified :: int
  runReason :: "string option"
  runMinted :: number
  runFee :: number
  runSupplyAfter :: number
  runReserveIndex :: number
  runAssignedNodes :: "string list"
  runEvents :: "string list"

record MetricsSnapshot =
  metTotalSupply :: number
  metEarnedRetained :: number
  metReserveIndex :: number
  metVerifiedProcessCount :: nat
  metCurrentEpoch :: int
  metEpochPool :: number
  metNodeChainLength :: nat
  metReleaseActive :: bool

record ProcessEvent =
  pevEventType :: string
  pevSequenceId :: int
  pevTimestamp :: int

record ProcessView =
  pvProcessId :: string
  pvVerdict :: "(int \<times> string list) option"
  pvEvents :: "ProcessEvent list"

definition DEFAULT_NODES :: "(string \<times> string) list" where
  "DEFAULT_NODES = [(''node-1'', ''validator''), (''node-2'', ''router''), (''node-3'', ''recorder'')]"

definition DEFAULT_EPOCH :: int where
  "DEFAULT_EPOCH = 1"

definition RELEASE_THRESHOLD :: number where
  "RELEASE_THRESHOLD = lit (1 / 2)"

definition RELEASE_VELOCITY_TARGET :: number where
  "RELEASE_VELOCITY_TARGET = lit (1 / 10)"

definition releaseThresholds :: "number \<times> number" where
  "releaseThresholds = (RELEASE_THRESHOLD, RELEASE_VELOCITY_TARGET)"

fun registerAll :: "env \<Rightarrow> database \<Rightarrow> (string \<times> string) list \<Rightarrow> ('z node_state_scheme, unit) state" where
  "registerAll E D [] = return ()"
| "registerAll E D ((i, t) # ns) = do {
     register E D i t;
     registerAll E D ns
   }"

definition resolveAssignedNodes ::
  "env \<Rightarrow> database \<Rightarrow> string list option \<Rightarrow> ('z node_state_scheme, string list) state" where
  "resolveAssignedNodes E D explicit =
     (case explicit of
        Some (i # is) \<Rightarrow> return (i # is)
      | _ \<Rightarrow> do {
          found \<leftarrow> listNodes D;
          registered \<leftarrow> (if length found = 0 then do {
              registerAll E D DEFAULT_NODES;
              listNodes D
            } else return found);
          return (map nodeId (filter (\<lambda>node. nodeStatus node = Active) registered))
        })"

definition em_dash :: string where
  "em_dash = [CHR 0xE2, CHR 0x80, CHR 0x94]"

definition terminate ::
  "env \<Rightarrow> database \<Rightarrow> string \<Rightarrow> int \<Rightarrow> string \<Rightarrow> number \<Rightarrow> number \<Rightarrow> string list \<Rightarrow> string list \<Rightarrow>
   ('z release_state_scheme, error + RunProcessResult) state" where
  "terminate E D processId verifiedFlag reason minted fee assignedNodes events = do {
     index \<leftarrow> reserveIndex E D;
     tryM (totalSupply D) (\<lambda>supplyAfter.
       return (Inr \<lparr>runProcessId = processId, runVerified = verifiedFlag, runReason = Some reason,
                    runMinted = minted, runFee = fee, runSupplyAfter = supplyAfter,
                    runReserveIndex = index, runAssignedNodes = assignedNodes, runEvents = events\<rparr>))
   }"

definition rejectUnverified ::
  "env \<Rightarrow> database \<Rightarrow> string \<Rightarrow> string list \<Rightarrow> string list \<Rightarrow> ('z sys_scheme, error + RunProcessResult) state" where
  "rejectUnverified E D processId assignedNodes events = do {
     capture E D processId ''final_status'' [(''status'', JStr ''rejected'')] None;
     let events' = events @ [''final_status''];
     index \<leftarrow> reserveIndex E D;
     tryM (totalSupply D) (\<lambda>supplyAfter.
       tryM (supplyView D) (\<lambda>view. do {
         compareSupply E D view;
         return (Inr \<lparr>runProcessId = processId, runVerified = 0, runReason = Some ''unverified'',
                      runMinted = 0, runFee = 0, runSupplyAfter = supplyAfter,
                      runReserveIndex = index, runAssignedNodes = assignedNodes, runEvents = events'\<rparr>)
       }))
   }"

definition settleVerified ::
  "env \<Rightarrow> database \<Rightarrow> string \<Rightarrow> number \<Rightarrow> int \<Rightarrow> string list \<Rightarrow> string list \<Rightarrow>
   ('z sys_scheme, error + RunProcessResult) state" where
  "settleVerified E D processId amount epoch assignedNodes events =
     tryM (mint E D processId amount) (\<lambda>minted. do {
       let events' = events @ [''emission.minted''];
       capture E D processId ''emission'' [(''minted'', JNum minted)] None;
       let events'' = events' @ [''emission''];
       eyeLog E D ''mint'' ''token_management'' (''minted '' @ numStr E minted @ '' for '' @ processId);
       let fee = computeFee amount 0;
       let participants = map (\<lambda>i. \<lparr>partProcessId = processId, partNodeId = i\<rparr>) assignedNodes;
       accrue D epoch fee participants;
       tryM (burn E D processId minted) (\<lambda>burned. do {
         let events3 = events'' @ [''emission.burned''];
         eyeLog E D ''burn'' ''token_management'' (''burned '' @ numStr E burned @ '' for '' @ processId);
         index \<leftarrow> reserveIndex E D;
         capture E D processId ''final_status'' [(''status'', JStr ''done'')] None;
         let events4 = events3 @ [''final_status''];
         eyeLog E D ''final_status'' ''ledger_anchoring'' (''process '' @ processId @ '' finalized'');
         tryM (supplyView D) (\<lambda>view. do {
           compareSupply E D view;
           tryM (totalSupply D) (\<lambda>supplyAfter.
             return (Inr \<lparr>runProcessId = processId, runVerified = 1, runReason = None,
                          runMinted = minted, runFee = fee, runSupplyAfter = supplyAfter,
                          runReserveIndex = index, runAssignedNodes = assignedNodes, runEvents = events4\<rparr>))
         })
       })
     })"

definition runProcess :: "env \<Rightarrow> database \<Rightarrow> RunProcessDto \<Rightarrow> ('z sys_scheme, error + RunProcessResult) state" where
  "runProcess E D input = do {
     let processId = dtoProcessId input;
     let amount = dtoAmount input;
     let epoch = (case dtoEpoch input of Some n \<Rightarrow> n | None \<Rightarrow> DEFAULT_EPOCH);
     capture E D processId ''initiation'' [(''amount'', JNum amount)] None;
     let events = [''initiation''];
     eyeLog E D ''initiation'' ''processing''
       (''process '' @ processId @ '' initiated (amount '' @ numStr E amount @ '')'');
     if \<not> dtoAdmissible input then do {
       eyeLog E D ''anomaly_detected'' ''processing''
         (''process '' @ processId @ '' inadmissible '' @ em_dash @ '' rejected'');
       terminate E D processId 0 ''inadmissible'' 0 0 [] events
     } else do {
       assignedNodes \<leftarrow> resolveAssignedNodes E D (dtoNodeIds input);
       capture E D processId ''task_assignment'' [(''nodes'', JArr (map JStr assignedNodes))] None;
       let events1 = events @ [''task_assignment''];
       eyeLog E D ''task_assignment'' ''processing''
         (''assigned to '' @ intStr E (int (length assignedNodes)) @ '' nodes'');
       capture E D processId ''stage_transition'' [(''stage'', JStr ''execute'')] None;
       let events2 = events1 @ [''stage_transition''];
       capture E D processId ''execution_complete'' [] None;
       let events3 = events2 @ [''execution_complete''];
       tryM (forE (\<lambda>i. tryM (recordExecution D i True) (\<lambda>_. return (Inr ()))) assignedNodes) (\<lambda>_. do {
         verdict \<leftarrow> verify E D processId;
         capture E D processId ''pot_verdict'' [(''verified'', jint (resVerified verdict))] None;
         let events4 = events3 @ [''pot.verified'', ''pot_verdict''];
         eyeLog E D ''pot_verdict'' ''processing''
           (''process '' @ processId @ '' verified='' @ intStr E (resVerified verdict));
         if resVerified verdict \<noteq> 1 then rejectUnverified E D processId assignedNodes events4
         else settleVerified E D processId amount epoch assignedNodes events4
       })
     }
   }"

definition boolStr :: "bool \<Rightarrow> string" where
  "boolStr b = (if b then ''true'' else ''false'')"

definition runFinalizeEpoch :: "env \<Rightarrow> database \<Rightarrow> int \<Rightarrow> ('z sys_scheme, error + FinalizeResult) state" where
  "runFinalizeEpoch E D epoch = tryM (finalizeEpoch E D epoch) (\<lambda>outcome. do {
     eyeLog E D ''commission_distribution'' ''token_management''
       (''epoch '' @ intStr E epoch @ '': paid '' @ numStr E (finPaid outcome) @ '', margin '' @
        numStr E (finOperationalMargin outcome) @ '', reconciled='' @ boolStr (reconciled outcome));
     tryM (supplyView D) (\<lambda>view. do {
       compareSupply E D view;
       return (Inr outcome)
     })
   })"

definition getProcess :: "database \<Rightarrow> string \<Rightarrow> ('z sys_scheme, ProcessView) state" where
  "getProcess D processId = do {
     verdict \<leftarrow> getVerdict D processId;
     snaps \<leftarrow> list_chain D;
     let evs = map (\<lambda>snap. \<lparr>pevEventType = eventType snap, pevSequenceId = sequenceId snap,
                            pevTimestamp = timestamp snap\<rparr>)
                 (filter (\<lambda>snap. map_of (payload snap) ''processId'' = Some (JStr processId)) snaps);
     return \<lparr>pvProcessId = processId,
             pvVerdict = map_option (\<lambda>v. (verified v, reasons v)) verdict, pvEvents = evs\<rparr>
   }"

text \<open>\<open>Promise.all\<close> starts every read whatever the others do, and fails with the first failure.\<close>

definition metrics :: "env \<Rightarrow> database \<Rightarrow> int \<Rightarrow> ('z sys_scheme, error + MetricsSnapshot) state" where
  "metrics E D epoch = do {
     supply \<leftarrow> totalSupply D;
     earned \<leftarrow> retained D;
     index \<leftarrow> reserveIndex E D;
     verdictRows \<leftarrow> listVerdicts D;
     epochRow \<leftarrow> getEpoch D epoch;
     snaps \<leftarrow> list_chain D;
     releaseActive \<leftarrow> isActive D;
     return (case supply of
         Inl e \<Rightarrow> Inl e
       | Inr totalSupply' \<Rightarrow> (case earned of
           Inl e \<Rightarrow> Inl e
         | Inr earnedRetained' \<Rightarrow>
             Inr \<lparr>metTotalSupply = totalSupply', metEarnedRetained = earnedRetained', metReserveIndex = index,
                  metVerifiedProcessCount = length (filter (\<lambda>v. verified v = 1) verdictRows),
                  metCurrentEpoch = epoch,
                  metEpochPool = (case epochRow of Some r \<Rightarrow> totalFees r | None \<Rightarrow> 0),
                  metNodeChainLength = length snaps, metReleaseActive = releaseActive\<rparr>))
   }"

section \<open>Segments of a run\<close>

text \<open>The part of an admitted run before the work loop, the loop, and the verdict.\<close>

definition admit :: "env \<Rightarrow> database \<Rightarrow> RunProcessDto \<Rightarrow> ('z sys_scheme, string list) state" where
  "admit E D input = do {
     capture E D (dtoProcessId input) ''initiation'' [(''amount'', JNum (dtoAmount input))] None;
     eyeLog E D ''initiation'' ''processing''
       (''process '' @ dtoProcessId input @ '' initiated (amount '' @ numStr E (dtoAmount input) @ '')'');
     assignedNodes \<leftarrow> resolveAssignedNodes E D (dtoNodeIds input);
     capture E D (dtoProcessId input) ''task_assignment'' [(''nodes'', JArr (map JStr assignedNodes))] None;
     eyeLog E D ''task_assignment'' ''processing''
       (''assigned to '' @ intStr E (int (length assignedNodes)) @ '' nodes'');
     capture E D (dtoProcessId input) ''stage_transition'' [(''stage'', JStr ''execute'')] None;
     capture E D (dtoProcessId input) ''execution_complete'' [] None;
     return assignedNodes
   }"

definition workAll :: "database \<Rightarrow> string list \<Rightarrow> ('z node_state_scheme, error + unit) state" where
  "workAll D ids = forE (\<lambda>i. tryM (recordExecution D i True) (\<lambda>_. return (Inr ()))) ids"

definition judge :: "env \<Rightarrow> database \<Rightarrow> string \<Rightarrow> ('z sys_scheme, int) state" where
  "judge E D pid = do {
     verdict \<leftarrow> verify E D pid;
     capture E D pid ''pot_verdict'' [(''verified'', jint (resVerified verdict))] None;
     eyeLog E D ''pot_verdict'' ''processing''
       (''process '' @ pid @ '' verified='' @ intStr E (resVerified verdict));
     return (resVerified verdict)
   }"

definition events_to_verdict :: "string list" where
  "events_to_verdict = [''initiation'', ''task_assignment'', ''stage_transition'', ''execution_complete'',
     ''pot.verified'', ''pot_verdict'']"

definition conclude ::
  "env \<Rightarrow> database \<Rightarrow> RunProcessDto \<Rightarrow> string list \<Rightarrow> int \<Rightarrow> ('z sys_scheme, error + RunProcessResult) state" where
  "conclude E D input ids v =
     (if v \<noteq> 1 then rejectUnverified E D (dtoProcessId input) ids events_to_verdict
      else settleVerified E D (dtoProcessId input) (dtoAmount input)
             (case dtoEpoch input of Some n \<Rightarrow> n | None \<Rightarrow> DEFAULT_EPOCH) ids events_to_verdict)"

lemma runProcess_segments:
  assumes "dtoAdmissible input"
  shows "runProcess E D input = do {
      ids \<leftarrow> admit E D input;
      tryM (workAll D ids) (\<lambda>_. do { v \<leftarrow> judge E D (dtoProcessId input); conclude E D input ids v })
    }"
  using assms
  by (simp add: runProcess_def admit_def workAll_def judge_def conclude_def events_to_verdict_def Let_def
      cong: if_cong)

section \<open>Assignment and work\<close>

fun assignable :: "database \<Rightarrow> 'z node_state_scheme \<Rightarrow> string list option \<Rightarrow> bool" where
  "assignable D s (Some (i # is)) = (\<forall>j \<in> set (i # is). node_of D s j \<noteq> None)"
| "assignable D s _ = True"

definition assigned_ids :: "database \<Rightarrow> 'z node_state_scheme \<Rightarrow> string list option \<Rightarrow> string list" where
  "assigned_ids D s explicit =
     (case explicit of
        Some (i # is) \<Rightarrow> i # is
      | _ \<Rightarrow> map nodeId (filter (\<lambda>n. nodeStatus n = Active) (find (nodes D)
          (if find (nodes D) (nodeTbl s) = []
           then fold (\<lambda>(i, t). save (nodes D) (fresh_node i t)) DEFAULT_NODES (nodeTbl s) else nodeTbl s))))"

definition recorded :: "string \<Rightarrow> string \<Rightarrow> object \<Rightarrow> string \<times> object" where
  "recorded pid e d = (e, buildPayload pid d None)"

text \<open>The epoch row after a fee has been accrued into it; \<open>k\<close> is the start time of a new one.\<close>

definition accrued :: "int \<Rightarrow> int \<Rightarrow> number \<Rightarrow> Epoch option \<Rightarrow> Epoch" where
  "accrued k n f row =
     (case row of
        Some ep \<Rightarrow> ep\<lparr>totalFees := totalFees ep + f\<rparr>
      | None \<Rightarrow> \<lparr>epochNumber = n, startTime = k, endTime = 0, totalFees = 0 + f, distributionLog = [],
                 epochStatus = Open, operationalMargin = 0\<rparr>)"

definition cycled :: "number \<Rightarrow> ArosCoinLedger \<Rightarrow> ArosCoinLedger" where
  "cycled a r = r\<lparr>processMinted := processMinted r + a, processBurned := processBurned r + a\<rparr>"

definition settle_entries :: "string \<Rightarrow> number \<Rightarrow> (string \<times> object) list" where
  "settle_entries pid a =
     [(''emission.minted'', minted_payload pid a), recorded pid ''emission'' [(''minted'', JNum a)],
      (''emission.burned'', burned_payload pid a), recorded pid ''final_status'' [(''status'', JStr ''done'')]]"

definition registrations :: "database \<Rightarrow> 'z node_state_scheme \<Rightarrow> string list option \<Rightarrow> (string \<times> string) list" where
  "registrations D s explicit =
     (case explicit of Some (i # is) \<Rightarrow> [] | _ \<Rightarrow> if find (nodes D) (nodeTbl s) = [] then DEFAULT_NODES else [])"

context datastore
begin

lemma registerAll_views [simp]:
  "entries D (exec (registerAll E D ns) s) =
     entries D s @ map (\<lambda>(i, t). (''node.registered'', registered_payload i t)) ns"
  "intact E D (exec (registerAll E D ns) s) = intact E D s"
  "tallies D (exec (registerAll E D ns) s) = tallies D s"
  "coin_ok D (exec (registerAll E D ns) s) = coin_ok D s"
  "captured_of (exec (registerAll E D ns) s) p = captured_of s p"
  "verdict_of D (exec (registerAll E D ns) s) p = verdict_of D s p"
  by (induction ns arbitrary: s) auto

lemma registerAll_upper [simp]:
  "epoch_of D (exec (registerAll E D ns) s) n = epoch_of D s n"
  "parts_of (exec (registerAll E D ns) s) n = parts_of s n"
  "phase_of D (exec (registerAll E D ns) s) = phase_of D s"
  by (induction ns arbitrary: s; auto)+

lemma registerAll_nodes:
  "node_of D (exec (registerAll E D ns) s) j =
     (case map_of (rev ns) j of None \<Rightarrow> node_of D s j | Some t \<Rightarrow> Some (fresh_node j t))"
  by (induction ns arbitrary: s) (auto simp: node_of_ops map_add_def split: option.splits)

lemma resolve_run:
  "exec (resolveAssignedNodes E D x) s = exec (registerAll E D (registrations D s x)) s"
  by (simp add: resolveAssignedNodes_def registrations_def listNodes_def split: option.splits list.splits)

lemma resolve_registered:
  assumes "assignable D s x" "i \<in> set (result (resolveAssignedNodes E D x) s)"
  shows "node_of D (exec (resolveAssignedNodes E D x) s) i \<noteq> None"
proof (cases "\<exists>j js. x = Some (j # js)")
  case True
  then show ?thesis using assms by (auto simp: resolveAssignedNodes_def)
next
  case False
  have "set (result (resolveAssignedNodes E D x) s) \<subseteq>
      nodeId ` set (find (nodes D) (nodeTbl (exec (resolveAssignedNodes E D x) s)))"
    using False by (auto simp: resolveAssignedNodes_def listNodes_def split: option.splits list.splits)
  with assms(2) obtain n where "n \<in> set (find (nodes D) (nodeTbl (exec (resolveAssignedNodes E D x) s)))" "nodeId n = i"
    by auto
  then show ?thesis by (auto simp: node_of_def node.find_rows)
qed

lemma workAll_views [simp]:
  "history D (exec (workAll D ids) s) = history D s" "entries D (exec (workAll D ids) s) = entries D s"
  "intact E D (exec (workAll D ids) s) = intact E D s" "tallies D (exec (workAll D ids) s) = tallies D s"
  "coin_ok D (exec (workAll D ids) s) = coin_ok D s" "clockT (exec (workAll D ids) s) = clockT s"
  "captured_of (exec (workAll D ids) s) p = captured_of s p"
  "verdict_of D (exec (workAll D ids) s) p = verdict_of D s p"
  by (induction ids arbitrary: s; simp add: workAll_def exec_tryM split: sum.splits)+

lemma workAll_upper [simp]:
  "epoch_of D (exec (workAll D ids) s) n = epoch_of D s n"
  "parts_of (exec (workAll D ids) s) n = parts_of s n"
  "phase_of D (exec (workAll D ids) s) = phase_of D s"
  by (induction ids arbitrary: s; simp add: workAll_def exec_tryM split: sum.splits)+

lemma workAll_run:
  assumes "\<And>i. i \<in> set ids \<Longrightarrow> node_of D s i \<noteq> None"
  shows "result (workAll D ids) s = Inr ()"
    "node_of D (exec (workAll D ids) s) j = map_option (worked True ^^ count_list ids j) (node_of D s j)"
proof -
  have "result (workAll D ids) s = Inr () \<and>
    node_of D (exec (workAll D ids) s) j = map_option (worked True ^^ count_list ids j) (node_of D s j)"
    using assms
  proof (induction ids arbitrary: s)
    case Nil
    then show ?case by (cases "node_of D s j") (simp_all add: workAll_def)
  next
    case (Cons i ids)
    obtain n where n: "node_of D s i = Some n" using Cons.prems by auto
    let ?t = "exec (recordExecution D i True) s"
    have "result (workAll D (i # ids)) s = result (workAll D ids) ?t"
      "exec (workAll D (i # ids)) s = exec (workAll D ids) ?t"
      using n by (simp_all add: workAll_def tryM_simps recordExecution_run(1))
    moreover have "\<And>k. k \<in> set ids \<Longrightarrow> node_of D ?t k \<noteq> None"
      using Cons.prems n by (auto simp: node_of_ops)
    ultimately show ?case using Cons.IH [of ?t] n
      by (auto simp: node_of_ops funpow_Suc_right simp del: funpow.simps)
  qed
  then show "result (workAll D ids) s = Inr ()"
    "node_of D (exec (workAll D ids) s) j = map_option (worked True ^^ count_list ids j) (node_of D s j)"
    by blast+
qed

lemma workAll_first_missing:
  assumes "i \<in> set ids" "node_of D s i = None"
  shows "\<exists>j. result (workAll D ids) s = Inl (nodeNotFound j) \<and> j \<in> set ids \<and> node_of D s j = None"
  using assms
proof (induction ids arbitrary: s)
  case (Cons k ids)
  show ?case
  proof (cases "node_of D s k")
    case None
    then show ?thesis by (auto simp: workAll_def tryM_simps recordExecution_run(1))
  next
    case (Some n)
    let ?t = "exec (recordExecution D k True) s"
    have "result (workAll D (k # ids)) s = result (workAll D ids) ?t"
      using Some by (simp add: workAll_def tryM_simps recordExecution_run(1))
    moreover have "i \<in> set ids" "node_of D ?t i = None" using Cons.prems Some by (auto simp: node_of_ops)
    ultimately show ?thesis using Cons.IH [of ?t] by (auto simp: node_of_ops split: if_splits)
  qed
qed simp

lemma registerAll_table:
  "nodeTbl (exec (registerAll E D ns) s) = fold (\<lambda>(i, t). save (nodes D) (fresh_node i t)) ns (nodeTbl s)"
  by (induction ns arbitrary: s) (auto simp: register_run)

lemma resolve_result: "result (resolveAssignedNodes E D x) s = assigned_ids D s x"
  by (simp add: resolveAssignedNodes_def assigned_ids_def listNodes_def registerAll_table
      split: option.splits list.splits)

lemma assignment_cong:
  assumes "nodeTbl t = nodeTbl s"
  shows "assigned_ids D t x = assigned_ids D s x" "registrations D t x = registrations D s x"
    "assignable D t x = assignable D s x"
proof -
  show "assigned_ids D t x = assigned_ids D s x" "registrations D t x = registrations D s x"
    unfolding assigned_ids_def registrations_def assms by (rule refl)+
  show "assignable D t x = assignable D s x"
    using assms by (cases "(D, s, x)" rule: assignable.cases) (simp_all add: node_of_def)
qed

lemma assignment_frame [simp]:
  "assigned_ids D (exec (capture E D pid e d v) s) x = assigned_ids D s x"
  "assigned_ids D (exec (eyeLog E D e' l d') t) x = assigned_ids D t x"
  "registrations D (exec (capture E D pid e d v) s) x = registrations D s x"
  "registrations D (exec (eyeLog E D e' l d') t) x = registrations D t x"
  "assignable D (exec (capture E D pid e d v) s) x = assignable D s x"
  "assignable D (exec (eyeLog E D e' l d') t) x = assignable D t x"
  by (rule assignment_cong; simp)+

lemma admit_result: "result (admit E D input) s = assigned_ids D s (dtoNodeIds input)"
  by (simp add: admit_def resolve_result)

lemma admit_entries:
  "entries D (exec (admit E D input) s) = entries D s
     @ [recorded (dtoProcessId input) ''initiation'' [(''amount'', JNum (dtoAmount input))]]
     @ map (\<lambda>(i, t). (''node.registered'', registered_payload i t)) (registrations D s (dtoNodeIds input))
     @ [recorded (dtoProcessId input) ''task_assignment''
          [(''nodes'', JArr (map JStr (assigned_ids D s (dtoNodeIds input))))],
        recorded (dtoProcessId input) ''stage_transition'' [(''stage'', JStr ''execute'')],
        recorded (dtoProcessId input) ''execution_complete'' []]"
  by (simp add: admit_def resolve_result resolve_run recorded_def)

lemma admit_views [simp]:
  "intact E D (exec (admit E D input) s) = intact E D s"
  "tallies D (exec (admit E D input) s) = tallies D s" "coin_ok D (exec (admit E D input) s) = coin_ok D s"
  "verdict_of D (exec (admit E D input) s) p = verdict_of D s p"
  "epoch_of D (exec (admit E D input) s) n = epoch_of D s n"
  "parts_of (exec (admit E D input) s) n = parts_of s n"
  "phase_of D (exec (admit E D input) s) = phase_of D s"
  by (simp_all add: admit_def resolve_run)

lemma admit_captured:
  "captured_of (exec (admit E D input) s) p =
     (if p = dtoProcessId input then set REQUIRED_BEFORE_VERDICT else {}) \<union> captured_of s p"
  by (auto simp: admit_def resolve_run REQUIRED_BEFORE_VERDICT_def)

lemma admit_nodes:
  "node_of D (exec (admit E D input) s) j =
     (case map_of (rev (registrations D s (dtoNodeIds input))) j of
        None \<Rightarrow> node_of D s j | Some t \<Rightarrow> Some (fresh_node j t))"
  by (simp add: admit_def resolve_run registerAll_nodes split: option.splits)

lemma admit_registered:
  assumes "assignable D s (dtoNodeIds input)" "i \<in> set (assigned_ids D s (dtoNodeIds input))"
  shows "node_of D (exec (admit E D input) s) i \<noteq> None"
proof -
  let ?u = "exec (eyeLog E D ''initiation'' ''processing''
      (''process '' @ dtoProcessId input @ '' initiated (amount '' @ numStr E (dtoAmount input) @ '')''))
    (exec (capture E D (dtoProcessId input) ''initiation'' [(''amount'', JNum (dtoAmount input))] None) s)"
  have "node_of D (exec (resolveAssignedNodes E D (dtoNodeIds input)) ?u) i \<noteq> None"
    by (rule resolve_registered) (use assms in \<open>simp_all add: resolve_result\<close>)
  then show ?thesis by (simp add: admit_def)
qed

lemma judge_run:
  fixes s :: "'z sys_scheme"
  assumes "verdict_of D s pid = None" "evidence_complete E D s pid"
  shows "result (judge E D pid) s = 1"
    "entries D (exec (judge E D pid) s) = entries D s @
       [(''pot.verified'', verdict_payload pid 1 []), recorded pid ''pot_verdict'' [(''verified'', jint 1)]]"
    "confirmed D (exec (judge E D pid) s) pid"
proof -
  have "failureReasons (criteria (captured_of s pid) (intact E D s)) (captured_of s pid) = []"
    using assms(2) failureReasons_empty_iff by (simp add: evidence_complete_def)
  then have r: "resVerified (result (verify E D pid) s) = 1" "resReasons (result (verify E D pid) s) = []"
    using assms verify_fresh(1) [OF assms(1), of E] by simp_all
  then show "result (judge E D pid) s = 1" "confirmed D (exec (judge E D pid) s) pid"
    "entries D (exec (judge E D pid) s) = entries D s @
       [(''pot.verified'', verdict_payload pid 1 []), recorded pid ''pot_verdict'' [(''verified'', jint 1)]]"
    using assms(1) by (simp_all add: judge_def verify_entries confirmed_def verify_verdict_of recorded_def)
qed

lemma judge_views [simp]:
  "intact E D (exec (judge E D pid) s) = intact E D s" "tallies D (exec (judge E D pid) s) = tallies D s"
  "coin_ok D (exec (judge E D pid) s) = coin_ok D s"
  "node_of D (exec (judge E D pid) s) i = node_of D s i" "epoch_of D (exec (judge E D pid) s) n = epoch_of D s n"
  "parts_of (exec (judge E D pid) s) n = parts_of s n" "phase_of D (exec (judge E D pid) s) = phase_of D s"
  by (simp_all add: judge_def)

lemma settle_volume: "volume (es @ settle_entries pid a) = volume (es @ [(''emission.minted'', minted_payload pid a)])"
  "volume (es @ take 3 (settle_entries pid a)) = volume (es @ [(''emission.minted'', minted_payload pid a)])"
  by (simp_all add: settle_entries_def volume_def recorded_def contribution_other)

lemma settle_run:
  fixes s :: "'z sys_scheme" and E :: env and a :: number and n m :: int and ids evs :: "string list"
  assumes "confirmed D s pid" "coin_ok D s"
  defines "t \<equiv> exec (settleVerified E D pid a n ids evs) s"
  shows "result (settleVerified E D pid a n ids evs) s =
      Inr \<lparr>runProcessId = pid, runVerified = 1, runReason = None, runMinted = a, runFee = computeFee a 0,
           runSupplyAfter = supply_of (cycled a (tallies D s)),
           runReserveIndex = log10 E (1 + volume (entries D s @ [(''emission.minted'', minted_payload pid a)])),
           runAssignedNodes = ids,
           runEvents = evs @ [''emission.minted'', ''emission'', ''emission.burned'', ''final_status'']\<rparr>"
    and "entries D t = entries D s @ settle_entries pid a"
    and "tallies D t = cycled a (tallies D s)" and "coin_ok D t" and "intact E D t = intact E D s"
    and "verdict_of D t q = verdict_of D s q" and "node_of D t i = node_of D s i"
    and "phase_of D t = phase_of D s"
    and "captured_of t q = (if q = pid then {''emission'', ''final_status''} else {}) \<union> captured_of s q"
    and "\<exists>k. epoch_of D t n = Some (accrued k n (computeFee a 0) (epoch_of D s n))"
    and "m \<noteq> n \<Longrightarrow> epoch_of D t m = epoch_of D s m"
    and "parts_of t m =
      (if m = n then parts_of s n @ map (\<lambda>i. \<lparr>partProcessId = pid, partNodeId = i\<rparr>) ids else parts_of s m)"
proof -
  let ?s1 = "exec (mint E D pid a) s"
  let ?s2 = "exec (eyeLog E D ''mint'' ''token_management'' (''minted '' @ numStr E a @ '' for '' @ pid))
    (exec (capture E D pid ''emission'' [(''minted'', JNum a)] None) ?s1)"
  let ?ps = "map (\<lambda>i. \<lparr>partProcessId = pid, partNodeId = i\<rparr>) ids"
  let ?s3 = "exec (accrue D n (computeFee a 0) ?ps) ?s2"
  let ?s4 = "exec (eyeLog E D ''burn'' ''token_management'' (''burned '' @ numStr E a @ '' for '' @ pid))
    (exec (burn E D pid a) ?s3)"
  let ?s5 = "exec (eyeLog E D ''final_status'' ''ledger_anchoring'' (''process '' @ pid @ '' finalized''))
    (exec (capture E D pid ''final_status'' [(''status'', JStr ''done'')] None) ?s4)"
  note mint = mint_run [OF assms(1,2)]
  have ok: "coin_ok D ?s3" "coin_ok D ?s4" "coin_ok D ?s5" "coin_ok D (with_ledger D ?s5)"
    using assms(2) by (simp_all add: mint burn_run record_run)
  have tal: "tallies D ?s3 = (tallies D s)\<lparr>processMinted := processMinted (tallies D s) + a\<rparr>"
    "tallies D ?s5 = cycled a (tallies D s)"
    using assms(2) ok(1) by (simp_all add: mint burn_run record_run cycled_def)
  have ent: "entries D ?s4 = entries D s @ take 3 (settle_entries pid a)"
    "entries D ?s5 = entries D s @ settle_entries pid a"
    using assms(2) ok(1) by (simp_all add: mint burn_run settle_entries_def recorded_def)
  let ?cmp = "compareSupply E D \<lparr>viewTotalSupply = supply_of (cycled a (tallies D s)),
      viewRetained = earnedRetained (cycled a (tallies D s))\<rparr>"
  have run: "run_state (settleVerified E D pid a n ids evs) s =
     (Inr \<lparr>runProcessId = pid, runVerified = 1, runReason = None, runMinted = a, runFee = computeFee a 0,
           runSupplyAfter = supply_of (cycled a (tallies D s)),
           runReserveIndex = log10 E (1 + volume (entries D s @ [(''emission.minted'', minted_payload pid a)])),
           runAssignedNodes = ids,
           runEvents = evs @ [''emission.minted'', ''emission'', ''emission.burned'', ''final_status'']\<rparr>,
      with_ledger D (exec ?cmp (with_ledger D ?s5)))"
    using ok tal ent
    by (simp add: run_state_eq settleVerified_def tryM_simps mint(1) burn_run(1) read_run settle_volume Let_def)
  then show "result (settleVerified E D pid a n ids evs) s =
      Inr \<lparr>runProcessId = pid, runVerified = 1, runReason = None, runMinted = a, runFee = computeFee a 0,
           runSupplyAfter = supply_of (cycled a (tallies D s)),
           runReserveIndex = log10 E (1 + volume (entries D s @ [(''emission.minted'', minted_payload pid a)])),
           runAssignedNodes = ids,
           runEvents = evs @ [''emission.minted'', ''emission'', ''emission.burned'', ''final_status'']\<rparr>"
    by (simp add: result_def)
  have t: "t = with_ledger D (exec ?cmp (with_ledger D ?s5))"
    using run by (simp add: t_def exec_def)
  show "entries D t = entries D s @ settle_entries pid a" "tallies D t = cycled a (tallies D s)" "coin_ok D t"
    using ok tal ent by (simp_all add: t)
  show "intact E D t = intact E D s" "verdict_of D t q = verdict_of D s q" "node_of D t i = node_of D s i"
    "phase_of D t = phase_of D s"
    "captured_of t q = (if q = pid then {''emission'', ''final_status''} else {}) \<union> captured_of s q"
    using ok(1) by (auto simp: t mint(2) burn_run(2))
  have ep: "epoch_of D t q = epoch_of D ?s3 q" "parts_of t q = parts_of ?s3 q"
    "epoch_of D ?s2 q = epoch_of D s q" "parts_of ?s2 q = parts_of s q" for q
    using ok(1) by (simp_all add: t mint(2) burn_run(2))
  have "result (accrue D n (computeFee a 0) ?ps) ?s2 = accrued (clockT ?s2 + 1) n (computeFee a 0) (epoch_of D s n)"
    unfolding accrue_run(1) ep(3) accrued_def by (rule refl)
  then show "\<exists>k. epoch_of D t n = Some (accrued k n (computeFee a 0) (epoch_of D s n))"
    using ep(1) by (auto simp: accrue_epoch_of)
  show "epoch_of D t m = epoch_of D s m" if "m \<noteq> n"
    using that ep(1,3) by (simp add: accrue_epoch_of)
  show "parts_of t m = (if m = n then parts_of s n @ ?ps else parts_of s m)"
    using ep(2,4) by simp
qed

lemma judge_confirmed:
  fixes s :: "'z sys_scheme"
  assumes "result (judge E D pid) s = 1"
  shows "confirmed D (exec (judge E D pid) s) pid"
proof -
  have "resVerified (result (verify E D pid) s) = 1" using assms by (simp add: judge_def)
  then have "confirmed D (exec (verify E D pid) s) pid"
    using verify_existing [of D s pid] by (cases "verdict_of D s pid") (auto simp: confirmed_def verify_verdict_of)
  then show ?thesis by (simp add: judge_def confirmed_def)
qed

lemma verdict_entries_volume:
  "volume (entries D (exec (judge E D pid) s)) = volume (entries D s)"
  by (simp add: judge_def verify_entries volume_def contribution_other)

lemma admit_volume: "volume (entries D (exec (admit E D input) s)) = volume (entries D s)"
proof -
  have "volume_from x (map (\<lambda>(i, t). (''node.registered'', registered_payload i t)) ns) = x" for x ns
    by (induction ns) (auto simp: contribution_other)
  then show ?thesis by (simp add: admit_entries volume_def recorded_def contribution_other)
qed

text \<open>The endings that produce no value.\<close>

lemma reject_run:
  fixes s :: "'z sys_scheme" and E :: env and pid :: string and ids evs :: "string list"
  assumes "coin_ok D s"
  defines "t \<equiv> exec (rejectUnverified E D pid ids evs) s"
  shows "result (rejectUnverified E D pid ids evs) s =
      Inr \<lparr>runProcessId = pid, runVerified = 0, runReason = Some ''unverified'', runMinted = 0, runFee = 0,
           runSupplyAfter = supply_of (tallies D s), runReserveIndex = log10 E (1 + volume (entries D s)),
           runAssignedNodes = ids, runEvents = evs @ [''final_status'']\<rparr>"
    and "entries D t = entries D s @ [recorded pid ''final_status'' [(''status'', JStr ''rejected'')]]"
    and "tallies D t = tallies D s" "coin_ok D t" "intact E D t = intact E D s" "verdict_of D t q = verdict_of D s q"
    and "node_of D t i = node_of D s i" "epoch_of D t n = epoch_of D s n" "parts_of t n = parts_of s n"
    and "phase_of D t = phase_of D s"
    and "captured_of t q = (if q = pid then {''final_status''} else {}) \<union> captured_of s q"
proof -
  let ?u = "exec (capture E D pid ''final_status'' [(''status'', JStr ''rejected'')] None) s"
  have u: "coin_ok D ?u" "coin_ok D (with_ledger D ?u)" using assms(1) by simp_all
  have vol: "volume (entries D ?u) = volume (entries D s)" by (simp add: volume_def contribution_other)
  let ?w = "with_ledger D (with_ledger D ?u)"
  have t: "t = exec (compareSupply E D \<lparr>viewTotalSupply = supply_of (tallies D s),
      viewRetained = earnedRetained (tallies D s)\<rparr>) ?w"
    using u by (simp add: t_def rejectUnverified_def tryM_simps read_run Let_def)
  show "result (rejectUnverified E D pid ids evs) s =
      Inr \<lparr>runProcessId = pid, runVerified = 0, runReason = Some ''unverified'', runMinted = 0, runFee = 0,
           runSupplyAfter = supply_of (tallies D s), runReserveIndex = log10 E (1 + volume (entries D s)),
           runAssignedNodes = ids, runEvents = evs @ [''final_status'']\<rparr>"
    using u vol by (simp add: rejectUnverified_def tryM_simps read_run Let_def)
  show "entries D t = entries D s @ [recorded pid ''final_status'' [(''status'', JStr ''rejected'')]]"
    "tallies D t = tallies D s" "coin_ok D t" "intact E D t = intact E D s" "verdict_of D t q = verdict_of D s q"
    "node_of D t i = node_of D s i" "epoch_of D t n = epoch_of D s n" "parts_of t n = parts_of s n"
    "phase_of D t = phase_of D s"
    "captured_of t q = (if q = pid then {''final_status''} else {}) \<union> captured_of s q"
    using u by (auto simp: t recorded_def)
qed

lemma inadmissible_run:
  fixes s :: "'z sys_scheme" and E :: env and input :: RunProcessDto
  assumes "coin_ok D s" "\<not> dtoAdmissible input"
  defines "t \<equiv> exec (runProcess E D input) s" and "pid \<equiv> dtoProcessId input"
  shows "result (runProcess E D input) s =
      Inr \<lparr>runProcessId = pid, runVerified = 0, runReason = Some ''inadmissible'', runMinted = 0, runFee = 0,
           runSupplyAfter = supply_of (tallies D s), runReserveIndex = log10 E (1 + volume (entries D s)),
           runAssignedNodes = [], runEvents = [''initiation'']\<rparr>"
    and "entries D t = entries D s @ [recorded pid ''initiation'' [(''amount'', JNum (dtoAmount input))]]"
    and "tallies D t = tallies D s" "coin_ok D t" "intact E D t = intact E D s" "verdict_of D t q = verdict_of D s q"
    and "node_of D t i = node_of D s i" "epoch_of D t n = epoch_of D s n" "parts_of t n = parts_of s n"
    and "phase_of D t = phase_of D s"
    and "captured_of t q = (if q = pid then {''initiation''} else {}) \<union> captured_of s q"
proof -
  have vol: "volume (entries D s @ [(''initiation'', p)]) = volume (entries D s)" for p
    by (simp add: volume_def contribution_other)
  show "result (runProcess E D input) s =
      Inr \<lparr>runProcessId = pid, runVerified = 0, runReason = Some ''inadmissible'', runMinted = 0, runFee = 0,
           runSupplyAfter = supply_of (tallies D s), runReserveIndex = log10 E (1 + volume (entries D s)),
           runAssignedNodes = [], runEvents = [''initiation'']\<rparr>"
    using assms(1,2) by (simp add: runProcess_def terminate_def tryM_simps read_run vol pid_def Let_def)
  show "entries D t = entries D s @ [recorded pid ''initiation'' [(''amount'', JNum (dtoAmount input))]]"
    "tallies D t = tallies D s" "coin_ok D t" "intact E D t = intact E D s" "verdict_of D t q = verdict_of D s q"
    "node_of D t i = node_of D s i" "epoch_of D t n = epoch_of D s n" "parts_of t n = parts_of s n"
    "phase_of D t = phase_of D s"
    "captured_of t q = (if q = pid then {''initiation''} else {}) \<union> captured_of s q"
    using assms(1,2)
    by (simp_all add: t_def runProcess_def terminate_def tryM_simps read_run recorded_def pid_def Let_def)
qed

end

end
