(* ===== verification/AppendOnly.thy ===== *)
theory AppendOnly
  imports Orchestrator
begin

text \<open>
  The two logs of the system, NodeChain and the Oversight Ledger, under every operation of every
  service. \<open>extends\<close> relates a state to a later one: both logs have only grown at the end and
  the clock has not gone back. \<open>logs_ok\<close> is the invariant of the logs: both replay, sequence
  numbers run without a gap, and timestamps rise strictly in each. Every operation that writes a
  log or the clock is shown \<open>safe\<close> for the pair; the others leave both alone; the compound
  operations follow by the rules for computations.
\<close>

definition timed :: "int list \<Rightarrow> int \<Rightarrow> bool" where
  "timed ts k \<longleftrightarrow> sorted_wrt (<) ts \<and> (\<forall>x \<in> set ts. x \<le> k)"

lemma timed_simps [simp]: "timed [] k" "timed (ts @ [x]) k \<longleftrightarrow> timed ts (x - 1) \<and> x \<le> k"
  by (auto simp: timed_def sorted_wrt_append)

lemma timed_mono: "timed ts k \<Longrightarrow> k \<le> m \<Longrightarrow> timed ts m"
  by (auto simp: timed_def)

text \<open>A verdict is binary and stands behind the snapshot that recorded it.\<close>

definition linked :: "database \<Rightarrow> 'z pot_state_scheme \<Rightarrow> bool" where
  "linked D s \<longleftrightarrow> (\<forall>pid v. verdict_of D s pid = Some v \<longrightarrow> (verified v = 0 \<or> verified v = 1) \<and>
     (\<exists>x \<in> set (history D s). sequenceId x = snapshotSequenceId v \<and> eventType x = ''pot.verified'' \<and>
        payload x = verdict_payload pid (verified v) (reasons v)))"

definition logs_ok :: "env \<Rightarrow> database \<Rightarrow> 'z sys_scheme \<Rightarrow> bool" where
  "logs_ok E D s \<longleftrightarrow> intact E D s \<and> numbered (history D s) \<and> auditLoop E ''GENESIS'' (ledger_log D s) = None
     \<and> timed (map timestamp (history D s)) (clockT s) \<and> timed (map logTimestamp (ledger_log D s)) (clockT s)
     \<and> linked D s"

definition extends :: "database \<Rightarrow> 'z sys_scheme \<Rightarrow> 'z sys_scheme \<Rightarrow> bool" where
  "extends D s t \<longleftrightarrow> prefix (history D s) (history D t) \<and> prefix (ledger_log D s) (ledger_log D t) \<and> clockT s \<le> clockT t
     \<and> (\<forall>pid v. verdict_of D s pid = Some v \<longrightarrow> verdict_of D t pid = Some v)"

interpretation ext: preorder_rel "extends D" for D
  by unfold_locales (auto simp: extends_def dest: prefix_order.order_trans)

text \<open>An operation that leaves both logs and the clock alone.\<close>

definition log_frame :: "database \<Rightarrow> ('z sys_scheme, 'a) state \<Rightarrow> bool" where
  "log_frame D m \<longleftrightarrow> (\<forall>s. chainTbl (exec m s) = chainTbl s \<and> logTbl (exec m s) = logTbl s \<and> clockT (exec m s) = clockT s
     \<and> verdictTbl (exec m s) = verdictTbl s)"

lemma log_frame_safe: "log_frame D m \<Longrightarrow> safe (logs_ok E D) (extends D) m"
  by (auto simp: log_frame_def safe_def logs_ok_def extends_def intact_def history_def ledger_log_def
      linked_def verdict_of_def)

lemma log_frame_rules:
  "log_frame D (return a)" "log_frame D (gets f)"
  "log_frame D m \<Longrightarrow> (\<And>a. log_frame D (g a)) \<Longrightarrow> log_frame D (State_Monad.bind m g)"
  "log_frame D p \<Longrightarrow> (\<And>a. log_frame D (h a)) \<Longrightarrow> log_frame D (tryM p h)"
  by (auto simp: log_frame_def exec_tryM split: sum.splits)

lemma log_frame_modify:
  "(\<And>s. chainTbl (f s) = chainTbl s \<and> logTbl (f s) = logTbl s \<and> clockT (f s) = clockT s
     \<and> verdictTbl (f s) = verdictTbl s) \<Longrightarrow> log_frame D (modify f)"
  by (simp add: log_frame_def)

lemma log_frame_ledger: "log_frame D (ledger D)"
  unfolding ledger_def ensureLedger_def
  by (auto intro!: log_frame_rules log_frame_modify split: option.splits)

lemma log_frame_coin:
  "log_frame D (totalSupply D)" "log_frame D (supplyView D)" "log_frame D (retained D)"
  "log_frame D (recordMint D a)" "log_frame D (recordBurn D a)" "log_frame D (recordEarned D a)"
  unfolding totalSupply_def supplyView_def retained_def recordMint_def recordBurn_def recordEarned_def saveLedger_def
  by (auto intro!: log_frame_rules log_frame_modify log_frame_ledger)

lemma log_frame_nodes:
  "log_frame D (requireNode D i)" "log_frame D (recordExecution D i b)" "log_frame D (currentWeight D i)"
  "log_frame D (listNodes D)"
  unfolding requireNode_def recordExecution_def currentWeight_def listNodes_def
  by (auto intro!: log_frame_rules log_frame_modify simp: Let_def split: option.splits)

lemma log_frame_reads:
  "log_frame D (phase D)" "log_frame D (reserveIndex E D)" "log_frame D (list_chain D)" "log_frame D (getVerdict D p)"
  "log_frame D (listVerdicts D)" "log_frame D (getEpoch D n)" "log_frame D (confirmedWeights D n)"
  "log_frame D (requireEpoch E D n)" "log_frame D (getLog D)"
  unfolding phase_def list_page_def getVerdict_def listVerdicts_def getEpoch_def requireEpoch_def getLog_def
  by (auto intro!: log_frame_rules log_frame_modify simp: log_frame_def confirmedWeights_run split: option.splits)

lemmas log_frames = log_frame_ledger log_frame_coin log_frame_nodes log_frame_reads

lemma safe_now: "safe (logs_ok E D) (extends D) now"
  by (rule safeI) (auto simp: logs_ok_def extends_def intact_def history_def ledger_log_def linked_def verdict_of_def
      intro: timed_mono)

lemma safe_modify:
  "(\<And>s. chainTbl (f s) = chainTbl s \<and> logTbl (f s) = logTbl s \<and> clockT (f s) = clockT s
     \<and> verdictTbl (f s) = verdictTbl s) \<Longrightarrow>
     safe (logs_ok E D) (extends D) (modify f)"
  by (rule log_frame_safe, rule log_frame_modify)

context datastore
begin

lemma logTbl_append [simp]: "logTbl (exec (append E D e p) s) = logTbl s"
  "clockT (exec (append E D e p) s) = clockT s + 1"
  by (simp_all add: append_run)

lemma linked_append: "linked D s \<Longrightarrow> linked D (exec (append E D e p) s)"
  by (fastforce simp: linked_def history_append)

lemma safe_append: "safe (logs_ok E D) (extends D) (append E D e p)"
proof (rule safeI)
  fix s :: "'a sys_scheme"
  assume "logs_ok E D s"
  moreover have "ledger_log D (exec (append E D e p) s) = ledger_log D s" by (simp add: ledger_log_def)
  ultimately show "logs_ok E D (exec (append E D e p) s) \<and> extends D s (exec (append E D e p) s)"
    by (auto simp: logs_ok_def extends_def history_append numbered_next linked_append intro: timed_mono)
qed

lemma safe_capture: "safe (logs_ok E D) (extends D) (capture E D pid e d v)"
  unfolding capture_def Let_def
  by (rule ext.safe_bind [OF safe_append] ext.safe_bind [OF safe_modify] ext.safe_return | simp)+

lemma linked_verify:
  assumes "linked D s"
  shows "linked D (exec (verify E D pid) s)"
proof (cases "verdict_of D s pid")
  case None
  define v where "v = result (verify E D pid) s"
  define x where "x = next_snapshot E ''pot.verified'' (verdict_payload pid (resVerified v) (resReasons v))
    (clockT s + 1) (history D s)"
  have "history D (t\<lparr>clockT := k, verdictTbl := w\<rparr>) = history D t" for t :: "'a pot_state_scheme" and k w
    by (simp add: history_def)
  then have hist: "history D (exec (verify E D pid) s) = history D s @ [x]"
    using verify_fresh [OF None, of E] by (simp add: v_def x_def verdict_payload_def history_append)
  have x: "sequenceId x = resSnapshotSequenceId v" "eventType x = ''pot.verified''"
    "payload x = verdict_payload pid (resVerified v) (resReasons v)" "resVerified v = 0 \<or> resVerified v = 1"
    using verify_fresh(1) [OF None, of E] by (simp_all add: v_def x_def verdict_payload_def)
  show ?thesis unfolding linked_def hist
  proof (intro allI impI)
    fix q r
    assume "verdict_of D (exec (verify E D pid) s) q = Some r"
    then consider "q = pid" "verified r = resVerified v" "reasons r = resReasons v"
        "snapshotSequenceId r = resSnapshotSequenceId v" | "verdict_of D s q = Some r"
      using None by (auto simp: verify_verdict_of v_def split: if_splits)
    then show "(verified r = 0 \<or> verified r = 1) \<and> (\<exists>y\<in>set (history D s @ [x]). sequenceId y = snapshotSequenceId r
        \<and> eventType y = ''pot.verified'' \<and> payload y = verdict_payload q (verified r) (reasons r))"
      using assms x by cases (auto simp: linked_def)
  qed
next
  case (Some v)
  then show ?thesis using assms verify_existing [OF Some, of E] by simp
qed

lemma safe_verify: "safe (logs_ok E D) (extends D) (verify E D pid)"
proof (rule safeI)
  fix s :: "'a sys_scheme"
  assume ok: "logs_ok E D s"
  show "logs_ok E D (exec (verify E D pid) s) \<and> extends D s (exec (verify E D pid) s)"
  proof (cases "verdict_of D s pid")
    case None
    have upd: "history D (t\<lparr>verdictTbl := w\<rparr>) = history D t" "ledger_log D (t\<lparr>verdictTbl := w\<rparr>) = ledger_log D t"
      "clockT (t\<lparr>verdictTbl := w\<rparr>) = clockT t"
      for t :: "'a sys_scheme" and w by (simp_all add: history_def ledger_log_def)
    obtain b w where run: "exec (verify E D pid) s =
        (exec now (exec (append E D ''pot.verified'' b) s))\<lparr>verdictTbl := w\<rparr>"
      using verify_fresh(2) [OF None, of E] by blast
    let ?u = "exec now (exec (append E D ''pot.verified'' b) s)"
    have "safe (logs_ok E D) (extends D) (do { append E D ''pot.verified'' b; now })"
      by (rule ext.safe_bind [OF safe_append safe_now])
    then have u: "logs_ok E D ?u" "extends D s ?u" using ok safeD [of _ _ _ s] by fastforce+
    have "linked D (?u\<lparr>verdictTbl := w\<rparr>)" "\<forall>q v. verdict_of D s q = Some v \<longrightarrow> verdict_of D (?u\<lparr>verdictTbl := w\<rparr>) q = Some v"
      using linked_verify [of s E pid] ok None verify_verdict_of [of E pid s] unfolding run by (auto simp: logs_ok_def)
    then show ?thesis using u unfolding logs_ok_def extends_def intact_def run upd by blast
  next
    case (Some v)
    then show ?thesis using ok verify_existing [OF Some, of E] by (simp add: ext.R_refl)
  qed
qed

lemma next_entry_time [simp]: "logTimestamp (next_entry E k e l d ts ls) = ts"
  by (simp add: next_entry_def Let_def)

lemma safe_eyeLog: "safe (logs_ok E D) (extends D) (eyeLog E D e l d)"
proof (rule safeI)
  fix s :: "'a sys_scheme"
  assume "logs_ok E D s"
  moreover have "clockT (exec (eyeLog E D e l d) s) = clockT s + 1" by (simp add: eyeLog_def Let_def)
  ultimately show "logs_ok E D (exec (eyeLog E D e l d) s) \<and> extends D s (exec (eyeLog E D e l d) s)"
    by (auto simp: logs_ok_def extends_def eyeLog_run(2) audit_next linked_def intro: timed_mono)
qed

lemma safe_compareSupply: "safe (logs_ok E D) (extends D) (compareSupply E D v)"
  unfolding compareSupply_def Let_def by (intro ext.safe_rules safe_eyeLog)

lemma safe_register: "safe (logs_ok E D) (extends D) (register E D i t)"
  unfolding register_def Let_def by (intro ext.safe_rules safe_append safe_modify) simp

lemma safe_registerAll: "safe (logs_ok E D) (extends D) (registerAll E D ns)"
  by (induction ns) (auto intro!: ext.safe_rules safe_register)

lemma safe_resolve: "safe (logs_ok E D) (extends D) (resolveAssignedNodes E D x)"
  unfolding resolveAssignedNodes_def
  by (auto intro!: ext.safe_rules safe_registerAll log_frames [THEN log_frame_safe] split: option.splits list.splits)

lemma safe_accrue: "safe (logs_ok E D) (extends D) (accrue D n f ps)"
  unfolding accrue_def openEpoch_def Let_def
  by (auto intro!: ext.safe_rules safe_modify safe_now split: option.splits)

lemma safe_mint: "safe (logs_ok E D) (extends D) (mint E D pid a)"
  unfolding mint_def by (intro ext.safe_rules safe_append log_frames [THEN log_frame_safe])

lemma safe_burn: "safe (logs_ok E D) (extends D) (burn E D pid a)"
  unfolding burn_def by (intro ext.safe_rules safe_append log_frames [THEN log_frame_safe])

lemma safe_receivePayment: "safe (logs_ok E D) (extends D) (receivePayment E D i a)"
  unfolding receivePayment_def by (intro ext.safe_rules safe_append log_frames [THEN log_frame_safe])

lemma safe_payLoop: "safe (logs_ok E D) (extends D) (payLoop E D ws d W ids paid dl)"
  by (induction ids arbitrary: paid dl)
    (simp_all add: Let_def ext.safe_rules safe_receivePayment log_frames [THEN log_frame_safe])

lemma safe_finalizeEpoch: "safe (logs_ok E D) (extends D) (finalizeEpoch E D n)"
  unfolding finalizeEpoch_def addAfcAccrual_def Let_def
  by (auto intro!: ext.safe_rules safe_append safe_now safe_modify safe_payLoop log_frames [THEN log_frame_safe]
      split: prod.splits)

lemmas safe_ops = safe_capture safe_verify safe_eyeLog safe_compareSupply safe_resolve safe_accrue safe_mint
  safe_burn safe_finalizeEpoch

lemma safe_runProcess: "safe (logs_ok E D) (extends D) (runProcess E D input)"
  unfolding runProcess_def terminate_def rejectUnverified_def settleVerified_def Let_def
  by (intro ext.safe_rules safe_ops log_frames [THEN log_frame_safe])

lemma safe_runFinalizeEpoch: "safe (logs_ok E D) (extends D) (runFinalizeEpoch E D n)"
  unfolding runFinalizeEpoch_def by (intro ext.safe_rules safe_ops log_frames [THEN log_frame_safe])

lemma safe_metrics: "safe (logs_ok E D) (extends D) (metrics E D n)"
  unfolding metrics_def isActive_def by (intro ext.safe_rules log_frames [THEN log_frame_safe])

lemma safe_getProcess: "safe (logs_ok E D) (extends D) (getProcess D pid)"
  unfolding getProcess_def Let_def by (intro ext.safe_rules log_frames [THEN log_frame_safe])

lemma safe_activate: "safe (logs_ok E D) (extends D) (activate E D th tg vol)"
  unfolding activate_def check_def velocity_def Let_def
  by (intro ext.safe_rules safe_append safe_now safe_modify log_frames [THEN log_frame_safe]) simp

lemma safe_emit: "safe (logs_ok E D) (extends D) (emit E D pid a)"
  unfolding emit_def by (intro ext.safe_rules safe_mint safe_burn log_frames [THEN log_frame_safe])

end

end
