(* ===== verification/Lifecycle.thy ===== *)
theory Lifecycle
  imports Orchestrator
begin

text \<open>
  What a whole run of \<open>runProcess\<close> does: the successful run and its exact effects, the gate
  that keeps every other run from producing value, and the runs that throw.
\<close>

text \<open>The three ways a run that produces no value leaves the value-bearing state alone.\<close>

definition same_value :: "database \<Rightarrow> 'z sys_scheme \<Rightarrow> 'z sys_scheme \<Rightarrow> bool" where
  "same_value D s t \<longleftrightarrow> tallies D t = tallies D s \<and> (\<forall>n. epoch_of D t n = epoch_of D s n)
     \<and> (\<forall>n. parts_of t n = parts_of s n) \<and> volume (entries D t) = volume (entries D s)"

context datastore
begin

lemma admitted_thrown:
  fixes s :: "'z sys_scheme"
  assumes "dtoAdmissible input" "i \<in> set (assigned_ids D s (dtoNodeIds input))"
    "node_of D (exec (admit E D input) s) i = None"
  shows "\<exists>j. result (runProcess E D input) s = Inl (nodeNotFound j)
      \<and> node_of D (exec (admit E D input) s) j = None"
    "exec (runProcess E D input) s =
       exec (workAll D (assigned_ids D s (dtoNodeIds input))) (exec (admit E D input) s)"
  using workAll_first_missing [OF assms(2,3)] assms(1)
  by (auto simp: runProcess_segments admit_result tryM_simps)

lemma admitted_run:
  fixes s :: "'z sys_scheme" and E :: env and input :: RunProcessDto
  assumes "dtoAdmissible input" "\<forall>i \<in> set (assigned_ids D s (dtoNodeIds input)). node_of D (exec (admit E D input) s) i \<noteq> None"
  defines "w \<equiv> exec (workAll D (assigned_ids D s (dtoNodeIds input))) (exec (admit E D input) s)"
    and "k \<equiv> conclude E D input (assigned_ids D s (dtoNodeIds input))"
  shows "result (runProcess E D input) s =
      result (k (result (judge E D (dtoProcessId input)) w)) (exec (judge E D (dtoProcessId input)) w)"
    "exec (runProcess E D input) s =
      exec (k (result (judge E D (dtoProcessId input)) w)) (exec (judge E D (dtoProcessId input)) w)"
proof -
  have "result (workAll D (assigned_ids D s (dtoNodeIds input))) (exec (admit E D input) s) = Inr ()"
    by (rule workAll_run(1)) (use assms(2) in blast)
  then show "result (runProcess E D input) s =
      result (k (result (judge E D (dtoProcessId input)) w)) (exec (judge E D (dtoProcessId input)) w)"
    "exec (runProcess E D input) s =
      exec (k (result (judge E D (dtoProcessId input)) w)) (exec (judge E D (dtoProcessId input)) w)"
    using assms(1) by (simp_all add: runProcess_segments admit_result tryM_simps w_def k_def)
qed

lemma run_gate:
  fixes s :: "'z sys_scheme"
  assumes "coin_ok D s"
  shows "same_value D s (exec (runProcess E D input) s) \<and>
      (\<forall>r. result (runProcess E D input) s = Inr r \<longrightarrow> runVerified r = 0 \<and> runMinted r = 0 \<and> runFee r = 0)
    \<or> dtoAdmissible input \<and> confirmed D (exec (runProcess E D input) s) (dtoProcessId input) \<and>
      (\<exists>r. result (runProcess E D input) s = Inr r \<and> runVerified r = 1)"
proof (cases "dtoAdmissible input")
  case False
  then show ?thesis using inadmissible_run [OF assms False, where E = E]
    by (simp add: same_value_def volume_def recorded_def contribution_other)
next
  case adm: True
  let ?ids = "assigned_ids D s (dtoNodeIds input)" and ?u = "exec (admit E D input) s"
  let ?w = "exec (workAll D ?ids) ?u"
  have w: "same_value D s ?w" "coin_ok D ?w" using assms by (simp_all add: same_value_def admit_volume)
  show ?thesis
  proof (cases "\<forall>i \<in> set ?ids. node_of D ?u i \<noteq> None")
    case False
    then show ?thesis using admitted_thrown [OF adm, where s = s and E = E] w(1) by fastforce
  next
    case True
    let ?v = "result (judge E D (dtoProcessId input)) ?w" and ?j = "exec (judge E D (dtoProcessId input)) ?w"
    note run = admitted_run [OF adm True]
    have j: "same_value D s ?j" "coin_ok D ?j"
      using w by (simp_all add: same_value_def verdict_entries_volume)
    show ?thesis
    proof (cases "?v = 1")
      case True
      note cf = judge_confirmed [OF True]
      show ?thesis using adm cf j(2) settle_run [OF cf j(2)]
        by (simp add: run conclude_def True confirmed_def)
    next
      case False
      then show ?thesis using j reject_run [OF j(2)]
        by (simp add: run conclude_def same_value_def volume_def recorded_def contribution_other)
    qed
  qed
qed

text \<open>An admitted run whose verdict is 1: the views after it, from the views before it.\<close>

lemma settled_run:
  fixes s :: "'z sys_scheme" and E :: env and input :: RunProcessDto
  assumes "coin_ok D s" "dtoAdmissible input" "assignable D s (dtoNodeIds input)"
  defines "ids \<equiv> assigned_ids D s (dtoNodeIds input)" and "pid \<equiv> dtoProcessId input" and "a \<equiv> dtoAmount input"
    and "n \<equiv> (case dtoEpoch input of Some n \<Rightarrow> n | None \<Rightarrow> DEFAULT_EPOCH)"
  defines "w \<equiv> exec (workAll D ids) (exec (admit E D input) s)"
  assumes one: "result (judge E D pid) w = 1"
  defines "t \<equiv> exec (runProcess E D input) s" and "j \<equiv> exec (judge E D pid) w"
  shows "result (runProcess E D input) s =
      Inr \<lparr>runProcessId = pid, runVerified = 1, runReason = None, runMinted = a, runFee = computeFee a 0,
           runSupplyAfter = supply_of (cycled a (tallies D s)),
           runReserveIndex = log10 E (1 + volume (entries D s @ [(''emission.minted'', minted_payload pid a)])),
           runAssignedNodes = ids,
           runEvents = events_to_verdict @ [''emission.minted'', ''emission'', ''emission.burned'', ''final_status'']\<rparr>"
    and "entries D t = entries D j @ settle_entries pid a"
    and "tallies D t = cycled a (tallies D s)" and "coin_ok D t" and "intact E D t = intact E D s"
    and "verdict_of D t q = verdict_of D j q" and "node_of D t i = node_of D w i"
    and "\<exists>k. epoch_of D t n = Some (accrued k n (computeFee a 0) (epoch_of D s n))"
    and "m \<noteq> n \<Longrightarrow> epoch_of D t m = epoch_of D s m"
    and "parts_of t m =
      (if m = n then parts_of s n @ map (\<lambda>i. \<lparr>partProcessId = pid, partNodeId = i\<rparr>) ids else parts_of s m)"
proof -
  have reg: "\<forall>i \<in> set (assigned_ids D s (dtoNodeIds input)). node_of D (exec (admit E D input) s) i \<noteq> None"
    using admit_registered [OF assms(3)] by blast
  note run = admitted_run [OF assms(2) reg, folded ids_def pid_def, folded w_def, unfolded one, folded j_def]
  have j: "confirmed D j pid" "coin_ok D j" using judge_confirmed [OF one] assms(1) by (simp_all add: j_def w_def)
  have base: "tallies D j = tallies D s" "epoch_of D j q = epoch_of D s q" "parts_of j q = parts_of s q"
    "intact E D j = intact E D s" "node_of D j i = node_of D w i" "phase_of D j = phase_of D s" for q i
    by (simp_all add: j_def w_def)
  have vol: "volume (entries D j @ es) = volume (entries D s @ es)" for es
    using verdict_entries_volume [of E pid w] admit_volume [of E input s] by (simp add: volume_def j_def w_def)
  note sr = settle_run [OF j, where E = E and a = a and n = n and ids = ids and evs = events_to_verdict]
  have k: "conclude E D input ids 1 = settleVerified E D pid a n ids events_to_verdict"
    by (simp add: conclude_def pid_def a_def n_def)
  show "result (runProcess E D input) s =
      Inr \<lparr>runProcessId = pid, runVerified = 1, runReason = None, runMinted = a, runFee = computeFee a 0,
           runSupplyAfter = supply_of (cycled a (tallies D s)),
           runReserveIndex = log10 E (1 + volume (entries D s @ [(''emission.minted'', minted_payload pid a)])),
           runAssignedNodes = ids,
           runEvents = events_to_verdict @ [''emission.minted'', ''emission'', ''emission.burned'', ''final_status'']\<rparr>"
    unfolding run k sr(1) base(1) vol by (rule refl)
  have t: "t = exec (settleVerified E D pid a n ids events_to_verdict) j" by (simp add: t_def run k)
  show "entries D t = entries D j @ settle_entries pid a" "tallies D t = cycled a (tallies D s)" "coin_ok D t"
    "intact E D t = intact E D s" "verdict_of D t q = verdict_of D j q" "node_of D t i = node_of D w i"
    "\<exists>k. epoch_of D t n = Some (accrued k n (computeFee a 0) (epoch_of D s n))"
    "m \<noteq> n \<Longrightarrow> epoch_of D t m = epoch_of D s m"
    "parts_of t m =
      (if m = n then parts_of s n @ map (\<lambda>i. \<lparr>partProcessId = pid, partNodeId = i\<rparr>) ids else parts_of s m)"
    using sr base unfolding t by simp_all
qed

text \<open>The first run of a process on an intact chain.\<close>

lemma fresh_judgement:
  fixes s :: "'z sys_scheme"
  assumes "intact E D s" "verdict_of D s (dtoProcessId input) = None"
  defines "w \<equiv> exec (workAll D (assigned_ids D s (dtoNodeIds input))) (exec (admit E D input) s)"
  shows "verdict_of D w (dtoProcessId input) = None" "evidence_complete E D w (dtoProcessId input)"
  using assms(1,2) by (simp_all add: w_def evidence_complete_def admit_captured)

lemma verified_run:
  fixes s :: "'z sys_scheme"
  assumes "coin_ok D s" "intact E D s" "dtoAdmissible input" "verdict_of D s (dtoProcessId input) = None"
    "assignable D s (dtoNodeIds input)"
  shows "result (runProcess E D input) s =
      Inr \<lparr>runProcessId = dtoProcessId input, runVerified = 1, runReason = None, runMinted = dtoAmount input,
           runFee = computeFee (dtoAmount input) 0,
           runSupplyAfter = supply_of (cycled (dtoAmount input) (tallies D s)),
           runReserveIndex = log10 E (1 + volume (entries D s @
             [(''emission.minted'', minted_payload (dtoProcessId input) (dtoAmount input))])),
           runAssignedNodes = assigned_ids D s (dtoNodeIds input),
           runEvents = [''initiation'', ''task_assignment'', ''stage_transition'', ''execution_complete'',
             ''pot.verified'', ''pot_verdict'', ''emission.minted'', ''emission'', ''emission.burned'', ''final_status'']\<rparr>"
    "entries D (exec (runProcess E D input) s) = entries D (exec (admit E D input) s)
       @ [(''pot.verified'', verdict_payload (dtoProcessId input) 1 []),
          recorded (dtoProcessId input) ''pot_verdict'' [(''verified'', jint 1)]]
       @ settle_entries (dtoProcessId input) (dtoAmount input)"
    "confirmed D (exec (runProcess E D input) s) (dtoProcessId input)"
proof -
  let ?w = "exec (workAll D (assigned_ids D s (dtoNodeIds input))) (exec (admit E D input) s)"
  note j = judge_run [OF fresh_judgement [OF assms(2,4)]]
  note run = settled_run [OF assms(1,3,5) j(1)]
  show "result (runProcess E D input) s =
      Inr \<lparr>runProcessId = dtoProcessId input, runVerified = 1, runReason = None, runMinted = dtoAmount input,
           runFee = computeFee (dtoAmount input) 0,
           runSupplyAfter = supply_of (cycled (dtoAmount input) (tallies D s)),
           runReserveIndex = log10 E (1 + volume (entries D s @
             [(''emission.minted'', minted_payload (dtoProcessId input) (dtoAmount input))])),
           runAssignedNodes = assigned_ids D s (dtoNodeIds input),
           runEvents = [''initiation'', ''task_assignment'', ''stage_transition'', ''execution_complete'',
             ''pot.verified'', ''pot_verdict'', ''emission.minted'', ''emission'', ''emission.burned'', ''final_status'']\<rparr>"
    unfolding run(1) by (simp add: events_to_verdict_def)
  show "entries D (exec (runProcess E D input) s) = entries D (exec (admit E D input) s)
       @ [(''pot.verified'', verdict_payload (dtoProcessId input) 1 []),
          recorded (dtoProcessId input) ''pot_verdict'' [(''verified'', jint 1)]]
       @ settle_entries (dtoProcessId input) (dtoAmount input)"
    unfolding run(2) j(2) by simp
  show "confirmed D (exec (runProcess E D input) s) (dtoProcessId input)"
    using j(3) by (simp add: confirmed_def run(6))
qed

lemma verified_effects:
  fixes s :: "'z sys_scheme" and E :: env and input :: RunProcessDto
  assumes "coin_ok D s" "intact E D s" "dtoAdmissible input" "verdict_of D s (dtoProcessId input) = None"
    "assignable D s (dtoNodeIds input)"
  defines "t \<equiv> exec (runProcess E D input) s" and "pid \<equiv> dtoProcessId input" and "a \<equiv> dtoAmount input"
    and "ids \<equiv> assigned_ids D s (dtoNodeIds input)" and "new \<equiv> registrations D s (dtoNodeIds input)"
    and "n \<equiv> (case dtoEpoch input of Some n \<Rightarrow> n | None \<Rightarrow> DEFAULT_EPOCH)"
  shows "entries D t = entries D s
      @ [recorded pid ''initiation'' [(''amount'', JNum a)]]
      @ map (\<lambda>(i, ty). (''node.registered'', registered_payload i ty)) new
      @ [recorded pid ''task_assignment'' [(''nodes'', JArr (map JStr ids))],
         recorded pid ''stage_transition'' [(''stage'', JStr ''execute'')],
         recorded pid ''execution_complete'' [],
         (''pot.verified'', verdict_payload pid 1 []),
         recorded pid ''pot_verdict'' [(''verified'', jint 1)],
         (''emission.minted'', minted_payload pid a),
         recorded pid ''emission'' [(''minted'', JNum a)],
         (''emission.burned'', burned_payload pid a),
         recorded pid ''final_status'' [(''status'', JStr ''done'')]]"
    "tallies D t = (tallies D s)\<lparr>processMinted := processMinted (tallies D s) + a,
                                   processBurned := processBurned (tallies D s) + a\<rparr>"
    "\<exists>k. epoch_of D t n = Some (accrued k n (computeFee a 0) (epoch_of D s n))"
    "\<forall>m. m \<noteq> n \<longrightarrow> epoch_of D t m = epoch_of D s m"
    "parts_of t n = parts_of s n @ map (\<lambda>i. \<lparr>partProcessId = pid, partNodeId = i\<rparr>) ids"
    "\<forall>j. node_of D t j = map_option (worked True ^^ count_list ids j)
          (case map_of (rev new) j of None \<Rightarrow> node_of D s j | Some ty \<Rightarrow> Some (fresh_node j ty))"
proof -
  note v = verified_run [OF assms(1-5)]
  note run = settled_run [OF assms(1,3,5) judge_run(1) [OF fresh_judgement [OF assms(2,4)]], folded t_def pid_def a_def n_def ids_def]
  have reg: "\<And>i. i \<in> set ids \<Longrightarrow> node_of D (exec (admit E D input) s) i \<noteq> None"
    using admit_registered [OF assms(5)] by (simp add: ids_def)
  show "\<forall>j. node_of D t j = map_option (worked True ^^ count_list ids j)
          (case map_of (rev new) j of None \<Rightarrow> node_of D s j | Some ty \<Rightarrow> Some (fresh_node j ty))"
    unfolding run(7) using workAll_run(2) [OF reg] by (simp add: admit_nodes new_def)
  show "entries D t = entries D s
      @ [recorded pid ''initiation'' [(''amount'', JNum a)]]
      @ map (\<lambda>(i, ty). (''node.registered'', registered_payload i ty)) new
      @ [recorded pid ''task_assignment'' [(''nodes'', JArr (map JStr ids))],
         recorded pid ''stage_transition'' [(''stage'', JStr ''execute'')],
         recorded pid ''execution_complete'' [],
         (''pot.verified'', verdict_payload pid 1 []),
         recorded pid ''pot_verdict'' [(''verified'', jint 1)],
         (''emission.minted'', minted_payload pid a),
         recorded pid ''emission'' [(''minted'', JNum a)],
         (''emission.burned'', burned_payload pid a),
         recorded pid ''final_status'' [(''status'', JStr ''done'')]]"
    unfolding t_def v(2) admit_entries by (simp add: settle_entries_def pid_def a_def ids_def new_def)
  show "tallies D t = (tallies D s)\<lparr>processMinted := processMinted (tallies D s) + a,
                                   processBurned := processBurned (tallies D s) + a\<rparr>"
    "\<exists>k. epoch_of D t n = Some (accrued k n (computeFee a 0) (epoch_of D s n))"
    "\<forall>m. m \<noteq> n \<longrightarrow> epoch_of D t m = epoch_of D s m"
    "parts_of t n = parts_of s n @ map (\<lambda>i. \<lparr>partProcessId = pid, partNodeId = i\<rparr>) ids"
    using run(3,8,9,10) by (simp_all add: cycled_def)
qed

lemma repeated_run:
  fixes s :: "'z sys_scheme"
  assumes "coin_ok D s" "dtoAdmissible input" "assignable D s (dtoNodeIds input)" "confirmed D s (dtoProcessId input)"
  shows "\<exists>r. result (runProcess E D input) s = Inr r \<and> runVerified r = 1 \<and> runMinted r = dtoAmount input"
    "tallies D (exec (runProcess E D input) s) = cycled (dtoAmount input) (tallies D s)"
    "verdict_of D (exec (runProcess E D input) s) (dtoProcessId input) = verdict_of D s (dtoProcessId input)"
proof -
  let ?w = "exec (workAll D (assigned_ids D s (dtoNodeIds input))) (exec (admit E D input) s)"
  obtain v where v: "verdict_of D s (dtoProcessId input) = Some v" "verified v = 1"
    using assms(4) by (auto simp: confirmed_def split: option.splits)
  have w: "verdict_of D ?w (dtoProcessId input) = Some v" using v(1) by simp
  have j: "result (judge E D (dtoProcessId input)) ?w = 1"
    using verify_existing [OF w, of E] v(2) by (simp add: judge_def)
  note run = settled_run [OF assms(1-3) j]
  show "\<exists>r. result (runProcess E D input) s = Inr r \<and> runVerified r = 1 \<and> runMinted r = dtoAmount input"
    "tallies D (exec (runProcess E D input) s) = cycled (dtoAmount input) (tallies D s)"
    using run(1,3) by simp_all
  show "verdict_of D (exec (runProcess E D input) s) (dtoProcessId input) = verdict_of D s (dtoProcessId input)"
    using run(6) verify_existing [OF w, of E] v(1) w by (simp add: judge_def)
qed

lemma unregistered_run:
  fixes s :: "'z sys_scheme"
  assumes "dtoAdmissible input" "dtoNodeIds input = Some (i # is)" "j \<in> set (i # is)" "node_of D s j = None"
  shows "\<exists>k \<in> set (i # is). node_of D s k = None \<and> result (runProcess E D input) s = Inl (nodeNotFound k)"
    "entries D (exec (runProcess E D input) s) = entries D s
       @ [recorded (dtoProcessId input) ''initiation'' [(''amount'', JNum (dtoAmount input))],
          recorded (dtoProcessId input) ''task_assignment'' [(''nodes'', JArr (map JStr (i # is)))],
          recorded (dtoProcessId input) ''stage_transition'' [(''stage'', JStr ''execute'')],
          recorded (dtoProcessId input) ''execution_complete'' []]"
    "tallies D (exec (runProcess E D input) s) = tallies D s"
    "verdict_of D (exec (runProcess E D input) s) p = verdict_of D s p"
proof -
  have ids: "assigned_ids D s (dtoNodeIds input) = i # is" "registrations D s (dtoNodeIds input) = []"
    using assms(2) by (simp_all add: assigned_ids_def registrations_def)
  have adm: "node_of D (exec (admit E D input) s) k = node_of D s k" for k by (simp add: admit_nodes ids)
  have j: "j \<in> set (assigned_ids D s (dtoNodeIds input))" "node_of D (exec (admit E D input) s) j = None"
    using assms(3,4) adm ids(1) by simp_all
  note th = admitted_thrown [OF assms(1) j]
  have "\<exists>k. result (workAll D (i # is)) (exec (admit E D input) s) = Inl (nodeNotFound k) \<and> k \<in> set (i # is)
      \<and> node_of D (exec (admit E D input) s) k = None"
    by (rule workAll_first_missing) (use j ids in auto)
  then show "\<exists>k \<in> set (i # is). node_of D s k = None \<and> result (runProcess E D input) s = Inl (nodeNotFound k)"
    using assms(1) adm by (auto simp: runProcess_segments admit_result tryM_simps ids(1))
  show "entries D (exec (runProcess E D input) s) = entries D s
       @ [recorded (dtoProcessId input) ''initiation'' [(''amount'', JNum (dtoAmount input))],
          recorded (dtoProcessId input) ''task_assignment'' [(''nodes'', JArr (map JStr (i # is)))],
          recorded (dtoProcessId input) ''stage_transition'' [(''stage'', JStr ''execute'')],
          recorded (dtoProcessId input) ''execution_complete'' []]"
    "tallies D (exec (runProcess E D input) s) = tallies D s"
    "verdict_of D (exec (runProcess E D input) s) p = verdict_of D s p"
    unfolding th(2) by (simp_all add: admit_entries ids)
qed

end

end
