(* ===== verification/System.thy ===== *)
theory System
  imports AppendOnly Lifecycle
begin

text \<open>
  The HTTP surface (\<open>src/orchestrator/*.controller.ts\<close>, the request body contract of
  \<open>dto/run-process.dto.ts\<close>) and the states the running service can reach through it. A
  request runs to completion before the next one starts. \<open>economy\<close> is the invariant of the
  value-bearing state; together with \<open>logs_ok\<close> it holds in every reachable state.
\<close>

datatype request =
    PostProcess RunProcessDto
  | GetProcess string
  | GetMetrics int
  | PostFinalize int

definition validRunProcessDto :: "RunProcessDto \<Rightarrow> bool" where
  "validRunProcessDto dto \<longleftrightarrow>
     is_finite (dtoAmount dto) \<and> is_double (dtoAmount dto) \<and> 0 < dtoAmount dto \<and> dtoNodeIds dto \<noteq> Some []"

fun valid_request :: "request \<Rightarrow> bool" where
  "valid_request (PostProcess dto) = validRunProcessDto dto"
| "valid_request _ = True"

fun serve :: "env \<Rightarrow> database \<Rightarrow> request \<Rightarrow> 'z sys_scheme \<Rightarrow> 'z sys_scheme" where
  "serve E D (PostProcess dto) s = exec (runProcess E D dto) s"
| "serve E D (GetProcess i) s = exec (getProcess D i) s"
| "serve E D (GetMetrics n) s = exec (metrics E D n) s"
| "serve E D (PostFinalize n) s = exec (runFinalizeEpoch E D n) s"

definition boot :: sys where
  "boot = \<lparr>clockT = clock_start, chainTbl = [], captured = Map.empty, verdictTbl = [], ledgerTbl = [],
     coinInit = False, nodeTbl = [], epochTbl = [], participation = Map.empty, phaseTbl = [], logTbl = []\<rparr>"

inductive reachable :: "env \<Rightarrow> database \<Rightarrow> sys \<Rightarrow> bool" for E D where
  start: "reachable E D boot"
| step: "reachable E D s \<Longrightarrow> valid_request r \<Longrightarrow> reachable E D (serve E D r s)"

text \<open>
  A restart of the service: the tables stay, the fields of the services start again (the clock, the
  captured events, the promise of the ledger row, the participations of open epochs). \<open>lived\<close> are
  the states reached by valid requests, one after the other, and restarts between them.
\<close>

definition restart :: "sys \<Rightarrow> sys" where
  "restart s = s\<lparr>clockT := clock_start, captured := Map.empty, coinInit := False, participation := Map.empty\<rparr>"

inductive lived :: "env \<Rightarrow> database \<Rightarrow> sys \<Rightarrow> bool" for E D where
  lived_start: "lived E D boot"
| lived_step: "lived E D s \<Longrightarrow> valid_request r \<Longrightarrow> lived E D (serve E D r s)"
| lived_restart: "lived E D s \<Longrightarrow> lived E D (restart s)"

lemma restart_views [simp]:
  "tallies D (restart s) = tallies D s" "entries D (restart s) = entries D s" "verdict_of D (restart s) p = verdict_of D s p"
  "node_of D (restart s) i = node_of D s i" "epoch_of D (restart s) n = epoch_of D s n" "parts_of (restart s) n = []"
  "phase_of D (restart s) = phase_of D s" "history D (restart s) = history D s" "ledger_log D (restart s) = ledger_log D s"
  "coin_ok D (restart s)" "intact E D (restart s) = intact E D s"
  by (simp_all add: restart_def tallies_def entries_def history_def verdict_of_def node_of_def epoch_of_def parts_of_def
      phase_of_def ledger_log_def coin_ok_def intact_def)

lemma reachable_lived: "reachable E D s \<Longrightarrow> lived E D s"
  by (induction rule: reachable.induct) (auto intro: lived.intros)

section \<open>The invariant\<close>

definition books :: "database \<Rightarrow> 'z coin_state_scheme \<Rightarrow> bool" where
  "books D s \<longleftrightarrow> coin_ok D s \<and> processMinted (tallies D s) = processBurned (tallies D s) \<and>
     is_double (processBurned (tallies D s)) \<and> 0 \<le> processBurned (tallies D s) \<and>
     is_double (earnedRetained (tallies D s))"

definition crew :: "database \<Rightarrow> 'z node_state_scheme \<Rightarrow> bool" where
  "crew D s \<longleftrightarrow> (\<forall>i n. node_of D s i = Some n \<longrightarrow> node_ok n \<and> successes n = total n)"

definition roll :: "database \<Rightarrow> 'z commission_state_scheme \<Rightarrow> bool" where
  "roll D s \<longleftrightarrow> (\<forall>n. \<forall>p \<in> set (parts_of s n). confirmed D s (partProcessId p) \<and>
     node_of D s (partNodeId p) \<noteq> None \<and> epoch_of D s n \<noteq> None)"

definition pools :: "database \<Rightarrow> 'z commission_state_scheme \<Rightarrow> bool" where
  "pools D s \<longleftrightarrow> (\<forall>n ep. epoch_of D s n = Some ep \<longrightarrow> is_double (totalFees ep) \<and> 0 \<le> totalFees ep)"

definition economy :: "database \<Rightarrow> 'z sys_scheme \<Rightarrow> bool" where
  "economy D s \<longleftrightarrow> books D s \<and> crew D s \<and> roll D s \<and> pools D s \<and>
     list_all nonneg_entry (entries D s) \<and> \<not> active (phase_of D s)"

lemmas economy_defs = economy_def books_def crew_def roll_def pools_def

lemma nonneg_other:
  "e \<noteq> ''emission.minted'' \<Longrightarrow> e \<noteq> ''commission.epoch.finalized'' \<Longrightarrow> nonneg_entry (e, p)"
  by (simp add: nonneg_entry_def contribution_other)

lemma times_nonneg:
  fixes x y :: number
  assumes "0 \<le> x" "0 \<le> y" "is_finite x" "is_finite y"
  shows "0 \<le> x * y"
  using assms rnd_mono [of 0 "a * b" for a b] by (cases x; cases y) (auto simp: zero_number_def)

lemma fee_simp: "computeFee a 0 = a * feeRate"
  by (simp add: computeFee_def plus_zero_double Let_def)

lemma rnd_unit: "0 \<le> x \<Longrightarrow> x \<le> 1 \<Longrightarrow> 0 \<le> rnd x \<and> is_finite (rnd x)"
  using rnd_mono [of 0 x] rnd_mono [of x 1] by (cases "rnd x") (auto simp: zero_number_def)

lemma feeRate_bounds: "0 \<le> feeRate" "is_finite feeRate" "is_double feeRate"
  using rnd_unit [of "5 / 1000"] by (simp_all add: feeRate_def lit_def)

lemma fee_nonneg: "0 < a \<Longrightarrow> is_finite a \<Longrightarrow> 0 \<le> computeFee a 0 \<and> is_double (computeFee a 0)"
  using feeRate_bounds times_nonneg [of a feeRate] by (simp add: fee_simp less_eq_number_def)

lemma nonneg_minted: "0 < a \<Longrightarrow> is_finite a \<Longrightarrow> is_double a \<Longrightarrow> nonneg_entry (''emission.minted'', minted_payload pid a)"
  by (auto simp: nonneg_entry_def contribution_def CONFIRMED_VOLUME_EVENT_def minted_payload_def
      number_or_0_def less_eq_number_def)

lemma worked_crew: "node_ok n \<and> successes n = total n \<Longrightarrow> node_ok (worked True n) \<and> successes (worked True n) = total (worked True n)"
  by (simp add: node_ok_worked)

context datastore
begin

lemma crew_work: "crew D s \<Longrightarrow> crew D (exec (recordExecution D i True) s)"
  using worked_crew by (auto simp: crew_def node_of_ops split: if_splits)

lemma crew_workAll: "crew D s \<Longrightarrow> crew D (exec (workAll D ids) s)"
  by (induction ids arbitrary: s) (auto simp: workAll_def exec_tryM crew_work split: sum.splits)

lemma registered_step: "node_of D s j \<noteq> None \<Longrightarrow> node_of D (exec (recordExecution D i b) s) j \<noteq> None"
  by (auto simp: node_of_ops)

lemma registered_work: "node_of D s j \<noteq> None \<Longrightarrow> node_of D (exec (workAll D ids) s) j \<noteq> None"
proof (induction ids arbitrary: s)
  case (Cons i ids)
  note step = registered_step [OF Cons.prems, of i True]
  show ?case using Cons.IH [OF step] step by (simp add: workAll_def exec_tryM split: sum.splits)
qed (simp add: workAll_def)

lemma economy_workAll:
  assumes "economy D s"
  shows "economy D (exec (workAll D ids) s)"
proof -
  have "roll D (exec (workAll D ids) s)" unfolding roll_def
  proof (intro allI ballI conjI)
    fix n p
    assume "p \<in> set (parts_of (exec (workAll D ids) s) n)"
    then have p: "confirmed D s (partProcessId p)" "node_of D s (partNodeId p) \<noteq> None" "epoch_of D s n \<noteq> None"
      using assms by (auto simp: economy_def roll_def)
    then show "confirmed D (exec (workAll D ids) s) (partProcessId p)"
      "node_of D (exec (workAll D ids) s) (partNodeId p) \<noteq> None" "epoch_of D (exec (workAll D ids) s) n \<noteq> None"
      by (simp_all add: confirmed_def registered_work)
  qed
  moreover have "crew D (exec (workAll D ids) s)" by (rule crew_workAll) (use assms in \<open>simp add: economy_def\<close>)
  ultimately show ?thesis using assms by (simp add: economy_def books_def pools_def)
qed

lemma economy_admit:
  assumes "economy D s"
  shows "economy D (exec (admit E D input) s)"
proof -
  have "list_all nonneg_entry (entries D (exec (admit E D input) s))"
    using assms by (auto simp: economy_def admit_entries recorded_def nonneg_other list_all_iff)
  moreover have "crew D (exec (admit E D input) s)"
    using assms node_ok_fresh by (auto simp: economy_defs admit_nodes fresh_node_def split: option.splits)
  moreover have "roll D (exec (admit E D input) s)"
    using assms by (auto simp: economy_defs admit_nodes confirmed_def split: option.splits)
  ultimately show ?thesis using assms by (simp add: economy_def books_def pools_def)
qed

lemma verdict_kept_judge: "verdict_of D s p = Some v \<Longrightarrow> verdict_of D (exec (judge E D pid) s) p = Some v"
  by (auto simp: judge_def verify_verdict_of)

lemma confirmed_judge: "confirmed D s p \<Longrightarrow> confirmed D (exec (judge E D pid) s) p"
  using verdict_kept_judge [of s p _ E pid] by (auto simp: confirmed_def split: option.splits)

lemma economy_judge:
  assumes "economy D s"
  shows "economy D (exec (judge E D pid) s)"
proof -
  have "list_all nonneg_entry (entries D (exec (judge E D pid) s))"
    using assms by (simp add: economy_def judge_def verify_entries nonneg_other)
  then show ?thesis using assms by (auto simp: economy_defs intro: confirmed_judge)
qed

lemma economy_reject:
  assumes "economy D s"
  shows "economy D (exec (rejectUnverified E D pid ids evs) s)"
proof -
  have ok: "coin_ok D s" using assms by (simp add: economy_def books_def)
  show ?thesis using assms by (simp add: economy_defs confirmed_def reject_run [OF ok] recorded_def nonneg_other)
qed

lemma economy_settle:
  assumes "economy D s" "confirmed D s pid" "0 < a" "is_finite a" "is_double a"
    and "\<And>i. i \<in> set ids \<Longrightarrow> node_of D s i \<noteq> None"
  shows "economy D (exec (settleVerified E D pid a n ids evs) s)"
proof -
  have ok: "coin_ok D s" using assms(1) by (simp add: economy_def books_def)
  note run = settle_run [OF assms(2) ok, where E = E and a = a and n = n and ids = ids and evs = evs]
  let ?t = "exec (settleVerified E D pid a n ids evs) s"
  have a: "0 \<le> a" using assms(3) by (simp add: less_eq_number_def)
  have "books D ?t"
    using assms(1) plus_nonneg_double [of "processBurned (tallies D s)" a] a assms(4,5)
    by (auto simp: economy_def books_def run(3,4) cycled_def)
  moreover have "crew D ?t" "\<not> active (phase_of D ?t)"
    using assms(1) by (simp_all add: economy_defs run(7,8))
  moreover have "list_all nonneg_entry (entries D ?t)"
    using assms(1) nonneg_minted [OF assms(3-5)]
    by (simp add: economy_def run(2) settle_entries_def recorded_def nonneg_other)
  moreover have "roll D ?t"
  proof -
    have "confirmed D ?t p = confirmed D s p" for p by (simp add: confirmed_def run(6))
    moreover have "epoch_of D ?t m \<noteq> None" if "epoch_of D s m \<noteq> None \<or> m = n" for m
      using that run(10,11) by (cases "m = n") auto
    ultimately show ?thesis using assms(1,2,6) by (auto simp: economy_defs run(7,12) split: if_splits)
  qed
  moreover have "pools D ?t"
    unfolding pools_def
  proof (intro allI impI)
    fix m ep
    assume m: "epoch_of D ?t m = Some ep"
    show "is_double (totalFees ep) \<and> 0 \<le> totalFees ep"
    proof (cases "m = n")
      case True
      obtain k where "ep = accrued k n (computeFee a 0) (epoch_of D s n)" using run(10) m True by auto
      moreover have "is_double f \<and> 0 \<le> f \<Longrightarrow> is_double (f + computeFee a 0) \<and> 0 \<le> f + computeFee a 0" for f
      proof (cases "is_finite (computeFee a 0)")
        case True
        then show "is_double f \<and> 0 \<le> f \<Longrightarrow> is_double (f + computeFee a 0) \<and> 0 \<le> f + computeFee a 0"
          using plus_nonneg_double fee_nonneg [OF assms(3,4)] by blast
      next
        case False
        then have "computeFee a 0 = PInf" using fee_nonneg [OF assms(3,4)]
          by (cases "computeFee a 0") (auto simp: zero_number_def)
        then show "is_double f \<and> 0 \<le> f \<Longrightarrow> is_double (f + computeFee a 0) \<and> 0 \<le> f + computeFee a 0"
          by (cases f) (auto simp: zero_number_def)
      qed
      ultimately show ?thesis using assms(1) number_le_refl [of 0]
        by (auto simp: economy_def pools_def accrued_def zero_number_def split: option.splits)
    next
      case False
      then show ?thesis using m run(11) assms(1) by (auto simp: economy_def pools_def)
    qed
  qed
  ultimately show ?thesis by (simp add: economy_def)
qed

lemma economy_run:
  fixes s :: "'z sys_scheme"
  assumes "economy D s" "validRunProcessDto input"
  shows "economy D (exec (runProcess E D input) s)"
proof (cases "dtoAdmissible input")
  case False
  have "coin_ok D s" using assms(1) by (simp add: economy_def books_def)
  note run = inadmissible_run [OF this False, where E = E]
  show ?thesis using assms(1) by (simp add: economy_defs confirmed_def run recorded_def nonneg_other)
next
  case adm: True
  let ?ids = "assigned_ids D s (dtoNodeIds input)" and ?u = "exec (admit E D input) s"
  let ?w = "exec (workAll D ?ids) ?u"
  have w: "economy D ?w" using assms(1) by (intro economy_workAll economy_admit)
  show ?thesis
  proof (cases "\<forall>i \<in> set ?ids. node_of D ?u i \<noteq> None")
    case False
    then show ?thesis using admitted_thrown(2) [OF adm, where s = s and E = E] w by fastforce
  next
    case True
    let ?j = "exec (judge E D (dtoProcessId input)) ?w"
    have j: "economy D ?j" by (rule economy_judge [OF w])
    have reg: "node_of D ?j i \<noteq> None" if "i \<in> set ?ids" for i
      using registered_work [of ?u i ?ids] True that by simp
    have amt: "0 < dtoAmount input" "is_finite (dtoAmount input)" "is_double (dtoAmount input)"
      using assms(2) by (auto simp: validRunProcessDto_def)
    show ?thesis
      using economy_reject [OF j] economy_settle [OF j judge_confirmed amt reg]
      unfolding admitted_run(2) [OF adm True] conclude_def by simp
  qed
qed

lemma economy_eye [simp]:
  "economy D (exec (eyeLog E D e l d) s) = economy D s" "economy D (exec (compareSupply E D v) s) = economy D s"
  by (simp_all add: economy_defs)

lemma economy_ledger: "economy D s \<Longrightarrow> economy D (with_ledger D s)"
  by (simp add: economy_defs)

lemma payouts_double: "\<forall>x \<in> set (map snd (payouts ws pool)). is_double x"
  by (auto simp: payouts_def)

lemma sum_double: "is_double a \<Longrightarrow> (\<forall>x \<in> set xs. is_double x) \<Longrightarrow> is_double (foldl (+) a xs)"
  by (induction xs arbitrary: a) auto

lemma nonneg_finalized: "is_double pool \<Longrightarrow> nonneg_entry (''commission.epoch.finalized'', finalized_payload n (payouts ws q) pool)"
  using sum_double [OF _ payouts_double, of 0 ws q]
  by (auto simp: nonneg_entry_def contribution_def CONFIRMED_VOLUME_EVENT_def COMMISSION_EPOCH_EVENT_def
      finalized_payload_def number_or_0_def paid_of_def less_eq_number_def Let_def)

lemma weigh_roll: "roll D s \<Longrightarrow> \<exists>ws. weigh D s [] (parts_of s n) = Inr ws"
  by (rule weigh_ok) (auto simp: roll_def)

lemma economy_finalize:
  fixes s :: "'z sys_scheme"
  assumes "economy D s"
  shows "economy D (exec (finalizeEpoch E D n) s)"
proof (cases "epoch_of D s n")
  case None
  then show ?thesis using finalize_missing [OF None, of E] assms by simp
next
  case (Some ep)
  show ?thesis
  proof (cases "epochStatus ep = Open")
    case True
    obtain ws where ws: "weigh D s [] (parts_of s n) = Inr ws"
      using weigh_roll [of s n] assms by (auto simp: economy_def)
    have ok: "coin_ok D s" using assms by (simp add: economy_def books_def)
    note v = finalize_views [OF Some True ok ws, where E = E]
    let ?t = "exec (finalizeEpoch E D n) s"
    have ph: "phase_of D ?t = phase_of D s"
      unfolding finalize_open(2) [OF Some True ok ws, of E] by (simp add: phase_of_def pay_phase_def)
    have fees: "is_double (totalFees ep)" using assms Some by (auto simp: economy_defs)
    have "books D ?t" using assms v(1,2) sum_double [OF _ payouts_double] by (simp add: economy_def books_def)
    moreover have "crew D ?t" using assms v(10) by (simp add: economy_defs node_of_def)
    moreover have "list_all nonneg_entry (entries D ?t)"
      using assms nonneg_finalized [OF fees] unfolding v(3) by (auto simp: economy_def nonneg_other list_all_iff)
    moreover have ep: "\<exists>e'. epoch_of D ?t m = Some e' \<and> totalFees e' = totalFees e" if "epoch_of D s m = Some e" for m e
      using that Some v(5) v(6) [of m] by (cases "m = n") (auto simp: finalized_epoch_def)
    moreover have "roll D ?t"
      using assms v(7,9,10) ep by (fastforce simp: economy_def roll_def confirmed_def verdict_of_def node_of_def)
    moreover have "pools D ?t" unfolding pools_def
    proof (intro allI impI)
      fix m e
      assume "epoch_of D ?t m = Some e"
      then have "\<exists>e'. epoch_of D s m = Some e' \<and> totalFees e = totalFees e'"
        using Some v(5) v(6) [of m] by (cases "m = n") (auto simp: finalized_epoch_def)
      then show "is_double (totalFees e) \<and> 0 \<le> totalFees e" using assms by (auto simp: economy_def pools_def)
    qed
    ultimately show ?thesis using assms ph by (simp add: economy_def)
  next
    case False
    then show ?thesis using finalize_closed [OF Some False, of E] assms by simp
  qed
qed

lemma economy_runFinalize:
  assumes "economy D s"
  shows "economy D (exec (runFinalizeEpoch E D n) s)"
proof -
  have f: "economy D (exec (finalizeEpoch E D n) s)" by (rule economy_finalize [OF assms])
  have "coin_ok D (exec (finalizeEpoch E D n) s)" using f by (simp add: economy_def books_def)
  then show ?thesis using f
    by (auto simp: runFinalizeEpoch_def exec_tryM read_run economy_ledger split: sum.splits)
qed

lemma economy_metrics:
  assumes "economy D s"
  shows "economy D (exec (metrics E D n) s)"
proof -
  have ok: "coin_ok D s" "coin_ok D (with_ledger D s)" using assms by (simp_all add: economy_def books_def)
  have "exec (metrics E D n) s = with_phase D (with_ledger D (with_ledger D s))"
    using ok by (simp add: metrics_def read_run isActive_run listVerdicts_def getEpoch_def)
  moreover have "economy D (with_phase D t) = economy D t" for t :: "'a sys_scheme"
    by (simp add: economy_defs confirmed_def verdict_of_def node_of_def epoch_of_def parts_of_def)
  ultimately show ?thesis using assms by (simp add: economy_ledger)
qed

lemma getProcess_exec [simp]: "exec (getProcess D pid) s = s"
  by (simp add: getProcess_def Let_def)

lemma serve_ok:
  assumes "economy D s" "logs_ok E D s" "valid_request r"
  shows "economy D (serve E D r s) \<and> logs_ok E D (serve E D r s) \<and> extends D s (serve E D r s)"
  using assms economy_run [OF assms(1), of _ E] economy_runFinalize [OF assms(1), of E] economy_metrics [OF assms(1), of E]
    safeD [OF safe_runProcess] safeD [OF safe_runFinalizeEpoch] safeD [OF safe_metrics]
  by (cases r) (auto simp: ext.R_refl)

lemma boot_ok: "economy D boot" "logs_ok E D boot"
  by (simp_all add: economy_defs logs_ok_def coin_ok_def tallies_def node_of_def parts_of_def epoch_of_def entries_def
      phase_of_def freshPhase_def intact_def numbered_def linked_def verdict_of_def history_def ledger_log_def boot_def
      zeroLedger_def ledg.findOne_empty node.findOne_empty epoc.findOne_empty phas.findOne_empty verd.findOne_empty
      snap.findAsc_empty over.findAsc_empty number_le_refl zero_number_def)

lemma reachable_ok: "reachable E D s \<Longrightarrow> economy D s \<and> logs_ok E D s"
  by (induction rule: reachable.induct) (use boot_ok serve_ok in blast)+

text \<open>The books survive restarts.\<close>

lemma economy_restart: "economy D s \<Longrightarrow> economy D (restart s)"
  by (auto simp: economy_def books_def crew_def roll_def pools_def)

lemma lived_economy: "lived E D s \<Longrightarrow> economy D s"
proof (induction rule: lived.induct)
  case (lived_step s r)
  then show ?case
    using economy_run [of s _ E] economy_runFinalize [of s E] economy_metrics [of s E] by (cases r) auto
qed (simp_all add: boot_ok economy_restart)

end

end
