(* ===== verification/Reconciliation.thy ===== *)
theory Reconciliation
  imports Commission
begin

text \<open>
  The arithmetic of a distribution. \<open>approx k x y\<close> says that \<open>x\<close> and \<open>y\<close> differ by
  at most \<open>k\<close> roundings to nearest; it is kept by sums, products and quotients, so the sum of
  the payments is \<open>2n + 3\<close> roundings away from three quarters of the pool when \<open>n\<close> nodes
  are paid. That is close enough for the remainder to be computed without rounding, and the pool
  reconciles exactly.
\<close>

section \<open>Counting roundings\<close>

definition unit_loss :: rat where
  "unit_loss = 1 - 1 / 2 ^ 53"

definition approx :: "nat \<Rightarrow> rat \<Rightarrow> rat \<Rightarrow> bool" where
  "approx k x y \<longleftrightarrow> 0 \<le> x \<and> 0 \<le> y \<and> y * unit_loss ^ k \<le> x \<and> x * unit_loss ^ k \<le> y"

lemma unit_loss_bounds: "0 < unit_loss" "unit_loss < 1"
  by (simp_all add: unit_loss_def)

lemma loss_pow: "0 < unit_loss ^ k" "unit_loss ^ k \<le> 1"
  using unit_loss_bounds by (simp_all add: power_le_one)

lemma approx_refl: "0 \<le> x \<Longrightarrow> approx 0 x x"
  by (simp add: approx_def)

lemma approx_sym: "approx k x y \<Longrightarrow> approx k y x"
  by (simp add: approx_def)

lemma approx_trans:
  assumes "approx j x y" "approx k y z"
  shows "approx (j + k) x z"
proof -
  have "z * unit_loss ^ k * unit_loss ^ j \<le> y * unit_loss ^ j" "x * unit_loss ^ j * unit_loss ^ k \<le> y * unit_loss ^ k"
    using assms loss_pow by (simp_all add: approx_def mult_right_mono)
  then show ?thesis using assms by (auto simp: approx_def power_add mult_ac)
qed

lemma approx_weaken:
  assumes "approx j x y" "j \<le> k"
  shows "approx k x y"
proof -
  have "unit_loss ^ k \<le> unit_loss ^ j" using assms(2) unit_loss_bounds by (simp add: power_decreasing)
  then have "y * unit_loss ^ k \<le> y * unit_loss ^ j" "x * unit_loss ^ k \<le> x * unit_loss ^ j"
    using assms(1) by (simp_all add: approx_def mult_left_mono)
  then show ?thesis using assms(1) by (simp add: approx_def)
qed

lemma approx_add: "approx k x y \<Longrightarrow> approx k x' y' \<Longrightarrow> approx k (x + x') (y + y')"
  by (simp add: approx_def distrib_right)

lemma approx_scale:
  assumes "approx k x y" "0 \<le> c"
  shows "approx k (c * x) (c * y)"
proof -
  have "c * (y * unit_loss ^ k) \<le> c * x" "c * (x * unit_loss ^ k) \<le> c * y"
    using assms by (simp_all add: approx_def mult_left_mono)
  then show ?thesis using assms by (simp add: approx_def mult_ac)
qed

lemma approx_inverse:
  assumes "approx k x y" "0 < x" "0 < y"
  shows "approx k (1 / x) (1 / y)"
proof -
  have "y * unit_loss ^ k \<le> x" "x * unit_loss ^ k \<le> y" using assms(1) by (simp_all add: approx_def)
  then show ?thesis using assms(2,3) loss_pow [of k] by (simp add: approx_def field_simps)
qed

lemma approx_rndv:
  assumes "x = 0 \<or> 2 powi (- 1022) \<le> x"
  shows "approx 1 (rndv x) x"
proof (cases "x = 0")
  case False
  have x: "2 powi (- 1022) \<le> x" using assms False by simp
  have pos: "0 < x" using x powi_2_pos [of "- 1022"] by linarith
  have "(2::rat) powi (- 53) = 1 / 2 ^ 53" by (simp add: power_int_minus divide_simps)
  then have "\<bar>rndv x - x\<bar> \<le> x * (1 / 2 ^ 53)" using rndv_rel_error [of x] x pos by simp
  then have lo: "x - x * (1 / 2 ^ 53) \<le> rndv x" and hi: "rndv x \<le> x + x * (1 / 2 ^ 53)" by linarith+
  have "rndv x * unit_loss \<le> (x + x * (1 / 2 ^ 53)) * unit_loss"
    using hi unit_loss_bounds by (intro mult_right_mono) simp_all
  also have "\<dots> \<le> x" using pos by (simp add: unit_loss_def field_simps)
  finally show ?thesis using lo pos rndv_nonneg [of x] by (simp add: approx_def unit_loss_def field_simps)
qed (simp add: approx_def)

lemma loss_half:
  assumes "k \<le> 2 ^ 50"
  shows "7 / 8 \<le> unit_loss ^ k"
proof -
  have "1 + of_nat k * (- (1 / 2 ^ 53)) \<le> (1 + - (1 / 2 ^ 53) :: rat) ^ k"
    by (rule Bernoulli_inequality) simp
  moreover have "(of_nat k :: rat) \<le> of_nat (2 ^ 50)" using assms by (simp only: of_nat_le_iff)
  ultimately show ?thesis by (simp add: unit_loss_def)
qed

section \<open>Ranges that neither underflow nor overflow\<close>

definition in_range :: "int \<Rightarrow> rat \<Rightarrow> bool" where
  "in_range b x \<longleftrightarrow> x = 0 \<or> 2 powi (- b) \<le> x \<and> x \<le> 2 powi b"

lemma range_nonneg: "in_range b x \<Longrightarrow> 0 \<le> x"
  by (auto simp: in_range_def intro: order_trans [OF less_imp_le [OF powi_2_pos]])

lemma range_mono: "in_range b x \<Longrightarrow> b \<le> c \<Longrightarrow> in_range c x"
  using powi_2_le [of "- c" "- b"] powi_2_le [of b c] by (auto simp: in_range_def)

lemma range_times:
  assumes "in_range b x" "in_range c y"
  shows "in_range (b + c) (x * y)"
proof (cases "x = 0 \<or> y = 0")
  case False
  then have "2 powi (- b) * 2 powi (- c) \<le> x * y" "x * y \<le> 2 powi b * 2 powi c"
    using assms range_nonneg by (auto simp: in_range_def intro!: mult_mono)
  then show ?thesis by (simp add: in_range_def flip: powi_2_add)
qed (auto simp: in_range_def)

lemma range_divide:
  assumes "in_range b x" "in_range c y" "y \<noteq> 0"
  shows "in_range (b + c) (x / y)"
proof (cases "x = 0")
  case False
  have y: "2 powi (- c) \<le> y" "y \<le> 2 powi c" "0 < y" using assms(2,3) by (auto simp: in_range_def intro: less_le_trans [OF powi_2_pos])
  have x: "2 powi (- b) \<le> x" "x \<le> 2 powi b" using assms(1) False by (auto simp: in_range_def)
  have x0: "0 \<le> x" by (rule range_nonneg [OF assms(1)])
  have "2 powi (- b) / 2 powi c \<le> x / y" by (rule frac_le [OF x0 x(1) y(3,2)])
  moreover have "x / y \<le> 2 powi b / 2 powi (- c)"
    by (rule frac_le [OF _ x(2) powi_2_pos y(1)]) simp
  ultimately have "2 powi (- b) / 2 powi c \<le> x / y" "x / y \<le> 2 powi b / 2 powi (- c)" .
  then show ?thesis by (simp add: in_range_def algebra_simps flip: powi_2_diff)
qed (simp add: in_range_def)

lemma range_rnd:
  assumes "in_range b x" "b \<le> 1000"
  shows "rnd x = Fin (rndv x)" "approx 1 (rndv x) x" "in_range b (rndv x)"
proof -
  have "\<bar>(1::rat)\<bar> \<le> 1" by simp
  have rep: "representable (2 powi k)" if "- 1000 \<le> k" "k \<le> 1000" for k :: int
    unfolding representable_def
  proof
    show "\<exists>m e. (2::rat) powi k = of_int m * 2 powi e \<and> \<bar>m\<bar> \<le> 2 ^ 53 \<and> - 1074 \<le> e"
      using that by (intro exI [of _ 1] exI [of _ k]) auto
    have "(2::rat) powi k < 2 powi 1024" using that by (intro powi_2_less) simp
    then show "\<bar>(2::rat) powi k\<bar> < overflow_bound" by (simp add: overflow_bound_def power_int_def)
  qed
  show w: "in_range b (rndv x)"
  proof (cases "x = 0 \<or> b < 0")
    case True
    moreover have "x = 0" if "b < 0"
    proof (rule ccontr)
      assume "x \<noteq> 0"
      then have "(2::rat) powi (- b) \<le> 2 powi b" using assms(1) by (auto simp: in_range_def)
      then show False using that powi_2_less [of b "- b"] by simp
    qed
    ultimately show ?thesis by (auto simp: in_range_def)
  next
    case False
    then have "rndv (2 powi (- b)) \<le> rndv x" "rndv x \<le> rndv (2 powi b)"
      using assms(1) by (auto simp: in_range_def intro!: rndv_mono)
    then show ?thesis using rep [of b] rep [of "- b"] False assms(2) by (simp add: in_range_def rndv_representable)
  qed
  have "in_range 1000 (rndv x)" using range_mono [OF w assms(2)] .
  then have "rndv x \<le> 2 powi 1000" "0 \<le> rndv x" using range_nonneg powi_2_pos [of 1000] by (auto simp: in_range_def intro: less_imp_le)
  moreover have "(2::rat) powi 1000 < overflow_bound" using powi_2_less [of 1000 1024] by (simp add: overflow_bound_def power_int_def)
  ultimately show "rnd x = Fin (rndv x)" by (simp add: rnd_Fin_iff)
  show "approx 1 (rndv x) x"
    by (rule approx_rndv) (use range_mono [OF assms(1), of 1022] assms(2) in \<open>auto simp: in_range_def\<close>)
qed

text \<open>A sum of many terms, added from the left.\<close>

lemma sum_range:
  "(\<forall>x \<in> set xs. in_range b x) \<Longrightarrow> 0 \<le> sum_list xs \<and> sum_list xs \<le> of_nat (length xs) * 2 powi b
     \<and> (sum_list xs = 0 \<or> 2 powi (- b) \<le> sum_list xs)"
proof (induction xs)
  case (Cons x xs)
  have x: "0 \<le> x" "x \<le> 2 powi b" "x = 0 \<or> 2 powi (- b) \<le> x"
    using Cons.prems range_nonneg powi_2_pos [of b] by (auto simp: in_range_def intro: less_imp_le)
  have ih: "0 \<le> sum_list xs" "sum_list xs \<le> of_nat (length xs) * 2 powi b" "sum_list xs = 0 \<or> 2 powi (- b) \<le> sum_list xs"
    using Cons by auto
  show ?case using x ih by (auto simp: distrib_right)
qed simp

lemma float_sum:
  assumes "\<forall>x \<in> set xs. in_range b x" "length xs \<le> 2 ^ 40" "b \<le> 900"
  shows "\<exists>s. foldl (+) 0 (map Fin xs) = Fin s \<and> approx (length xs) s (sum_list xs) \<and> in_range (b + 42) s"
  using assms(1,2)
proof (induction xs rule: rev_induct)
  case Nil
  then show ?case by (auto simp: zero_number_def approx_def in_range_def)
next
  case (snoc x xs)
  obtain s where s: "foldl (+) 0 (map Fin xs) = Fin s" "approx (length xs) s (sum_list xs)" "in_range (b + 42) s"
    using snoc by auto
  have len: "length xs + 1 \<le> 2 ^ 40" using snoc.prems(2) by simp
  have x: "in_range b x" using snoc.prems(1) by simp
  note S = sum_range [of xs b]
  have S: "0 \<le> sum_list xs" "sum_list xs \<le> of_nat (length xs) * 2 powi b" "sum_list xs = 0 \<or> 2 powi (- b) \<le> sum_list xs"
    using S snoc.prems(1) by auto
  have q: "7 / 8 \<le> unit_loss ^ length xs" using loss_half [of "length xs"] len by simp
  have lo: "sum_list xs * (7 / 8) \<le> s"
    using s(2) mult_left_mono [OF q S(1)] by (simp add: approx_def)
  have hi: "s * (7 / 8) \<le> sum_list xs"
    using s(2) mult_left_mono [OF q, of s] by (simp add: approx_def)
  have "(of_nat (length xs + 1) :: rat) \<le> 2 ^ 40" using len by (metis of_nat_le_iff of_nat_numeral of_nat_power)
  then have "of_nat (length xs + 1) * 2 powi b \<le> (2 ^ 40 * 2 powi b :: rat)" by (intro mult_right_mono) simp_all
  then have cnt: "of_nat (length xs) * 2 powi b + 2 powi b \<le> (2 ^ 40 * 2 powi b :: rat)"
    by (simp only: of_nat_add of_nat_1 distrib_right mult_1_left)
  have two: "(2::rat) powi (b + 42) = 4 * (2 ^ 40 * 2 powi b)" by (simp add: powi_2_add)
  have half: "(2::rat) powi (- (b + 42)) \<le> 2 powi (- b) / 2" using powi_2_le [of "- (b + 42)" "- b - 1"] by (simp add: powi_2_diff)
  have xb: "0 \<le> x" "x \<le> 2 powi b" "x = 0 \<or> 2 powi (- b) \<le> x"
    using x range_nonneg powi_2_pos [of b] by (auto simp: in_range_def intro: less_imp_le)
  have s0: "0 \<le> s" using s(2) by (simp add: approx_def)
  have "in_range (b + 42) (s + x)"
  proof (cases "s + x = 0")
    case False
    have "s + x \<le> 2 powi (b + 42)" unfolding two using hi S(2) xb(2) cnt s0 powi_2_pos [of b] by linarith
    moreover have "2 powi (- (b + 42)) \<le> s + x"
    proof (cases "x = 0")
      case True
      then have "sum_list xs \<noteq> 0" using False hi s0 by auto
      then have "2 powi (- b) * (7 / 8) \<le> s" using S(3) lo by linarith
      then show ?thesis using half True powi_2_pos [of "- b"] by linarith
    next
      case False
      then show ?thesis using xb half s0 powi_2_pos [of "- b"] by linarith
    qed
    ultimately show ?thesis by (simp add: in_range_def)
  qed (simp add: in_range_def)
  note r = range_rnd [OF this]
  have b: "b + 42 \<le> 1000" using assms(3) by simp
  have "approx (length xs) (s + x) (sum_list xs + x)"
    using approx_add [OF s(2) approx_weaken [OF approx_refl [OF xb(1)]]] by simp
  then have "approx (1 + length xs) (rndv (s + x)) (sum_list xs + x)"
    using approx_trans [OF r(2) [OF b]] by blast
  then show ?case using s(1) r(1,3) [OF b] by (simp add: add.commute)
qed

section \<open>A distribution\<close>

fun fin_val :: "number \<Rightarrow> rat" where
  "fin_val (Fin x) = x"
| "fin_val _ = 0"

definition weights_ok :: "(string \<times> number) list \<Rightarrow> bool" where
  "weights_ok ws \<longleftrightarrow> distinct (map fst ws) \<and> length ws \<le> 2 ^ 40 \<and>
     (\<forall>w \<in> snd ` set ws. is_finite w \<and> in_range 60 (fin_val w))"

lemma approx_sum: "list_all2 (approx k) xs ys \<Longrightarrow> approx k (sum_list xs) (sum_list ys)"
  by (induction rule: list_all2_induct) (simp_all add: approx_add approx_refl approx_weaken [OF approx_refl])

lemma Fin_fin_val [simp]: "is_finite w \<Longrightarrow> Fin (fin_val w) = w"
  by (cases w) auto

lemma share_rate: "1 - marginRate = Fin (3 / 4)"
proof -
  have "representable (of_int m / 4)" if "\<bar>m\<bar> \<le> 3" for m
    unfolding representable_def
  proof
    show "\<exists>k e. (of_int m / 4 :: rat) = of_int k * 2 powi e \<and> \<bar>k\<bar> \<le> 2 ^ 53 \<and> - 1074 \<le> e"
      using that by (intro exI [of _ m] exI [of _ "- 2"]) (auto simp: power_int_def power2_eq_square)
    have "\<bar>of_int m / 4 :: rat\<bar> < 1" using that by linarith
    then show "\<bar>of_int m / 4 :: rat\<bar> < overflow_bound" by (simp add: overflow_bound_def)
  qed
  from this [of 1] this [of 3] have "representable (1 / 4)" "representable (3 / 4)" by simp_all
  then show ?thesis by (simp add: marginRate_def lit_def rnd_representable one_number_def minus_number_def)
qed

lemma total_weight_float:
  assumes "weights_ok ws"
  shows "\<exists>W. total_weight ws = Fin W \<and> approx (length ws) W (sum_list (map (fin_val \<circ> snd) ws)) \<and> in_range 102 W"
proof -
  have "map Fin (map (fin_val \<circ> snd) ws) = map snd ws"
    using assms by (auto simp: weights_ok_def)
  then show ?thesis
    using float_sum [of "map (fin_val \<circ> snd) ws" 60] assms
    by (auto simp: weights_ok_def total_weight_def simp del: map_map)
qed

text \<open>One payment, two roundings.\<close>

lemma payment_float:
  assumes "in_range 60 x" "in_range 701 d" "in_range 102 W" "W \<noteq> 0"
  shows "\<exists>a. (Fin x * Fin d) / Fin W = Fin a \<and> approx 2 a (x * d / W) \<and> in_range 863 a"
proof -
  have xd: "in_range 761 (x * d)" using range_times [OF assms(1,2)] by simp
  note r1 = range_rnd [OF xd]
  have q: "in_range 863 (rndv (x * d) / W)" using range_divide [OF r1(3) assms(3,4)] by simp
  note r2 = range_rnd [OF q]
  have W: "0 \<le> 1 / W" using range_nonneg [OF assms(3)] by simp
  have "approx 1 (rndv (x * d) / W) (x * d / W)" using approx_scale [OF r1(2) W] by simp
  then have "approx 2 (rndv (rndv (x * d) / W)) (x * d / W)"
    using approx_trans [OF r2(2), of 1] by (simp add: numeral_2_eq_2)
  then show ?thesis using r1(1) r2(1,3) assms(4) by simp
qed

lemma weight_at_keys: "distinct (map fst ws) \<Longrightarrow> map (weight_at ws) (map fst ws) = map snd ws"
  by (auto simp: weight_at_def)

text \<open>The exact shares add up to what is distributed.\<close>

lemma shares_sum:
  assumes "distinct (map fst ws)"
  shows "sum_list (map (\<lambda>i. fin_val (weight_at ws i) * d / W) (sort (map fst ws))) =
    sum_list (map (fin_val \<circ> snd) ws) * d / W"
proof -
  let ?f = "\<lambda>i. fin_val (weight_at ws i) * d / W"
  have "sum_list (map ?f (sort (map fst ws))) = sum_list (map ?f (map fst ws))"
    by (simp only: mset_map mset_sort flip: sum_mset_sum_list)
  also have "map ?f (map fst ws) = map (\<lambda>w. fin_val w * d / W) (map (weight_at ws) (map fst ws))"
    by (simp add: comp_def)
  also have "\<dots> = map (\<lambda>w. fin_val w * d / W) (map snd ws)"
    by (simp only: weight_at_keys [OF assms])
  also have "sum_list \<dots> = sum_list (map (fin_val \<circ> snd) ws) * d / W"
    by (induction ws) (simp_all add: distrib_right add_divide_distrib)
  finally show ?thesis .
qed

lemma paid_float:
  assumes ok: "weights_ok ws" and P: "in_range 700 P" and pos: "0 < total_weight ws"
  shows "\<exists>p. paid_of (payouts ws (Fin P)) = Fin p \<and> approx (2 * length ws + 3) p (3 / 4 * P)"
proof -
  obtain W where W: "total_weight ws = Fin W" "approx (length ws) W (sum_list (map (fin_val \<circ> snd) ws))" "in_range 102 W"
    using total_weight_float [OF ok] by blast
  have W0: "0 < W" using pos W(1) by (simp add: zero_number_def)
  have "in_range 1 (3 / 4)" by (simp add: in_range_def power_int_def)
  then have d0: "in_range 701 (P * (3 / 4))" using range_times [OF P] by fastforce
  define d where "d = rndv (P * (3 / 4))"
  have d: "Fin P * (1 - marginRate) = Fin d" "approx 1 d (P * (3 / 4))" "in_range 701 d"
    using range_rnd [OF d0] by (simp_all add: share_rate d_def)
  let ?ids = "sort (map fst ws)" and ?x = "\<lambda>i. fin_val (weight_at ws i)"
  have key: "is_finite (weight_at ws i) \<and> in_range 60 (?x i)" if "i \<in> set ?ids" for i
  proof -
    from that have "weight_at ws i \<in> set (map (weight_at ws) (map fst ws))" by auto
    then have "weight_at ws i \<in> snd ` set ws" using weight_at_keys [of ws] ok by (simp add: weights_ok_def)
    then show ?thesis using ok by (auto simp: weights_ok_def)
  qed
  define a where "a i = fin_val ((weight_at ws i * Fin d) / Fin W)" for i
  have a: "(weight_at ws i * Fin d) / Fin W = Fin (a i)" "approx 2 (a i) (?x i * d / W)" "in_range 863 (a i)"
    if "i \<in> set ?ids" for i
    using payment_float [OF _ d(3) W(3), of "?x i"] key [OF that] W0 by (auto simp: a_def)
  have paid: "map snd (payouts ws (Fin P)) = map Fin (map a ?ids)"
    using pos a(1) by (auto simp: payouts_def d(1) W(1))
  obtain p where p: "foldl (+) 0 (map Fin (map a ?ids)) = Fin p" "approx (length ws) p (sum_list (map a ?ids))"
    using float_sum [of "map a ?ids" 863] a(3) ok by (auto simp: weights_ok_def simp del: map_map)
  have "list_all2 (approx 2) (map a ?ids) (map (\<lambda>i. ?x i * d / W) ?ids)"
    unfolding list_all2_map1 list_all2_map2 by (rule list.rel_refl_strong) (rule a(2))
  then have "approx 2 (sum_list (map a ?ids)) (sum_list (map (fin_val \<circ> snd) ws) * d / W)"
    using approx_sum shares_sum [of ws d W] ok by (metis weights_ok_def)
  moreover have "approx (length ws) (sum_list (map (fin_val \<circ> snd) ws) * d / W) d"
    using approx_sym [OF approx_scale [OF W(2), of "d / W"]] W0 range_nonneg [OF d(3)] by (simp add: mult_ac)
  ultimately have "approx (length ws + (2 + (length ws + 1))) p (P * (3 / 4))"
    using approx_trans p(2) d(2) by meson
  moreover have "length ws + (2 + (length ws + 1)) = 2 * length ws + 3" by simp
  ultimately show ?thesis using p(1) paid by (simp only: paid_of_def mult.commute [of P]) blast
qed

lemma paid_share:
  assumes "weights_ok ws" "in_range 700 P" "0 < total_weight ws"
  shows "\<exists>p. paid_of (payouts ws (Fin P)) = Fin p \<and> P / 2 \<le> p \<and> p \<le> P"
proof -
  obtain p where p: "paid_of (payouts ws (Fin P)) = Fin p" "approx (2 * length ws + 3) p (3 / 4 * P)"
    using paid_float [OF assms] by blast
  have P: "0 \<le> P" "0 \<le> p" using range_nonneg [OF assms(2)] p(2) by (auto simp: approx_def)
  have q: "7 / 8 \<le> unit_loss ^ (2 * length ws + 3)"
    by (rule loss_half) (use assms(1) in \<open>simp add: weights_ok_def\<close>)
  have "3 / 4 * P * (7 / 8) \<le> p" "p * (7 / 8) \<le> 3 / 4 * P"
    using p(2) mult_left_mono [OF q, of "3 / 4 * P"] mult_left_mono [OF q, of p] P by (auto simp: approx_def)
  then show ?thesis using p(1) P by auto
qed

text \<open>The remainder is exact, so the pool is accounted for to the last bit.\<close>

lemma remainder_exact:
  assumes "representable P" "representable p" "P / 2 \<le> p" "p \<le> P" "0 \<le> P"
  shows "Fin P - Fin p = Fin (P - p)" "Fin p + (Fin P - Fin p) = Fin P"
proof -
  have "representable (P - p)" by (rule sterbenz) (use assms in auto)
  then show r: "Fin P - Fin p = Fin (P - p)" by (simp add: minus_number_def rnd_representable)
  show "Fin p + (Fin P - Fin p) = Fin P" unfolding r using assms(1) by (simp add: rnd_representable)
qed

lemma epsilon_pos: "(0 :: number) < RECONCILE_EPSILON"
proof -
  have "in_range 30 (1 / 10 ^ 9)" by (simp add: in_range_def power_int_def power_divide)
  note r = range_rnd [OF this]
  have "0 < rndv (1 / 10 ^ 9)" using r(2) by (auto simp: approx_def unit_loss_def)
  then show ?thesis using r(1) by (simp add: RECONCILE_EPSILON_def lit_def zero_number_def)
qed

lemma distribution_exact:
  assumes "weights_ok ws" "in_range 700 P" "representable P"
  shows "\<exists>p. paid_of (payouts ws (Fin P)) = Fin p \<and> 0 \<le> p \<and> p \<le> P \<and>
    Fin P - Fin p = Fin (P - p) \<and> balances (payouts ws (Fin P)) (Fin P) \<and> (0 < total_weight ws \<longrightarrow> P / 2 \<le> p)"
proof (cases "0 < total_weight ws")
  case True
  obtain p where p: "paid_of (payouts ws (Fin P)) = Fin p" "P / 2 \<le> p" "p \<le> P"
    using paid_share [OF assms(1,2) True] by blast
  have P: "0 \<le> P" by (rule range_nonneg [OF assms(2)])
  have "is_double (paid_of (payouts ws (Fin P)))"
    unfolding paid_of_def
  proof -
    have "is_double (foldl (+) x xs)" if "is_double x" "\<forall>y \<in> set xs. is_double y" for x :: number and xs
      using that by (induction xs arbitrary: x) auto
    then show "is_double (foldl (+) 0 (map snd (payouts ws (Fin P))))" by (auto simp: payouts_def)
  qed
  then have "representable p" by (simp add: p(1))
  note r = remainder_exact [OF assms(3) this p(2,3) P]
  show ?thesis using p r P epsilon_pos minus_self [of "Fin P"]
    by (auto simp: balances_def zero_number_def)
next
  case False
  then have z: "paid_of (payouts ws (Fin P)) = Fin 0" by (simp add: payouts_def paid_of_def zero_number_def)
  have P: "0 \<le> P" by (rule range_nonneg [OF assms(2)])
  show ?thesis using z P False assms(3) epsilon_pos minus_self [of "Fin P"]
    by (auto simp: balances_def zero_number_def minus_number_def rnd_representable)
qed

end
