(* ===== verification/Settlement.thy ===== *)
theory Settlement
  imports System Reconciliation
begin

text \<open>
  The properties of an epoch's settlement: whom it pays and how much, that it completes in every
  reachable state, that the pool reconciles exactly, and that it happens once.
\<close>

lemma add_times_one:
  "m + k \<le> 2 ^ 53 \<Longrightarrow> add_times k 1 (Fin (of_nat m)) = Fin (of_nat (m + k))"
proof (induction k arbitrary: m)
  case (Suc k)
  have "\<bar>int m + 1\<bar> \<le> 2 ^ 53" using Suc.prems by simp
  then have "Fin (of_nat m) + 1 = Fin (of_nat (m + 1))"
    using representable_int [of "int m + 1"] by (simp add: one_number_def rnd_representable)
  then show ?case using Suc.IH [of "m + 1"] Suc.prems by simp
qed simp

context datastore
begin

text \<open>In a reachable state a node's weight in an epoch is the number of its participations.\<close>

lemma reachable_weights:
  fixes s :: "'z sys_scheme"
  assumes "crew D s" "weigh D s [] ps = Inr ws" "length ps \<le> 2 ^ 40"
    and "\<And>i nd. node_of D s i = Some nd \<Longrightarrow> total nd \<le> 2 ^ 53"
  shows "weights_ok ws" "(i, w) \<in> set ws \<Longrightarrow> w = Fin (of_nat (confirmed_count D s ps i))"
proof -
  have dist: "distinct (map fst ws)" using weigh_distinct [OF assms(2)] by simp
  have val: "\<exists>k. w = Fin (of_nat k) \<and> k = confirmed_count D s ps i \<and> 1 \<le> k \<and> k \<le> 2 ^ 40" if "(i, w) \<in> set ws" for i w
  proof -
    have "i \<in> fst ` set ws" using that by force
    then have "node_of D s i \<noteq> None" using weigh_keys [OF assms(2)] by auto
    then obtain nd where nd: "node_of D s i = Some nd" by blast
    have one: "weight nd = 1" using full_score [of nd] assms(1,4) nd by (auto simp: crew_def)
    have look: "map_of ws i = Some w" using that dist by simp
    let ?k = "confirmed_count D s ps i"
    have "?k \<le> length ps" by (simp add: confirmed_count_def)
    then have k: "?k \<le> 2 ^ 40" using assms(3) by simp
    have "?k \<noteq> 0" "w = add_times ?k 1 0" using weigh_value [OF assms(2) nd] look one by (auto split: if_splits)
    moreover have "add_times ?k 1 (Fin (of_nat 0)) = Fin (of_nat (0 + ?k))" by (rule add_times_one) (use k in simp)
    ultimately show ?thesis using k by (simp add: zero_number_def)
  qed
  show "(i, w) \<in> set ws \<Longrightarrow> w = Fin (of_nat (confirmed_count D s ps i))" using val by blast
  have "set (map fst ws) \<subseteq> partNodeId ` set ps" using weigh_keys [OF assms(2)] by auto
  then have "card (set (map fst ws)) \<le> card (set ps)"
    by (meson List.finite_set card_image_le card_mono finite_imageI le_trans)
  then have "length ws \<le> length ps" using distinct_card [OF dist] card_length [of ps] by simp
  moreover have "in_range 60 (rat_of_nat k)" if "1 \<le> k" "k \<le> 2 ^ 40" for k
  proof -
    have "rat_of_nat k \<le> 2 ^ 40" using that(2) by (metis of_nat_le_iff of_nat_numeral of_nat_power)
    moreover have "(2::rat) powi (- 60) \<le> 1" using powi_2_le [of "- 60" 0] by simp
    moreover have "1 \<le> rat_of_nat k" using that(1) by simp
    moreover have "(2::rat) ^ 40 \<le> 2 powi 60" using powi_2_le [of 40 60] by simp
    ultimately show ?thesis unfolding in_range_def by linarith
  qed
  ultimately show "weights_ok ws" using dist val assms(3) by (fastforce simp: weights_ok_def)
qed

end

section \<open>A concrete epoch\<close>

definition one_run :: RunProcessDto where
  "one_run = \<lparr>dtoProcessId = ''p1'', dtoAmount = 1, dtoType = ''transfer'', dtoAdmissible = True,
              dtoNodeIds = None, dtoEpoch = None\<rparr>"

abbreviation settled :: sys where
  "settled \<equiv> serve plain_env mem_db (PostProcess one_run) boot"

lemma settled_reachable: "reachable plain_env mem_db settled"
  by (rule reachable.step [OF reachable.start])
    (simp add: validRunProcessDto_def one_run_def one_number_def zero_number_def)

lemma lived_settled: "lived plain_env mem_db settled"
  by (rule lived_step [OF lived_start]) (simp add: validRunProcessDto_def one_run_def one_number_def zero_number_def)

lemma boot_start:
  "coin_ok mem_db boot" "intact plain_env mem_db boot" "dtoAdmissible one_run"
  "verdict_of mem_db boot (dtoProcessId one_run) = None" "assignable mem_db boot (dtoNodeIds one_run)"
  using mem.boot_ok(1) mem.boot_ok(2) [of plain_env]
  by (simp_all add: economy_def books_def logs_ok_def one_run_def verdict_of_def boot_def mem.verd.findOne_empty)

lemma settled_ids: "assigned_ids mem_db boot None = [''node-1'', ''node-2'', ''node-3'']"
  by (simp add: assigned_ids_def boot_def DEFAULT_NODES_def mem_db_def mem_repo_def mem_rows_def mem_findOne_def
      fresh_node_def)

lemma one_times_num: "is_double x \<Longrightarrow> 1 * x = (x :: number)"
  by (cases x) (auto simp: one_number_def rnd_representable)

lemma settled_epoch:
  "\<exists>ep. epoch_of mem_db settled 1 = Some ep \<and> epochStatus ep = Open \<and> totalFees ep = feeRate"
  "length (parts_of settled 1) = 3"
proof -
  note v = mem.verified_effects [OF boot_start]
  have e: "epoch_of mem_db boot n = None" "parts_of boot n = []" for n
    by (simp_all add: epoch_of_def parts_of_def boot_def mem.epoc.findOne_empty)
  have "0 + (1 * feeRate) = feeRate"
    using feeRate_bounds(3) by (simp add: one_times_num zero_plus_double)
  then show "\<exists>ep. epoch_of mem_db settled 1 = Some ep \<and> epochStatus ep = Open \<and> totalFees ep = feeRate"
    using v(3) e by (auto simp: one_run_def DEFAULT_EPOCH_def accrued_def fee_simp)
  show "length (parts_of settled 1) = 3"
    using v(5) e settled_ids by (simp add: one_run_def DEFAULT_EPOCH_def)
qed

lemma settled_ready:
  "coin_ok mem_db settled"
  "\<exists>ep ws. epoch_of mem_db settled 1 = Some ep \<and> epochStatus ep = Open \<and>
     weigh mem_db settled [] (parts_of settled 1) = Inr ws"
proof -
  have eco: "economy mem_db settled" using mem.reachable_ok [OF settled_reachable] by simp
  then show "coin_ok mem_db settled" by (simp add: economy_def books_def)
  have "roll mem_db settled" using eco by (simp add: economy_def)
  then obtain ws where "weigh mem_db settled [] (parts_of settled 1) = Inr ws" using mem.weigh_roll by blast
  then show "\<exists>ep ws. epoch_of mem_db settled 1 = Some ep \<and> epochStatus ep = Open \<and>
     weigh mem_db settled [] (parts_of settled 1) = Inr ws" using settled_epoch(1) by blast
qed

section \<open>Properties\<close>

text \<open>C9: in every state the service reaches, restarts included, finalising an epoch that exists completes: no participant is
  unregistered, no ledger row is missing, and a result is returned. Finalising an epoch that does
  not exist throws and changes nothing.\<close>

theorem finalize_completes:
  assumes "datastore D" "lived E D s"
  shows "if epoch_of D s n = None
     then result (runFinalizeEpoch E D n) s = Inl (epochNotFound E n) \<and> exec (runFinalizeEpoch E D n) s = s
     else \<exists>r. result (runFinalizeEpoch E D n) s = Inr r"
proof -
  have eco: "economy D s" using datastore.lived_economy [OF assms] .
  then have ok: "coin_ok D s" "roll D s" by (simp_all add: economy_def books_def)
  have "coin_ok D (exec (finalizeEpoch E D n) s)"
    using datastore.economy_finalize [OF assms(1) eco, of E n] by (simp add: economy_def books_def)
  note view = datastore.read_run(4) [OF assms(1)]
  have run: "\<exists>r. result (runFinalizeEpoch E D n) s = Inr r" if "\<exists>r. result (finalizeEpoch E D n) s = Inr r"
    using that \<open>coin_ok D (exec (finalizeEpoch E D n) s)\<close> by (auto simp: runFinalizeEpoch_def result_tryM view)
  show ?thesis
  proof (cases "epoch_of D s n")
    case None
    then show ?thesis using datastore.finalize_missing [OF assms(1) None, of E]
      by (simp add: runFinalizeEpoch_def tryM_simps)
  next
    case (Some ep)
    obtain ws where ws: "weigh D s [] (parts_of s n) = Inr ws" using datastore.weigh_roll [OF assms(1) ok(2)] by blast
    show ?thesis using run Some datastore.finalize_open(1) [OF assms(1) Some _ ok(1) ws]
        datastore.finalize_closed [OF assms(1) Some] by (cases "epochStatus ep = Open") auto
  qed
qed

theorem finalize_completes_witness: "\<exists>r. result (runFinalizeEpoch plain_env mem_db 1) settled = Inr r"
  using finalize_completes [OF mem.datastore_axioms lived_settled, of 1] settled_epoch(1) by auto

text \<open>C3: the pool reconciles exactly. In every state the service reaches, restarts included, with at most \<open>2 ^ 40\<close> participations, no
  node beyond \<open>2 ^ 53\<close> executions and a pool that is zero or between \<open>2 ^ -700\<close> and
  \<open>2 ^ 700\<close>, finalising an open epoch reports it reconciled; the reserve share is exactly the
  pool minus what was paid, with no rounding at all, it is not negative, and the nodes receive at
  least half of the pool whenever anyone is paid.\<close>

theorem pool_reconciles_exactly:
  assumes "datastore D" "lived E D s" "epoch_of D s n = Some ep" "epochStatus ep = Open"
    and "length (parts_of s n) \<le> 2 ^ 40"
    and "\<forall>i nd. node_of D s i = Some nd \<longrightarrow> total nd \<le> 2 ^ 53"
    and "totalFees ep = Fin P" "P = 0 \<or> 2 powi (- 700) \<le> P \<and> P \<le> 2 powi 700"
  shows "\<exists>r p. result (finalizeEpoch E D n) s = Inr r \<and> reconciled r \<and> finTotalFees r = Fin P
    \<and> finPaid r = Fin p \<and> finOperationalMargin r = Fin (P - p) \<and> 0 \<le> p \<and> p \<le> P
    \<and> (parts_of s n \<noteq> [] \<longrightarrow> P / 2 \<le> p)"
proof -
  have eco: "economy D s" using datastore.lived_economy [OF assms(1,2)] .
  then have ok: "coin_ok D s" "roll D s" "crew D s" "pools D s" by (simp_all add: economy_def books_def)
  obtain ws where ws: "weigh D s [] (parts_of s n) = Inr ws" using datastore.weigh_roll [OF assms(1) ok(2)] by blast
  have w: "weights_ok ws" "\<And>i v. (i, v) \<in> set ws \<Longrightarrow> v = Fin (of_nat (confirmed_count D s (parts_of s n) i))"
    by (rule datastore.reachable_weights [OF assms(1) ok(3) ws assms(5)]; use assms(6) in blast)+
  have "is_double (totalFees ep)" using ok(4) assms(3) by (auto simp: pools_def)
  then have "representable P" by (simp add: assms(7))
  then obtain p where p: "paid_of (payouts ws (Fin P)) = Fin p" "0 \<le> p" "p \<le> P" "Fin P - Fin p = Fin (P - p)"
    "balances (payouts ws (Fin P)) (Fin P)" "0 < total_weight ws \<longrightarrow> P / 2 \<le> p"
    using distribution_exact [OF w(1), of P] assms(8) by (auto simp: in_range_def)
  have "0 < total_weight ws" if "parts_of s n \<noteq> []"
  proof -
    obtain q where "q \<in> set (parts_of s n)" using \<open>parts_of s n \<noteq> []\<close> by (cases "parts_of s n") auto
    then have "confirmed D s (partProcessId q)" using ok(2) by (auto simp: roll_def)
    then have "ws \<noteq> []" using weigh_keys [OF ws] \<open>q \<in> set (parts_of s n)\<close> by auto
    obtain W where W: "total_weight ws = Fin W" "approx (length ws) W (sum_list (map (fin_val \<circ> snd) ws))"
      using total_weight_float [OF w(1)] by blast
    have pos: "0 < x" if "x \<in> set (map (fin_val \<circ> snd) ws)" for x
    proof -
      from that obtain i v where iv: "(i, v) \<in> set ws" "x = fin_val v" by auto
      then have "v = Fin (of_nat (confirmed_count D s (parts_of s n) i))" using w(2) by blast
      moreover have "i \<in> fst ` set ws" using iv(1) by force
      then have "confirmed_count D s (parts_of s n) i \<noteq> 0"
        using weigh_keys [OF ws] by (auto simp: confirmed_count_def filter_empty_conv)
      ultimately show ?thesis using iv(2) by simp
    qed
    have "0 < sum_list (map (fin_val \<circ> snd) ws)"
      using pos \<open>ws \<noteq> []\<close> sum_list_strict_mono [of ws "\<lambda>_. 0" "fin_val \<circ> snd"] by simp
    then have "0 < sum_list (map (fin_val \<circ> snd) ws) * unit_loss ^ length ws" using loss_pow by simp
    then have "0 < W" using W(2) by (auto simp: approx_def)
    then show ?thesis using W(1) by (simp add: zero_number_def)
  qed
  then show ?thesis
    using datastore.finalize_open(1) [OF assms(1,3,4) ok(1) ws, of E] p assms(7)
    by (auto simp: finalize_result_def)
qed

lemma worked_total: "total ((worked b ^^ k) n) = total n + k"
  by (induction k) auto

lemma settled_totals: "\<forall>i nd. node_of mem_db settled i = Some nd \<longrightarrow> total nd \<le> 2 ^ 53"
proof (intro allI impI)
  fix i nd
  assume nd: "node_of mem_db settled i = Some nd"
  have "node_of mem_db boot j = None" for j by (simp add: node_of_def boot_def mem.node.findOne_empty)
  then obtain ty where "nd = (worked True ^^ count_list [''node-1'', ''node-2'', ''node-3''] i) (fresh_node i ty)"
    using nd mem.verified_effects(6) [OF boot_start] settled_ids
    by (auto simp: one_run_def split: option.splits)
  then have "total nd = count_list [''node-1'', ''node-2'', ''node-3''] i"
    by (simp add: worked_total fresh_node_def)
  then show "total nd \<le> 2 ^ 53" by (simp split: if_splits)
qed

theorem pool_reconciles_exactly_witness:
  "\<exists>r. result (finalizeEpoch plain_env mem_db 1) settled = Inr r \<and> reconciled r"
proof -
  obtain ep where ep: "epoch_of mem_db settled 1 = Some ep" "epochStatus ep = Open" "totalFees ep = feeRate"
    using settled_epoch(1) by blast
  have len: "length (parts_of settled 1) \<le> 2 ^ 40" using settled_epoch(2) by simp
  have "in_range 10 (5 / 1000)" by (simp add: in_range_def power_int_def power_divide)
  note r = range_rnd [OF this]
  have "totalFees ep = Fin (rndv (5 / 1000))" using r(1) ep(3) by (simp add: feeRate_def lit_def)
  moreover have "rndv (5 / 1000) = 0 \<or> 2 powi (- 700) \<le> rndv (5 / 1000) \<and> rndv (5 / 1000) \<le> 2 powi 700"
    using range_mono [OF r(3), of 700] by (simp add: in_range_def)
  ultimately show ?thesis
    using pool_reconciles_exactly [OF mem.datastore_axioms lived_settled ep(1,2) len settled_totals] by blast
qed

text \<open>C10: the recipients of an open epoch are exactly the nodes that took part in a confirmed process.
  They are paid in ascending order of id, each once, weight times three quarters of the pool over
  the total weight, where a node's weight counts once for every confirmed participation. Each
  payment is one chain entry and is added to the earned tally; the remainder goes to the reserve;
  the epoch is closed with that distribution as its log and its participations are dropped.\<close>

theorem finalize_distributes:
  fixes s :: "'z commission_state_scheme"
  assumes "datastore D" "coin_ok D s" "epoch_of D s n = Some ep" "epochStatus ep = Open"
    and "\<forall>p \<in> set (parts_of s n). confirmed D s (partProcessId p) \<longrightarrow> node_of D s (partNodeId p) \<noteq> None"
  shows "\<exists>ws ps k. ps = payouts ws (totalFees ep)
    \<and> fst ` set ws = partNodeId ` {p \<in> set (parts_of s n). confirmed D s (partProcessId p)}
    \<and> (\<forall>i nd. i \<in> fst ` set ws \<and> node_of D s i = Some nd \<longrightarrow>
          weight_at ws i = add_times (confirmed_count D s (parts_of s n) i) (weight nd) 0)
    \<and> (0 < total_weight ws \<longrightarrow> map fst ps = sorted_list_of_set (fst ` set ws))
    \<and> (\<forall>(i, a) \<in> set ps. a = weight_at ws i * (totalFees ep * (1 - marginRate)) / total_weight ws)
    \<and> result (finalizeEpoch E D n) s = Inr (finalize_result n ps (totalFees ep))
    \<and> tallies D (exec (finalizeEpoch E D n) s) = (tallies D s)
         \<lparr>earnedRetained := foldl (+) (earnedRetained (tallies D s)) (map snd ps)\<rparr>
    \<and> entries D (exec (finalizeEpoch E D n) s) = entries D s
         @ map (\<lambda>(i, a). (''node.payment.received'', payment_payload (the (node_of D s i)) a)) ps
         @ [(''reserve.afc.accrual'', [(''amount'', JNum (totalFees ep - paid_of ps))]),
            (''commission.epoch.finalized'', finalized_payload n ps (totalFees ep))]
    \<and> epoch_of D (exec (finalizeEpoch E D n) s) n = Some (finalized_epoch ep ps k)
    \<and> parts_of (exec (finalizeEpoch E D n) s) n = []"
proof -
  obtain ws where ws: "weigh D s [] (parts_of s n) = Inr ws"
    using weigh_ok [of "parts_of s n" D s "[]"] assms(5) by auto
  note keys = weigh_keys [OF ws]
  have dist: "distinct (map fst ws)" using weigh_distinct [OF ws] by simp
  let ?ps = "payouts ws (totalFees ep)"
  note v = datastore.finalize_views [OF assms(1,3,4,2) ws, where E = E]
  note r = datastore.finalize_open(1) [OF assms(1,3,4,2) ws, of E]
  obtain k where k: "epoch_of D (exec (finalizeEpoch E D n) s) n = Some (finalized_epoch ep ?ps k)"
    using v(5) by blast
  have "weight_at ws i = add_times (confirmed_count D s (parts_of s n) i) (weight nd) 0"
    if "i \<in> fst ` set ws" "node_of D s i = Some nd" for i nd
  proof -
    have "map_of ws i \<noteq> None" using that(1) by (simp add: map_of_eq_None_iff)
    then show ?thesis using weigh_value [OF ws that(2)] by (auto simp: weight_at_def split: if_splits)
  qed
  moreover have "0 < total_weight ws \<longrightarrow> map fst ?ps = sorted_list_of_set (fst ` set ws)"
    using dist by (simp add: payouts_def comp_def sorted_list_of_set_sort_remdups distinct_remdups_id
        flip: set_map)
  moreover have "\<forall>(i, a) \<in> set ?ps. a = weight_at ws i * (totalFees ep * (1 - marginRate)) / total_weight ws"
    by (auto simp: payouts_def)
  ultimately show ?thesis
    using keys r v(2,3) k v(7) [of n] by (intro exI [of _ ws] exI [of _ ?ps] exI [of _ k]) auto
qed

theorem finalize_distributes_witness:
  "\<exists>ps. result (finalizeEpoch plain_env mem_db 1) settled = Inr (finalize_result 1 ps feeRate)"
proof -
  obtain ep where ep: "epoch_of mem_db settled 1 = Some ep" "epochStatus ep = Open" "totalFees ep = feeRate"
    using settled_epoch(1) by blast
  have "economy mem_db settled" using mem.reachable_ok [OF settled_reachable] by simp
  then have ok: "coin_ok mem_db settled" "\<forall>p \<in> set (parts_of settled 1).
      confirmed mem_db settled (partProcessId p) \<longrightarrow> node_of mem_db settled (partNodeId p) \<noteq> None"
    by (simp_all add: economy_def books_def roll_def del: serve.simps)
  show ?thesis using finalize_distributes [OF mem.datastore_axioms ok(1) ep(1,2) ok(2), of plain_env] ep(3) by auto
qed

text \<open>C11: an epoch is settled once. After a finalisation, finalising again returns the very same result
  and changes nothing: no second payment, no second accrual, no new chain entry.\<close>

theorem finalize_once:
  fixes s :: "'z commission_state_scheme"
  assumes "datastore D" "coin_ok D s" "result (finalizeEpoch E D n) s = Inr r"
  shows "result (finalizeEpoch E D n) (exec (finalizeEpoch E D n) s) = Inr r
    \<and> exec (finalizeEpoch E D n) (exec (finalizeEpoch E D n) s) = exec (finalizeEpoch E D n) s"
proof (cases "epoch_of D s n")
  case None
  then show ?thesis using datastore.finalize_missing [OF assms(1) None, of E] assms(3) by simp
next
  case (Some ep)
  show ?thesis
  proof (cases "epochStatus ep = Open")
    case False
    then show ?thesis using datastore.finalize_closed [OF assms(1) Some False, of E] assms(3) by simp
  next
    case True
    obtain ws where ws: "weigh D s [] (parts_of s n) = Inr ws"
      using datastore.finalize_unregistered [OF assms(1) Some True, of _ E] assms(3)
      by (cases "weigh D s [] (parts_of s n)") auto
    let ?ps = "payouts ws (totalFees ep)"
    obtain k where k: "epoch_of D (exec (finalizeEpoch E D n) s) n = Some (finalized_epoch ep ?ps k)"
      using datastore.finalize_views(5) [OF assms(1) Some True assms(2) ws, of E] by blast
    have "epochNumber ep = n"
      using datastore.axioms(5) [OF assms(1)] Some repository.findOne_key by (auto simp: epoch_of_def)
    moreover have "epochStatus (finalized_epoch ep ?ps k) \<noteq> Open" by (simp add: finalized_epoch_def)
    ultimately show ?thesis
      using datastore.finalize_closed [OF assms(1) k, of E] assms(3) toResult_finalized [of ep n ?ps k]
        datastore.finalize_open(1) [OF assms(1) Some True assms(2) ws, of E] by simp
  qed
qed

theorem finalize_once_witness:
  "\<exists>r. result (finalizeEpoch plain_env mem_db 1) settled = Inr r
     \<and> result (finalizeEpoch plain_env mem_db 1) (exec (finalizeEpoch plain_env mem_db 1) settled) = Inr r"
proof -
  note ok = settled_ready(1)
  obtain ep ws where "epoch_of mem_db settled 1 = Some ep" "epochStatus ep = Open"
    "weigh mem_db settled [] (parts_of settled 1) = Inr ws"
    using settled_ready(2) by blast
  then have "\<exists>r. result (finalizeEpoch plain_env mem_db 1) settled = Inr r"
    using mem.finalize_open(1) [OF _ _ ok] by blast
  then show ?thesis using finalize_once [OF mem.datastore_axioms ok] by blast
qed

text \<open>The verdict cache of the weighing loop is transparent: for every state and every list of
  participations the loop returns what looking up each verdict afresh returns, errors included,
  and writes nothing.\<close>

lemma verdict_cache_transparent:
  "result (confirmedWeights D n) s = weigh D s [] (parts_of s n) \<and> exec (confirmedWeights D n) s = s"
  by (simp add: confirmedWeights_run)

text \<open>A fee accrued into an epoch that is no longer open is added to its pool but is never
  distributed: the status stays closed, and a finalisation afterwards pays nobody, records nothing
  and reports the old payments and the old margin against the larger pool.\<close>

lemma closed_epoch_strands_fees:
  fixes s :: "'z commission_state_scheme"
  assumes "datastore D" "epoch_of D s n = Some ep" "epochStatus ep \<noteq> Open"
  shows "epoch_of D (exec (accrue D n f ps) s) n = Some (ep\<lparr>totalFees := totalFees ep + f\<rparr>)
    \<and> exec (finalizeEpoch E D n) (exec (accrue D n f ps) s) = exec (accrue D n f ps) s
    \<and> (\<exists>r. result (finalizeEpoch E D n) (exec (accrue D n f ps) s) = Inr r
        \<and> finTotalFees r = totalFees ep + f \<and> finDistributionLog r = distributionLog ep
        \<and> finOperationalMargin r = operationalMargin ep)"
proof -
  have e: "epoch_of D (exec (accrue D n f ps) s) n = Some (ep\<lparr>totalFees := totalFees ep + f\<rparr>)"
    using assms(2) by (simp add: datastore.accrue_epoch_of [OF assms(1)] datastore.accrue_run(1) [OF assms(1)])
  show ?thesis using e datastore.finalize_closed [OF assms(1) e, of E] assms(3) by (simp add: toResult_def Let_def)
qed

end
