(* ===== verification/Threads.thy ===== *)
theory Threads
  imports Prelude
begin

text \<open>
  Requests that run at the same time. A handler is cut into pieces where other handlers may run:
  at its \<open>await\<close>s. A thread has returned, or waits until \<open>g\<close> holds, then has the effect \<open>e\<close>
  and goes on as \<open>k\<close> says of the state it found. \<open>atom m\<close> is a computation nothing can
  interrupt, \<open>andThen\<close> and \<open>andTry\<close> put threads in sequence. \<open>runAlone\<close> runs a thread with
  no other one around, \<open>turn\<close> gives the next piece to any thread whose guard holds.
\<close>

datatype ('s, 'a) thread = Ret 'a | Await "'s \<Rightarrow> bool" "'s \<Rightarrow> 's" "'s \<Rightarrow> ('s, 'a) thread"

primrec andThen :: "('s, 'a) thread \<Rightarrow> ('a \<Rightarrow> ('s, 'b) thread) \<Rightarrow> ('s, 'b) thread" where
  "andThen (Ret a) f = f a"
| "andThen (Await g e k) f = Await g e (\<lambda>s. andThen (k s) f)"

definition andTry ::
  "('s, 'e + 'a) thread \<Rightarrow> ('a \<Rightarrow> ('s, 'e + 'b) thread) \<Rightarrow> ('s, 'e + 'b) thread" where
  "andTry t f = andThen t (\<lambda>r. case r of Inl e \<Rightarrow> Ret (Inl e) | Inr a \<Rightarrow> f a)"

definition atom :: "('s, 'a) state \<Rightarrow> ('s, 'a) thread" where
  "atom m = Await (\<lambda>_. True) (exec m) (\<lambda>s. Ret (result m s))"

fun eachTry :: "('x \<Rightarrow> ('s, 'e + unit) thread) \<Rightarrow> 'x list \<Rightarrow> ('s, 'e + unit) thread" where
  "eachTry f [] = Ret (Inr ())"
| "eachTry f (x # xs) = andTry (f x) (\<lambda>_. eachTry f xs)"

section \<open>A thread alone\<close>

primrec runAlone :: "('s, 'a) thread \<Rightarrow> ('s, 'a) state" where
  "runAlone (Ret a) = return a"
| "runAlone (Await g e k) = State (\<lambda>s. run_state (runAlone (k s)) (e s))"

primrec ready :: "('s, 'a) thread \<Rightarrow> 's \<Rightarrow> bool" where
  "ready (Ret a) s = True"
| "ready (Await g e k) s = (g s \<and> ready (k s) (e s))"

lemma state_eqI:
  assumes "\<And>s. result m s = result n s" "\<And>s. exec m s = exec n s"
  shows "m = n"
proof -
  have "run_state m = run_state n" using assms by (simp add: fun_eq_iff run_state_eq)
  then show ?thesis by (cases m; cases n) simp
qed

lemma runAlone_Await [simp]:
  "result (runAlone (Await g e k)) s = result (runAlone (k s)) (e s)"
  "exec (runAlone (Await g e k)) s = exec (runAlone (k s)) (e s)"
  by (simp_all add: result_def exec_def)

declare runAlone.simps(2) [simp del]

lemma runAlone_atom [simp]: "runAlone (atom m) = m"
  by (rule state_eqI) (simp_all add: atom_def)

lemma runAlone_andThen [simp]:
  "runAlone (andThen t f) = State_Monad.bind (runAlone t) (\<lambda>a. runAlone (f a))"
proof (rule state_eqI)
  show "result (runAlone (andThen t f)) s = result (State_Monad.bind (runAlone t) (\<lambda>a. runAlone (f a))) s" for s
    by (induction t arbitrary: s) simp_all
  show "exec (runAlone (andThen t f)) s = exec (State_Monad.bind (runAlone t) (\<lambda>a. runAlone (f a))) s" for s
    by (induction t arbitrary: s) simp_all
qed

lemma runAlone_sum: "runAlone (case r of Inl e \<Rightarrow> f e | Inr a \<Rightarrow> g a) = (case r of Inl e \<Rightarrow> runAlone (f e) | Inr a \<Rightarrow> runAlone (g a))"
  by (cases r) simp_all

lemma runAlone_andTry [simp]: "runAlone (andTry t f) = tryM (runAlone t) (\<lambda>a. runAlone (f a))"
  by (simp add: andTry_def tryM_def runAlone_sum cong: sum.case_cong)

lemma runAlone_each [simp]: "runAlone (eachTry f xs) = forE (\<lambda>x. runAlone (f x)) xs"
  by (induction xs) simp_all

lemma ready_andThen [simp]:
  "ready (andThen t f) s \<longleftrightarrow> ready t s \<and> ready (f (result (runAlone t) s)) (exec (runAlone t) s)"
  by (induction t arbitrary: s) auto

lemma ready_atom [simp]: "ready (atom m) s"
  by (simp add: atom_def)

text \<open>A thread that neither waits for ever nor leaves the invariant when it runs alone.\<close>

definition lone :: "('s \<Rightarrow> bool) \<Rightarrow> ('s, 'a) thread \<Rightarrow> bool" where
  "lone I t \<longleftrightarrow> (\<forall>s. I s \<longrightarrow> ready t s \<and> I (exec (runAlone t) s))"

lemma lone_Ret: "lone I (Ret a)"
  by (simp add: lone_def)

lemma lone_atom: "(\<And>s. I s \<Longrightarrow> I (exec m s)) \<Longrightarrow> lone I (atom m)"
  by (simp add: lone_def)

lemma lone_andThen: "lone I t \<Longrightarrow> (\<And>a. lone I (f a)) \<Longrightarrow> lone I (andThen t f)"
  by (simp add: lone_def)

lemma lone_andTry: "lone I t \<Longrightarrow> (\<And>a. lone I (f a)) \<Longrightarrow> lone I (andTry t f)"
  unfolding andTry_def by (rule lone_andThen) (auto intro: lone_Ret split: sum.splits)

lemma lone_each: "(\<And>x. lone I (f x)) \<Longrightarrow> lone I (eachTry f xs)"
  by (induction xs) (auto intro: lone_Ret lone_andTry)

section \<open>Threads together\<close>

inductive turn :: "'s \<times> ('s, 'a) thread list \<Rightarrow> 's \<times> ('s, 'a) thread list \<Rightarrow> bool" where
  turn: "i < length ts \<Longrightarrow> ts ! i = Await g e k \<Longrightarrow> g s \<Longrightarrow> turn (s, ts) (e s, ts[i := k s])"

inductive_cases turnE: "turn (s, ts) c"

definition turns :: "'s \<times> ('s, 'a) thread list \<Rightarrow> 's \<times> ('s, 'a) thread list \<Rightarrow> bool" where
  "turns = rtranclp turn"

lemma turns_refl: "turns c c"
  by (simp add: turns_def)

lemma turns_trans: "turns c d \<Longrightarrow> turns d e \<Longrightarrow> turns c e"
  by (simp add: turns_def)

text \<open>A schedule names the thread of each turn.\<close>

fun follow :: "nat list \<Rightarrow> 's \<times> ('s, 'a) thread list \<Rightarrow> ('s \<times> ('s, 'a) thread list) option" where
  "follow [] c = Some c"
| "follow (i # is) (s, ts) =
     (if i < length ts then
        (case ts ! i of Ret a \<Rightarrow> None | Await g e k \<Rightarrow> if g s then follow is (e s, ts[i := k s]) else None)
      else None)"

lemma follow_turns: "follow sched c = Some d \<Longrightarrow> turns c d"
proof (induction sched c arbitrary: d rule: follow.induct)
  case (2 i "is" s ts)
  from "2.prems" obtain g e k where t: "i < length ts" "ts ! i = Await g e k" "g s"
    and f: "follow is (e s, ts[i := k s]) = Some d" by (auto split: if_splits thread.splits)
  have "turns (e s, ts[i := k s]) d" using "2.IH" t f by blast
  then show ?case using turn.turn [OF t] unfolding turns_def by (rule converse_rtranclp_into_rtranclp [rotated])
qed (simp add: turns_refl)

text \<open>A thread served without another one in between, as the first part of what it goes on to do.\<close>

lemma first_part:
  "ready t s \<Longrightarrow> i < length ts \<Longrightarrow> ts ! i = andThen t f \<Longrightarrow>
     turns (s, ts) (exec (runAlone t) s, ts[i := f (result (runAlone t) s)])"
proof (induction t arbitrary: s ts)
  case (Ret a)
  then have "ts[i := f a] = ts" by (metis andThen.simps(1) list_update_id)
  then show ?case by (simp add: turns_refl)
next
  case (Await g e k)
  then have t: "i < length ts" "ts ! i = Await g e (\<lambda>s. andThen (k s) f)" "g s" by simp_all
  have "turn (s, ts) (e s, ts[i := andThen (k s) f])" by (rule turn.turn [OF t])
  moreover have "turns (e s, ts[i := andThen (k s) f])
      (exec (runAlone (Await g e k)) s, ts[i := f (result (runAlone (Await g e k)) s)])"
    using Await.IH [of "k s" "e s" "ts[i := andThen (k s) f]"] Await.prems by simp
  ultimately show ?case unfolding turns_def by (rule converse_rtranclp_into_rtranclp)
qed

lemma andThen_Ret [simp]: "andThen t Ret = t"
  by (induction t) simp_all

lemma alone_in_company:
  "ready t s \<Longrightarrow> i < length ts \<Longrightarrow> ts ! i = t \<Longrightarrow>
     turns (s, ts) (exec (runAlone t) s, ts[i := Ret (result (runAlone t) s)])"
  using first_part [of t s i ts Ret] by simp

section \<open>What every thread keeps\<close>

primrec keeps :: "('s \<Rightarrow> bool) \<Rightarrow> ('s \<Rightarrow> 's \<Rightarrow> bool) \<Rightarrow> ('s, 'a) thread \<Rightarrow> bool" where
  "keeps I R (Ret a) = True"
| "keeps I R (Await g e k) = ((\<forall>s. I s \<longrightarrow> I (e s) \<and> R s (e s)) \<and> (\<forall>s. keeps I R (k s)))"

lemma keeps_atom [simp]: "keeps I R (atom m) = safe I R m"
  by (simp add: atom_def safe_def)

lemma keeps_andThen: "keeps I R t \<Longrightarrow> (\<And>a. keeps I R (f a)) \<Longrightarrow> keeps I R (andThen t f)"
  by (induction t) auto

lemma keeps_andTry: "keeps I R t \<Longrightarrow> (\<And>a. keeps I R (f a)) \<Longrightarrow> keeps I R (andTry t f)"
  unfolding andTry_def by (rule keeps_andThen) (auto split: sum.splits)

lemma keeps_each: "(\<And>x. keeps I R (f x)) \<Longrightarrow> keeps I R (eachTry f xs)"
  by (induction xs) (auto intro: keeps_andTry)

lemmas keeps_rules = keeps_andThen keeps_andTry keeps_each

context preorder_rel
begin

lemma turns_keep:
  assumes "turns (s, ts) (s', ts')" "I s" "\<And>t. t \<in> set ts \<Longrightarrow> keeps I R t"
  shows "I s' \<and> R s s'"
proof -
  have "I (fst d) \<and> R (fst c) (fst d) \<and> (\<forall>t \<in> set (snd d). keeps I R t)"
    if "rtranclp turn c d" "I (fst c)" "\<forall>t \<in> set (snd c). keeps I R t" for c d :: "'s \<times> ('s, 'b) thread list"
    using that
  proof (induction rule: rtranclp_induct)
    case (step d d')
    then have IH: "I (fst d)" "R (fst c) (fst d)" "\<forall>t \<in> set (snd d). keeps I R t" by auto
    from step(2) obtain i g e k where t: "i < length (snd d)" "snd d ! i = Await g e k"
      and d': "d' = (e (fst d), (snd d)[i := k (fst d)])" by cases auto
    then have "keeps I R (Await g e k)" using IH(3) nth_mem by metis
    then have "I (e (fst d)) \<and> R (fst d) (e (fst d))" "\<forall>s. keeps I R (k s)" using IH(1) by auto
    moreover from this(2) have "\<forall>t \<in> set ((snd d)[i := k (fst d)]). keeps I R t"
      using IH(3) set_update_subset_insert by fastforce
    ultimately show ?case using IH(2) d' R_trans by auto
  qed (auto simp: R_refl)
  from this [of "(s, ts)" "(s', ts')"] assms show ?thesis by (auto simp: turns_def)
qed

end

section \<open>Termination\<close>

text \<open>A turn replaces one thread by a continuation of it. Threads are well-founded trees, so no schedule
  goes on for ever.\<close>

definition continues :: "(('s, 'a) thread \<times> ('s, 'a) thread) set" where
  "continues = {(t', t). \<exists>g e k s. t = Await g e k \<and> t' = k s}"

lemma wf_continues: "wf (continues :: (('s, 'a) thread \<times> ('s, 'a) thread) set)"
proof (rule wfUNIVI)
  fix P :: "('s, 'a) thread \<Rightarrow> bool" and t :: "('s, 'a) thread"
  assume step: "\<forall>t. (\<forall>t'. (t', t) \<in> continues \<longrightarrow> P t') \<longrightarrow> P t"
  show "P t"
  proof (induction t)
    case (Ret a)
    then show ?case using step by (auto simp: continues_def)
  next
    case (Await g e k)
    have "\<forall>t'. (t', Await g e k) \<in> continues \<longrightarrow> P t'" using Await by (auto simp: continues_def)
    then show ?case using step by blast
  qed
qed

lemma turn_continues: "turn c d \<Longrightarrow> (snd d, snd c) \<in> listrel1 continues"
proof (induction rule: turn.induct)
  case (turn i ts g e k s)
  have "ts = take i ts @ Await g e k # drop (Suc i) ts" using turn id_take_nth_drop [of i ts] by metis
  moreover from turn have "ts[i := k s] = take i ts @ k s # drop (Suc i) ts" by (simp add: upd_conv_take_nth_drop)
  moreover have "(k s, Await g e k) \<in> continues" by (auto simp: continues_def)
  ultimately show ?case unfolding snd_conv by (metis listrel1I)
qed

lemma wf_turn: "wf {(d, c). turn c d}"
proof (rule wf_subset)
  show "wf (inv_image (listrel1 continues) snd)"
    by (intro wf_inv_image) (simp add: wf_continues)
  show "{(d, c). turn c d} \<subseteq> inv_image (listrel1 continues) snd"
    by (auto dest: turn_continues)
qed

lemma no_infinite_schedule: "\<nexists>f. \<forall>n. turn (f n) (f (Suc n))"
  using wf_turn unfolding wf_iff_no_infinite_down_chain by auto

text \<open>Hence a property of the configurations from which no turn is possible is one that every schedule
  can be brought to.\<close>

lemma can_finish:
  assumes "\<And>d. turns c d \<Longrightarrow> (\<nexists>d'. turn d d') \<Longrightarrow> Q d"
  shows "\<exists>d. turns c d \<and> Q d"
proof -
  have "\<exists>d. turns c d \<and> (\<nexists>d'. turn d d')"
  proof (induction c rule: wf_induct_rule [OF wf_turn])
    case (1 c)
    show ?case
    proof (cases "\<exists>d. turn c d")
      case True
      then obtain d where "turn c d" by blast
      with 1 obtain d' where "turns d d'" "\<nexists>d''. turn d' d''" by blast
      then show ?thesis using \<open>turn c d\<close> unfolding turns_def by (meson converse_rtranclp_into_rtranclp)
    next
      case False
      then show ?thesis using turns_refl by blast
    qed
  qed
  then show ?thesis using assms by blast
qed

section \<open>Progress\<close>

text \<open>
  Threads that wait for one event: \<open>flag\<close> says that some thread has begun to bring it about, \<open>event\<close>
  that it has happened; neither is ever undone. \<open>brings t\<close>: \<open>t\<close> goes on without waiting until the event has
  happened. \<open>tidy t\<close>: whatever piece of \<open>t\<close> raises the flag goes on to bring the event about, and \<open>t\<close>
  waits for nothing but the event, and only once the flag is up.
\<close>

primrec unguarded :: "('s, 'a) thread \<Rightarrow> bool" where
  "unguarded (Ret a) = True"
| "unguarded (Await g e k) = (\<forall>s. g s)"

primrec returned :: "('s, 'a) thread \<Rightarrow> bool" where
  "returned (Ret a) = True"
| "returned (Await g e k) = False"

primrec brings :: "('s \<Rightarrow> bool) \<Rightarrow> ('s, 'a) thread \<Rightarrow> bool" where
  "brings event (Ret a) = False"
| "brings event (Await g e k) = ((\<forall>s. g s) \<and> (\<forall>s. event (e s) \<or> brings event (k s)))"

primrec tidy :: "('s \<Rightarrow> bool) \<Rightarrow> ('s \<Rightarrow> bool) \<Rightarrow> ('s, 'a) thread \<Rightarrow> bool" where
  "tidy flag event (Ret a) = True"
| "tidy flag event (Await g e k) =
     ((\<forall>s. event s \<longrightarrow> g s) \<and> (\<forall>s. (event s \<longrightarrow> event (e s)) \<and> (flag s \<longrightarrow> flag (e s))) \<and>
      (\<forall>s. \<not> flag s \<longrightarrow> flag (e s) \<longrightarrow> event (e s) \<or> brings event (k s)) \<and>
      (\<forall>s. unguarded (k s) \<or> flag (e s)) \<and> (\<forall>s. tidy flag event (k s)))"

lemma brings_unguarded: "brings event t \<Longrightarrow> unguarded t \<and> \<not> returned t"
  by (cases t) auto

lemma brings_andThen: "brings event t \<Longrightarrow> brings event (andThen t f)"
  by (induction t) auto

lemma unguarded_andThen: "unguarded t \<Longrightarrow> (\<And>a. unguarded (f a)) \<Longrightarrow> unguarded (andThen t f)"
  by (cases t) auto

lemma tidy_andThen:
  "tidy flag event t \<Longrightarrow> (\<And>a. tidy flag event (f a) \<and> unguarded (f a)) \<Longrightarrow> tidy flag event (andThen t f)"
proof (induction t)
  case (Await g e k)
  have f: "unguarded (f a)" for a using Await.prems(2) by blast
  have "unguarded (andThen (k s) f) \<or> flag (e s)" for s
  proof -
    have "unguarded (k s) \<or> flag (e s)" using Await.prems(1) by simp
    then show ?thesis using unguarded_andThen f by blast
  qed
  moreover have "tidy flag event (andThen (k s) f)" for s using Await by auto
  ultimately show ?case using Await.prems(1) brings_andThen by fastforce
qed simp

lemma tidy_andTry:
  "tidy flag event t \<Longrightarrow> (\<And>a. tidy flag event (f a) \<and> unguarded (f a)) \<Longrightarrow> tidy flag event (andTry t f)"
  unfolding andTry_def by (rule tidy_andThen) (auto split: sum.splits)

lemma unguarded_andTry: "unguarded t \<Longrightarrow> (\<And>a. unguarded (f a)) \<Longrightarrow> unguarded (andTry t f)"
  unfolding andTry_def by (rule unguarded_andThen) (auto split: sum.splits)

lemma unguarded_atom [simp]: "unguarded (atom m)"
  by (simp add: atom_def)

lemma unguarded_each: "(\<And>x. unguarded (f x)) \<Longrightarrow> unguarded (eachTry f xs)"
  by (induction xs) (auto intro: unguarded_andTry)

lemma tidy_each: "(\<And>x. tidy flag event (f x) \<and> unguarded (f x)) \<Longrightarrow> tidy flag event (eachTry f xs)"
  by (induction xs) (auto intro: tidy_andTry unguarded_each)

lemma tidy_atom:
  "(\<And>s. event s \<Longrightarrow> event (exec m s)) \<Longrightarrow> (\<And>s. flag (exec m s) \<longleftrightarrow> flag s) \<Longrightarrow> tidy flag event (atom m)"
  by (simp add: atom_def)

text \<open>The condition a configuration keeps, and why it is never stuck.\<close>

definition orderly :: "('s \<Rightarrow> bool) \<Rightarrow> ('s \<Rightarrow> bool) \<Rightarrow> 's \<times> ('s, 'a) thread list \<Rightarrow> bool" where
  "orderly flag event c \<longleftrightarrow>
     (\<forall>t \<in> set (snd c). tidy flag event t \<and> (unguarded t \<or> flag (fst c))) \<and>
     (flag (fst c) \<longrightarrow> \<not> event (fst c) \<longrightarrow> (\<exists>t \<in> set (snd c). brings event t))"

lemma turn_orderly:
  assumes "turn c d" "orderly flag event c"
  shows "orderly flag event d"
  using assms
proof (induction rule: turn.induct)
  case (turn i ts g e k s)
  have t: "tidy flag event (Await g e k)" 
    using turn(4) nth_mem [OF turn(1)] unfolding turn(2) orderly_def snd_conv by blast
  have 1: "tidy flag event t \<and> (unguarded t \<or> flag (e s))" if "t \<in> set (ts[i := k s])" for t
  proof -
    from that have "t = k s \<or> t \<in> set ts" using set_update_subset_insert [of ts i "k s"] by blast
    moreover have "tidy flag event (k s) \<and> (unguarded (k s) \<or> flag (e s))" using t by simp
    moreover have "tidy flag event u \<and> (unguarded u \<or> flag (e s))" if "u \<in> set ts" for u
      using turn(4) t that unfolding orderly_def by auto
    ultimately show ?thesis by blast
  qed
  have 2: "\<exists>t \<in> set (ts[i := k s]). brings event t" if "flag (e s)" "\<not> event (e s)"
  proof (cases "flag s")
    case False
    then have "brings event (k s)" using t that by auto
    then show ?thesis using turn(1) by (auto intro!: bexI [of _ "k s"] set_update_memI)
  next
    case True
    moreover have "\<not> event s" using t that by auto
    ultimately obtain u where u: "u \<in> set ts" "brings event u" using turn by (auto simp: orderly_def)
    then obtain j where j: "j < length ts" "ts ! j = u" by (auto simp: in_set_conv_nth)
    show ?thesis
    proof (cases "j = i")
      case True
      then have "brings event (k s)" using j u that turn(2) by auto
      then show ?thesis using turn(1) by (auto intro!: bexI [of _ "k s"] set_update_memI)
    next
      case False
      then have "ts[i := k s] ! j = u" using j by simp
      then show ?thesis using j u(2) by (metis length_list_update nth_mem)
    qed
  qed
  show ?case using 1 2 by (simp add: orderly_def)
qed

lemma turns_orderly: "turns c d \<Longrightarrow> orderly flag event c \<Longrightarrow> orderly flag event d"
  unfolding turns_def by (induction rule: rtranclp_induct) (auto intro: turn_orderly)

lemma orderly_progress:
  assumes "orderly flag event (s, ts)"
  shows "list_all returned ts \<or> (\<exists>d. turn (s, ts) d)"
proof (cases "list_all returned ts")
  case False
  then obtain t where t: "t \<in> set ts" "\<not> returned t" by (auto simp: list_all_iff)
  have "\<exists>u \<in> set ts. \<exists>g e k. u = Await g e k \<and> g s"
  proof (cases "unguarded t \<or> event s")
    case True
    moreover have "tidy flag event t" using t(1) assms unfolding orderly_def by auto
    ultimately have "\<exists>g e k. t = Await g e k \<and> g s" using t(2) by (cases t) auto
    then show ?thesis using t(1) by blast
  next
    case no: False
    then have "flag s" using t(1) assms unfolding orderly_def by auto
    then obtain u where "u \<in> set ts" and b: "brings event u" using no assms unfolding orderly_def by auto
    moreover obtain g e k where "u = Await g e k" "g s" using b by (cases u) simp_all
    ultimately show ?thesis by blast
  qed
  then obtain i g e k where "i < length ts" "ts ! i = Await g e k" "g s" by (metis in_set_conv_nth)
  from turn.turn [OF this] show ?thesis by (intro disjI2 exI)
qed simp

end
