(* ===== verification/Concurrent.thy ===== *)
theory Concurrent
  imports Threads System
begin

text \<open>
  The services as threads: the operations of the component theories cut at their \<open>await\<close>s, each
  database access, each transaction and each stretch of in-memory work being one piece. The
  transactions of \<open>append\<close> and of the eye's \<open>log\<close> are one piece each, as their comments say.
  A caller that finds the creation of the ledger row under way waits for the row. Shown here: run alone,
  a request does what the operations of the other theories do, and never waits for ever.
\<close>

section \<open>The operations, cut at their awaits\<close>

definition ensureLedgerT :: "database \<Rightarrow> ('z coin_state_scheme, unit) thread" where
  "ensureLedgerT D =
     andThen (atom (do {
       initialization \<leftarrow> gets coinInit;
       (if \<not> initialization then modify (\<lambda>s. s\<lparr>coinInit := True\<rparr>) else return ());
       return initialization
     })) (\<lambda>initialization.
       if initialization
       then Await (\<lambda>s. findOne (ledgers D) LEDGER_ID (ledgerTbl s) \<noteq> None) (\<lambda>s. s) (\<lambda>_. Ret ())
       else andThen (atom (gets (\<lambda>s. findOne (ledgers D) LEDGER_ID (ledgerTbl s)))) (\<lambda>existing.
         if existing = None
         then atom (modify (\<lambda>s. s\<lparr>ledgerTbl := save (ledgers D) zeroLedger (ledgerTbl s)\<rparr>))
         else Ret ()))"

definition ledgerT :: "database \<Rightarrow> ('z coin_state_scheme, error + ArosCoinLedger) thread" where
  "ledgerT D =
     andThen (ensureLedgerT D) (\<lambda>_.
       andThen (atom (gets (\<lambda>s. findOne (ledgers D) LEDGER_ID (ledgerTbl s)))) (\<lambda>found.
         case found of None \<Rightarrow> Ret (Inl EntityNotFoundError) | Some row \<Rightarrow> Ret (Inr row)))"

definition recordMintT :: "database \<Rightarrow> number \<Rightarrow> ('z coin_state_scheme, error + unit) thread" where
  "recordMintT D amount = andTry (ledgerT D) (\<lambda>row.
     atom (saveLedger D (row\<lparr>processMinted := processMinted row + amount\<rparr>)))"

definition recordBurnT :: "database \<Rightarrow> number \<Rightarrow> ('z coin_state_scheme, error + unit) thread" where
  "recordBurnT D amount = andTry (ledgerT D) (\<lambda>row.
     atom (saveLedger D (row\<lparr>processBurned := processBurned row + amount\<rparr>)))"

definition totalSupplyT :: "database \<Rightarrow> ('z coin_state_scheme, error + number) thread" where
  "totalSupplyT D = andTry (ledgerT D) (\<lambda>row.
     Ret (Inr ((processMinted row - processBurned row) + earnedRetained row)))"

definition supplyViewT :: "database \<Rightarrow> ('z coin_state_scheme, error + SupplyView) thread" where
  "supplyViewT D = andTry (ledgerT D) (\<lambda>row.
     Ret (Inr \<lparr>viewTotalSupply = (processMinted row - processBurned row) + earnedRetained row,
               viewRetained = earnedRetained row\<rparr>))"

definition captureT ::
  "env \<Rightarrow> database \<Rightarrow> string \<Rightarrow> string \<Rightarrow> object \<Rightarrow> string option \<Rightarrow>
   ('z recording_state_scheme, ExecutionSnapshot) thread" where
  "captureT E D processId evType data validatorId =
     andThen (atom (append E D evType (buildPayload processId data validatorId))) (\<lambda>snapshot.
       atom (do {
         modify (\<lambda>s. if captured s processId = None
                      then s\<lparr>captured := (captured s)(processId \<mapsto> {})\<rparr> else s);
         modify (\<lambda>s. s\<lparr>captured := (captured s)(processId := map_option (insert evType) (captured s processId))\<rparr>);
         return snapshot
       }))"

definition verifyT :: "env \<Rightarrow> database \<Rightarrow> string \<Rightarrow> ('z pot_state_scheme, VerifyResult) thread" where
  "verifyT E D processId =
     andThen (atom (gets (\<lambda>s. findOne (verdicts D) processId (verdictTbl s)))) (\<lambda>existing.
       case existing of
         Some v \<Rightarrow> Ret \<lparr>resVerified = verified v, resReasons = reasons v,
                        resSnapshotSequenceId = snapshotSequenceId v\<rparr>
       | None \<Rightarrow>
           andThen (atom (capturedEvents processId)) (\<lambda>captured.
           andThen (atom (reconstruct E D)) (\<lambda>check.
             let criteriaResult = criteria captured (ok check);
                 verifiedFlag = list_all snd criteriaResult;
                 verified = (if verifiedFlag then 1 else 0);
                 reasons = failureReasons criteriaResult captured
             in andThen (atom (append E D ''pot.verified''
                  [(''processId'', JStr processId), (''verified'', jint verified),
                   (''reasons'', JArr (map JStr reasons))])) (\<lambda>snapshot.
                andThen (atom now) (\<lambda>ts.
                andThen (atom (modify (\<lambda>s. s\<lparr>verdictTbl := save (verdicts D)
                  \<lparr>verdictProcessId = processId, verified = verified, reasons = reasons,
                   verdictTimestamp = ts, snapshotSequenceId = sequenceId snapshot\<rparr> (verdictTbl s)\<rparr>))) (\<lambda>_.
                Ret \<lparr>resVerified = verified, resReasons = reasons,
                     resSnapshotSequenceId = sequenceId snapshot\<rparr>))))))"

definition mintT :: "env \<Rightarrow> database \<Rightarrow> string \<Rightarrow> number \<Rightarrow> ('z coin_state_scheme, error + number) thread" where
  "mintT E D processId amount =
     andThen (atom (getVerdict D processId)) (\<lambda>verdict.
       if (case verdict of None \<Rightarrow> True | Some v \<Rightarrow> verified v \<noteq> 1)
       then Ret (Inl (refusal processId))
       else andTry (recordMintT D amount) (\<lambda>_.
         andThen (atom (append E D ''emission.minted'' [(''processId'', JStr processId), (''minted'', JNum amount)])) (\<lambda>_.
           Ret (Inr amount))))"

definition burnT :: "env \<Rightarrow> database \<Rightarrow> string \<Rightarrow> number \<Rightarrow> ('z coin_state_scheme, error + number) thread" where
  "burnT E D processId amount =
     andTry (recordBurnT D amount) (\<lambda>_.
       andThen (atom (append E D ''emission.burned'' [(''processId'', JStr processId), (''burned'', JNum amount)])) (\<lambda>_.
         Ret (Inr amount)))"

definition emitT :: "env \<Rightarrow> database \<Rightarrow> string \<Rightarrow> number \<Rightarrow> ('z coin_state_scheme, error + EmitResult) thread" where
  "emitT E D processId amount =
     andThen (atom (getVerdict D processId)) (\<lambda>verdict.
       if (case verdict of None \<Rightarrow> True | Some v \<Rightarrow> verified v \<noteq> 1)
       then Ret (Inr \<lparr>authorized = False, emitMinted = 0, emitBurned = 0, emitProcessId = processId\<rparr>)
       else andTry (mintT E D processId amount) (\<lambda>minted.
            andTry (burnT E D processId minted) (\<lambda>burned.
              Ret (Inr \<lparr>authorized = True, emitMinted = minted, emitBurned = burned, emitProcessId = processId\<rparr>))))"

definition registerT ::
  "env \<Rightarrow> database \<Rightarrow> string \<Rightarrow> string \<Rightarrow> ('z node_state_scheme, NodeEntity) thread" where
  "registerT E D i type =
     (let saved = \<lparr>nodeId = i, nodeType = type, uptime = 1, successes = 0, total = 0,
                   nodeStatus = Active, weight = 1, reputation = 1\<rparr>
      in andThen (atom (modify (\<lambda>s. s\<lparr>nodeTbl := save (nodes D) saved (nodeTbl s)\<rparr>))) (\<lambda>_.
         andThen (atom (append E D ''node.registered''
           [(''nodeId'', JStr (nodeId saved)), (''type'', JStr (nodeType saved)),
            (''uptime'', JNum (uptime saved)), (''reputation'', JNum (reputation saved)),
            (''weight'', JNum (weight saved))])) (\<lambda>_. Ret saved)))"

fun registerAllT :: "env \<Rightarrow> database \<Rightarrow> (string \<times> string) list \<Rightarrow> ('z node_state_scheme, unit) thread" where
  "registerAllT E D [] = Ret ()"
| "registerAllT E D ((i, t) # ns) = andThen (registerT E D i t) (\<lambda>_. registerAllT E D ns)"

definition resolveAssignedNodesT ::
  "env \<Rightarrow> database \<Rightarrow> string list option \<Rightarrow> ('z node_state_scheme, string list) thread" where
  "resolveAssignedNodesT E D explicit =
     (case explicit of
        Some (i # is) \<Rightarrow> Ret (i # is)
      | _ \<Rightarrow> andThen (atom (listNodes D)) (\<lambda>found.
          andThen (if length found = 0 then andThen (registerAllT E D DEFAULT_NODES) (\<lambda>_. atom (listNodes D))
                   else Ret found) (\<lambda>registered.
            Ret (map nodeId (filter (\<lambda>node. nodeStatus node = Active) registered)))))"

definition recordExecutionT ::
  "database \<Rightarrow> string \<Rightarrow> bool \<Rightarrow> ('z node_state_scheme, error + NodeEntity) thread" where
  "recordExecutionT D i success = andTry (atom (requireNode D i)) (\<lambda>node.
     let node' = worked success node
     in andThen (atom (modify (\<lambda>s. s\<lparr>nodeTbl := save (nodes D) node' (nodeTbl s)\<rparr>))) (\<lambda>_. Ret (Inr node')))"

definition openEpochT :: "database \<Rightarrow> int \<Rightarrow> ('z commission_state_scheme, Epoch) thread" where
  "openEpochT D n =
     andThen (atom (gets (\<lambda>s. findOne (epochs D) n (epochTbl s)))) (\<lambda>existing.
       case existing of
         Some epoch \<Rightarrow> Ret epoch
       | None \<Rightarrow> andThen (atom now) (\<lambda>start.
           Ret \<lparr>epochNumber = n, startTime = start, endTime = 0, totalFees = 0, distributionLog = [],
                epochStatus = Open, operationalMargin = 0\<rparr>))"

definition accrueT ::
  "database \<Rightarrow> int \<Rightarrow> number \<Rightarrow> Participation list \<Rightarrow> ('z commission_state_scheme, Epoch) thread" where
  "accrueT D n fee participants =
     andThen (openEpochT D n) (\<lambda>epoch.
       let saved = epoch\<lparr>totalFees := totalFees epoch + fee\<rparr>
       in andThen (atom (modify (\<lambda>s. s\<lparr>epochTbl := save (epochs D) saved (epochTbl s)\<rparr>))) (\<lambda>_.
          andThen (atom (do {
            recorded \<leftarrow> gets (\<lambda>s. case participation s n of None \<Rightarrow> [] | Some ps \<Rightarrow> ps);
            modify (\<lambda>s. s\<lparr>participation := (participation s)(n \<mapsto> recorded @ participants)\<rparr>)
          })) (\<lambda>_. Ret saved)))"

definition compareSupplyT :: "env \<Rightarrow> database \<Rightarrow> SupplyView \<Rightarrow> ('z sys_scheme, SupplyVerdict) thread" where
  "compareSupplyT E D observed =
     (let same = strict_eq (viewTotalSupply observed) (viewRetained observed)
      in if \<not> same
         then andThen (atom (eyeLog E D ''anomaly_detected'' ''token_management''
                (''supply drift: totalSupply='' @ numStr E (viewTotalSupply observed) @
                 '' retained='' @ numStr E (viewRetained observed)))) (\<lambda>_. Ret \<lparr>consistent = same\<rparr>)
         else Ret \<lparr>consistent = same\<rparr>)"

definition terminateT ::
  "env \<Rightarrow> database \<Rightarrow> string \<Rightarrow> int \<Rightarrow> string \<Rightarrow> number \<Rightarrow> number \<Rightarrow> string list \<Rightarrow> string list \<Rightarrow>
   ('z sys_scheme, error + RunProcessResult) thread" where
  "terminateT E D processId verifiedFlag reason minted fee assignedNodes events =
     andThen (atom (reserveIndex E D)) (\<lambda>index.
     andTry (totalSupplyT D) (\<lambda>supplyAfter.
       Ret (Inr \<lparr>runProcessId = processId, runVerified = verifiedFlag, runReason = Some reason,
                 runMinted = minted, runFee = fee, runSupplyAfter = supplyAfter,
                 runReserveIndex = index, runAssignedNodes = assignedNodes, runEvents = events\<rparr>)))"

definition rejectUnverifiedT ::
  "env \<Rightarrow> database \<Rightarrow> string \<Rightarrow> string list \<Rightarrow> string list \<Rightarrow> ('z sys_scheme, error + RunProcessResult) thread" where
  "rejectUnverifiedT E D processId assignedNodes events =
     andThen (captureT E D processId ''final_status'' [(''status'', JStr ''rejected'')] None) (\<lambda>_.
     andThen (atom (reserveIndex E D)) (\<lambda>index.
     andTry (totalSupplyT D) (\<lambda>supplyAfter.
     andTry (supplyViewT D) (\<lambda>view.
     andThen (compareSupplyT E D view) (\<lambda>_.
       Ret (Inr \<lparr>runProcessId = processId, runVerified = 0, runReason = Some ''unverified'',
                 runMinted = 0, runFee = 0, runSupplyAfter = supplyAfter, runReserveIndex = index,
                 runAssignedNodes = assignedNodes, runEvents = events @ [''final_status'']\<rparr>))))))"

definition settleVerifiedT ::
  "env \<Rightarrow> database \<Rightarrow> string \<Rightarrow> number \<Rightarrow> int \<Rightarrow> string list \<Rightarrow> string list \<Rightarrow>
   ('z sys_scheme, error + RunProcessResult) thread" where
  "settleVerifiedT E D processId amount epoch assignedNodes events =
     andTry (mintT E D processId amount) (\<lambda>minted.
     andThen (captureT E D processId ''emission'' [(''minted'', JNum minted)] None) (\<lambda>_.
     andThen (atom (eyeLog E D ''mint'' ''token_management'' (''minted '' @ numStr E minted @ '' for '' @ processId))) (\<lambda>_.
     let fee = computeFee amount 0;
         participants = map (\<lambda>i. \<lparr>partProcessId = processId, partNodeId = i\<rparr>) assignedNodes
     in andThen (accrueT D epoch fee participants) (\<lambda>_.
     andTry (burnT E D processId minted) (\<lambda>burned.
     andThen (atom (eyeLog E D ''burn'' ''token_management'' (''burned '' @ numStr E burned @ '' for '' @ processId))) (\<lambda>_.
     andThen (atom (reserveIndex E D)) (\<lambda>index.
     andThen (captureT E D processId ''final_status'' [(''status'', JStr ''done'')] None) (\<lambda>_.
     andThen (atom (eyeLog E D ''final_status'' ''ledger_anchoring'' (''process '' @ processId @ '' finalized''))) (\<lambda>_.
     andTry (supplyViewT D) (\<lambda>view.
     andThen (compareSupplyT E D view) (\<lambda>_.
     andTry (totalSupplyT D) (\<lambda>supplyAfter.
       Ret (Inr \<lparr>runProcessId = processId, runVerified = 1, runReason = None,
                 runMinted = minted, runFee = fee, runSupplyAfter = supplyAfter, runReserveIndex = index,
                 runAssignedNodes = assignedNodes,
                 runEvents = (((events @ [''emission.minted'']) @ [''emission'']) @ [''emission.burned'']) @ [''final_status'']\<rparr>)))))))))))))"

definition runProcessT :: "env \<Rightarrow> database \<Rightarrow> RunProcessDto \<Rightarrow> ('z sys_scheme, error + RunProcessResult) thread" where
  "runProcessT E D input =
     (let processId = dtoProcessId input;
          amount = dtoAmount input;
          epoch = (case dtoEpoch input of Some n \<Rightarrow> n | None \<Rightarrow> DEFAULT_EPOCH);
          events = [''initiation'']
      in andThen (captureT E D processId ''initiation'' [(''amount'', JNum amount)] None) (\<lambda>_.
         andThen (atom (eyeLog E D ''initiation'' ''processing''
           (''process '' @ processId @ '' initiated (amount '' @ numStr E amount @ '')''))) (\<lambda>_.
         if \<not> dtoAdmissible input then
           andThen (atom (eyeLog E D ''anomaly_detected'' ''processing''
             (''process '' @ processId @ '' inadmissible '' @ em_dash @ '' rejected''))) (\<lambda>_.
           terminateT E D processId 0 ''inadmissible'' 0 0 [] events)
         else
           andThen (resolveAssignedNodesT E D (dtoNodeIds input)) (\<lambda>assignedNodes.
           andThen (captureT E D processId ''task_assignment'' [(''nodes'', JArr (map JStr assignedNodes))] None) (\<lambda>_.
           let events1 = events @ [''task_assignment''] in
           andThen (atom (eyeLog E D ''task_assignment'' ''processing''
             (''assigned to '' @ intStr E (int (length assignedNodes)) @ '' nodes''))) (\<lambda>_.
           andThen (captureT E D processId ''stage_transition'' [(''stage'', JStr ''execute'')] None) (\<lambda>_.
           let events2 = events1 @ [''stage_transition''] in
           andThen (captureT E D processId ''execution_complete'' [] None) (\<lambda>_.
           let events3 = events2 @ [''execution_complete''] in
           andTry (eachTry (\<lambda>i. andTry (recordExecutionT D i True) (\<lambda>_. Ret (Inr ()))) assignedNodes) (\<lambda>_.
           andThen (verifyT E D processId) (\<lambda>verdict.
           andThen (captureT E D processId ''pot_verdict'' [(''verified'', jint (resVerified verdict))] None) (\<lambda>_.
           let events4 = events3 @ [''pot.verified'', ''pot_verdict''] in
           andThen (atom (eyeLog E D ''pot_verdict'' ''processing''
             (''process '' @ processId @ '' verified='' @ intStr E (resVerified verdict)))) (\<lambda>_.
           if resVerified verdict \<noteq> 1 then rejectUnverifiedT E D processId assignedNodes events4
           else settleVerifiedT E D processId amount epoch assignedNodes events4))))))))))))"

definition recordEarnedT :: "database \<Rightarrow> number \<Rightarrow> ('z coin_state_scheme, error + unit) thread" where
  "recordEarnedT D amount = andTry (ledgerT D) (\<lambda>row.
     atom (saveLedger D (row\<lparr>earnedRetained := earnedRetained row + amount\<rparr>)))"

definition receivePaymentT ::
  "env \<Rightarrow> database \<Rightarrow> string \<Rightarrow> number \<Rightarrow> ('z node_state_scheme, error + unit) thread" where
  "receivePaymentT E D i amount = andTry (atom (requireNode D i)) (\<lambda>node.
     andThen (atom (append E D ''node.payment.received''
       [(''nodeId'', JStr (nodeId node)), (''amount'', JNum amount), (''weight'', JNum (weight node))])) (\<lambda>_.
       Ret (Inr ())))"

text \<open>
  The loop over the participations reads the live array: a run that accrues meanwhile lengthens it. So the
  number of rounds has no bound known beforehand and \<open>fuel\<close> stands for one; out of fuel the thread waits
  for ever. Alone, more fuel than there are participations is enough (\<open>alone_finalize\<close>). The array is
  the one the map holds, which is what the code iterates as long as only one finalization of the epoch
  is under way.
\<close>

fun weighLoopT ::
  "nat \<Rightarrow> database \<Rightarrow> int \<Rightarrow> nat \<Rightarrow> (string \<rightharpoonup> bool) \<Rightarrow> (string \<times> number) list \<Rightarrow>
   ('z commission_state_scheme, error + (string \<times> number) list) thread" where
  "weighLoopT 0 D n i verdictCache weights = Await (\<lambda>_. False) (\<lambda>s. s) (\<lambda>_. Ret (Inr weights))"
| "weighLoopT (Suc fuel) D n i verdictCache weights =
     andThen (atom (gets (\<lambda>s. case participation s n of None \<Rightarrow> [] | Some ps \<Rightarrow> ps))) (\<lambda>parts.
       if length parts \<le> i then Ret (Inr weights)
       else andThen (case verdictCache (partProcessId (parts ! i)) of
           Some known \<Rightarrow> Ret (known, verdictCache)
         | None \<Rightarrow> andThen (atom (getVerdict D (partProcessId (parts ! i)))) (\<lambda>verdict.
             let known = (case verdict of None \<Rightarrow> False | Some v \<Rightarrow> verified v = 1)
             in Ret (known, verdictCache(partProcessId (parts ! i) \<mapsto> known)))) (\<lambda>cached.
         if \<not> fst cached then weighLoopT fuel D n (Suc i) (snd cached) weights
         else andTry (atom (currentWeight D (partNodeId (parts ! i)))) (\<lambda>w.
           weighLoopT fuel D n (Suc i) (snd cached)
             (AList.update (partNodeId (parts ! i))
                ((case map_of weights (partNodeId (parts ! i)) of None \<Rightarrow> 0 | Some x \<Rightarrow> x) + w) weights))))"

definition confirmedWeightsT ::
  "nat \<Rightarrow> database \<Rightarrow> int \<Rightarrow> ('z commission_state_scheme, error + (string \<times> number) list) thread" where
  "confirmedWeightsT fuel D n = weighLoopT fuel D n 0 Map.empty []"

fun payLoopT ::
  "env \<Rightarrow> database \<Rightarrow> (string \<times> number) list \<Rightarrow> number \<Rightarrow> number \<Rightarrow> string list \<Rightarrow> number \<Rightarrow>
   DistributionEntry list \<Rightarrow> ('z commission_state_scheme, error + number \<times> DistributionEntry list) thread" where
  "payLoopT E D weights distributable totalWeight [] paid dlog = Ret (Inr (paid, dlog))"
| "payLoopT E D weights distributable totalWeight (i # nodeIds) paid dlog =
     (let w = (case map_of weights i of None \<Rightarrow> NaN | Some x \<Rightarrow> x);
          amount = (w * distributable) / totalWeight
      in andTry (receivePaymentT E D i amount) (\<lambda>_.
         andTry (recordEarnedT D amount) (\<lambda>_.
           payLoopT E D weights distributable totalWeight nodeIds (paid + amount)
             (dlog @ [\<lparr>distNodeId = i, distAmount = amount, distReason = REASON_WORK\<rparr>]))))"

text \<open>The part of \<open>finalizeEpoch\<close> after the weights, and the part of that after the payments.\<close>

definition closeEpochT ::
  "env \<Rightarrow> database \<Rightarrow> int \<Rightarrow> Epoch \<Rightarrow> number \<Rightarrow> DistributionEntry list \<Rightarrow>
   ('z commission_state_scheme, error + FinalizeResult) thread" where
  "closeEpochT E D n epoch paid payments =
     (let poolTotal = totalFees epoch;
          allocatedMargin = poolTotal - paid;
          dlog = payments @ [\<lparr>distNodeId = MARGIN_RECIPIENT, distAmount = allocatedMargin, distReason = ''afc_reserve''\<rparr>];
          reconciledFlag = (abs_num (paid + allocatedMargin - poolTotal) < RECONCILE_EPSILON)
      in andThen (atom (addAfcAccrual E D allocatedMargin)) (\<lambda>_.
         andThen (atom now) (\<lambda>end.
         andThen (atom (modify (\<lambda>s. s\<lparr>epochTbl := save (epochs D)
           (epoch\<lparr>distributionLog := dlog, operationalMargin := allocatedMargin,
                  epochStatus := Finalized, endTime := end\<rparr>) (epochTbl s)\<rparr>))) (\<lambda>_.
         andThen (atom (append E D ''commission.epoch.finalized''
           [(''epochNumber'', jint n), (''totalFees'', JNum poolTotal),
            (''operationalMargin'', JNum allocatedMargin), (''paid'', JNum paid),
            (''reconciled'', JBool reconciledFlag), (''distributionLog'', JArr (map distributionJson dlog))])) (\<lambda>_.
         andThen (atom (modify (\<lambda>s. s\<lparr>participation := (participation s)(n := None)\<rparr>))) (\<lambda>_.
         Ret (Inr \<lparr>finEpochNumber = n, finDistributionLog = dlog, finOperationalMargin = allocatedMargin,
                   finPaid = paid, finTotalFees = poolTotal, reconciled = reconciledFlag\<rparr>)))))))"

definition distributeT ::
  "env \<Rightarrow> database \<Rightarrow> int \<Rightarrow> Epoch \<Rightarrow> (string \<times> number) list \<Rightarrow>
   ('z commission_state_scheme, error + FinalizeResult) thread" where
  "distributeT E D n epoch weights =
     (let totalWeight = foldl (+) 0 (map snd weights);
          distributable = totalFees epoch * (1 - marginRate)
      in andTry (if 0 < totalWeight
                 then payLoopT E D weights distributable totalWeight (sort (map fst weights)) 0 []
                 else Ret (Inr (0, [])))
         (\<lambda>(paid, payments). closeEpochT E D n epoch paid payments))"

definition finalizeEpochT ::
  "nat \<Rightarrow> env \<Rightarrow> database \<Rightarrow> int \<Rightarrow> ('z commission_state_scheme, error + FinalizeResult) thread" where
  "finalizeEpochT fuel E D n = andTry (atom (requireEpoch E D n)) (\<lambda>epoch.
     if epochStatus epoch \<noteq> Open then Ret (Inr (toResult epoch))
     else andTry (confirmedWeightsT fuel D n) (\<lambda>weights. distributeT E D n epoch weights))"

definition runFinalizeEpochT ::
  "nat \<Rightarrow> env \<Rightarrow> database \<Rightarrow> int \<Rightarrow> ('z sys_scheme, error + FinalizeResult) thread" where
  "runFinalizeEpochT fuel E D epoch = andTry (finalizeEpochT fuel E D epoch) (\<lambda>outcome.
     andThen (atom (eyeLog E D ''commission_distribution'' ''token_management''
       (''epoch '' @ intStr E epoch @ '': paid '' @ numStr E (finPaid outcome) @ '', margin '' @
        numStr E (finOperationalMargin outcome) @ '', reconciled='' @ boolStr (reconciled outcome)))) (\<lambda>_.
     andTry (supplyViewT D) (\<lambda>view.
     andThen (compareSupplyT E D view) (\<lambda>_. Ret (Inr outcome)))))"

text \<open>The read endpoints.\<close>

definition retainedT :: "database \<Rightarrow> ('z coin_state_scheme, error + number) thread" where
  "retainedT D = andTry (ledgerT D) (\<lambda>row. Ret (Inr (earnedRetained row)))"

definition phaseT :: "database \<Rightarrow> ('z release_state_scheme, ReleasePhase) thread" where
  "phaseT D =
     andThen (atom (gets (\<lambda>s. findOne (phases D) PHASE_ID (phaseTbl s)))) (\<lambda>existing.
       case existing of
         Some row \<Rightarrow> Ret row
       | None \<Rightarrow> andThen (atom (modify (\<lambda>s. s\<lparr>phaseTbl := save (phases D) freshPhase (phaseTbl s)\<rparr>))) (\<lambda>_.
           Ret freshPhase))"

definition isActiveT :: "database \<Rightarrow> ('z release_state_scheme, bool) thread" where
  "isActiveT D = andThen (phaseT D) (\<lambda>row. Ret (active row))"

definition getProcessT :: "database \<Rightarrow> string \<Rightarrow> ('z sys_scheme, ProcessView) thread" where
  "getProcessT D processId =
     andThen (atom (getVerdict D processId)) (\<lambda>verdict.
     andThen (atom (list_chain D)) (\<lambda>snaps.
       let evs = map (\<lambda>snap. \<lparr>pevEventType = eventType snap, pevSequenceId = sequenceId snap,
                              pevTimestamp = timestamp snap\<rparr>)
                   (filter (\<lambda>snap. map_of (payload snap) ''processId'' = Some (JStr processId)) snaps)
       in Ret \<lparr>pvProcessId = processId,
               pvVerdict = map_option (\<lambda>v. (verified v, reasons v)) verdict, pvEvents = evs\<rparr>))"

text \<open>
  The HTTP requests, with one type of result. \<open>metrics\<close> starts seven reads that run at the same time
  (\<open>Promise.all\<close>), so it is seven threads; what it makes of their values changes no state.
\<close>

datatype outcome =
    RunDone "error + RunProcessResult" | FinalizeDone "error + FinalizeResult" | ViewDone ProcessView
  | FigureDone "error + number" | VerdictsDone "PotVerdict list" | EpochDone "Epoch option"
  | HistoryDone "ExecutionSnapshot list" | ActiveDone bool

definition metricsThreads :: "env \<Rightarrow> database \<Rightarrow> int \<Rightarrow> ('z sys_scheme, outcome) thread list" where
  "metricsThreads E D epoch =
     [andThen (totalSupplyT D) (\<lambda>x. Ret (FigureDone x)),
      andThen (retainedT D) (\<lambda>x. Ret (FigureDone x)),
      andThen (atom (reserveIndex E D)) (\<lambda>x. Ret (FigureDone (Inr x))),
      andThen (atom (listVerdicts D)) (\<lambda>vs. Ret (VerdictsDone vs)),
      andThen (atom (getEpoch D epoch)) (\<lambda>e. Ret (EpochDone e)),
      andThen (atom (list_chain D)) (\<lambda>snaps. Ret (HistoryDone snaps)),
      andThen (isActiveT D) (\<lambda>b. Ret (ActiveDone b))]"

fun requestThreads :: "nat \<Rightarrow> env \<Rightarrow> database \<Rightarrow> request \<Rightarrow> ('z sys_scheme, outcome) thread list" where
  "requestThreads fuel E D (PostProcess dto) = [andThen (runProcessT E D dto) (\<lambda>r. Ret (RunDone r))]"
| "requestThreads fuel E D (GetProcess i) = [andThen (getProcessT D i) (\<lambda>r. Ret (ViewDone r))]"
| "requestThreads fuel E D (GetMetrics n) = metricsThreads E D n"
| "requestThreads fuel E D (PostFinalize n) = [andThen (runFinalizeEpochT fuel E D n) (\<lambda>r. Ret (FinalizeDone r))]"

abbreviation all_requests :: "nat \<Rightarrow> env \<Rightarrow> database \<Rightarrow> request list \<Rightarrow> ('z sys_scheme, outcome) thread list" where
  "all_requests fuel E D rs \<equiv> concat (map (requestThreads fuel E D) rs)"

section \<open>A request alone\<close>

lemma alone_ensure: "runAlone (ensureLedgerT D) = ensureLedger D"
  by (rule state_eqI) (auto simp: ensureLedgerT_def ensureLedger_def)

lemma alone_ledger: "runAlone (ledgerT D) = ledger D"
  by (rule state_eqI) (auto simp: ledgerT_def ledger_def alone_ensure split: option.splits)

lemma alone_coin:
  "runAlone (recordMintT D a) = recordMint D a" "runAlone (recordBurnT D a) = recordBurn D a"
  "runAlone (totalSupplyT D) = totalSupply D" "runAlone (supplyViewT D) = supplyView D"
  by (simp_all add: recordMintT_def recordMint_def recordBurnT_def recordBurn_def totalSupplyT_def totalSupply_def
      supplyViewT_def supplyView_def alone_ledger)

lemma alone_capture: "runAlone (captureT E D p e d v) = capture E D p e d v"
  by (simp add: captureT_def capture_def Let_def)

lemma alone_verify: "runAlone (verifyT E D p) = verify E D p"
  by (rule state_eqI) (auto simp: verifyT_def verify_def Let_def split: option.splits)

lemma alone_emission:
  "runAlone (mintT E D p a) = mint E D p a" "runAlone (burnT E D p a) = burn E D p a"
  by (rule state_eqI; auto simp: mintT_def mint_def burnT_def burn_def alone_coin tryM_simps split: option.splits sum.splits)+

lemma alone_emit: "runAlone (emitT E D p a) = emit E D p a"
  by (rule state_eqI; auto simp: emitT_def emit_def alone_emission tryM_simps split: option.splits sum.splits)

lemma alone_register: "runAlone (registerT E D i t) = register E D i t"
  by (simp add: registerT_def register_def Let_def)

lemma alone_registerAll: "runAlone (registerAllT E D ns) = registerAll E D ns"
  by (induction ns) (auto simp: alone_register)

lemma alone_resolve: "runAlone (resolveAssignedNodesT E D x) = resolveAssignedNodes E D x"
  by (rule state_eqI) (auto simp: resolveAssignedNodesT_def resolveAssignedNodes_def alone_registerAll
      split: option.splits list.splits)

lemma alone_execution: "runAlone (recordExecutionT D i b) = recordExecution D i b"
  by (simp add: recordExecutionT_def recordExecution_def Let_def)

lemma alone_accrue: "runAlone (accrueT D n f ps) = accrue D n f ps"
  by (rule state_eqI) (auto simp: accrueT_def openEpochT_def accrue_def openEpoch_def Let_def split: option.splits)

lemma alone_compare: "runAlone (compareSupplyT E D v) = compareSupply E D v"
  by (simp add: compareSupplyT_def compareSupply_def Let_def)

lemmas alone_ops = alone_coin alone_capture alone_verify alone_emission alone_resolve alone_execution alone_accrue alone_compare

lemma alone_settle: "runAlone (settleVerifiedT E D p a n ids evs) = settleVerified E D p a n ids evs"
  by (simp add: settleVerifiedT_def settleVerified_def alone_ops Let_def)

lemma alone_reject: "runAlone (rejectUnverifiedT E D p ids evs) = rejectUnverified E D p ids evs"
  by (simp add: rejectUnverifiedT_def rejectUnverified_def alone_ops Let_def)

lemma runAlone_if: "runAlone (if b then t else u) = (if b then runAlone t else runAlone u)"
  by simp

lemma alone_run: "runAlone (runProcessT E D input) = runProcess E D input"
  by (simp add: runProcessT_def runProcess_def terminateT_def terminate_def alone_ops alone_settle alone_reject Let_def
      runAlone_if cong: if_cong)

lemma alone_reads:
  "runAlone (retainedT D) = retained D" "runAlone (phaseT D) = phase D" "runAlone (isActiveT D) = isActive D"
  "runAlone (getProcessT D i) = getProcess D i"
proof -
  show p: "runAlone (phaseT D) = phase D"
    by (rule state_eqI) (auto simp: phaseT_def phase_def split: option.splits)
  show "runAlone (retainedT D) = retained D" by (simp add: retainedT_def retained_def alone_ledger)
  show "runAlone (isActiveT D) = isActive D" by (simp add: isActiveT_def isActive_def p)
  show "runAlone (getProcessT D i) = getProcess D i" by (simp add: getProcessT_def getProcess_def Let_def)
qed

lemma alone_pay:
  "runAlone (recordEarnedT D a) = recordEarned D a" "runAlone (receivePaymentT E D i a) = receivePayment E D i a"
  by (simp_all add: recordEarnedT_def recordEarned_def receivePaymentT_def receivePayment_def alone_ledger)

lemma alone_payLoop: "runAlone (payLoopT E D ws d W ids paid dlog) = payLoop E D ws d W ids paid dlog"
  by (induction ids arbitrary: paid dlog) (simp_all add: Let_def alone_pay)

lemma alone_weigh:
  assumes "length (parts_of s n) < i + fuel"
  shows "result (runAlone (weighLoopT fuel D n i cache ws)) s = result (weighLoop D (drop i (parts_of s n)) cache ws) s
    \<and> exec (runAlone (weighLoopT fuel D n i cache ws)) s = s"
  using assms
proof (induction fuel arbitrary: i cache ws)
  case (Suc fuel)
  let ?ps = "parts_of s n"
  show ?case
  proof (cases "length ?ps \<le> i")
    case True
    then show ?thesis by (simp flip: parts_of_def)
  next
    case False
    then have d: "drop i ?ps = ?ps ! i # drop (Suc i) ?ps" by (simp add: Cons_nth_drop_Suc)
    have IH: "result (runAlone (weighLoopT fuel D n (Suc i) c w)) s = result (weighLoop D (drop (Suc i) ?ps) c w) s"
      "exec (runAlone (weighLoopT fuel D n (Suc i) c w)) s = s" for c w
      using Suc.IH [of "Suc i" c w] Suc.prems by auto
    have w: "exec (currentWeight D j) s = s" for j
      by (simp add: currentWeight_def requireNode_def exec_tryM split: option.splits)
    show ?thesis using False
      by (auto simp: d IH w tryM_simps getVerdict_def Let_def simp flip: parts_of_def split: option.splits sum.splits)
  qed
qed simp

lemma alone_finalize:
  assumes "length (parts_of s n) < fuel"
  shows "result (runAlone (finalizeEpochT fuel E D n)) s = result (finalizeEpoch E D n) s"
    "exec (runAlone (finalizeEpochT fuel E D n)) s = exec (finalizeEpoch E D n) s"
proof -
  have w: "result (runAlone (confirmedWeightsT fuel D n)) s = result (confirmedWeights D n) s"
    "exec (runAlone (confirmedWeightsT fuel D n)) s = exec (confirmedWeights D n) s"
    using alone_weigh [of s n 0 fuel D Map.empty "[]"] assms
    by (simp_all add: confirmedWeightsT_def confirmedWeights_def flip: parts_of_def)
  have r: "exec (requireEpoch E D n) s = s" by (simp add: requireEpoch_def split: option.splits)
  have "runAlone (if 0 < W then payLoopT E D ws d W ids 0 [] else Ret (Inr (0, [])))
      = (if 0 < W then payLoop E D ws d W ids 0 [] else return (Inr (0, [])))" for ws d W ids
    by (simp add: alone_payLoop)
  then show "result (runAlone (finalizeEpochT fuel E D n)) s = result (finalizeEpoch E D n) s"
    "exec (runAlone (finalizeEpochT fuel E D n)) s = exec (finalizeEpoch E D n) s"
    by (auto simp: finalizeEpochT_def distributeT_def closeEpochT_def finalizeEpoch_def tryM_simps r w Let_def alone_payLoop
        split: sum.splits prod.splits)
qed

section \<open>A request alone is never stuck\<close>

context datastore
begin

lemma lone_ledger: "lone (coin_ok D) (ledgerT D)"
proof -
  have "ready (ensureLedgerT D) s" if "coin_ok D s" for s :: "'a coin_state_scheme"
    using that by (auto simp: ensureLedgerT_def coin_ok_def)
  moreover have "coin_ok D (exec (ledger D) s)" if "coin_ok D s" for s :: "'a coin_state_scheme"
    using that by (simp add: ledger_run)
  ultimately show ?thesis
    unfolding lone_def alone_ledger by (auto simp: ledgerT_def split: option.splits)
qed

lemma lone_coin:
  "lone (coin_ok D) (recordMintT D a)" "lone (coin_ok D) (recordBurnT D a)"
  "lone (coin_ok D) (totalSupplyT D)" "lone (coin_ok D) (supplyViewT D)"
  using lone_ledger unfolding lone_def alone_coin
  by (auto simp: recordMintT_def recordBurnT_def totalSupplyT_def supplyViewT_def andTry_def record_run read_run
      split: sum.splits)

lemma lone_modify: "(\<And>s. ledgerTbl (f s) = ledgerTbl s \<and> coinInit (f s) = coinInit s) \<Longrightarrow> lone (coin_ok D) (atom (modify f))"
  by (rule lone_atom) (simp add: coin_ok_def)

lemma lone_pieces:
  "lone (coin_ok D) (atom (append E D e p))" "lone (coin_ok D) (atom (eyeLog E D e l d))" "lone (coin_ok D) (atom (gets f))"
  "lone (coin_ok D) (atom now)" "lone (coin_ok D) (atom (reserveIndex E D))" "lone (coin_ok D) (atom (requireNode D i))"
  "lone (coin_ok D) (atom (reconstruct E D))"
  by (rule lone_atom; simp add: requireNode_def split: option.splits; simp add: coin_ok_def)+

lemmas lone_rules = lone_Ret lone_andThen lone_andTry lone_each lone_modify lone_pieces

lemma lone_capture: "lone (coin_ok D) (captureT E D p e d v)"
  unfolding captureT_def by (intro lone_rules lone_atom) (auto simp: coin_ok_def)

lemma lone_verify: "lone (coin_ok D) (verifyT E D p)"
  unfolding verifyT_def Let_def capturedEvents_def by (auto intro!: lone_rules split: option.splits)

lemma lone_emission: "lone (coin_ok D) (mintT E D p a)" "lone (coin_ok D) (burnT E D p a)"
  unfolding mintT_def burnT_def getVerdict_def by (auto intro!: lone_rules lone_coin)

lemma lone_registerAll: "lone (coin_ok D) (registerAllT E D ns)"
  by (induction ns) (auto intro!: lone_rules simp: registerT_def Let_def)

lemma lone_resolve: "lone (coin_ok D) (resolveAssignedNodesT E D x)"
  unfolding resolveAssignedNodesT_def listNodes_def
  by (auto intro!: lone_rules lone_registerAll split: option.splits list.splits)

lemma lone_execution: "lone (coin_ok D) (recordExecutionT D i b)"
  unfolding recordExecutionT_def Let_def by (auto intro!: lone_rules)

lemma lone_accrue: "lone (coin_ok D) (accrueT D n f ps)"
  unfolding accrueT_def openEpochT_def Let_def
  by (auto intro!: lone_rules lone_atom simp: coin_ok_def split: option.splits)

lemma lone_compare: "lone (coin_ok D) (compareSupplyT E D v)"
  unfolding compareSupplyT_def Let_def by (auto intro!: lone_rules)

lemmas lone_ops = lone_coin lone_capture lone_verify lone_emission lone_resolve lone_execution lone_accrue lone_compare

lemma lone_run: "lone (coin_ok D) (runProcessT E D input)"
  unfolding runProcessT_def terminateT_def rejectUnverifiedT_def settleVerifiedT_def Let_def
  by (auto intro!: lone_rules lone_ops)

text \<open>Requests served one after the other are one of the interleavings.\<close>

lemma run_in_company:
  assumes "coin_ok D s" "i < length ts" "ts ! i = runProcessT E D input"
  shows "turns (s, ts) (exec (runProcess E D input) s, ts[i := Ret (result (runProcess E D input) s)])"
proof -
  have "ready (runProcessT E D input) s" using lone_run assms(1) unfolding lone_def by blast
  from alone_in_company [OF this assms(2,3)] show ?thesis by (simp add: alone_run)
qed

lemma ready_weigh:
  "length (parts_of s n) < i + fuel \<Longrightarrow> i \<le> length (parts_of s n) \<Longrightarrow> ready (weighLoopT fuel D n i cache ws) s"
proof (induction fuel arbitrary: i cache ws)
  case (Suc fuel)
  have IH: "ready (weighLoopT fuel D n (Suc i) c w) s" if "i < length (parts_of s n)" for c w
    using that Suc by simp
  have w: "exec (currentWeight D j) s = s" for j
    by (simp add: currentWeight_def requireNode_def exec_tryM split: option.splits)
  show ?case
    by (auto simp: IH w getVerdict_def andTry_def Let_def simp flip: parts_of_def split: option.splits sum.splits)
qed simp

lemma lone_payLoop: "lone (coin_ok D) (payLoopT E D ws d W ids paid dlog)"
proof (induction ids arbitrary: paid dlog)
  case (Cons i ids)
  have "lone (coin_ok D) (recordEarnedT D a)" for a
    using lone_ledger unfolding lone_def alone_pay by (auto simp: recordEarnedT_def andTry_def record_run split: sum.splits)
  then show ?case using Cons unfolding payLoopT.simps receivePaymentT_def Let_def by (intro lone_rules) auto
qed (simp add: lone_Ret)

lemma lone_distribute: "lone (coin_ok D) (distributeT E D n epoch ws)"
proof -
  have "lone (coin_ok D) (atom (addAfcAccrual E D a))" for a
    by (rule lone_atom) (simp add: coin_ok_def addAfcAccrual_def)
  then show ?thesis
    unfolding distributeT_def closeEpochT_def Let_def by (auto intro!: lone_rules lone_payLoop split: prod.splits)
qed

lemma weights_alone:
  assumes "length (parts_of s n) < fuel"
  shows "ready (confirmedWeightsT fuel D n) s" "exec (runAlone (confirmedWeightsT fuel D n)) s = s"
    "result (runAlone (confirmedWeightsT fuel D n)) s = weigh D s [] (parts_of s n)"
proof -
  have "result (runAlone (confirmedWeightsT fuel D n)) s = result (confirmedWeights D n) s"
    using alone_weigh [of s n 0 fuel D Map.empty "[]"] assms
    by (simp add: confirmedWeightsT_def confirmedWeights_def flip: parts_of_def)
  then show "result (runAlone (confirmedWeightsT fuel D n)) s = weigh D s [] (parts_of s n)"
    by (simp add: confirmedWeights_run)
  show "ready (confirmedWeightsT fuel D n) s" "exec (runAlone (confirmedWeightsT fuel D n)) s = s"
    using ready_weigh [of s n 0] alone_weigh [of s n 0] assms by (simp_all add: confirmedWeightsT_def)
qed

lemma ready_finalize:
  assumes "coin_ok D s" "length (parts_of s n) < fuel"
  shows "ready (finalizeEpochT fuel E D n) s"
proof -
  have r: "exec (requireEpoch E D n) s = s" by (simp add: requireEpoch_def split: option.splits)
  have "ready (distributeT E D n epoch ws) s" for epoch ws
    using lone_distribute assms(1) unfolding lone_def by blast
  then show ?thesis
    by (auto simp: finalizeEpochT_def andTry_def weights_alone [OF assms(2)] r split: sum.splits)
qed

end

end
