(* ===== verification/Interleaving.thy ===== *)
theory Interleaving
  imports Concurrent
begin

text \<open>
  The two logs under every interleaving. \<open>log_keeper\<close> is the interface of an invariant \<open>I\<close> and a
  preorder \<open>R\<close> that the four things the program does to the logs and the clock respect: an append, an
  oversight entry, a tick, and whatever leaves all three alone. Every piece of every thread is one of
  these, which is proved once, in the locale. It is interpreted twice: for logs that are linked, numbered
  and stamped with rising times, and for logs that are linked and numbered, which also survive a
  restart of the clock.
\<close>

locale log_keeper = datastore D + preorder_rel R
  for D :: database and R :: "'z sys_scheme \<Rightarrow> 'z sys_scheme \<Rightarrow> bool" +
  fixes E :: env and I :: "'z sys_scheme \<Rightarrow> bool"
  assumes keep_frame:
      "(\<And>s. chainTbl (f s) = chainTbl s \<and> logTbl (f s) = logTbl s \<and> clockT (f s) = clockT s) \<Longrightarrow> I s \<Longrightarrow> I (f s) \<and> R s (f s)"
    and keep_now: "safe I R now"
    and keep_append: "safe I R (append E D e p)"
    and keep_eyeLog: "safe I R (eyeLog E D e l d)"
begin

lemma frame_safe: "log_frame D m \<Longrightarrow> safe I R m"
  using keep_frame [of "exec m"] by (simp add: safe_def log_frame_def)

lemma modify_safe:
  "(\<And>s. chainTbl (f s) = chainTbl s \<and> logTbl (f s) = logTbl s \<and> clockT (f s) = clockT s) \<Longrightarrow> safe I R (modify f)"
  using keep_frame [of f] by (simp add: safe_def)

lemma saveLedger_safe: "safe I R (saveLedger D r)"
  unfolding saveLedger_def by (intro safe_rules modify_safe) simp

lemmas piece_safe = keep_append keep_eyeLog keep_now saveLedger_safe log_frames [THEN frame_safe] safe_rules modify_safe

lemma keeps_ledger: "keeps I R (ledgerT D)"
  unfolding ledgerT_def ensureLedgerT_def
  by (auto intro!: keeps_rules piece_safe simp: R_refl split: option.splits)

lemma keeps_coin:
  "keeps I R (recordMintT D a)" "keeps I R (recordBurnT D a)" "keeps I R (recordEarnedT D a)"
  "keeps I R (totalSupplyT D)" "keeps I R (supplyViewT D)"
  unfolding recordMintT_def recordBurnT_def recordEarnedT_def totalSupplyT_def supplyViewT_def
  by (auto intro!: keeps_rules keeps_ledger piece_safe)

lemma keeps_capture: "keeps I R (captureT E D p e d v)"
  unfolding captureT_def by (auto intro!: keeps_rules piece_safe)

lemma keeps_verify: "keeps I R (verifyT E D p)"
  unfolding verifyT_def Let_def capturedEvents_def reconstruct_def
  by (auto intro!: keeps_rules piece_safe split: option.splits)

lemma keeps_emission: "keeps I R (mintT E D p a)" "keeps I R (burnT E D p a)"
  unfolding mintT_def burnT_def by (auto intro!: keeps_rules keeps_coin piece_safe)

lemma keeps_register: "keeps I R (registerT E D i t)"
  unfolding registerT_def Let_def by (auto intro!: keeps_rules piece_safe)

lemma keeps_registerAll: "keeps I R (registerAllT E D ns)"
  by (induction ns) (auto intro!: keeps_rules keeps_register)

lemma keeps_resolve: "keeps I R (resolveAssignedNodesT E D x)"
  unfolding resolveAssignedNodesT_def
  by (auto intro!: keeps_rules keeps_registerAll piece_safe split: option.splits list.splits)

lemma keeps_execution: "keeps I R (recordExecutionT D i b)"
  unfolding recordExecutionT_def Let_def by (auto intro!: keeps_rules piece_safe)

lemma keeps_accrue: "keeps I R (accrueT D n f ps)"
  unfolding accrueT_def openEpochT_def Let_def by (auto intro!: keeps_rules piece_safe split: option.splits)

lemma keeps_compare: "keeps I R (compareSupplyT E D v)"
  unfolding compareSupplyT_def Let_def by (auto intro!: keeps_rules piece_safe)

lemma keeps_payment: "keeps I R (receivePaymentT E D i a)"
  unfolding receivePaymentT_def by (auto intro!: keeps_rules piece_safe)

lemma keeps_weigh: "keeps I R (weighLoopT fuel D n i cache ws)"
proof (induction fuel arbitrary: i cache ws)
  case (Suc fuel)
  then show ?case by (auto intro!: keeps_rules piece_safe simp: Let_def split: option.splits)
qed (simp add: R_refl)

lemma keeps_payLoop: "keeps I R (payLoopT E D ws d W ids paid dl)"
  by (induction ids arbitrary: paid dl) (auto intro!: keeps_rules keeps_payment keeps_coin simp: Let_def)

lemma keeps_finalize: "keeps I R (finalizeEpochT fuel E D n)"
  unfolding finalizeEpochT_def distributeT_def closeEpochT_def confirmedWeightsT_def Let_def addAfcAccrual_def
  by (auto intro!: keeps_rules keeps_weigh keeps_payLoop piece_safe split: prod.splits)

lemmas keeps_ops = keeps_coin keeps_capture keeps_verify keeps_emission keeps_resolve keeps_execution keeps_accrue
  keeps_compare keeps_finalize

lemma keeps_run: "keeps I R (runProcessT E D input)"
  unfolding runProcessT_def terminateT_def rejectUnverifiedT_def settleVerifiedT_def Let_def
  by (auto intro!: keeps_rules keeps_ops piece_safe)

lemma keeps_runFinalize: "keeps I R (runFinalizeEpochT fuel E D n)"
  unfolding runFinalizeEpochT_def by (auto intro!: keeps_rules keeps_ops piece_safe)

text \<open>The same for requests served one after the other.\<close>

lemma alone_keeps: "keeps I R t \<Longrightarrow> safe I R (runAlone t)"
proof (induction t)
  case (Await g e k)
  show ?case
  proof (rule safeI)
    fix s
    assume "I s"
    then have e: "I (e s)" "R s (e s)" using Await.prems by simp_all
    have "safe I R (runAlone (k s))" using Await by simp
    from safeD [OF this e(1)] e(2) show "I (exec (runAlone (Await g e k)) s) \<and> R s (exec (runAlone (Await g e k)) s)"
      using R_trans by auto
  qed
qed (simp add: safe_return)

lemma run_safe: "safe I R (runProcess E D input)"
  using alone_keeps [OF keeps_run [of input]] by (simp add: alone_run)

lemma compare_safe: "safe I R (compareSupply E D v)"
  using alone_keeps [OF keeps_compare [of v]] by (simp add: alone_compare)

lemma finalizeEpoch_safe: "safe I R (finalizeEpoch E D n)"
proof (rule safeI)
  fix s
  assume s: "I s"
  let ?t = "finalizeEpochT (Suc (length (parts_of s n))) E D n"
  have "exec (finalizeEpoch E D n) s = exec (runAlone ?t) s" by (simp add: alone_finalize(2))
  then show "I (exec (finalizeEpoch E D n) s) \<and> R s (exec (finalizeEpoch E D n) s)"
    using safeD [OF alone_keeps [OF keeps_finalize] s] by simp
qed

lemma finalize_safe: "safe I R (runFinalizeEpoch E D n)"
  unfolding runFinalizeEpoch_def by (intro safe_rules piece_safe finalizeEpoch_safe compare_safe)

lemma metrics_safe: "safe I R (metrics E D n)"
  unfolding metrics_def isActive_def by (intro safe_rules piece_safe)

lemma serve_keeps: "I s \<Longrightarrow> I (serve E D r s) \<and> R s (serve E D r s)"
  using safeD [OF run_safe] safeD [OF finalize_safe] safeD [OF metrics_safe] R_refl
  by (cases r) auto

lemma keeps_reads: "keeps I R (retainedT D)" "keeps I R (isActiveT D)" "keeps I R (getProcessT D i)"
  unfolding retainedT_def isActiveT_def phaseT_def getProcessT_def Let_def
  by (auto intro!: keeps_rules keeps_ledger piece_safe split: option.splits)

lemma keeps_request: "t \<in> set (requestThreads fuel E D r) \<Longrightarrow> keeps I R t"
  by (cases r) (auto simp: metricsThreads_def intro!: keeps_andThen keeps_run keeps_runFinalize keeps_reads keeps_coin piece_safe)

lemma interleaved_keep:
  assumes "turns (s, all_requests fuel E D rs) (s', ts)" "I s"
  shows "I s' \<and> R s s'"
  using turns_keep [OF assms(1), where I = I] assms(2) keeps_request by auto

end

section \<open>The two invariants\<close>

definition chains_ok :: "env \<Rightarrow> database \<Rightarrow> 'z sys_scheme \<Rightarrow> bool" where
  "chains_ok E D s \<longleftrightarrow> intact E D s \<and> numbered (history D s) \<and> auditLoop E ''GENESIS'' (ledger_log D s) = None"

definition rising :: "database \<Rightarrow> 'z sys_scheme \<Rightarrow> bool" where
  "rising D s \<longleftrightarrow> timed (map timestamp (history D s)) (clockT s) \<and> timed (map logTimestamp (ledger_log D s)) (clockT s)"

definition grows :: "database \<Rightarrow> 'z sys_scheme \<Rightarrow> 'z sys_scheme \<Rightarrow> bool" where
  "grows D s t \<longleftrightarrow> prefix (history D s) (history D t) \<and> prefix (ledger_log D s) (ledger_log D t)"

interpretation grow: preorder_rel "grows D" for D
  by unfold_locales (auto simp: grows_def dest: prefix_order.order_trans)

context datastore
begin

lemma append_chains:
  "chains_ok E D s \<Longrightarrow> chains_ok E D (exec (append E D e p) s) \<and> grows D s (exec (append E D e p) s)"
  "rising D s \<Longrightarrow> rising D (exec (append E D e p) s)"
proof -
  have l: "ledger_log D (exec (append E D e p) s) = ledger_log D s" by (simp add: ledger_log_def)
  show "chains_ok E D s \<Longrightarrow> chains_ok E D (exec (append E D e p) s) \<and> grows D s (exec (append E D e p) s)"
    using l by (auto simp: chains_ok_def grows_def history_append numbered_next)
  show "rising D s \<Longrightarrow> rising D (exec (append E D e p) s)"
    using l by (auto simp: rising_def history_append intro: timed_mono)
qed

lemma eyeLog_chains:
  "chains_ok E D s \<Longrightarrow> chains_ok E D (exec (eyeLog E D e l d) s) \<and> grows D s (exec (eyeLog E D e l d) s)"
  "rising D s \<Longrightarrow> rising D (exec (eyeLog E D e l d) s)"
proof -
  have c: "clockT (exec (eyeLog E D e l d) s) = clockT s + 1" by (simp add: eyeLog_def Let_def)
  show "chains_ok E D s \<Longrightarrow> chains_ok E D (exec (eyeLog E D e l d) s) \<and> grows D s (exec (eyeLog E D e l d) s)"
    by (auto simp: chains_ok_def grows_def eyeLog_run(2) audit_next)
  show "rising D s \<Longrightarrow> rising D (exec (eyeLog E D e l d) s)"
    using c by (auto simp: rising_def eyeLog_run(2) intro: timed_mono)
qed

lemma now_chains:
  "chains_ok E D s \<Longrightarrow> chains_ok E D (exec now s) \<and> grows D s (exec now s)" "rising D s \<Longrightarrow> rising D (exec now s)"
  by (auto simp: chains_ok_def rising_def grows_def intact_def history_def ledger_log_def intro: timed_mono)

lemma frame_chains:
  assumes "chainTbl t = chainTbl s" "logTbl t = logTbl s" "clockT t = clockT s"
  shows "chains_ok E D t \<longleftrightarrow> chains_ok E D s" "grows D s t" "rising D t \<longleftrightarrow> rising D s"
  using assms by (simp_all add: chains_ok_def rising_def grows_def intact_def history_def ledger_log_def)

end

sublocale datastore \<subseteq> linked_logs: log_keeper D "grows D" E "chains_ok E D" for E
proof unfold_locales
  show "safe (chains_ok E D) (grows D) now" by (rule safeI) (rule now_chains)
  show "safe (chains_ok E D) (grows D) (append E D e p)" for e p by (rule safeI) (rule append_chains)
  show "safe (chains_ok E D) (grows D) (eyeLog E D e l d)" for e l d by (rule safeI) (rule eyeLog_chains)
  show "chains_ok E D (f s) \<and> grows D s (f s)"
    if "\<And>s. chainTbl (f s) = chainTbl s \<and> logTbl (f s) = logTbl s \<and> clockT (f s) = clockT s" "chains_ok E D s" for f s
    using frame_chains [of "f s" s] that by blast
qed

sublocale datastore \<subseteq> timed_logs: log_keeper D "grows D" E "\<lambda>s. chains_ok E D s \<and> rising D s" for E
proof unfold_locales
  show "safe (\<lambda>s. chains_ok E D s \<and> rising D s) (grows D) now" by (rule safeI) (use now_chains in blast)
  show "safe (\<lambda>s. chains_ok E D s \<and> rising D s) (grows D) (append E D e p)" for e p
    by (rule safeI) (use append_chains in blast)
  show "safe (\<lambda>s. chains_ok E D s \<and> rising D s) (grows D) (eyeLog E D e l d)" for e l d
    by (rule safeI) (use eyeLog_chains in blast)
  show "(chains_ok E D (f s) \<and> rising D (f s)) \<and> grows D s (f s)"
    if "\<And>s. chainTbl (f s) = chainTbl s \<and> logTbl (f s) = logTbl s \<and> clockT (f s) = clockT s" "chains_ok E D s \<and> rising D s" for f s
    using frame_chains [of "f s" s] that by blast
qed

end
