(* ===== verification/Restart.thy ===== *)
theory Restart
  imports Settlement Interleaving
begin

text \<open>
  What survives a restart. \<open>started\<close> are the states in which the service starts when each time before it
  served requests at the same time and stopped at any turn. The logs survive restarts at any turn; the
  participations of open epochs, which only live in memory, do not survive any, and with them the nodes' pay.
\<close>

inductive started :: "env \<Rightarrow> database \<Rightarrow> sys \<Rightarrow> bool" for E D where
  started_first: "started E D boot"
| started_again: "started E D s \<Longrightarrow> turns (s, all_requests fuel E D rs) (s', ts) \<Longrightarrow> started E D (restart s')"

context datastore
begin

lemma chains_restart: "chains_ok E D (restart s) \<longleftrightarrow> chains_ok E D s"
  by (simp add: chains_ok_def)

lemma chains_boot: "chains_ok E D boot"
  using boot_ok by (simp add: logs_ok_def chains_ok_def)

lemma served_grows: "chains_ok E D s \<Longrightarrow> chains_ok E D (serve E D r s) \<and> grows D s (serve E D r s)"
  by (rule linked_logs.serve_keeps)

lemmas linked_together = linked_logs.interleaved_keep and timed_together = timed_logs.interleaved_keep

lemma lived_chains: "lived E D s \<Longrightarrow> chains_ok E D s"
  by (induction rule: lived.induct) (simp_all add: chains_boot chains_restart linked_logs.serve_keeps)

lemma started_chains: "started E D s \<Longrightarrow> chains_ok E D s"
proof (induction rule: started.induct)
  case (started_again s fuel rs s' ts)
  from linked_logs.interleaved_keep [OF this(2,3)] show ?case by (simp add: chains_restart)
qed (rule chains_boot)

end

section \<open>Properties\<close>

lemma started_settled: "started plain_env mem_db (restart settled)"
proof -
  let ?t = "andThen (runProcessT plain_env mem_db one_run) (\<lambda>r. Ret (RunDone r))"
  have "ready ?t boot" using mem.lone_run boot_start(1) by (auto simp: lone_def)
  from alone_in_company [OF this, of 0 "[?t]"]
  have "turns (boot, all_requests 1 plain_env mem_db [PostProcess one_run]) (settled, [Ret (result (runAlone ?t) boot)])"
    by (simp add: alone_run)
  from started_again [OF started_first this] show ?thesis .
qed

text \<open>C21: the nodes' pay does not survive a restart. When the service restarts while an epoch is open, finalizing that epoch
  pays nobody: the whole pool becomes the reserve share, no earned value is booked, and the
  epoch is closed.\<close>

theorem restart_strands_payments:
  assumes "datastore D" "lived E D s" "epoch_of D s n = Some ep" "epochStatus ep = Open"
  shows "\<exists>r. result (finalizeEpoch E D n) (restart s) = Inr r \<and> finPaid r = 0
    \<and> finOperationalMargin r = totalFees ep \<and> map distNodeId (finDistributionLog r) = [MARGIN_RECIPIENT]
    \<and> tallies D (exec (finalizeEpoch E D n) (restart s)) = tallies D s
    \<and> (\<exists>k. epoch_of D (exec (finalizeEpoch E D n) (restart s)) n = Some k \<and> epochStatus k = Finalized)"
proof -
  have eco: "economy D s" using datastore.lived_economy [OF assms(1,2)] .
  then have d: "is_double (totalFees ep)" using assms(3) by (auto simp: economy_def pools_def)
  have e: "epoch_of D (restart s) n = Some ep" "coin_ok D (restart s)" "weigh D (restart s) [] (parts_of (restart s) n) = Inr []"
    using assms(3) by simp_all
  have p: "payouts [] (totalFees ep) = []" by (simp add: payouts_def total_weight_def)
  show ?thesis
    using datastore.finalize_open(1) [OF assms(1) e(1) assms(4) e(2,3), of E] d
      datastore.finalize_views(2,5) [OF assms(1) e(1) assms(4) e(2,3), of E]
    by (auto simp: p finalize_result_def paid_of_def log_of_def minus_zero_double finalized_epoch_def MARGIN_RECIPIENT_def)
qed

theorem restart_strands_payments_witness:
  "\<exists>r. result (finalizeEpoch plain_env mem_db 1) (restart settled) = Inr r \<and> finPaid r = 0 \<and> finOperationalMargin r = feeRate"
  using settled_epoch(1) restart_strands_payments [OF mem.datastore_axioms lived_settled] by fastforce

end
