(* ===== verification/Races.thy ===== *)
theory Races
  imports Interleaving Settlement
begin

text \<open>
  What interleaved requests break. Between a read and the write that rests on it another request may
  run: two emissions lose a mint, two verdicts of one process are both issued, two finalizations of one
  epoch both pay, and a fee that is accrued while its epoch is finalized opens the epoch again, with the
  distributed pool in it.
\<close>

context datastore
begin

lemma emissions_race:
  assumes "coinInit s" "findOne (ledgers D) LEDGER_ID (ledgerTbl s) = Some r" "confirmed D s p" "confirmed D s q"
  shows "\<exists>s'. turns (s, [emitT E D p a, emitT E D q b])
           (s', [Ret (Inr \<lparr>authorized = True, emitMinted = a, emitBurned = a, emitProcessId = p\<rparr>),
                 Ret (Inr \<lparr>authorized = True, emitMinted = b, emitBurned = b, emitProcessId = q\<rparr>)])
     \<and> findOne (ledgers D) LEDGER_ID (ledgerTbl s') =
         Some (r\<lparr>processMinted := processMinted r + b, processBurned := processBurned r + a + b\<rparr>)"
proof -
  let ?sched = "[0, 0, 0, 0, 0, 1, 1, 1, 1, 1, 0, 1, 0, 1, 0, 0, 0, 0, 0, 1, 1, 1, 1, 1]"
  have id: "ledgerId r = LEDGER_ID" using ledg.findOne_key [OF assms(2)] .
  obtain v w where "findOne (verdicts D) p (verdictTbl s) = Some v" "verified v = 1"
    "findOne (verdicts D) q (verdictTbl s) = Some w" "verified w = 1"
    using assms(3,4) by (auto simp: confirmed_def verdict_of_def split: option.splits)
  with assms(1,2) id have "\<exists>s'. follow ?sched (s, [emitT E D p a, emitT E D q b]) =
      Some (s', [Ret (Inr \<lparr>authorized = True, emitMinted = a, emitBurned = a, emitProcessId = p\<rparr>),
                 Ret (Inr \<lparr>authorized = True, emitMinted = b, emitBurned = b, emitProcessId = q\<rparr>)])
      \<and> findOne (ledgers D) LEDGER_ID (ledgerTbl s') =
         Some (r\<lparr>processMinted := processMinted r + b, processBurned := processBurned r + a + b\<rparr>)"
    by (simp add: emitT_def mintT_def burnT_def recordMintT_def recordBurnT_def ledgerT_def ensureLedgerT_def andTry_def
        atom_def saveLedger_def getVerdict_def ledg.findOne_save)
  then show ?thesis using follow_turns by blast
qed

lemma verdicts_race:
  fixes s :: "'z sys_scheme" and E :: env
  assumes none: "verdict_of D s pid = None"
  defines "flag \<equiv> (if evidence_complete E D s pid then 1 else 0 :: int)"
    and "why \<equiv> failureReasons (criteria (captured_of s pid) (intact E D s)) (captured_of s pid)"
  shows "\<exists>s' x y. turns (s, [verifyT E D pid, verifyT E D pid])
      (s', [Ret \<lparr>resVerified = flag, resReasons = why, resSnapshotSequenceId = sequenceId x\<rparr>,
            Ret \<lparr>resVerified = flag, resReasons = why, resSnapshotSequenceId = sequenceId y\<rparr>])
    \<and> history D s' = history D s @ [x, y] \<and> eventType x = ''pot.verified'' \<and> eventType y = ''pot.verified''
    \<and> sequenceId x < sequenceId y \<and> map_option snapshotSequenceId (verdict_of D s' pid) = Some (sequenceId y)"
proof -
  let ?sched = "[0, 0, 0, 1, 1, 1, 0, 0, 0, 1, 1, 1]"
  define body where "body = [(''processId'', JStr pid), (''verified'', jint flag), (''reasons'', JArr (map JStr why))]"
  let ?m = "append E D ''pot.verified'' body"
  define x where "x = result ?m s"
  define save_row where "save_row ts n t = (t::'z sys_scheme)\<lparr>verdictTbl := save (verdicts D) \<lparr>verdictProcessId = pid, verified = flag,
    reasons = why, verdictTimestamp = ts, snapshotSequenceId = n\<rparr> (verdictTbl t)\<rparr>" for ts n t
  define s1 where "s1 = exec ?m s"
  define s2 where "s2 = save_row (result now s1) (sequenceId x) (exec now s1)"
  define y where "y = result ?m s2"
  define s3 where "s3 = exec ?m s2"
  define s4 where "s4 = save_row (result now s3) (sequenceId y) (exec now s3)"
  have f: "findOne (verdicts D) pid (verdictTbl s) = None" using none by (simp add: verdict_of_def)
  have criteria: "(if list_all snd (criteria (captured_of s pid) (replay E [] (history D s) = None)) then 1 else 0) = flag"
    "failureReasons (criteria (captured_of s pid) (replay E [] (history D s) = None)) (captured_of s pid) = why"
    by (simp_all add: flag_def why_def criteria_all_iff evidence_complete_def intact_def)
  have "follow ?sched (s, [verifyT E D pid, verifyT E D pid]) =
      Some (s4, [Ret \<lparr>resVerified = flag, resReasons = why, resSnapshotSequenceId = sequenceId x\<rparr>,
                 Ret \<lparr>resVerified = flag, resReasons = why, resSnapshotSequenceId = sequenceId y\<rparr>])"
    using f by (simp add: verifyT_def atom_def Let_def criteria flip: body_def)
      (simp add: s4_def s3_def y_def s2_def s1_def x_def save_row_def body_def)
  moreover have h: "history D (save_row ts n t) = history D t" "history D (exec now t) = history D t" for ts n t
    by (simp_all add: save_row_def history_def)
  have hist: "history D s4 = history D s @ [x, y]"
    by (simp only: s4_def h s3_def history_append) (simp only: s2_def h s1_def history_append x_def y_def append_run(1), simp)
  moreover have "sequenceId x < sequenceId y"
    using snap.findAsc_sorted [of "chainTbl s4"] hist by (simp add: history_def sorted_wrt_append)
  moreover have "map_option snapshotSequenceId (verdict_of D s4 pid) = Some (sequenceId y)"
    by (simp add: s4_def save_row_def verdict_of_def verd.findOne_save)
  moreover have "eventType x = ''pot.verified''" "eventType y = ''pot.verified''"
    by (simp_all add: x_def y_def append_run(1))
  ultimately show ?thesis using follow_turns by blast
qed

lemma accrual_race:
  fixes s :: "'z commission_state_scheme" and E :: env and fee :: number
  assumes "coin_ok D s" "epoch_of D s n = Some ep" "epochStatus ep = Open" "length (parts_of s n) < fuel"
    and "weigh D s [] (parts_of s n) = Inr ws"
  defines "ep' \<equiv> ep\<lparr>totalFees := totalFees ep + fee\<rparr>" and "t \<equiv> exec (finalizeEpoch E D n) s"
  shows "turns (s, [andThen (accrueT D n fee qs) (\<lambda>e. Ret (Inl e)), andThen (finalizeEpochT fuel E D n) (\<lambda>r. Ret (Inr r))])
    (t\<lparr>epochTbl := save (epochs D) ep' (epochTbl t), participation := (participation t)(n \<mapsto> qs)\<rparr>,
     [Ret (Inl ep'), Ret (Inr (result (finalizeEpoch E D n) s))])"
proof -
  let ?fin = "andThen (finalizeEpochT fuel E D n) (\<lambda>r. Ret (Inr r)) ::
    ('z commission_state_scheme, Epoch + (error + FinalizeResult)) thread"
  define rest :: "('z commission_state_scheme, Epoch + (error + FinalizeResult)) thread" where
    "rest = andThen (atom (modify (\<lambda>s. s\<lparr>epochTbl := save (epochs D) ep' (epochTbl s)\<rparr>))) (\<lambda>_.
       andThen (atom (do {
         recorded \<leftarrow> gets (\<lambda>s. case participation s n of None \<Rightarrow> [] | Some ps \<Rightarrow> ps);
         modify (\<lambda>s. s\<lparr>participation := (participation s)(n \<mapsto> recorded @ qs)\<rparr>) })) (\<lambda>_. Ret (Inl ep')))"
  have e: "findOne (epochs D) n (epochTbl s) = Some ep" using assms(2) by (simp add: epoch_of_def)
  have 1: "turns (s, [andThen (accrueT D n fee qs) (\<lambda>e. Ret (Inl e)), ?fin]) (s, [rest, ?fin])"
    by (rule follow_turns [of "[0]"])
      (simp add: accrueT_def openEpochT_def atom_def Let_def e rest_def ep'_def)
  note f = alone_finalize [OF assms(4), of E D]
  have "ready ?fin s" using ready_finalize [of s n fuel E] assms(1,4) by simp
  from alone_in_company [OF this, of 1 "[rest, ?fin]"]
  have 2: "turns (s, [rest, ?fin]) (t, [rest, Ret (Inr (result (finalizeEpoch E D n) s))])" by (simp add: f t_def)
  have "parts_of t n = []" unfolding t_def by (simp add: finalize_views(7) [OF assms(2,3,1,5)])
  then have "(case participation t n of None \<Rightarrow> [] | Some ps \<Rightarrow> ps) = []" by (simp add: parts_of_def)
  then have 3: "turns (t, [rest, Ret (Inr (result (finalizeEpoch E D n) s))])
    (t\<lparr>epochTbl := save (epochs D) ep' (epochTbl t), participation := (participation t)(n \<mapsto> qs)\<rparr>,
     [Ret (Inl ep'), Ret (Inr (result (finalizeEpoch E D n) s))])"
    by (intro follow_turns [of "[0, 0]"]) (simp add: rest_def atom_def)
  from turns_trans [OF 1 turns_trans [OF 2 3]] show ?thesis .
qed

text \<open>The payments of a finalization that has its weights, whatever ran in between.\<close>

lemma distribute_alone:
  fixes t :: "'z commission_state_scheme" and E :: env and ep :: Epoch and n :: int
  assumes "coin_ok D t" "\<And>i. i \<in> fst ` set ws \<Longrightarrow> node_of D t i \<noteq> None"
  defines "pool \<equiv> totalFees ep"
  defines "ps \<equiv> payouts ws pool" and "m \<equiv> runAlone (distributeT E D n ep ws)"
  shows "result m t = Inr (finalize_result n ps pool)"
    and "earnedRetained (tallies D (exec m t)) = foldl (+) (earnedRetained (tallies D t)) (map snd ps)"
    and "entries D (exec m t) = entries D t
      @ map (\<lambda>(i, a). (''node.payment.received'', payment_payload (the (node_of D t i)) a)) ps
      @ [(''reserve.afc.accrual'', [(''amount'', JNum (pool - paid_of ps))]),
         (''commission.epoch.finalized'', finalized_payload n ps pool)]"
proof -
  have pay: "runAlone (if 0 < total_weight ws
      then payLoopT E D ws (pool * (1 - marginRate)) (total_weight ws) (sort (map fst ws)) 0 []
      else Ret (Inr (0, []))) = pay_phase E D ws pool"
    by (simp add: pay_phase_def alone_payLoop)
  note run = pay_phase_run [OF assms(1,2), where E = E and pool = pool and ws = ws, folded ps_def]
  have m: "m = tryM (pay_phase E D ws pool) (\<lambda>x. runAlone (closeEpochT E D n ep (fst x) (snd x)))"
    by (simp add: m_def distributeT_def Let_def pay [unfolded total_weight_def pool_def] pool_def case_prod_beta)
  show "result m t = Inr (finalize_result n ps pool)"
    using run by (simp add: m closeEpochT_def pool_def [symmetric] tryM_simps Let_def finalize_result_def log_of_def balances_def MARGIN_RECIPIENT_def)
  show "earnedRetained (tallies D (exec m t)) = foldl (+) (earnedRetained (tallies D t)) (map snd ps)"
    using run by (simp add: m closeEpochT_def pool_def [symmetric] tryM_simps Let_def addAfcAccrual_run)
  show "entries D (exec m t) = entries D t
      @ map (\<lambda>(i, a). (''node.payment.received'', payment_payload (the (node_of D t i)) a)) ps
      @ [(''reserve.afc.accrual'', [(''amount'', JNum (pool - paid_of ps))]),
         (''commission.epoch.finalized'', finalized_payload n ps pool)]"
    using run by (simp add: m closeEpochT_def pool_def [symmetric] tryM_simps Let_def addAfcAccrual_run finalized_payload_def log_of_def balances_def MARGIN_RECIPIENT_def)
qed

end

section \<open>Two finalizations of one epoch\<close>

text \<open>C15: an epoch is settled twice when two requests finalize it at the same time. Whatever the state, if the epoch
  is open and its confirmed participants are registered, the two can interleave so that both find it
  open, both succeed with the result one of them alone has, and all that one of them alone appends
  to the chain, its payments, its reserve accrual and its record, is appended twice; the
  earned tally gets every payment twice.\<close>

theorem concurrent_finalizations_pay_twice:
  fixes s :: "'z commission_state_scheme" and E :: env
  assumes "datastore D" "coin_ok D s" "epoch_of D s n = Some ep" "epochStatus ep = Open" "length (parts_of s n) < fuel"
    and "\<forall>p \<in> set (parts_of s n). confirmed D s (partProcessId p) \<longrightarrow> node_of D s (partNodeId p) \<noteq> None"
  shows "\<exists>s' r new.
      turns (s, [finalizeEpochT fuel E D n, finalizeEpochT fuel E D n]) (s', [Ret (Inr r), Ret (Inr r)])
    \<and> result (finalizeEpoch E D n) s = Inr r \<and> finTotalFees r = totalFees ep
    \<and> entries D (exec (finalizeEpoch E D n) s) = entries D s @ new \<and> new \<noteq> []
    \<and> entries D s' = entries D s @ new @ new
    \<and> earnedRetained (tallies D s') =
        foldl (+) (earnedRetained (tallies D s)) (map distAmount (butlast (finDistributionLog r) @ butlast (finDistributionLog r)))"
proof -
  obtain ws where ws: "weigh D s [] (parts_of s n) = Inr ws"
    using weigh_ok [of "parts_of s n" D s "[]"] assms(6) by auto
  let ?fin = "finalizeEpochT fuel E D n" and ?rest = "distributeT E D n ep ws" and ?t = "exec (finalizeEpoch E D n) s"
  let ?ps = "payouts ws (totalFees ep)"
  let ?r = "finalize_result n ?ps (totalFees ep)"
  have res: "result (finalizeEpoch E D n) s = Inr ?r" using datastore.finalize_open(1) [OF assms(1,3,4,2) ws] .
  note view = datastore.finalize_views [OF assms(1,3,4,2) ws, where E = E]
  have 1: "turns (s, [?fin, ?fin]) (s, [?rest, ?fin])"
  proof -
    let ?w = "confirmedWeightsT fuel D n" and ?k = "\<lambda>r. case r of Inl e \<Rightarrow> Ret (Inl e) | Inr x \<Rightarrow> distributeT E D n ep x"
    note w = datastore.weights_alone [OF assms(1,5)]
    have "turns (s, [?fin, ?fin]) (s, [andThen ?w ?k, ?fin])"
      using assms(3,4)
      by (intro follow_turns [of "[0]"]) (simp add: finalizeEpochT_def andTry_def atom_def requireEpoch_def epoch_of_def)
    moreover have "turns (s, [andThen ?w ?k, ?fin]) (s, [?rest, ?fin])"
      using first_part [of ?w s 0 "[andThen ?w ?k, ?fin]" ?k] w by (simp add: ws)
    ultimately show ?thesis by (rule turns_trans)
  qed
  have "ready ?fin s" by (rule datastore.ready_finalize [OF assms(1,2,5)])
  from alone_in_company [OF this, of 1 "[?rest, ?fin]"]
  have 2: "turns (s, [?rest, ?fin]) (?t, [?rest, Ret (Inr ?r)])"
    by (simp add: alone_finalize [OF assms(5)] res)
  have reg: "node_of D ?t i \<noteq> None" if "i \<in> fst ` set ws" for i
    using that weigh_keys [OF ws] view(10) by (auto simp: node_of_def)
  have same: "node_of D ?t = node_of D s" using view(10) by (simp add: node_of_def fun_eq_iff)
  note d = datastore.distribute_alone [OF assms(1) view(1) reg, where ep = ep and n = n and E = E]
  have "ready ?rest ?t" using datastore.lone_distribute [OF assms(1)] view(1) unfolding lone_def by blast
  from alone_in_company [OF this, of 0 "[?rest, Ret (Inr ?r)]"]
  have 3: "turns (?t, [?rest, Ret (Inr ?r)]) (exec (runAlone ?rest) ?t, [Ret (Inr ?r), Ret (Inr ?r)])"
    by (simp add: d(1))
  have pays: "map distAmount (butlast (finDistributionLog ?r)) = map snd ?ps" "finTotalFees ?r = totalFees ep"
    by (simp_all add: finalize_result_def log_of_def comp_def case_prod_beta)
  show ?thesis
    using turns_trans [OF 1 turns_trans [OF 2 3]] res pays view(2,3) d(2,3) same
    by (intro exI [of _ "exec (runAlone ?rest) ?t"] exI [of _ ?r] exI conjI) auto
qed

theorem concurrent_finalizations_pay_twice_witness:
  "\<exists>s' r new. turns (settled, [finalizeEpochT 4 plain_env mem_db 1, finalizeEpochT 4 plain_env mem_db 1])
       (s', [Ret (Inr r), Ret (Inr r)])
     \<and> finTotalFees r = feeRate \<and> entries mem_db s' = entries mem_db settled @ new @ new \<and> new \<noteq> []"
proof -
  obtain ep where ep: "epoch_of mem_db settled 1 = Some ep" "epochStatus ep = Open" "totalFees ep = feeRate"
    using settled_epoch(1) by blast
  have "economy mem_db settled" using mem.reachable_ok [OF settled_reachable] by simp
  then have "\<forall>p \<in> set (parts_of settled 1). confirmed mem_db settled (partProcessId p) \<longrightarrow>
      node_of mem_db settled (partNodeId p) \<noteq> None"
    by (simp add: economy_def roll_def del: serve.simps)
  from concurrent_finalizations_pay_twice [OF mem.datastore_axioms settled_ready(1) ep(1,2) _ this, of 4 plain_env]
  show ?thesis using settled_epoch(2) ep(3) by fastforce
qed

section \<open>A fee accrued while its epoch is finalized\<close>

text \<open>C16: one epoch can be distributed twice. When a run accrues its fee between the start and the end of the epoch's
  finalization, the finalization completes and pays out the pool; then the run writes back the row it
  had read, so the epoch is open again, with the pool that was already distributed still in it and no
  record of the distribution. Finalizing again succeeds and distributes that pool a second time,
  together with the fee, and the earned tally gets both payments.\<close>

theorem racing_fee_reopens_epoch:
  fixes s :: "'z commission_state_scheme" and E :: env
  assumes "datastore D" "coin_ok D s" "epoch_of D s n = Some ep" "epochStatus ep = Open" "length (parts_of s n) < fuel"
    and "\<forall>p \<in> set (parts_of s n @ qs). confirmed D s (partProcessId p) \<longrightarrow> node_of D s (partNodeId p) \<noteq> None"
  shows "\<exists>s' r r'.
      turns (s, [andThen (accrueT D n fee qs) (\<lambda>e. Ret (Inl e)), andThen (finalizeEpochT fuel E D n) (\<lambda>r. Ret (Inr r))])
        (s', [Ret (Inl (ep\<lparr>totalFees := totalFees ep + fee\<rparr>)), Ret (Inr (Inr r))])
    \<and> epoch_of D s' n = Some (ep\<lparr>totalFees := totalFees ep + fee\<rparr>)
    \<and> result (finalizeEpoch E D n) s' = Inr r'
    \<and> finTotalFees r = totalFees ep \<and> finTotalFees r' = totalFees ep + fee
    \<and> earnedRetained (tallies D (exec (finalizeEpoch E D n) s')) =
        foldl (+) (earnedRetained (tallies D s)) (map distAmount (butlast (finDistributionLog r) @ butlast (finDistributionLog r')))"
proof -
  obtain ws where ws: "weigh D s [] (parts_of s n) = Inr ws"
    using weigh_ok [of "parts_of s n" D s "[]"] assms(6) by auto
  note fin = datastore.finalize_open(1) [OF assms(1,3,4,2) ws, of E]
  note view = datastore.finalize_views [OF assms(1,3,4,2) ws, where E = E]
  let ?ep = "ep\<lparr>totalFees := totalFees ep + fee\<rparr>"
  let ?t = "exec (finalizeEpoch E D n) s"
  let ?s = "?t\<lparr>epochTbl := save (epochs D) ?ep (epochTbl ?t), participation := (participation ?t)(n \<mapsto> qs)\<rparr>"
  have "epochNumber ep = n" using datastore.axioms(5) [OF assms(1)] assms(3) repository.findOne_key by (auto simp: epoch_of_def)
  then have ep: "epoch_of D ?s n = Some ?ep"
    using datastore.axioms(5) [OF assms(1)] by (simp add: epoch_of_def repository.findOne_save)
  have parts: "parts_of ?s n = qs" by (simp add: parts_of_def)
  have "node_of D ?s i = node_of D s i" "confirmed D ?s q = confirmed D s q" for i q
    using view(9,10) by (simp_all add: node_of_def confirmed_def verdict_of_def)
  then obtain ws' where ws': "weigh D ?s [] (parts_of ?s n) = Inr ws'"
    using weigh_ok [of qs D ?s "[]"] assms(6) parts by auto
  have ok: "coin_ok D ?s" and tal: "tallies D ?s = tallies D ?t" using view(1) by (simp_all add: datastore.upd_views [OF assms(1)])
  note fin' = datastore.finalize_open(1) [OF assms(1) ep _ ok ws', of E]
  note view' = datastore.finalize_views(2) [OF assms(1) ep _ ok ws', where E = E]
  have pays: "map distAmount (butlast (finDistributionLog (finalize_result n ps pool))) = map snd ps"
    "finTotalFees (finalize_result n ps pool) = pool" for ps pool
    by (simp_all add: finalize_result_def log_of_def comp_def case_prod_beta)
  have "turns (s, [andThen (accrueT D n fee qs) (\<lambda>e. Ret (Inl e)), andThen (finalizeEpochT fuel E D n) (\<lambda>r. Ret (Inr r))])
      (?s, [Ret (Inl ?ep), Ret (Inr (Inr (finalize_result n (payouts ws (totalFees ep)) (totalFees ep))))])"
    using datastore.accrual_race [OF assms(1,2,3,4,5) ws, of fee qs E] fin by simp
  then show ?thesis using ep fin' view' view(2) tal assms(4)
    by (intro exI [of _ ?s] exI conjI) (auto simp: pays)
qed

theorem racing_fee_reopens_epoch_witness:
  "\<exists>s' ep r r'.
      turns (settled, [andThen (accrueT mem_db 1 feeRate []) (\<lambda>e. Ret (Inl e)),
                       andThen (finalizeEpochT 4 plain_env mem_db 1) (\<lambda>r. Ret (Inr r))]) (s', [Ret (Inl ep), Ret (Inr (Inr r))])
    \<and> result (finalizeEpoch plain_env mem_db 1) s' = Inr r' \<and> finTotalFees r = feeRate \<and> finTotalFees r' = feeRate + feeRate"
proof -
  obtain ep where ep: "epoch_of mem_db settled 1 = Some ep" "epochStatus ep = Open" "totalFees ep = feeRate"
    using settled_epoch(1) by blast
  have "economy mem_db settled" using mem.reachable_ok [OF settled_reachable] by simp
  then have "\<forall>p \<in> set (parts_of settled 1 @ []). confirmed mem_db settled (partProcessId p) \<longrightarrow>
      node_of mem_db settled (partNodeId p) \<noteq> None"
    by (simp add: economy_def roll_def del: serve.simps)
  from racing_fee_reopens_epoch [OF mem.datastore_axioms settled_ready(1) ep(1,2) _ this, of 4 feeRate plain_env]
  show ?thesis using settled_epoch(2) ep(3) by fastforce
qed

end
