(* ===== verification/Progress.thy ===== *)
theory Progress
  imports Concurrent
begin

text \<open>
  Why requests at the same time all come to an end. The one thing a request waits for is the ledger row, which the first
  caller creates: the flag is the cached promise (\<open>coinInit\<close>), the event that the row is there. Every
  thread is tidy for the two, so some thread can always take a turn until all have returned; and no
  schedule goes on for ever.
\<close>

definition row_there :: "database \<Rightarrow> 'z coin_state_scheme \<Rightarrow> bool" where
  "row_there D s \<longleftrightarrow> findOne (ledgers D) LEDGER_ID (ledgerTbl s) \<noteq> None"

abbreviation tidy_coin :: "database \<Rightarrow> ('z coin_state_scheme, 'a) thread \<Rightarrow> bool" where
  "tidy_coin D \<equiv> tidy coinInit (row_there D)"

definition starts :: "database \<Rightarrow> ('z coin_state_scheme, 'a) thread \<Rightarrow> bool" where
  "starts D t \<longleftrightarrow> tidy_coin D t \<and> unguarded t"

lemma starts_Ret [simp]: "starts D (Ret a)"
  by (simp add: starts_def)

lemma starts_andThen: "starts D t \<Longrightarrow> (\<And>a. starts D (f a)) \<Longrightarrow> starts D (andThen t f)"
  by (simp add: starts_def tidy_andThen unguarded_andThen)

lemma starts_andTry: "starts D t \<Longrightarrow> (\<And>a. starts D (f a)) \<Longrightarrow> starts D (andTry t f)"
  by (simp add: starts_def tidy_andTry unguarded_andTry)

lemma starts_each: "(\<And>x. starts D (f x)) \<Longrightarrow> starts D (eachTry f xs)"
  by (simp add: starts_def tidy_each unguarded_each)

lemma starts_atom:
  assumes "\<And>s. ledgerTbl (exec m s) = ledgerTbl s \<and> coinInit (exec m s) = coinInit s"
  shows "starts D (atom m)"
  unfolding starts_def by (intro conjI tidy_atom) (simp_all add: assms row_there_def)

lemma starts_modify: "(\<And>s. ledgerTbl (f s) = ledgerTbl s \<and> coinInit (f s) = coinInit s) \<Longrightarrow> starts D (atom (modify f))"
  by (rule starts_atom) simp

context datastore
begin

lemma starts_pieces:
  "starts D (atom (append E D e p))" "starts D (atom (eyeLog E D e l d))" "starts D (atom (gets f))"
  "starts D (atom now)" "starts D (atom (reserveIndex E D))" "starts D (atom (requireNode D i))"
  "starts D (atom (reconstruct E D))"
  by (rule starts_atom; simp add: requireNode_def split: option.splits)+

lemma starts_saveLedger: "starts D (atom (saveLedger D r))"
  unfolding starts_def by (intro conjI tidy_atom) (auto simp: saveLedger_def row_there_def ledg.findOne_save)

lemmas starts_rules = starts_Ret starts_andThen starts_andTry starts_each starts_modify starts_pieces starts_saveLedger

lemma starts_ledger: "starts D (ledgerT D)"
  unfolding ledgerT_def
proof (intro starts_andThen)
  have "ledgerId zeroLedger = LEDGER_ID" by (simp add: zeroLedger_def)
  then show "starts D (ensureLedgerT D)"
    by (auto simp: starts_def ensureLedgerT_def row_there_def atom_def ledg.findOne_save)
qed (auto intro: starts_pieces split: option.splits)

lemma starts_coin:
  "starts D (recordMintT D a)" "starts D (recordBurnT D a)" "starts D (totalSupplyT D)" "starts D (supplyViewT D)"
  unfolding recordMintT_def recordBurnT_def totalSupplyT_def supplyViewT_def
  by (auto intro!: starts_rules starts_ledger)

lemma starts_capture: "starts D (captureT E D p e d v)"
proof -
  have "starts D (atom (do {
      modify (\<lambda>s. if captured s p = None then s\<lparr>captured := (captured s)(p \<mapsto> {})\<rparr> else s);
      modify (\<lambda>s. s\<lparr>captured := (captured s)(p := map_option (insert e) (captured s p))\<rparr>);
      return x }))" for x :: ExecutionSnapshot
    by (rule starts_atom) simp
  then show ?thesis unfolding captureT_def by (intro starts_andThen starts_pieces)
qed

lemma starts_verify: "starts D (verifyT E D p)"
  unfolding verifyT_def Let_def capturedEvents_def by (auto intro!: starts_rules split: option.splits)

lemma starts_emission: "starts D (mintT E D p a)" "starts D (burnT E D p a)"
  unfolding mintT_def burnT_def getVerdict_def by (auto intro!: starts_rules starts_coin)

lemma starts_registerAll: "starts D (registerAllT E D ns)"
  by (induction ns) (auto intro!: starts_rules simp: registerT_def Let_def)

lemma starts_resolve: "starts D (resolveAssignedNodesT E D x)"
  unfolding resolveAssignedNodesT_def listNodes_def
  by (auto intro!: starts_rules starts_registerAll split: option.splits list.splits)

lemma starts_execution: "starts D (recordExecutionT D i b)"
  unfolding recordExecutionT_def Let_def by (auto intro!: starts_rules)

lemma starts_accrue: "starts D (accrueT D n f ps)"
proof -
  have "starts D (atom (do { recorded \<leftarrow> gets g; modify (\<lambda>s. s\<lparr>participation := h recorded s\<rparr>) }))" for g h
    by (rule starts_atom) simp
  then show ?thesis
    unfolding accrueT_def openEpochT_def Let_def by (auto intro!: starts_rules split: option.splits)
qed

lemma starts_compare: "starts D (compareSupplyT E D v)"
  unfolding compareSupplyT_def Let_def by (auto intro!: starts_rules)

lemmas starts_ops = starts_coin starts_capture starts_verify starts_emission starts_resolve starts_execution starts_accrue
  starts_compare

lemma starts_run: "starts D (runProcessT E D input)"
  unfolding runProcessT_def terminateT_def rejectUnverifiedT_def settleVerifiedT_def Let_def
  by (auto intro!: starts_rules starts_ops)

lemma starts_reads: "starts D (retainedT D)" "starts D (isActiveT D)" "starts D (getProcessT D i)"
proof -
  have "starts D (atom (getVerdict D p))" "starts D (atom (list_chain D))" for p
    by (rule starts_atom; simp add: getVerdict_def)+
  then show "starts D (retainedT D)" "starts D (isActiveT D)" "starts D (getProcessT D i)"
    unfolding retainedT_def isActiveT_def phaseT_def getProcessT_def Let_def
    by (auto intro!: starts_rules starts_ledger split: option.splits)
qed

lemma starts_request:
  assumes "t \<in> set (requestThreads fuel E D r)" "\<And>n. r \<noteq> PostFinalize n"
  shows "starts D t"
proof -
  have "starts D (atom (listVerdicts D))" "starts D (atom (list_chain D))" "starts D (atom (getEpoch D n))" for n
    by (rule starts_atom; simp add: listVerdicts_def getEpoch_def)+
  then show ?thesis
    using assms by (cases r) (auto simp: metricsThreads_def intro!: starts_rules starts_run starts_reads starts_coin)
qed

text \<open>As long as a request has not been answered, some request can take its next turn.\<close>

lemma requests_progress:
  assumes "coin_ok D s" "\<And>n. PostFinalize n \<notin> set rs" "turns (s, all_requests fuel E D rs) (s', ts)"
  shows "list_all returned ts \<or> (\<exists>c. turn (s', ts) c)"
proof (rule orderly_progress [OF turns_orderly [OF assms(3)]])
  have "tidy_coin D t \<and> unguarded t" if "t \<in> set (all_requests fuel E D rs)" for t
  proof -
    from that obtain r where "r \<in> set rs" "t \<in> set (requestThreads fuel E D r)" by auto
    then have "starts D t" using starts_request assms(2) by metis
    then show ?thesis by (simp add: starts_def)
  qed
  then show "orderly coinInit (row_there D) (s, all_requests fuel E D rs)"
    using assms(1) unfolding orderly_def coin_ok_def row_there_def by auto
qed

text \<open>Hence every schedule that goes on as long as it can ends with all requests answered.\<close>

lemma requests_answered:
  assumes "coin_ok D s" "\<And>n. PostFinalize n \<notin> set rs" "turns (s, all_requests fuel E D rs) c"
  shows "\<exists>s' ts. turns c (s', ts) \<and> list_all returned ts"
proof -
  have "\<exists>d. turns c d \<and> list_all returned (snd d)"
  proof (rule can_finish)
    fix d assume d: "turns c d" "\<nexists>d'. turn d d'"
    have "turns (s, all_requests fuel E D rs) (fst d, snd d)" using turns_trans [OF assms(3) d(1)] by simp
    from requests_progress [OF assms(1,2) this] show "list_all returned (snd d)" using d(2) by auto
  qed
  then show ?thesis by (metis prod.collapse)
qed

end

end
