(* ===== verification/Http.thy ===== *)
theory Http
  imports System
begin

text \<open>
  The HTTP surface: the request contracts (the three \<open>*.dto.ts\<close> classes as lists of decorated properties), the
  options of the global \<open>ValidationPipe\<close> in \<open>main.ts\<close>, the controller method that runs a process, and the
  health probe. The decorators and the pipe are library code: \<open>validation_pipe\<close> is what their
  documentation says of them on JSON objects, and \<open>strict_pipe\<close> satisfies it.
\<close>

section \<open>The contracts\<close>

datatype decorator =
    IsString | IsStringEach | IsNumber | IsPositive | IsBoolean | IsArray | ArrayNotEmpty | IsObject
  | IsNotEmpty | MaxLength nat | IsOptional

type_synonym dto_class = "(string \<times> decorator list) list"

definition RunProcessBody :: dto_class where
  "RunProcessBody =
     [(''processId'', [IsString]),
      (''amount'', [IsNumber, IsPositive]),
      (''type'', [IsString]),
      (''admissible'', [IsBoolean]),
      (''nodeIds'', [IsOptional, IsArray, ArrayNotEmpty, IsStringEach]),
      (''epoch'', [IsOptional, IsNumber])]"

definition AppendEventBody :: dto_class where
  "AppendEventBody = [(''eventType'', [IsString, IsNotEmpty, MaxLength 128]), (''payload'', [IsObject])]"

definition RegisterNodeBody :: dto_class where
  "RegisterNodeBody =
     [(''id'', [IsString, IsNotEmpty, MaxLength 128]), (''type'', [IsString, IsNotEmpty, MaxLength 64])]"

record pipe_options =
  pipeTransform :: bool
  pipeWhitelist :: bool
  forbidNonWhitelisted :: bool

definition pipeOptions :: pipe_options where
  "pipeOptions = \<lparr>pipeTransform = True, pipeWhitelist = True, forbidNonWhitelisted = True\<rparr>"

section \<open>The pipe\<close>

text \<open>A property that is missing or null passes if it is optional; one that is there satisfies every
  decorator of it. With the options above, a body with a property no decorator names is refused, and an
  accepted body reaches the handler with its values unchanged.\<close>

definition field_ok :: "(decorator \<Rightarrow> json \<Rightarrow> bool) \<Rightarrow> decorator list \<Rightarrow> json option \<Rightarrow> bool" where
  "field_ok meets ds v = (case v of None \<Rightarrow> IsOptional \<in> set ds
     | Some v \<Rightarrow> v = JNull \<and> IsOptional \<in> set ds \<or> list_all (\<lambda>d. meets d v) ds)"

definition admitted :: "(decorator \<Rightarrow> json \<Rightarrow> bool) \<Rightarrow> dto_class \<Rightarrow> object \<Rightarrow> bool" where
  "admitted meets cls body \<longleftrightarrow>
     set (map fst body) \<subseteq> set (map fst cls) \<and> list_all (\<lambda>(k, ds). field_ok meets ds (map_of body k)) cls"

locale validation_pipe =
  fixes meets :: "decorator \<Rightarrow> json \<Rightarrow> bool"
    and pipe :: "pipe_options \<Rightarrow> dto_class \<Rightarrow> object \<Rightarrow> object option"
  assumes meets_string: "meets IsString v \<longleftrightarrow> (\<exists>s. v = JStr s)"
    and meets_number: "meets IsNumber v \<longleftrightarrow> (\<exists>x. v = JNum x \<and> is_finite x)"
    and meets_positive: "meets IsPositive v \<longleftrightarrow> (\<exists>x. v = JNum x \<and> 0 < x)"
    and meets_boolean: "meets IsBoolean v \<longleftrightarrow> (\<exists>b. v = JBool b)"
    and meets_array: "meets IsArray v \<longleftrightarrow> (\<exists>vs. v = JArr vs)"
    and meets_array_not_empty: "meets ArrayNotEmpty v \<longleftrightarrow> (\<exists>vs. v = JArr vs \<and> vs \<noteq> [])"
    and meets_each: "meets IsStringEach (JArr vs) \<longleftrightarrow> (\<forall>v \<in> set vs. meets IsString v)"
    and meets_object: "meets IsObject v \<longleftrightarrow> (\<exists>ps. v = JObj ps)"
    and meets_not_empty: "meets IsNotEmpty v \<longleftrightarrow> v \<noteq> JStr [] \<and> v \<noteq> JNull"
    and meets_max_length: "\<forall>c \<in> set s. of_char c < (128::nat) \<Longrightarrow> meets (MaxLength n) (JStr s) \<longleftrightarrow> length s \<le> n"
    and meets_optional: "meets IsOptional v"
    and pipe_strict: "pipe \<lparr>pipeTransform = True, pipeWhitelist = True, forbidNonWhitelisted = True\<rparr> cls body =
      (if admitted meets cls body then Some body else None)"

section \<open>The controllers\<close>

text \<open>The handler's argument as its declared type. The service keys epochs by an integer column, so a body whose
  epoch is no whole number has none.\<close>

fun as_string :: "json \<Rightarrow> string option" where
  "as_string (JStr s) = Some s"
| "as_string _ = None"

fun as_number :: "json \<Rightarrow> number option" where
  "as_number (JNum x) = Some x"
| "as_number _ = None"

fun as_bool :: "json \<Rightarrow> bool option" where
  "as_bool (JBool b) = Some b"
| "as_bool _ = None"

fun read_nodes :: "json option \<Rightarrow> string list option option" where
  "read_nodes (Some (JArr vs)) = map_option Some (those (map as_string vs))"
| "read_nodes (Some JNull) = Some None"
| "read_nodes None = Some None"
| "read_nodes _ = None"

fun read_epoch :: "json option \<Rightarrow> int option option" where
  "read_epoch (Some (JNum (Fin q))) = (if of_int \<lfloor>q\<rfloor> = q then Some (Some \<lfloor>q\<rfloor>) else None)"
| "read_epoch (Some JNull) = Some None"
| "read_epoch None = Some None"
| "read_epoch _ = None"

definition read_dto :: "object \<Rightarrow> RunProcessDto option" where
  "read_dto body = do {
     p \<leftarrow> Option.bind (map_of body ''processId'') as_string;
     a \<leftarrow> Option.bind (map_of body ''amount'') as_number;
     t \<leftarrow> Option.bind (map_of body ''type'') as_string;
     b \<leftarrow> Option.bind (map_of body ''admissible'') as_bool;
     ids \<leftarrow> read_nodes (map_of body ''nodeIds'');
     n \<leftarrow> read_epoch (map_of body ''epoch'');
     Some \<lparr>dtoProcessId = p, dtoAmount = a, dtoType = t, dtoAdmissible = b, dtoNodeIds = ids, dtoEpoch = n\<rparr>
   }"

definition write_dto :: "RunProcessDto \<Rightarrow> object" where
  "write_dto dto =
     [(''processId'', JStr (dtoProcessId dto)), (''amount'', JNum (dtoAmount dto)),
      (''type'', JStr (dtoType dto)), (''admissible'', JBool (dtoAdmissible dto))] @
     (case dtoNodeIds dto of None \<Rightarrow> [] | Some ids \<Rightarrow> [(''nodeIds'', JArr (map JStr ids))]) @
     (case dtoEpoch dto of None \<Rightarrow> [] | Some n \<Rightarrow> [(''epoch'', jint n)])"

datatype reply = BadRequest | NoSuchDto | Answer "error + RunProcessResult"

definition postProcesses ::
  "(pipe_options \<Rightarrow> dto_class \<Rightarrow> object \<Rightarrow> object option) \<Rightarrow> env \<Rightarrow> database \<Rightarrow> object \<Rightarrow>
   ('z sys_scheme, reply) state" where
  "postProcesses pipe E D body =
     (case pipe pipeOptions RunProcessBody body of
        None \<Rightarrow> return BadRequest
      | Some ps \<Rightarrow> (case read_dto ps of
            None \<Rightarrow> return NoSuchDto
          | Some dto \<Rightarrow> do { r \<leftarrow> runProcess E D dto; return (Answer r) }))"

text \<open>\<open>getHealth\<close> reports the wall clock; \<open>instant\<close> is what \<open>new Date().toISOString()\<close> gives.\<close>

definition getHealth :: "string \<Rightarrow> object" where
  "getHealth instant = [(''ok'', JBool True), (''service'', JStr ''AST''), (''ts'', JStr instant)]"

section \<open>A pipe that does what the documentation says\<close>

primrec strict_meets :: "decorator \<Rightarrow> json \<Rightarrow> bool" where
  "strict_meets IsString v = (as_string v \<noteq> None)"
| "strict_meets IsStringEach v = (case v of JArr vs \<Rightarrow> list_all (\<lambda>v. as_string v \<noteq> None) vs | _ \<Rightarrow> False)"
| "strict_meets IsNumber v = (case v of JNum x \<Rightarrow> is_finite x | _ \<Rightarrow> False)"
| "strict_meets IsPositive v = (case v of JNum x \<Rightarrow> 0 < x | _ \<Rightarrow> False)"
| "strict_meets IsBoolean v = (as_bool v \<noteq> None)"
| "strict_meets IsArray v = (case v of JArr vs \<Rightarrow> True | _ \<Rightarrow> False)"
| "strict_meets ArrayNotEmpty v = (case v of JArr vs \<Rightarrow> vs \<noteq> [] | _ \<Rightarrow> False)"
| "strict_meets IsObject v = (case v of JObj ps \<Rightarrow> True | _ \<Rightarrow> False)"
| "strict_meets IsNotEmpty v = (v \<noteq> JStr [] \<and> v \<noteq> JNull)"
| "strict_meets (MaxLength n) v = (case v of JStr s \<Rightarrow> length s \<le> n | _ \<Rightarrow> False)"
| "strict_meets IsOptional v = True"

definition strict_pipe :: "pipe_options \<Rightarrow> dto_class \<Rightarrow> object \<Rightarrow> object option" where
  "strict_pipe opts cls body = (if admitted strict_meets cls body then Some body else None)"

interpretation strict: validation_pipe strict_meets strict_pipe
proof unfold_locales
  fix v :: json and vs s n cls body
  show "strict_meets IsString v \<longleftrightarrow> (\<exists>s. v = JStr s)" "strict_meets IsBoolean v \<longleftrightarrow> (\<exists>b. v = JBool b)"
    "strict_meets IsNumber v \<longleftrightarrow> (\<exists>x. v = JNum x \<and> is_finite x)" "strict_meets IsPositive v \<longleftrightarrow> (\<exists>x. v = JNum x \<and> 0 < x)"
    "strict_meets IsArray v \<longleftrightarrow> (\<exists>vs. v = JArr vs)" "strict_meets ArrayNotEmpty v \<longleftrightarrow> (\<exists>vs. v = JArr vs \<and> vs \<noteq> [])"
    "strict_meets IsObject v \<longleftrightarrow> (\<exists>ps. v = JObj ps)" "strict_meets IsNotEmpty v \<longleftrightarrow> v \<noteq> JStr [] \<and> v \<noteq> JNull"
    by (cases v; simp)+
  show "strict_meets IsStringEach (JArr vs) \<longleftrightarrow> (\<forall>v \<in> set vs. strict_meets IsString v)"
    by (simp add: list_all_iff)
  show "strict_meets (MaxLength n) (JStr s) \<longleftrightarrow> length s \<le> n" if "\<forall>c \<in> set s. of_char c < (128::nat)" by simp
qed (simp_all add: strict_pipe_def)

section \<open>Accepted bodies\<close>

lemma those_map [simp]: "those (map (as_string \<circ> JStr) ids) = Some ids"
  by (induction ids) simp_all

context validation_pipe
begin

lemmas meets_simps [simp] = meets_string meets_number meets_positive meets_boolean meets_array meets_array_not_empty
  meets_object meets_not_empty meets_optional

lemma pipe_run: "pipe pipeOptions cls body = (if admitted meets cls body then Some body else None)"
  by (simp add: pipeOptions_def pipe_strict)

lemma admitted_run:
  "admitted meets RunProcessBody body \<longleftrightarrow>
     set (map fst body) \<subseteq> {''processId'', ''amount'', ''type'', ''admissible'', ''nodeIds'', ''epoch''}
   \<and> (\<exists>p. map_of body ''processId'' = Some (JStr p))
   \<and> (\<exists>a. map_of body ''amount'' = Some (JNum a) \<and> is_finite a \<and> 0 < a)
   \<and> (\<exists>t. map_of body ''type'' = Some (JStr t))
   \<and> (\<exists>b. map_of body ''admissible'' = Some (JBool b))
   \<and> (map_of body ''nodeIds'' \<in> {None, Some JNull} \<or> (\<exists>ids. ids \<noteq> [] \<and> map_of body ''nodeIds'' = Some (JArr (map JStr ids))))
   \<and> (map_of body ''epoch'' \<in> {None, Some JNull} \<or> (\<exists>x. map_of body ''epoch'' = Some (JNum x) \<and> is_finite x))"
proof -
  have each: "(vs \<noteq> [] \<and> (\<forall>x \<in> set vs. \<exists>s. x = JStr s)) \<longleftrightarrow> (\<exists>ids. ids \<noteq> [] \<and> vs = map JStr ids)" for vs
    using ex_map_conv [of vs JStr] by auto
  have n: "field_ok meets [IsOptional, IsArray, ArrayNotEmpty, IsStringEach] v \<longleftrightarrow>
      v \<in> {None, Some JNull} \<or> (\<exists>ids. ids \<noteq> [] \<and> v = Some (JArr (map JStr ids)))" for v
  proof (cases "\<exists>vs. v = Some (JArr vs)")
    case True
    then obtain vs where "v = Some (JArr vs)" by blast
    then show ?thesis using each [of vs] by (simp add: field_ok_def meets_each)
  next
    case False
    then show ?thesis by (cases v) (auto simp: field_ok_def)
  qed
  have f: "field_ok meets [IsString] v \<longleftrightarrow> (\<exists>p. v = Some (JStr p))"
    "field_ok meets [IsNumber, IsPositive] v \<longleftrightarrow> (\<exists>a. v = Some (JNum a) \<and> is_finite a \<and> 0 < a)"
    "field_ok meets [IsBoolean] v \<longleftrightarrow> (\<exists>b. v = Some (JBool b))"
    "field_ok meets [IsOptional, IsNumber] v \<longleftrightarrow> v \<in> {None, Some JNull} \<or> (\<exists>x. v = Some (JNum x) \<and> is_finite x)" for v
    by (auto simp: field_ok_def split: option.splits)
  show ?thesis by (simp add: admitted_def RunProcessBody_def n f)
qed

lemma accepted_typed:
  assumes "admitted meets RunProcessBody body" "\<forall>(k, v) \<in> set body. \<forall>x. v = JNum x \<longrightarrow> is_double x"
    and "\<forall>x. map_of body ''epoch'' = Some (JNum x) \<longrightarrow> (\<exists>n. x = Fin (of_int n))"
  shows "\<exists>dto. read_dto body = Some dto \<and> validRunProcessDto dto"
proof -
  note b = assms(1) [unfolded admitted_run]
  then obtain p a t c where f: "map_of body ''processId'' = Some (JStr p)" "map_of body ''amount'' = Some (JNum a)"
    "is_finite a" "0 < a" "map_of body ''type'' = Some (JStr t)" "map_of body ''admissible'' = Some (JBool c)" by auto
  have "is_double a" using assms(2) map_of_SomeD [OF f(2)] by fastforce
  have "\<exists>ids. read_nodes (map_of body ''nodeIds'') = Some ids \<and> ids \<noteq> Some []"
    using b by auto
  moreover have "\<exists>n. read_epoch (map_of body ''epoch'') = Some n" using b assms(3) by auto
  ultimately show ?thesis using f \<open>is_double a\<close> by (auto simp: read_dto_def validRunProcessDto_def)
qed

lemma written_accepted:
  assumes "validRunProcessDto dto" "case dtoEpoch dto of None \<Rightarrow> True | Some n \<Rightarrow> \<bar>n\<bar> \<le> 2 ^ 53"
  shows "admitted meets RunProcessBody (write_dto dto)" "read_dto (write_dto dto) = Some dto"
proof -
  have e: "num_of_int n = Fin (of_int n)" if "dtoEpoch dto = Some n" for n
    using assms(2) that by (simp add: num_of_int_exact)
  show "admitted meets RunProcessBody (write_dto dto)"
    using assms(1) e unfolding admitted_run
    by (auto simp: write_dto_def validRunProcessDto_def split: option.splits)
  show "read_dto (write_dto dto) = Some dto"
    using e by (auto simp: write_dto_def read_dto_def split: option.splits)
qed

end

section \<open>Properties\<close>


definition one_body :: object where
  "one_body = [(''processId'', JStr ''p1''), (''amount'', JNum 1), (''type'', JStr ''transfer''), (''admissible'', JBool True)]"


text \<open>And every well-typed argument can be sent: the body written from a valid one, with an epoch a double
  represents, is accepted, and reads back as that argument.\<close>

lemma dto_round_trip:
  assumes "validation_pipe meets pipe" "validRunProcessDto dto"
    and "case dtoEpoch dto of None \<Rightarrow> True | Some n \<Rightarrow> \<bar>n\<bar> \<le> 2 ^ 53"
  shows "pipe pipeOptions RunProcessBody (write_dto dto) = Some (write_dto dto) \<and> read_dto (write_dto dto) = Some dto"
  using validation_pipe.written_accepted [OF assms] by (simp add: validation_pipe.pipe_run [OF assms(1)])

definition full_dto :: RunProcessDto where
  "full_dto = \<lparr>dtoProcessId = ''p2'', dtoAmount = 1, dtoType = ''transfer'', dtoAdmissible = False,
                dtoNodeIds = Some [''n1'', ''n2''], dtoEpoch = Some 7\<rparr>"

text \<open>What the contract does not rule out. A process id of any length and an epoch that is no whole number pass
  the pipe, although the verdict table keys processes by a column of 128 characters and the epoch table
  by an integer column; such an epoch is no argument of the service.\<close>

lemma contract_admits_what_columns_do_not:
  assumes "validation_pipe meets pipe"
  defines "body \<equiv> \<lambda>pid x. [(''processId'', JStr pid), (''amount'', JNum 1), (''type'', JStr ''transfer''),
      (''admissible'', JBool True), (''epoch'', JNum x)]"
  shows "(\<forall>pid x. is_finite x \<longrightarrow> pipe pipeOptions RunProcessBody (body pid x) = Some (body pid x))
    \<and> (\<forall>pid q. of_int \<lfloor>q\<rfloor> \<noteq> q \<longrightarrow> result (postProcesses pipe E D (body pid (Fin q))) s = NoSuchDto)"
proof -
  have 1: "0 < (1 :: number)" "is_finite (1 :: number)" by (simp_all add: one_number_def zero_number_def)
  have "admitted meets RunProcessBody (body pid x)" if "is_finite x" for pid x
    using that 1 by (simp add: validation_pipe.admitted_run [OF assms(1)] body_def ex_bool_eq)
  then show ?thesis
    by (simp add: validation_pipe.pipe_run [OF assms(1)] postProcesses_def) (simp add: body_def read_dto_def)
qed

end
