(* ===== verification/Wiring.thy ===== *)
theory Wiring
  imports Http
begin

text \<open>
  How the classes are put together: the \<open>@Module\<close> of every \<open>*.module.ts\<close>, the constructors of the services and
  controllers, and the values \<open>app.module.ts\<close> and \<open>main.ts\<close> take from the environment. The container that
  reads the declarations is library code; what is shown is what it relies on.
\<close>

section \<open>Modules\<close>

text \<open>\<open>ForFeature es\<close> is \<open>TypeOrmModule.forFeature(es)\<close>, which makes the repositories of the entities
  available to the module; \<open>Library\<close> is a configured module of a package.\<close>

datatype class_name =
    AllSeeingEyeService | ArosCoinService | CommissionService | ClockService | EmissionService
  | NodeChainService | NodesService | MetricsController | OrchestratorController | OrchestratorService
  | PotService | ReleaseService | ReserveService | StateRecordingService | AppController

datatype entity_name =
    OversightLogEntry | ArosCoinLedger | Epoch | ExecutionSnapshot | NodeEntity | PotVerdict | ReleasePhase

datatype nest_name =
    AllSeeingEyeModule | ArosCoinModule | CommissionModule | CommonModule | EmissionModule | NodeChainModule
  | NodesModule | OrchestratorModule | PotModule | ReleaseModule | ReserveModule | StateRecordingModule
  | AppModule

datatype import_item = Module nest_name | ForFeature "entity_name list" | Library string

record nest_module =
  modImports :: "import_item list"
  modControllers :: "class_name list"
  modProviders :: "class_name list"
  modExports :: "class_name list"
  modGlobal :: bool

definition all_seeing_eye_module :: nest_module where
  "all_seeing_eye_module =
     \<lparr>modImports =
        [Module NodeChainModule, ForFeature [OversightLogEntry]],
      modControllers = [], modProviders = [AllSeeingEyeService],
      modExports = [AllSeeingEyeService], modGlobal = False\<rparr>"

definition aros_coin_module :: nest_module where
  "aros_coin_module =
     \<lparr>modImports =
        [ForFeature [ArosCoinLedger]],
      modControllers = [], modProviders = [ArosCoinService],
      modExports = [ArosCoinService], modGlobal = False\<rparr>"

definition commission_module :: nest_module where
  "commission_module =
     \<lparr>modImports =
        [ForFeature [Epoch], Module NodesModule, Module PotModule, Module NodeChainModule,
         Module ArosCoinModule, Module ReserveModule],
      modControllers = [], modProviders = [CommissionService],
      modExports = [CommissionService], modGlobal = False\<rparr>"

definition common_module :: nest_module where
  "common_module =
     \<lparr>modImports = [],
      modControllers = [], modProviders = [ClockService],
      modExports = [ClockService], modGlobal = True\<rparr>"

definition emission_module :: nest_module where
  "emission_module =
     \<lparr>modImports =
        [Module ArosCoinModule, Module PotModule, Module NodeChainModule],
      modControllers = [], modProviders = [EmissionService],
      modExports = [EmissionService], modGlobal = False\<rparr>"

definition node_chain_module :: nest_module where
  "node_chain_module =
     \<lparr>modImports =
        [ForFeature [ExecutionSnapshot]],
      modControllers = [], modProviders = [NodeChainService],
      modExports = [NodeChainService], modGlobal = False\<rparr>"

definition nodes_module :: nest_module where
  "nodes_module =
     \<lparr>modImports =
        [ForFeature [NodeEntity], Module NodeChainModule],
      modControllers = [], modProviders = [NodesService],
      modExports = [NodesService], modGlobal = False\<rparr>"

definition orchestrator_module :: nest_module where
  "orchestrator_module =
     \<lparr>modImports =
        [Module StateRecordingModule, Module PotModule, Module EmissionModule,
         Module ArosCoinModule, Module CommissionModule, Module NodesModule,
         Module ReserveModule, Module ReleaseModule, Module AllSeeingEyeModule,
         Module NodeChainModule],
      modControllers = [OrchestratorController, MetricsController], modProviders = [OrchestratorService],
      modExports = [OrchestratorService], modGlobal = False\<rparr>"

definition pot_module :: nest_module where
  "pot_module =
     \<lparr>modImports =
        [Module NodeChainModule, Module StateRecordingModule, ForFeature [PotVerdict]],
      modControllers = [], modProviders = [PotService],
      modExports = [PotService], modGlobal = False\<rparr>"

definition release_module :: nest_module where
  "release_module =
     \<lparr>modImports =
        [ForFeature [ReleasePhase], Module ReserveModule, Module ArosCoinModule,
         Module NodeChainModule],
      modControllers = [], modProviders = [ReleaseService],
      modExports = [ReleaseService], modGlobal = False\<rparr>"

definition reserve_module :: nest_module where
  "reserve_module =
     \<lparr>modImports =
        [Module NodeChainModule],
      modControllers = [], modProviders = [ReserveService],
      modExports = [ReserveService], modGlobal = False\<rparr>"

definition state_recording_module :: nest_module where
  "state_recording_module =
     \<lparr>modImports =
        [Module NodeChainModule],
      modControllers = [], modProviders = [StateRecordingService],
      modExports = [StateRecordingService], modGlobal = False\<rparr>"

definition app_module :: nest_module where
  "app_module =
     \<lparr>modImports =
        [Library ''ConfigModule'', Library ''EventEmitterModule'', Library ''ScheduleModule'', Library ''TypeOrmModule'',
         Module CommonModule, Module NodeChainModule, Module StateRecordingModule,
         Module PotModule, Module ArosCoinModule, Module EmissionModule,
         Module CommissionModule, Module ReserveModule, Module ReleaseModule,
         Module NodesModule, Module AllSeeingEyeModule, Module OrchestratorModule],
      modControllers = [AppController], modProviders = [], modExports = [], modGlobal = False\<rparr>"

definition modules :: "(nest_name \<times> nest_module) list" where
  "modules =
     [(AppModule, app_module), (CommonModule, common_module), (NodeChainModule, node_chain_module),
      (StateRecordingModule, state_recording_module), (PotModule, pot_module),
      (ArosCoinModule, aros_coin_module), (EmissionModule, emission_module),
      (CommissionModule, commission_module), (ReserveModule, reserve_module),
      (ReleaseModule, release_module), (NodesModule, nodes_module),
      (AllSeeingEyeModule, all_seeing_eye_module), (OrchestratorModule, orchestrator_module)]"

section \<open>Constructors\<close>

text \<open>What each class asks for, in the order of its constructor.\<close>

datatype token = Class class_name | RepositoryOf entity_name

definition new_AllSeeingEyeService :: "token list" where
  "new_AllSeeingEyeService =
     [RepositoryOf OversightLogEntry, Class ClockService, Class NodeChainService]"

definition new_ArosCoinService :: "token list" where
  "new_ArosCoinService =
     [RepositoryOf ArosCoinLedger, Class ClockService]"

definition new_CommissionService :: "token list" where
  "new_CommissionService =
     [RepositoryOf Epoch, Class NodesService, Class PotService, Class NodeChainService,
      Class ArosCoinService, Class ReserveService, Class ClockService]"

definition new_ClockService :: "token list" where
  "new_ClockService =
     []"

definition new_EmissionService :: "token list" where
  "new_EmissionService =
     [Class ArosCoinService, Class PotService, Class NodeChainService]"

definition new_NodeChainService :: "token list" where
  "new_NodeChainService =
     [RepositoryOf ExecutionSnapshot, Class ClockService]"

definition new_NodesService :: "token list" where
  "new_NodesService =
     [RepositoryOf NodeEntity, Class NodeChainService]"

definition new_MetricsController :: "token list" where
  "new_MetricsController =
     [Class OrchestratorService]"

definition new_OrchestratorController :: "token list" where
  "new_OrchestratorController =
     [Class OrchestratorService]"

definition new_OrchestratorService :: "token list" where
  "new_OrchestratorService =
     [Class StateRecordingService, Class PotService, Class EmissionService,
      Class ArosCoinService, Class CommissionService, Class NodesService, Class ReserveService,
      Class ReleaseService, Class AllSeeingEyeService, Class NodeChainService]"

definition new_PotService :: "token list" where
  "new_PotService =
     [RepositoryOf PotVerdict, Class NodeChainService, Class StateRecordingService,
      Class ClockService]"

definition new_ReleaseService :: "token list" where
  "new_ReleaseService =
     [RepositoryOf ReleasePhase, Class ReserveService, Class ArosCoinService,
      Class NodeChainService, Class ClockService]"

definition new_ReserveService :: "token list" where
  "new_ReserveService =
     [Class NodeChainService]"

definition new_StateRecordingService :: "token list" where
  "new_StateRecordingService =
     [Class NodeChainService]"

definition constructors :: "(class_name \<times> token list) list" where
  "constructors =
     [(AllSeeingEyeService, new_AllSeeingEyeService), (ArosCoinService, new_ArosCoinService),
      (CommissionService, new_CommissionService), (ClockService, new_ClockService),
      (EmissionService, new_EmissionService), (NodeChainService, new_NodeChainService),
      (NodesService, new_NodesService), (MetricsController, new_MetricsController),
      (OrchestratorController, new_OrchestratorController),
      (OrchestratorService, new_OrchestratorService), (PotService, new_PotService),
      (ReleaseService, new_ReleaseService), (ReserveService, new_ReserveService),
      (StateRecordingService, new_StateRecordingService), (AppController, [])]"

section \<open>The environment\<close>

text \<open>\<open>config\<close> is \<open>process.env\<close> with the entries of \<open>.env\<close>, as \<open>ConfigService.get\<close> reads it: text, or the default
  when the name is not set; \<open>dirname\<close> is \<open>__dirname\<close>.\<close>

definition config_get :: "(string \<rightharpoonup> string) \<Rightarrow> string \<Rightarrow> json \<Rightarrow> json" where
  "config_get config name preset = (case config name of Some v \<Rightarrow> JStr v | None \<Rightarrow> preset)"

definition dataSource :: "string \<Rightarrow> (string \<rightharpoonup> string) \<Rightarrow> object" where
  "dataSource dirname config =
     [(''type'', JStr ''postgres''),
      (''host'', config_get config ''DB_HOST'' (JStr ''localhost'')),
      (''port'', config_get config ''DB_PORT'' (jint 5432)),
      (''username'', config_get config ''DB_USERNAME'' (JStr ''aros_user'')),
      (''password'', config_get config ''DB_PASSWORD'' (JStr ''aros_password'')),
      (''database'', config_get config ''DB_DATABASE'' (JStr ''aros_ast'')),
      (''entities'', JArr [JStr (dirname @ ''/**/*.entity{.ts,.js}'')]),
      (''synchronize'', JBool (config ''NODE_ENV'' = Some ''development'')),
      (''logging'', JBool False)]"

definition listenPort :: "(string \<rightharpoonup> string) \<Rightarrow> json" where
  "listenPort config = (case config ''PORT'' of Some (c # cs) \<Rightarrow> JStr (c # cs) | _ \<Rightarrow> jint 8080)"

section \<open>Resolution\<close>

text \<open>What a module can inject: its own providers, the repositories it asked for, what the modules it imports
  export, and what the global modules export.\<close>

definition exports_of :: "nest_name \<Rightarrow> token list" where
  "exports_of name = (case map_of modules name of None \<Rightarrow> [] | Some m \<Rightarrow> map Class (modExports m))"

fun brought :: "import_item \<Rightarrow> token list" where
  "brought (Module name) = exports_of name"
| "brought (ForFeature es) = map RepositoryOf es"
| "brought (Library name) = []"

definition available :: "nest_module \<Rightarrow> token list" where
  "available m = map Class (modProviders m) @ concat (map brought (modImports m)) @
     concat (map (\<lambda>(name, g). if modGlobal g then exports_of name else []) modules)"

definition needs :: "class_name \<Rightarrow> token list" where
  "needs c = (case map_of constructors c of None \<Rightarrow> [] | Some ts \<Rightarrow> ts)"

text \<open>One round of construction: every class whose constructor asks only for repositories and classes that
  have been constructed.\<close>

definition construct :: "class_name list \<Rightarrow> class_name list" where
  "construct made = made @ filter (\<lambda>c. c \<notin> set made \<and>
     list_all (\<lambda>t. case t of RepositoryOf e \<Rightarrow> True | Class d \<Rightarrow> d \<in> set made) (needs c)) (map fst constructors)"

definition declared :: "class_name list" where
  "declared = concat (map (\<lambda>(name, m). modProviders m @ modControllers m) modules)"

definition entities :: "entity_name list" where
  "entities = concat (map (\<lambda>(name, m). concat (map (\<lambda>i. case i of ForFeature es \<Rightarrow> es | _ \<Rightarrow> []) (modImports m))) modules)"

lemmas module_defs =
  all_seeing_eye_module_def aros_coin_module_def commission_module_def common_module_def emission_module_def
  node_chain_module_def nodes_module_def orchestrator_module_def pot_module_def release_module_def
  reserve_module_def state_recording_module_def app_module_def

lemmas constructor_defs =
  new_AllSeeingEyeService_def new_ArosCoinService_def new_CommissionService_def new_ClockService_def
  new_EmissionService_def new_NodeChainService_def new_NodesService_def new_MetricsController_def
  new_OrchestratorController_def new_OrchestratorService_def new_PotService_def new_ReleaseService_def
  new_ReserveService_def new_StateRecordingService_def

lemma exports_simps [simp]:
  "exports_of AppModule = []" "exports_of CommonModule = [Class ClockService]"
  "exports_of NodeChainModule = [Class NodeChainService]"
  "exports_of StateRecordingModule = [Class StateRecordingService]" "exports_of PotModule = [Class PotService]"
  "exports_of ArosCoinModule = [Class ArosCoinService]" "exports_of EmissionModule = [Class EmissionService]"
  "exports_of CommissionModule = [Class CommissionService]" "exports_of ReserveModule = [Class ReserveService]"
  "exports_of ReleaseModule = [Class ReleaseService]" "exports_of NodesModule = [Class NodesService]"
  "exports_of AllSeeingEyeModule = [Class AllSeeingEyeService]"
  "exports_of OrchestratorModule = [Class OrchestratorService]"
  by (simp_all add: exports_of_def modules_def module_defs)

lemma needs_simps [simp]:
  "needs AllSeeingEyeService = new_AllSeeingEyeService" "needs ArosCoinService = new_ArosCoinService"
  "needs CommissionService = new_CommissionService" "needs ClockService = new_ClockService"
  "needs EmissionService = new_EmissionService" "needs NodeChainService = new_NodeChainService"
  "needs NodesService = new_NodesService" "needs MetricsController = new_MetricsController"
  "needs OrchestratorController = new_OrchestratorController"
  "needs OrchestratorService = new_OrchestratorService" "needs PotService = new_PotService"
  "needs ReleaseService = new_ReleaseService" "needs ReserveService = new_ReserveService"
  "needs StateRecordingService = new_StateRecordingService" "needs AppController = []"
  by (simp_all add: needs_def constructors_def)

lemma global_exports [simp]:
  "concat (map (\<lambda>(name, g). if modGlobal g then exports_of name else []) modules) = [Class ClockService]"
  by (simp add: modules_def) (simp add: module_defs)

lemma declared_run:
  "declared = [AppController, ClockService, NodeChainService, StateRecordingService, PotService, ArosCoinService,
     EmissionService, CommissionService, ReserveService, ReleaseService, NodesService, AllSeeingEyeService,
     OrchestratorService, OrchestratorController, MetricsController]"
  by (simp add: declared_def modules_def) (simp add: module_defs)

lemma entities_run:
  "entities = [ExecutionSnapshot, PotVerdict, ArosCoinLedger, Epoch, ReleasePhase, NodeEntity, OversightLogEntry]"
  by (simp add: entities_def modules_def) (simp add: module_defs)

text \<open>The rounds of construction, from the clock to the controllers.\<close>

abbreviation first_made :: "class_name list" where
  "first_made \<equiv> [ClockService, AppController, ArosCoinService, NodeChainService, AllSeeingEyeService, NodesService,
     ReserveService, StateRecordingService]"

lemma construct_rounds:
  "construct [] = [ClockService, AppController]"
  "construct [ClockService, AppController] = [ClockService, AppController, ArosCoinService, NodeChainService]"
  "construct [ClockService, AppController, ArosCoinService, NodeChainService] = first_made"
  "construct first_made = first_made @ [PotService, ReleaseService]"
  "construct (first_made @ [PotService, ReleaseService]) =
     first_made @ [PotService, ReleaseService, CommissionService, EmissionService]"
  "construct (first_made @ [PotService, ReleaseService, CommissionService, EmissionService]) =
     first_made @ [PotService, ReleaseService, CommissionService, EmissionService, OrchestratorService]"
  "construct (first_made @ [PotService, ReleaseService, CommissionService, EmissionService, OrchestratorService]) =
     first_made @ [PotService, ReleaseService, CommissionService, EmissionService, OrchestratorService,
       MetricsController, OrchestratorController]"
  by (simp_all add: construct_def constructors_def) (simp_all add: constructor_defs)

text \<open>C37: the application can be wired. Every constructor argument of every provider and controller is available in
  the module that declares it; every class is declared in exactly one module, so there is one instance
  of each service and of the state it keeps in memory; every table's repository is injected into exactly
  one class, so a table changes only through its own service; and no two classes need each other: rounds of
  construction make them all.\<close>

theorem wiring_resolves:
  "list_all (\<lambda>(name, m). list_all (\<lambda>c. set (needs c) \<subseteq> set (available m)) (modProviders m @ modControllers m)) modules
   \<and> distinct declared \<and> set declared = UNIV
   \<and> distinct entities \<and> list_all (\<lambda>e. length (filter (\<lambda>(c, ts). RepositoryOf e \<in> set ts) constructors) = 1) entities
   \<and> set ((construct ^^ 7) []) = UNIV"
proof (intro conjI)
  show "list_all (\<lambda>(name, m). list_all (\<lambda>c. set (needs c) \<subseteq> set (available m)) (modProviders m @ modControllers m)) modules"
    by (simp add: modules_def available_def) (simp add: module_defs constructor_defs)
  show "distinct declared" by (simp add: declared_run)
  have "c \<in> set declared" for c by (cases c) (simp_all add: declared_run)
  then show all: "set declared = UNIV" by blast
  show "distinct entities" by (simp add: entities_run)
  show "list_all (\<lambda>e. length (filter (\<lambda>(c, ts). RepositoryOf e \<in> set ts) constructors) = 1) entities"
    by (simp add: entities_run constructors_def constructor_defs)
  have "(construct ^^ 7) [] = construct (construct (construct (construct (construct (construct (construct []))))))"
    by (simp add: numeral_eq_Suc)
  then have made: "(construct ^^ 7) [] = first_made @ [PotService, ReleaseService, CommissionService, EmissionService,
      OrchestratorService, MetricsController, OrchestratorController]" by (simp only: construct_rounds)
  have "c \<in> set ((construct ^^ 7) [])" for c unfolding made by (cases c) simp_all
  then show "set ((construct ^^ 7) []) = UNIV" by blast
qed

end
