(* ===== verification/Reference.thy ===== *)
theory Reference
  imports HashChain Json "HOL-Library.AList"
begin

text \<open>
  The reference implementation of Model 1 (\<open>reference/ast-core/src\<close>), which the backend says it
  mirrors. Its classes are synchronous and keep everything in memory, so the whole program is one
  record \<open>AST\<close> and every method a step on it. A \<open>Map\<close> that is iterated is an association
  list (setting an existing key keeps its place); one that is only looked up is a map. The objects
  that \<open>Nodes.list\<close> hands out are those of the registry, so what \<open>Commission.finalizeEpoch\<close>
  writes to them is written to the registry. Names that the backend's theories use as well carry the
  suffix \<open>_ref\<close>.
\<close>

section \<open>Types\<close>

datatype NodeType = Validator | Router | Recorder

record ProcessRequest =
  reqId :: string
  reqAmount :: number
  reqType :: string
  reqAdmissible :: bool

datatype SnapshotStatus = SnapshotCreated | SnapshotConfirmed | SnapshotFinalized

record ExecutionSnapshot_ref =
  sequenceId_ref :: int
  hash_ref :: string
  prevHash_ref :: string
  validatorId_ref :: "string option"
  status_ref :: SnapshotStatus
  timestamp_ref :: int
  eventType_ref :: string
  processId_ref :: string
  data_ref :: object

datatype Status_ref = Active_ref | Penalized_ref | Disconnected_ref

record NodeEntity_ref =
  id_ref :: string
  type_ref :: NodeType
  uptime_ref :: number
  successes_ref :: nat
  total_ref :: nat
  nodeStatus_ref :: Status_ref
  reputation_ref :: number
  weight_ref :: number
  earned_ref :: number

record PoTVerdict_ref =
  verdictProcess_ref :: string
  verified_ref :: bool
  criteriaResult_ref :: "(string \<times> bool) list"
  linkedSnapshot_ref :: int
  verdictTime_ref :: int

record SupplySnapshot_ref =
  processMinted_ref :: number
  processBurned_ref :: number
  earnedRetained_ref :: number
  supplyTime_ref :: int

datatype SignalType = WarningSignal | AlertSignal | PingSignal | ScopeViolationSignal

record IntegritySignal =
  signalType :: SignalType
  signalPayload :: object
  signalTime :: int

record OversightLogEntry_ref =
  entryEventType_ref :: string
  entryLayer_ref :: string
  entryDescription_ref :: string
  entryHash_ref :: string
  entryPrevHash_ref :: string
  entryTime_ref :: int

text \<open>The fields of \<open>AST\<close>, one group for each object the class creates; \<open>minted\<close>,
  \<open>burned\<close> and \<open>earned\<close> are the private tallies of \<open>ArosCoin\<close>.\<close>

record AST =
  tick :: int
  snapshots_ref :: "ExecutionSnapshot_ref list"
  captured_ref :: "string \<rightharpoonup> string set"
  verdicts_ref :: "string \<rightharpoonup> PoTVerdict_ref"
  coinMinted :: number
  coinBurned :: number
  coinEarned :: number
  pool :: number
  contributions :: "(string \<times> number) list"
  confirmedVolume :: number
  releaseActive :: bool
  registry :: "(string \<times> NodeEntity_ref) list"
  oversightLedger :: "OversightLogEntry_ref list"
  signals :: "IntegritySignal list"

section \<open>Clock and NodeChain\<close>

definition now_ref :: "(AST, int) state" where
  "now_ref = do {
     modify (\<lambda>a. a\<lparr>tick := tick a + 1\<rparr>);
     gets tick
   }"

definition snapshotText :: "env \<Rightarrow> int \<Rightarrow> string \<Rightarrow> string \<Rightarrow> object \<Rightarrow> string" where
  "snapshotText E seqId evType pid body =
     stringify E (JObj [(''sequenceId'', jint seqId), (''eventType'', JStr evType),
                        (''processId'', JStr pid), (''data'', JObj body)])"

definition recordState ::
  "env \<Rightarrow> string \<Rightarrow> string \<Rightarrow> object \<Rightarrow> string option \<Rightarrow> (AST, ExecutionSnapshot_ref) state" where
  "recordState E evType pid body validator = do {
     snaps \<leftarrow> gets snapshots_ref;
     let seqId = int (length snaps);
     let prev = (if snaps = [] then ''GENESIS'' else hash_ref (snaps ! (length snaps - 1)));
     ts \<leftarrow> now_ref;
     let snap = \<lparr>sequenceId_ref = seqId,
                 hash_ref = sha256 E (snapshotText E seqId evType pid body @ prev @ intStr E seqId),
                 prevHash_ref = prev, validatorId_ref = validator, status_ref = SnapshotConfirmed,
                 timestamp_ref = ts, eventType_ref = evType, processId_ref = pid, data_ref = body\<rparr>;
     modify (\<lambda>a. a\<lparr>snapshots_ref := snapshots_ref a @ [snap]\<rparr>);
     return snap
   }"

definition height :: "(AST, int) state" where
  "height = gets (\<lambda>a. int (length (snapshots_ref a)))"

definition head_ref :: "(AST, ExecutionSnapshot_ref option) state" where
  "head_ref = gets (\<lambda>a. if snapshots_ref a = [] then None else Some (last (snapshots_ref a)))"

definition getSnapshots :: "(AST, ExecutionSnapshot_ref list) state" where
  "getSnapshots = gets snapshots_ref"

text \<open>The loop of \<open>reconstruct\<close>: position, digest of the snapshot before, snapshots still to check.\<close>

fun replay_ref :: "env \<Rightarrow> int \<Rightarrow> string \<Rightarrow> ExecutionSnapshot_ref list \<Rightarrow> int option" where
  "replay_ref E i prev [] = None"
| "replay_ref E i prev (s # ss) =
     (let expected = sha256 E (snapshotText E (sequenceId_ref s) (eventType_ref s) (processId_ref s) (data_ref s)
                               @ prev @ intStr E (sequenceId_ref s))
      in if prevHash_ref s \<noteq> prev \<or> hash_ref s \<noteq> expected then Some i
         else replay_ref E (i + 1) (hash_ref s) ss)"

definition reconstruct_ref :: "env \<Rightarrow> (AST, bool \<times> int option) state" where
  "reconstruct_ref E = do {
     snaps \<leftarrow> gets snapshots_ref;
     let broken = replay_ref E 0 ''GENESIS'' snaps;
     return (broken = None, broken)
   }"

section \<open>StateRecording\<close>

definition REQUIRED_BEFORE_VERDICT_ref :: "string list" where
  "REQUIRED_BEFORE_VERDICT_ref = [''initiation'', ''task_assignment'', ''stage_transition'', ''execution_complete'']"

definition capture_ref :: "env \<Rightarrow> string \<Rightarrow> string \<Rightarrow> object \<Rightarrow> string option \<Rightarrow> (AST, unit) state" where
  "capture_ref E pid evType body validator = do {
     recordState E evType pid body validator;
     modify (\<lambda>a. if captured_ref a pid = None then a\<lparr>captured_ref := (captured_ref a)(pid \<mapsto> {})\<rparr> else a);
     modify (\<lambda>a. a\<lparr>captured_ref := (captured_ref a)(pid \<mapsto> insert evType (the (captured_ref a pid)))\<rparr>)
   }"

definition capturedEvents_ref :: "string \<Rightarrow> (AST, string set) state" where
  "capturedEvents_ref pid = gets (\<lambda>a. case captured_ref a pid of Some es \<Rightarrow> es | None \<Rightarrow> {})"

definition checkCompleteness_ref :: "string \<Rightarrow> (AST, bool \<times> string list) state" where
  "checkCompleteness_ref pid = do {
     have \<leftarrow> capturedEvents_ref pid;
     let missing = filter (\<lambda>e. e \<notin> have) REQUIRED_BEFORE_VERDICT_ref;
     return (length missing = 0, missing)
   }"

section \<open>PoT\<close>

definition criteria_ref :: "ProcessRequest \<Rightarrow> string set \<Rightarrow> bool \<Rightarrow> (string \<times> bool) list" where
  "criteria_ref p seen chainOk =
     [(''admissible_context'', reqAdmissible p),
      (''full_stage_sequence'', list_all (\<lambda>e. e \<in> seen) [''initiation'', ''task_assignment'', ''stage_transition'']),
      (''states_recorded_in_nodechain'', chainOk \<and> seen \<noteq> {}),
      (''completion_per_rules'', ''execution_complete'' \<in> seen)]"

definition verify_ref ::
  "ProcessRequest \<Rightarrow> string set \<Rightarrow> bool \<Rightarrow> int \<Rightarrow> (AST, PoTVerdict_ref) state" where
  "verify_ref p seen chainOk linked = do {
     existing \<leftarrow> gets (\<lambda>a. verdicts_ref a (reqId p));
     case existing of
       Some v \<Rightarrow> return v
     | None \<Rightarrow> do {
         let criteriaResult = criteria_ref p seen chainOk;
         ts \<leftarrow> now_ref;
         let verdict = \<lparr>verdictProcess_ref = reqId p, verified_ref = list_all snd criteriaResult,
                        criteriaResult_ref = criteriaResult, linkedSnapshot_ref = linked, verdictTime_ref = ts\<rparr>;
         modify (\<lambda>a. a\<lparr>verdicts_ref := (verdicts_ref a)(reqId p \<mapsto> verdict)\<rparr>);
         return verdict
       }
   }"

definition authorizeEmission :: "string \<Rightarrow> (AST, bool) state" where
  "authorizeEmission pid = gets (\<lambda>a. case verdicts_ref a pid of Some v \<Rightarrow> verified_ref v | None \<Rightarrow> False)"

definition getVerdict_ref :: "string \<Rightarrow> (AST, PoTVerdict_ref option) state" where
  "getVerdict_ref pid = gets (\<lambda>a. verdicts_ref a pid)"

section \<open>ArosCoin and Emission\<close>

definition base_ref :: number where
  "base_ref = 1"

definition recordMint_ref :: "number \<Rightarrow> (AST, unit) state" where
  "recordMint_ref amount = modify (\<lambda>a. a\<lparr>coinMinted := coinMinted a + amount\<rparr>)"

definition recordBurn_ref :: "number \<Rightarrow> (AST, unit) state" where
  "recordBurn_ref amount = modify (\<lambda>a. a\<lparr>coinBurned := coinBurned a + amount\<rparr>)"

definition recordEarned_ref :: "number \<Rightarrow> (AST, unit) state" where
  "recordEarned_ref amount = modify (\<lambda>a. a\<lparr>coinEarned := coinEarned a + amount\<rparr>)"

definition totalSupply_ref :: "(AST, number) state" where
  "totalSupply_ref = gets (\<lambda>a. (coinMinted a - coinBurned a) + coinEarned a)"

definition processNet_ref :: "(AST, number) state" where
  "processNet_ref = gets (\<lambda>a. coinMinted a - coinBurned a)"

definition retained_ref :: "(AST, number) state" where
  "retained_ref = gets coinEarned"

definition internalPrice_ref :: "number \<Rightarrow> number" where
  "internalPrice_ref reserveIndex = base_ref * reserveIndex"

definition snapshot_ref :: "(AST, SupplySnapshot_ref) state" where
  "snapshot_ref = do {
     ts \<leftarrow> now_ref;
     gets (\<lambda>a. \<lparr>processMinted_ref = coinMinted a, processBurned_ref = coinBurned a,
                earnedRetained_ref = coinEarned a, supplyTime_ref = ts\<rparr>)
   }"

definition em_dash_ref :: string where
  "em_dash_ref = [CHR 0xE2, CHR 0x80, CHR 0x94]"

definition mint_ref :: "string \<Rightarrow> number \<Rightarrow> bool \<Rightarrow> (AST, error + number) state" where
  "mint_ref pid amount authorized =
     (if \<not> authorized
      then throw (Error (''14.1 violation: mint refused for '' @ pid @ '' '' @ em_dash_ref @ '' no PoT confirmation''))
      else do {
        recordMint_ref amount;
        return (Inr amount)
      })"

definition burn_ref :: "string \<Rightarrow> number \<Rightarrow> (AST, number) state" where
  "burn_ref pid amount = do {
     recordBurn_ref amount;
     return amount
   }"

section \<open>Nodes\<close>

definition default_uptime :: number where
  "default_uptime = lit (99 / 100)"

definition register_ref :: "string \<Rightarrow> NodeType \<Rightarrow> number \<Rightarrow> (AST, NodeEntity_ref) state" where
  "register_ref i ty up = do {
     let n = \<lparr>id_ref = i, type_ref = ty, uptime_ref = up, successes_ref = 0, total_ref = 0,
              nodeStatus_ref = Active_ref, reputation_ref = 0, weight_ref = 0, earned_ref = 0\<rparr>;
     modify (\<lambda>a. a\<lparr>registry := AList.update i n (registry a)\<rparr>);
     return n
   }"

definition worked_ref :: "bool \<Rightarrow> NodeEntity_ref \<Rightarrow> NodeEntity_ref" where
  "worked_ref success n =
     (let n1 = n\<lparr>total_ref := total_ref n + 1\<rparr>;
          n2 = (if success then n1\<lparr>successes_ref := successes_ref n1 + 1\<rparr> else n1);
          n3 = n2\<lparr>reputation_ref := (num_of_int (int (successes_ref n2)) / num_of_int (int (total_ref n2))) * uptime_ref n2\<rparr>
      in n3\<lparr>weight_ref := reputation_ref n3 * num_of_int (int (total_ref n3))\<rparr>)"

definition recordWork :: "string \<Rightarrow> bool \<Rightarrow> (AST, unit) state" where
  "recordWork i success = modify (\<lambda>a.
     case map_of (registry a) i of
       None \<Rightarrow> a
     | Some n \<Rightarrow> a\<lparr>registry := AList.update i (worked_ref success n) (registry a)\<rparr>)"

definition penalized :: "NodeEntity_ref \<Rightarrow> NodeEntity_ref" where
  "penalized n = n\<lparr>reputation_ref := reputation_ref n * lit (1 / 2), weight_ref := weight_ref n * lit (1 / 2),
                   nodeStatus_ref := Penalized_ref\<rparr>"

definition penalize :: "string \<Rightarrow> (AST, unit) state" where
  "penalize i = modify (\<lambda>a.
     case map_of (registry a) i of
       None \<Rightarrow> a
     | Some n \<Rightarrow> a\<lparr>registry := AList.update i (penalized n) (registry a)\<rparr>)"

definition listNodes_ref :: "(AST, NodeEntity_ref list) state" where
  "listNodes_ref = gets (\<lambda>a. map snd (registry a))"

definition getNode_ref :: "string \<Rightarrow> (AST, NodeEntity_ref option) state" where
  "getNode_ref i = gets (\<lambda>a. map_of (registry a) i)"

section \<open>Commission\<close>

definition feeRate_ref :: number where
  "feeRate_ref = lit (5 / 1000)"

definition marginRate_ref :: number where
  "marginRate_ref = lit (1 / 4)"

definition computeFee_ref :: "number \<Rightarrow> number \<Rightarrow> number" where
  "computeFee_ref amount overloadRate = (let fee = amount * feeRate_ref in fee * (1 + overloadRate))"

definition accrue_ref :: "string \<Rightarrow> number \<Rightarrow> (AST, unit) state" where
  "accrue_ref pid fee = do {
     modify (\<lambda>a. a\<lparr>pool := pool a + fee\<rparr>);
     modify (\<lambda>a. a\<lparr>contributions := contributions a @ [(pid, fee)]\<rparr>)
   }"

record Finalize_ref =
  distributionLog_ref :: "(string \<times> number) list"
  margin_ref :: number
  paid_ref :: number
  totalPool_ref :: number
  reconciled_ref :: bool

text \<open>The payment loop over the node objects; the objects stay those of the registry.\<close>

fun payLoop_ref ::
  "number \<Rightarrow> number \<Rightarrow> NodeEntity_ref list \<Rightarrow> number \<Rightarrow> (string \<times> number) list \<Rightarrow>
   (AST, number \<times> (string \<times> number) list) state" where
  "payLoop_ref distributable totalWeight [] paid dlog = return (paid, dlog)"
| "payLoop_ref distributable totalWeight (n # ns) paid dlog = do {
     let payment = (weight_ref n * distributable) / totalWeight;
     modify (\<lambda>a. a\<lparr>registry := AList.map_entry (id_ref n) (\<lambda>m. m\<lparr>earned_ref := earned_ref m + payment\<rparr>) (registry a)\<rparr>);
     recordEarned_ref payment;
     payLoop_ref distributable totalWeight ns (paid + payment) (dlog @ [(id_ref n, payment)])
   }"

definition finalizePool :: "NodeEntity_ref list \<Rightarrow> (AST, Finalize_ref) state" where
  "finalizePool ns = do {
     collected \<leftarrow> gets pool;
     let distributable = collected * (1 - marginRate_ref);
     let margin = collected * marginRate_ref;
     let sum = foldl (\<lambda>s n. s + weight_ref n) 0 ns;
     let totalWeight = (if sum = 0 \<or> sum = NaN then 1 else sum);
     (paid, dlog) \<leftarrow> payLoop_ref distributable totalWeight ns 0 [];
     let reconciledFlag = (abs_num ((paid + margin) - collected) < lit (1 / 10 ^ 9));
     modify (\<lambda>a. a\<lparr>pool := 0\<rparr>);
     return \<lparr>distributionLog_ref = dlog, margin_ref = margin, paid_ref = paid, totalPool_ref = collected,
             reconciled_ref = reconciledFlag\<rparr>
   }"

section \<open>Reserve and Release\<close>

definition addConfirmedVolume :: "number \<Rightarrow> (AST, unit) state" where
  "addConfirmedVolume amount = modify (\<lambda>a. a\<lparr>confirmedVolume := confirmedVolume a + amount\<rparr>)"

definition volume_ref :: "(AST, number) state" where
  "volume_ref = gets confirmedVolume"

definition reserveIndex_ref :: "env \<Rightarrow> (AST, number) state" where
  "reserveIndex_ref E = gets (\<lambda>a. log10 E (1 + confirmedVolume a))"

definition threshold_ref :: number where
  "threshold_ref = Fin 3"

definition target_ref :: number where
  "target_ref = lit (1 / 10)"

definition check_ref :: "number \<Rightarrow> number \<Rightarrow> (AST, bool \<times> bool) state" where
  "check_ref reserveIndex vel = do {
     let mature = (threshold_ref < reserveIndex \<and> target_ref < vel);
     modify (\<lambda>a. if mature then a\<lparr>releaseActive := True\<rparr> else a);
     now_active \<leftarrow> gets releaseActive;
     return (mature, now_active)
   }"

definition isActive_ref :: "(AST, bool) state" where
  "isActive_ref = gets releaseActive"

section \<open>All-Seeing Eye\<close>

definition observe :: "env \<Rightarrow> string \<Rightarrow> string \<Rightarrow> string \<Rightarrow> (AST, unit) state" where
  "observe E lay evType descr = do {
     es \<leftarrow> gets oversightLedger;
     let prev = (if es = [] then ''GENESIS'' else entryHash_ref (last es));
     ts \<leftarrow> now_ref;
     let digest = sha256 E (lay @ evType @ descr @ prev @ intStr E ts);
     modify (\<lambda>a. a\<lparr>oversightLedger := oversightLedger a @
       [\<lparr>entryEventType_ref = evType, entryLayer_ref = lay, entryDescription_ref = descr,
         entryHash_ref = digest, entryPrevHash_ref = prev, entryTime_ref = ts\<rparr>]\<rparr>)
   }"

fun signalName :: "SignalType \<Rightarrow> string" where
  "signalName WarningSignal = ''warning''"
| "signalName AlertSignal = ''alert''"
| "signalName PingSignal = ''ping''"
| "signalName ScopeViolationSignal = ''scope_violation''"

definition emit_ref :: "env \<Rightarrow> SignalType \<Rightarrow> object \<Rightarrow> (AST, unit) state" where
  "emit_ref E ty body = do {
     ts \<leftarrow> now_ref;
     modify (\<lambda>a. a\<lparr>signals := signals a @ [\<lparr>signalType = ty, signalPayload = body, signalTime = ts\<rparr>]\<rparr>);
     observe E ''supervisory'' ''integrity_signal'' (signalName ty @ '':'' @ stringify E (JObj body))
   }"

definition compareSupply_ref :: "env \<Rightarrow> SupplySnapshot_ref \<Rightarrow> (AST, unit) state" where
  "compareSupply_ref E s = do {
     (if processMinted_ref s < processBurned_ref s
      then emit_ref E AlertSignal [(''pattern'', JStr ''TOK-202''), (''desc'', JStr ''supply drift: burned > minted'')]
      else return ());
     (if earnedRetained_ref s < 0
      then emit_ref E AlertSignal [(''pattern'', JStr ''TOK-203''), (''desc'', JStr ''negative earned'')]
      else return ())
   }"

definition ledger_ref :: "(AST, OversightLogEntry_ref list) state" where
  "ledger_ref = gets oversightLedger"

definition getSignals :: "(AST, IntegritySignal list) state" where
  "getSignals = gets signals"

section \<open>Orchestrator\<close>

text \<open>\<open>Number.prototype.toFixed\<close>: the integer nearest to the value times a power of ten, the
  larger one of two, written with the point put back.\<close>

definition fixed_point :: "nat \<Rightarrow> nat \<Rightarrow> string" where
  "fixed_point f n =
     (let m = decimal n; m' = replicate (f + 1 - length m) (CHR ''0'') @ m; k = length m'
      in if f = 0 then m else take (k - f) m' @ ''.'' @ drop (k - f) m')"

definition toFixed :: "env \<Rightarrow> nat \<Rightarrow> number \<Rightarrow> string" where
  "toFixed E f x =
     (case x of
        Fin r \<Rightarrow> if \<bar>r\<bar> < 10 ^ 21
                 then (if r < 0 then ''-'' else []) @ fixed_point f (nat \<lfloor>\<bar>r\<bar> * 10 ^ f + 1 / 2\<rfloor>)
                 else numStr E x
      | _ \<Rightarrow> numStr E x)"

definition emptyAST :: AST where
  "emptyAST = \<lparr>tick = 1700000000000, snapshots_ref = [], captured_ref = Map.empty, verdicts_ref = Map.empty,
     coinMinted = 0, coinBurned = 0, coinEarned = 0, pool = 0, contributions = [], confirmedVolume = 0,
     releaseActive = False, registry = [], oversightLedger = [], signals = []\<rparr>"

definition newAST :: AST where
  "newAST = exec (do {
     register_ref ''node-1'' Validator default_uptime;
     register_ref ''node-2'' Router default_uptime;
     register_ref ''node-3'' Recorder default_uptime
   }) emptyAST"

record RunResult_ref =
  runProcess_id_ref :: string
  runVerified_ref :: bool
  runReason_ref :: "string option"
  runMinted_ref :: "number option"
  runFee_ref :: "number option"

definition boolText :: "bool \<Rightarrow> string" where
  "boolText b = (if b then ''true'' else ''false'')"

fun workLoop_ref :: "string list \<Rightarrow> (AST, unit) state" where
  "workLoop_ref [] = return ()"
| "workLoop_ref (i # is) = do {
     recordWork i True;
     workLoop_ref is
   }"

definition settle_ref :: "env \<Rightarrow> ProcessRequest \<Rightarrow> (AST, error + RunResult_ref) state" where
  "settle_ref E req = do {
     authorized \<leftarrow> authorizeEmission (reqId req);
     tryM (mint_ref (reqId req) (reqAmount req) authorized) (\<lambda>minted. do {
       capture_ref E (reqId req) ''emission'' [(''minted'', JNum minted)] None;
       observe E ''token_management'' ''mint'' (''minted '' @ numStr E minted @ '' for '' @ reqId req);
       let fee = computeFee_ref (reqAmount req) 0;
       accrue_ref (reqId req) fee;
       addConfirmedVolume (reqAmount req);
       burn_ref (reqId req) minted;
       capture_ref E (reqId req) ''emission_burn'' [(''burned'', JNum minted)] None;
       observe E ''token_management'' ''burn'' (''burned '' @ numStr E minted @ '' for '' @ reqId req);
       capture_ref E (reqId req) ''final_status'' [(''status'', JStr ''done'')] None;
       observe E ''ledger_anchoring'' ''final_status'' (''process '' @ reqId req @ '' finalized'');
       view \<leftarrow> snapshot_ref;
       compareSupply_ref E view;
       return (Inr \<lparr>runProcess_id_ref = reqId req, runVerified_ref = True, runReason_ref = None,
                    runMinted_ref = Some minted, runFee_ref = Some fee\<rparr>)
     })
   }"

definition runProcess_ref :: "env \<Rightarrow> ProcessRequest \<Rightarrow> (AST, error + RunResult_ref) state" where
  "runProcess_ref E req = do {
     capture_ref E (reqId req) ''initiation'' [(''amount'', JNum (reqAmount req))] None;
     observe E ''processing'' ''initiation''
       (''process '' @ reqId req @ '' initiated (amount '' @ numStr E (reqAmount req) @ '')'');
     if \<not> reqAdmissible req then do {
       observe E ''processing'' ''anomaly_detected''
         (''process '' @ reqId req @ '' inadmissible '' @ em_dash_ref @ '' rejected'');
       return (Inr \<lparr>runProcess_id_ref = reqId req, runVerified_ref = False, runReason_ref = Some ''inadmissible'',
                    runMinted_ref = None, runFee_ref = None\<rparr>)
     } else do {
       ns \<leftarrow> listNodes_ref;
       let assigned = filter (\<lambda>n. nodeStatus_ref n = Active_ref) ns;
       capture_ref E (reqId req) ''task_assignment'' [(''nodes'', JArr (map (\<lambda>n. JStr (id_ref n)) assigned))] None;
       observe E ''processing'' ''task_assignment'' (''assigned to '' @ intStr E (int (length assigned)) @ '' nodes'');
       capture_ref E (reqId req) ''stage_transition'' [(''stage'', JStr ''execute'')] None;
       capture_ref E (reqId req) ''execution_complete'' [] None;
       workLoop_ref (map id_ref assigned);
       chain \<leftarrow> reconstruct_ref E;
       seen \<leftarrow> capturedEvents_ref (reqId req);
       h \<leftarrow> height;
       verdict \<leftarrow> verify_ref req seen (fst chain) (h - 1);
       capture_ref E (reqId req) ''pot_verdict'' [(''verified'', JBool (verified_ref verdict))] None;
       observe E ''processing'' ''pot_verdict''
         (''process '' @ reqId req @ '' verified='' @ boolText (verified_ref verdict));
       if \<not> verified_ref verdict
       then return (Inr \<lparr>runProcess_id_ref = reqId req, runVerified_ref = False, runReason_ref = Some ''unverified'',
                         runMinted_ref = None, runFee_ref = None\<rparr>)
       else settle_ref E req
     }
   }"

definition finalizeEpoch_ref :: "env \<Rightarrow> (AST, Finalize_ref) state" where
  "finalizeEpoch_ref E = do {
     ns \<leftarrow> listNodes_ref;
     res \<leftarrow> finalizePool ns;
     observe E ''token_management'' ''commission_distribution''
       (''epoch: paid '' @ toFixed E 4 (paid_ref res) @ '', margin '' @ toFixed E 4 (margin_ref res) @
        '', reconciled='' @ boolText (reconciled_ref res));
     view \<leftarrow> snapshot_ref;
     compareSupply_ref E view;
     return res
   }"

record Metrics_ref =
  reserveIndexOf_ref :: number
  velocityOf_ref :: number
  internalPriceOf_ref :: number
  supplyOf_ref :: number
  retainedOf_ref :: number
  releaseOf_ref :: "bool \<times> bool"

definition metrics_ref :: "env \<Rightarrow> (AST, Metrics_ref) state" where
  "metrics_ref E = do {
     index \<leftarrow> reserveIndex_ref E;
     supply \<leftarrow> totalSupply_ref;
     earned \<leftarrow> retained_ref;
     vol \<leftarrow> volume_ref;
     let vel = (if 0 < earned then vol / earned else 0);
     release \<leftarrow> check_ref index vel;
     return \<lparr>reserveIndexOf_ref = index, velocityOf_ref = vel, internalPriceOf_ref = internalPrice_ref index,
             supplyOf_ref = supply, retainedOf_ref = earned, releaseOf_ref = release\<rparr>
   }"

section \<open>What each step leaves alone\<close>

text \<open>The chain of the reference is a hash-linked log of the same kind as the backend's.\<close>

definition intact_ref :: "env \<Rightarrow> AST \<Rightarrow> bool" where
  "intact_ref E a \<longleftrightarrow> replay_ref E 0 ''GENESIS'' (snapshots_ref a) = None"

definition events_ref :: "AST \<Rightarrow> string \<Rightarrow> string set" where
  "events_ref a p = (case captured_ref a p of Some es \<Rightarrow> es | None \<Rightarrow> {})"

definition refText :: "env \<Rightarrow> ExecutionSnapshot_ref \<Rightarrow> string" where
  "refText E s = snapshotText E (sequenceId_ref s) (eventType_ref s) (processId_ref s) (data_ref s)"

definition refDigested :: "env \<Rightarrow> ExecutionSnapshot_ref \<Rightarrow> string \<Rightarrow> string" where
  "refDigested E s p = refText E s @ p @ intStr E (sequenceId_ref s)"

lemma replay_ref_shift: "replay_ref E i p ss = None \<longleftrightarrow> replay_ref E j p ss = None"
  by (induction ss arbitrary: i j p) (auto simp: Let_def)

interpretation rc: hash_chain "sha256 E" "refDigested E" prevHash_ref hash_ref
  "\<lambda>_. 0" sequenceId_ref "refText E" "\<lambda>g ss. map_option (\<lambda>_. 0) (replay_ref E 0 g ss)" for E
proof (unfold_locales, goal_cases)
  case (2 g r rs)
  then show ?case using replay_ref_shift [of E 1 "hash_ref r" rs 0]
    by (auto simp: Let_def refText_def refDigested_def)
qed (simp_all add: refDigested_def)

lemma intact_ref_update [simp]:
  "intact_ref E (a\<lparr>coinMinted := x\<rparr>) = intact_ref E a" "intact_ref E (a\<lparr>coinBurned := x\<rparr>) = intact_ref E a"
  "intact_ref E (a\<lparr>coinEarned := x\<rparr>) = intact_ref E a" "intact_ref E (a\<lparr>pool := x\<rparr>) = intact_ref E a"
  "intact_ref E (a\<lparr>contributions := cs\<rparr>) = intact_ref E a" "intact_ref E (a\<lparr>confirmedVolume := x\<rparr>) = intact_ref E a"
  "intact_ref E (a\<lparr>verdicts_ref := vs\<rparr>) = intact_ref E a" "intact_ref E (a\<lparr>registry := r\<rparr>) = intact_ref E a"
  "intact_ref E (a\<lparr>captured_ref := c\<rparr>) = intact_ref E a" "intact_ref E (a\<lparr>tick := k\<rparr>) = intact_ref E a"
  by (simp_all add: intact_ref_def)

lemma recordState_frame [simp]:
  "captured_ref (exec (recordState E e p d v) a) = captured_ref a"
  "verdicts_ref (exec (recordState E e p d v) a) = verdicts_ref a"
  "coinMinted (exec (recordState E e p d v) a) = coinMinted a" "coinBurned (exec (recordState E e p d v) a) = coinBurned a"
  "coinEarned (exec (recordState E e p d v) a) = coinEarned a" "pool (exec (recordState E e p d v) a) = pool a"
  "confirmedVolume (exec (recordState E e p d v) a) = confirmedVolume a"
  "registry (exec (recordState E e p d v) a) = registry a" "releaseActive (exec (recordState E e p d v) a) = releaseActive a"
  by (simp_all add: recordState_def now_ref_def Let_def)

lemma recordState_intact [simp]: "intact_ref E (exec (recordState E e p d v) a) \<longleftrightarrow> intact_ref E a"
  using rc.check_snoc [of E "''GENESIS''" "snapshots_ref a"
      "result (recordState E e p d v) a"]
  by (auto simp: intact_ref_def recordState_def now_ref_def Let_def refText_def refDigested_def head_hash_def last_conv_nth)

lemma capture_ref_frame [simp]:
  "verdicts_ref (exec (capture_ref E p e d v) a) = verdicts_ref a"
  "coinMinted (exec (capture_ref E p e d v) a) = coinMinted a" "coinBurned (exec (capture_ref E p e d v) a) = coinBurned a"
  "coinEarned (exec (capture_ref E p e d v) a) = coinEarned a" "pool (exec (capture_ref E p e d v) a) = pool a"
  "confirmedVolume (exec (capture_ref E p e d v) a) = confirmedVolume a"
  "registry (exec (capture_ref E p e d v) a) = registry a" "releaseActive (exec (capture_ref E p e d v) a) = releaseActive a"
  by (simp_all add: capture_ref_def)

lemma capture_ref_run [simp]:
  "intact_ref E (exec (capture_ref E p e d v) a) \<longleftrightarrow> intact_ref E a"
  "events_ref (exec (capture_ref E p e d v) a) q = (if q = p then insert e (events_ref a p) else events_ref a q)"
  using recordState_intact [of E e p d v a]
  by (auto simp: capture_ref_def events_ref_def intact_ref_def split: option.splits)

lemma observe_frame [simp]:
  "snapshots_ref (exec (observe E l e d) a) = snapshots_ref a" "captured_ref (exec (observe E l e d) a) = captured_ref a"
  "verdicts_ref (exec (observe E l e d) a) = verdicts_ref a"
  "coinMinted (exec (observe E l e d) a) = coinMinted a" "coinBurned (exec (observe E l e d) a) = coinBurned a"
  "coinEarned (exec (observe E l e d) a) = coinEarned a" "pool (exec (observe E l e d) a) = pool a"
  "confirmedVolume (exec (observe E l e d) a) = confirmedVolume a" "registry (exec (observe E l e d) a) = registry a"
  "releaseActive (exec (observe E l e d) a) = releaseActive a"
  by (simp_all add: observe_def now_ref_def Let_def)

lemma compareSupply_ref_frame [simp]:
  "snapshots_ref (exec (compareSupply_ref E v) a) = snapshots_ref a" "captured_ref (exec (compareSupply_ref E v) a) = captured_ref a"
  "verdicts_ref (exec (compareSupply_ref E v) a) = verdicts_ref a"
  "coinMinted (exec (compareSupply_ref E v) a) = coinMinted a" "coinBurned (exec (compareSupply_ref E v) a) = coinBurned a"
  "coinEarned (exec (compareSupply_ref E v) a) = coinEarned a" "pool (exec (compareSupply_ref E v) a) = pool a"
  "confirmedVolume (exec (compareSupply_ref E v) a) = confirmedVolume a" "registry (exec (compareSupply_ref E v) a) = registry a"
  by (simp_all add: compareSupply_ref_def emit_ref_def now_ref_def)

lemma snapshot_ref_frame [simp]:
  "snapshots_ref (exec snapshot_ref a) = snapshots_ref a" "captured_ref (exec snapshot_ref a) = captured_ref a"
  "verdicts_ref (exec snapshot_ref a) = verdicts_ref a"
  "coinMinted (exec snapshot_ref a) = coinMinted a" "coinBurned (exec snapshot_ref a) = coinBurned a"
  "coinEarned (exec snapshot_ref a) = coinEarned a" "pool (exec snapshot_ref a) = pool a"
  "confirmedVolume (exec snapshot_ref a) = confirmedVolume a" "registry (exec snapshot_ref a) = registry a"
  by (simp_all add: snapshot_ref_def now_ref_def)

lemma observers_keep [simp]:
  "intact_ref E (exec (observe E' l e d) a) \<longleftrightarrow> intact_ref E a" "events_ref (exec (observe E' l e d) a) = events_ref a"
  "intact_ref E (exec (compareSupply_ref E' v) a) \<longleftrightarrow> intact_ref E a" "intact_ref E (exec snapshot_ref a) \<longleftrightarrow> intact_ref E a"
  by (simp_all add: intact_ref_def events_ref_def fun_eq_iff)

lemma workLoop_ref_frame [simp]:
  "snapshots_ref (exec (workLoop_ref is) a) = snapshots_ref a" "captured_ref (exec (workLoop_ref is) a) = captured_ref a"
  "verdicts_ref (exec (workLoop_ref is) a) = verdicts_ref a"
  "coinMinted (exec (workLoop_ref is) a) = coinMinted a" "coinBurned (exec (workLoop_ref is) a) = coinBurned a"
  "coinEarned (exec (workLoop_ref is) a) = coinEarned a" "pool (exec (workLoop_ref is) a) = pool a"
  "confirmedVolume (exec (workLoop_ref is) a) = confirmedVolume a"
  by (induction "is" arbitrary: a) (simp_all add: recordWork_def split: option.splits)

lemma workLoop_ref_registry:
  "map_of (registry (exec (workLoop_ref is) a)) j =
     map_option (worked_ref True ^^ count_list is j) (map_of (registry a) j)"
  "map fst (registry (exec (workLoop_ref is) a)) = map fst (registry a)"
proof (induction "is" arbitrary: a)
  case (Cons i "is")
  { case 1 show ?case using Cons(1)
      by (auto simp: recordWork_def update_conv' funpow_Suc_right option.map_comp comp_def simp del: funpow.simps
          split: option.splits) }
  { case 2 show ?case using Cons(2)
      by (auto simp: recordWork_def update_keys map_of_eq_None_iff [symmetric] split: option.splits) }
qed (simp_all add: option.map_id)

section \<open>Runs\<close>

definition verdict_due :: "AST \<Rightarrow> string \<Rightarrow> bool" where
  "verdict_due a p \<longleftrightarrow> (case verdicts_ref a p of None \<Rightarrow> True | Some v \<Rightarrow> verified_ref v)"

lemma inadmissible_ref:
  fixes E :: env and a :: AST
  assumes "\<not> reqAdmissible req"
  defines "t \<equiv> exec (runProcess_ref E req) a"
  shows "result (runProcess_ref E req) a =
      Inr \<lparr>runProcess_id_ref = reqId req, runVerified_ref = False, runReason_ref = Some ''inadmissible'',
           runMinted_ref = None, runFee_ref = None\<rparr>"
    "coinMinted t = coinMinted a" "coinBurned t = coinBurned a" "coinEarned t = coinEarned a" "pool t = pool a"
    "confirmedVolume t = confirmedVolume a" "registry t = registry a" "verdicts_ref t = verdicts_ref a"
    "intact_ref E t \<longleftrightarrow> intact_ref E a"
  using assms(1) by (simp_all add: t_def runProcess_ref_def)

lemma verify_ref_settles:
  fixes a :: AST and k :: int
  assumes "verdict_due a (reqId req)" "reqAdmissible req" "set REQUIRED_BEFORE_VERDICT_ref \<subseteq> seen"
  defines "t \<equiv> exec (verify_ref req seen True k) a"
  shows "verified_ref (result (verify_ref req seen True k) a)"
    "\<exists>v. verified_ref v \<and> verdicts_ref t = (verdicts_ref a)(reqId req \<mapsto> v)"
    "coinMinted t = coinMinted a" "coinBurned t = coinBurned a" "coinEarned t = coinEarned a" "pool t = pool a"
    "confirmedVolume t = confirmedVolume a" "registry t = registry a" "intact_ref E t \<longleftrightarrow> intact_ref E a"
proof -
  have "list_all snd (criteria_ref req seen True)"
    using assms(2,3) by (auto simp: criteria_ref_def REQUIRED_BEFORE_VERDICT_ref_def)
  then show "verified_ref (result (verify_ref req seen True k) a)"
    "\<exists>v. verified_ref v \<and> verdicts_ref t = (verdicts_ref a)(reqId req \<mapsto> v)"
    using assms(1) by (auto simp: t_def verify_ref_def verdict_due_def Let_def now_ref_def fun_upd_idem intro!: exI
        split: option.splits)
qed (auto simp: t_def verify_ref_def Let_def now_ref_def split: option.splits)

lemma settle_ref_run:
  fixes E :: env and a :: AST
  assumes "verdicts_ref a (reqId req) = Some v" "verified_ref v"
  defines "t \<equiv> exec (settle_ref E req) a"
  shows "result (settle_ref E req) a =
      Inr \<lparr>runProcess_id_ref = reqId req, runVerified_ref = True, runReason_ref = None,
           runMinted_ref = Some (reqAmount req), runFee_ref = Some (computeFee_ref (reqAmount req) 0)\<rparr>"
    "coinMinted t = coinMinted a + reqAmount req" "coinBurned t = coinBurned a + reqAmount req"
    "coinEarned t = coinEarned a" "pool t = pool a + computeFee_ref (reqAmount req) 0"
    "confirmedVolume t = confirmedVolume a + reqAmount req" "registry t = registry a"
    "verdicts_ref t = verdicts_ref a" "intact_ref E t \<longleftrightarrow> intact_ref E a"
  using assms(1,2)
  by (simp_all add: t_def settle_ref_def authorizeEmission_def mint_ref_def recordMint_ref_def tryM_simps burn_ref_def
      recordBurn_ref_def accrue_ref_def addConfirmedVolume_def Let_def)

text \<open>The part of an admitted run before the verdict.\<close>

definition admit_ref :: "env \<Rightarrow> ProcessRequest \<Rightarrow> string list \<Rightarrow> (AST, unit) state" where
  "admit_ref E req ids = do {
     capture_ref E (reqId req) ''initiation'' [(''amount'', JNum (reqAmount req))] None;
     observe E ''processing'' ''initiation''
       (''process '' @ reqId req @ '' initiated (amount '' @ numStr E (reqAmount req) @ '')'');
     capture_ref E (reqId req) ''task_assignment'' [(''nodes'', JArr (map JStr ids))] None;
     observe E ''processing'' ''task_assignment'' (''assigned to '' @ intStr E (int (length ids)) @ '' nodes'');
     capture_ref E (reqId req) ''stage_transition'' [(''stage'', JStr ''execute'')] None;
     capture_ref E (reqId req) ''execution_complete'' [] None;
     workLoop_ref ids
   }"

lemma workLoop_ref_keep [simp]:
  "intact_ref E (exec (workLoop_ref is) a) \<longleftrightarrow> intact_ref E a" "events_ref (exec (workLoop_ref is) a) = events_ref a"
  by (simp_all add: intact_ref_def events_ref_def fun_eq_iff)

lemma admit_ref_run:
  "intact_ref E (exec (admit_ref E req ids) a) \<longleftrightarrow> intact_ref E a"
  "verdicts_ref (exec (admit_ref E req ids) a) = verdicts_ref a"
  "coinMinted (exec (admit_ref E req ids) a) = coinMinted a" "coinBurned (exec (admit_ref E req ids) a) = coinBurned a"
  "coinEarned (exec (admit_ref E req ids) a) = coinEarned a" "pool (exec (admit_ref E req ids) a) = pool a"
  "confirmedVolume (exec (admit_ref E req ids) a) = confirmedVolume a"
  "set REQUIRED_BEFORE_VERDICT_ref \<subseteq> events_ref (exec (admit_ref E req ids) a) (reqId req)"
  "map_of (registry (exec (admit_ref E req ids) a)) j =
     map_option (worked_ref True ^^ count_list ids j) (map_of (registry a) j)"
  "map fst (registry (exec (admit_ref E req ids) a)) = map fst (registry a)"
  by (simp_all add: admit_ref_def workLoop_ref_registry REQUIRED_BEFORE_VERDICT_ref_def)

definition active_ids_ref :: "AST \<Rightarrow> string list" where
  "active_ids_ref a = map id_ref (filter (\<lambda>n. nodeStatus_ref n = Active_ref) (map snd (registry a)))"

lemma runProcess_ref_segments:
  fixes E :: env and a :: AST
  assumes "reqAdmissible req" "intact_ref E a" "verdict_due a (reqId req)"
  defines "u \<equiv> exec (admit_ref E req (active_ids_ref a)) a"
  obtains k where "exec (runProcess_ref E req) a = exec (settle_ref E req)
      (exec (observe E ''processing'' ''pot_verdict'' (''process '' @ reqId req @ '' verified='' @ boolText True))
        (exec (capture_ref E (reqId req) ''pot_verdict'' [(''verified'', JBool True)] None)
          (exec (verify_ref req (events_ref u (reqId req)) True k) u)))"
    "result (runProcess_ref E req) a = result (settle_ref E req)
      (exec (observe E ''processing'' ''pot_verdict'' (''process '' @ reqId req @ '' verified='' @ boolText True))
        (exec (capture_ref E (reqId req) ''pot_verdict'' [(''verified'', JBool True)] None)
          (exec (verify_ref req (events_ref u (reqId req)) True k) u)))"
proof -
  have u: "intact_ref E u" "verdict_due u (reqId req)" "set REQUIRED_BEFORE_VERDICT_ref \<subseteq> events_ref u (reqId req)"
    using assms(2,3) by (simp_all add: u_def admit_ref_run verdict_due_def)
  note v = verify_ref_settles(1) [OF u(2) assms(1) u(3)]
  have ok: "fst (result (reconstruct_ref E) u)" "exec (reconstruct_ref E) u = u"
    using u(1) by (simp_all add: reconstruct_ref_def intact_ref_def Let_def)
  have seen: "result (capturedEvents_ref (reqId req)) u = events_ref u (reqId req)" "exec (capturedEvents_ref (reqId req)) u = u"
    by (simp_all add: capturedEvents_ref_def events_ref_def)
  have m: "map (\<lambda>n. JStr (id_ref n)) ns = map JStr (map id_ref ns)" for ns by simp
  have run: "run_state (runProcess_ref E req) a = run_state (do {
      chain \<leftarrow> reconstruct_ref E;
      seen \<leftarrow> capturedEvents_ref (reqId req);
      h \<leftarrow> height;
      verdict \<leftarrow> verify_ref req seen (fst chain) (h - 1);
      capture_ref E (reqId req) ''pot_verdict'' [(''verified'', JBool (verified_ref verdict))] None;
      observe E ''processing'' ''pot_verdict'' (''process '' @ reqId req @ '' verified='' @ boolText (verified_ref verdict));
      if \<not> verified_ref verdict
      then return (Inr \<lparr>runProcess_id_ref = reqId req, runVerified_ref = False, runReason_ref = Some ''unverified'',
                         runMinted_ref = None, runFee_ref = None\<rparr>)
      else settle_ref E req }) u"
    using assms(1) unfolding run_state_eq
    by (simp add: runProcess_ref_def u_def admit_ref_def active_ids_ref_def listNodes_ref_def Let_def comp_def)
  show ?thesis
    by (rule that [of "result height u - 1"])
      (use run ok seen v in \<open>simp_all add: run_state_eq height_def\<close>)
qed

lemma verified_ref_run:
  fixes E :: env and a :: AST
  assumes "reqAdmissible req" "intact_ref E a" "verdict_due a (reqId req)"
  defines "t \<equiv> exec (runProcess_ref E req) a"
  shows "result (runProcess_ref E req) a =
      Inr \<lparr>runProcess_id_ref = reqId req, runVerified_ref = True, runReason_ref = None,
           runMinted_ref = Some (reqAmount req), runFee_ref = Some (computeFee_ref (reqAmount req) 0)\<rparr>"
    "coinMinted t = coinMinted a + reqAmount req" "coinBurned t = coinBurned a + reqAmount req"
    "coinEarned t = coinEarned a" "pool t = pool a + computeFee_ref (reqAmount req) 0"
    "confirmedVolume t = confirmedVolume a + reqAmount req"
    "map_of (registry t) j = map_option (worked_ref True ^^ count_list (active_ids_ref a) j) (map_of (registry a) j)"
    "map fst (registry t) = map fst (registry a)"
    "\<exists>v. verified_ref v \<and> verdicts_ref t = (verdicts_ref a)(reqId req \<mapsto> v)" "intact_ref E t"
proof -
  let ?u = "exec (admit_ref E req (active_ids_ref a)) a"
  obtain k where seg: "exec (runProcess_ref E req) a = exec (settle_ref E req)
      (exec (observe E ''processing'' ''pot_verdict'' (''process '' @ reqId req @ '' verified='' @ boolText True))
        (exec (capture_ref E (reqId req) ''pot_verdict'' [(''verified'', JBool True)] None)
          (exec (verify_ref req (events_ref ?u (reqId req)) True k) ?u)))"
    "result (runProcess_ref E req) a = result (settle_ref E req)
      (exec (observe E ''processing'' ''pot_verdict'' (''process '' @ reqId req @ '' verified='' @ boolText True))
        (exec (capture_ref E (reqId req) ''pot_verdict'' [(''verified'', JBool True)] None)
          (exec (verify_ref req (events_ref ?u (reqId req)) True k) ?u)))"
    by (rule runProcess_ref_segments [OF assms(1-3)])
  have due: "verdict_due ?u (reqId req)" using assms(3) by (simp add: admit_ref_run verdict_due_def)
  note w = verify_ref_settles [OF due assms(1) admit_ref_run(8), where k = k]
  obtain v where v: "verified_ref v"
    "verdicts_ref (exec (verify_ref req (events_ref ?u (reqId req)) True k) ?u) = (verdicts_ref ?u)(reqId req \<mapsto> v)"
    using w(2) by blast
  define x where "x = exec (observe E ''processing'' ''pot_verdict'' (''process '' @ reqId req @ '' verified='' @ boolText True))
        (exec (capture_ref E (reqId req) ''pot_verdict'' [(''verified'', JBool True)] None)
          (exec (verify_ref req (events_ref ?u (reqId req)) True k) ?u))"
  have x: "verdicts_ref x (reqId req) = Some v" "verdicts_ref x = (verdicts_ref a)(reqId req \<mapsto> v)"
    using v by (simp_all add: x_def admit_ref_run)
  note r = settle_ref_run [OF x(1) v(1), where E = E]
  show "result (runProcess_ref E req) a =
      Inr \<lparr>runProcess_id_ref = reqId req, runVerified_ref = True, runReason_ref = None,
           runMinted_ref = Some (reqAmount req), runFee_ref = Some (computeFee_ref (reqAmount req) 0)\<rparr>"
    unfolding seg(2) x_def [symmetric] by (rule r(1))
  show "coinMinted t = coinMinted a + reqAmount req" "coinBurned t = coinBurned a + reqAmount req"
    "coinEarned t = coinEarned a" "pool t = pool a + computeFee_ref (reqAmount req) 0"
    "confirmedVolume t = confirmedVolume a + reqAmount req"
    "map_of (registry t) j = map_option (worked_ref True ^^ count_list (active_ids_ref a) j) (map_of (registry a) j)"
    "map fst (registry t) = map fst (registry a)" "intact_ref E t"
    unfolding t_def seg(1) x_def [symmetric] r(2-7,9)
    using assms(2) by (simp_all add: x_def w(3-9) admit_ref_run)
  show "\<exists>v. verified_ref v \<and> verdicts_ref t = (verdicts_ref a)(reqId req \<mapsto> v)"
    unfolding t_def seg(1) x_def [symmetric] r(8) x(2) using v(1) by blast
qed

section \<open>What the reference chain covers\<close>

lemma snapshotText_event: "snapshotText E i e p d = snapshotText E i e' p d \<longleftrightarrow> e = e'"
  by (simp add: snapshotText_def quote_inj)

text \<open>The reference digests the event type of a snapshot. Renaming the event of any snapshot but the
  last one of an intact chain, whatever digest the changed snapshot is given, makes
  \<open>reconstruct\<close> report a break, unless the two texts digested for the snapshot collide under
  SHA-256. The backend's chain has no such property.\<close>

lemma reference_covers_event_type:
  assumes "replay_ref E 0 ''GENESIS'' (xs @ r # y # ys) = None"
    and "sequenceId_ref r' = sequenceId_ref r" "processId_ref r' = processId_ref r" "data_ref r' = data_ref r"
    and "eventType_ref r' \<noteq> eventType_ref r" "snapshots_ref a = xs @ r' # y # ys"
  shows "\<not> fst (result (reconstruct_ref E) a) \<or>
    clash (sha256 E) [refDigested E r' (head_hash hash_ref ''GENESIS'' xs)] [refDigested E r (head_hash hash_ref ''GENESIS'' xs)]"
proof -
  have "refText E r' \<noteq> refText E r" using assms(2-5) by (simp add: refText_def snapshotText_event)
  then show ?thesis
    using rc.tamper_detected [of E "''GENESIS''" xs r y ys r'] assms(1,2,6)
    by (auto simp: reconstruct_ref_def Let_def)
qed

definition ref_snap :: "string \<Rightarrow> int \<Rightarrow> string \<Rightarrow> ExecutionSnapshot_ref" where
  "ref_snap e i prev = \<lparr>sequenceId_ref = i, hash_ref = snapshotText plain_env i e ''p'' [] @ prev @ intStr plain_env i,
     prevHash_ref = prev, validatorId_ref = None, status_ref = SnapshotConfirmed, timestamp_ref = i,
     eventType_ref = e, processId_ref = ''p'', data_ref = []\<rparr>"

end
