(* ===== verification/Mirror.thy ===== *)
theory Mirror
  imports System Reference
begin

text \<open>
  The backend against the reference it was ported from. \<open>mirrors\<close> relates a state of the backend
  to a state of the reference: the tallies, the fee pool of the default epoch, the confirmed volume,
  which processes have a verdict and how often every node worked. Requests that leave the
  assignment and the epoch to the orchestrator keep the two related and are answered alike, so the
  backend implements the reference on them, whatever the order and repetition of the requests.
  What the port changed (weights, the margin of an epoch, the recorded event kinds, hashing) is
  outside the relation.
\<close>

definition request_of :: "RunProcessDto \<Rightarrow> ProcessRequest" where
  "request_of dto = \<lparr>reqId = dtoProcessId dto, reqAmount = dtoAmount dto, reqType = dtoType dto,
                     reqAdmissible = dtoAdmissible dto\<rparr>"

definition plain_request :: "RunProcessDto \<Rightarrow> bool" where
  "plain_request dto \<longleftrightarrow> is_finite (dtoAmount dto) \<and> dtoNodeIds dto = None \<and> dtoEpoch dto \<in> {None, Some DEFAULT_EPOCH}"

definition pool_of :: "database \<Rightarrow> 'z commission_state_scheme \<Rightarrow> int \<Rightarrow> number" where
  "pool_of D s n = (case epoch_of D s n of None \<Rightarrow> 0 | Some ep \<Rightarrow> totalFees ep)"

text \<open>Work counters. The backend registers the roster with the first admitted process, the
  reference in its constructor.\<close>

definition same_work :: "NodeEntity \<Rightarrow> NodeEntity_ref \<Rightarrow> bool" where
  "same_work n m \<longleftrightarrow> nodeStatus n = Active \<and> nodeStatus_ref m = Active_ref \<and>
     successes n = successes_ref m \<and> total n = total_ref m"

definition roster_ref :: "AST \<Rightarrow> bool" where
  "roster_ref a \<longleftrightarrow> map fst (registry a) = map fst DEFAULT_NODES \<and>
     (\<forall>i m. map_of (registry a) i = Some m \<longrightarrow> id_ref m = i \<and> nodeStatus_ref m = Active_ref)"

definition same_crew :: "database \<Rightarrow> 'z node_state_scheme \<Rightarrow> AST \<Rightarrow> bool" where
  "same_crew D s a \<longleftrightarrow> roster_ref a \<and>
     (if \<forall>i. node_of D s i = None
      then \<forall>i m. map_of (registry a) i = Some m \<longrightarrow> successes_ref m = 0 \<and> total_ref m = 0
      else \<forall>i. rel_option same_work (node_of D s i) (map_of (registry a) i))"

definition mirrors :: "env \<Rightarrow> database \<Rightarrow> 'z sys_scheme \<Rightarrow> AST \<Rightarrow> bool" where
  "mirrors E D s a \<longleftrightarrow> coin_ok D s \<and> intact E D s \<and> intact_ref E a \<and>
     coinMinted a = processMinted (tallies D s) \<and> coinBurned a = processBurned (tallies D s) \<and>
     coinEarned a = earnedRetained (tallies D s) \<and> confirmedVolume a = volume (entries D s) \<and>
     pool a = pool_of D s DEFAULT_EPOCH \<and>
     (\<forall>p. rel_option (\<lambda>v w. verified v = 1 \<and> verified_ref w) (verdict_of D s p) (verdicts_ref a p)) \<and>
     same_crew D s a"

text \<open>The answers of the two programs to one request.\<close>

definition same_answer :: "error + RunProcessResult \<Rightarrow> error + RunResult_ref \<Rightarrow> bool" where
  "same_answer x y \<longleftrightarrow> (case (x, y) of
     (Inr r, Inr q) \<Rightarrow> runProcessId r = runProcess_id_ref q \<and> (runVerified r = 1 \<longleftrightarrow> runVerified_ref q) \<and>
        runReason r = runReason_ref q \<and> runMinted r = (case runMinted_ref q of None \<Rightarrow> 0 | Some x \<Rightarrow> x) \<and>
        runFee r = (case runFee_ref q of None \<Rightarrow> 0 | Some x \<Rightarrow> x)
   | _ \<Rightarrow> False)"

lemma computeFee_same: "computeFee_ref x y = computeFee x y"
  by (simp add: computeFee_ref_def computeFee_def feeRate_ref_def feeRate_def)

lemma worked_same: "same_work n m \<Longrightarrow> same_work (worked True n) (worked_ref True m)"
  by (simp add: same_work_def worked_def worked_ref_def Let_def)

lemma worked_ref_id [simp]:
  "id_ref (worked_ref b m) = id_ref m" "nodeStatus_ref (worked_ref b m) = nodeStatus_ref m"
  by (simp_all add: worked_ref_def Let_def)

lemma count_list_distinct: "distinct xs \<Longrightarrow> count_list xs x = (if x \<in> set xs then 1 else 0)"
  by (induction xs) auto

lemma active_ids_roster: "roster_ref a \<Longrightarrow> active_ids_ref a = map fst (registry a)"
proof -
  assume r: "roster_ref a"
  have d: "distinct (map fst (registry a))" using r by (simp add: roster_ref_def DEFAULT_NODES_def)
  have "id_ref (snd x) = fst x" "nodeStatus_ref (snd x) = Active_ref" if "x \<in> set (registry a)" for x
    using r map_of_is_SomeI [OF d, of "fst x" "snd x"] that by (auto simp: roster_ref_def)
  then have "filter (\<lambda>n. nodeStatus_ref n = Active_ref) (map snd (registry a)) = map snd (registry a)"
    "map id_ref (map snd (registry a)) = map fst (registry a)" by (auto simp: filter_id_conv)
  then show ?thesis by (simp add: active_ids_ref_def)
qed

lemma roster_node_1: "roster_ref a \<Longrightarrow> map_of (registry a) ''node-1'' \<noteq> None"
proof -
  assume "roster_ref a"
  then have "set (map fst (registry a)) = set (map fst DEFAULT_NODES)" by (simp only: roster_ref_def)
  then show ?thesis unfolding map_of_eq_None_iff by (simp add: DEFAULT_NODES_def)
qed

lemma registry_worked:
  assumes "roster_ref a" "map_of (registry t) j =
      map_option (worked_ref True ^^ count_list (active_ids_ref a) j) (map_of (registry a) j)"
  shows "map_of (registry t) j = map_option (worked_ref True) (map_of (registry a) j)"
proof (cases "map_of (registry a) j")
  case (Some m)
  have "distinct (active_ids_ref a)" using assms(1) by (simp add: active_ids_roster) (simp add: roster_ref_def DEFAULT_NODES_def)
  moreover have "j \<in> set (active_ids_ref a)"
    unfolding active_ids_roster [OF assms(1)] using map_of_SomeD [OF Some] by force
  ultimately have "count_list (active_ids_ref a) j = 1" by (simp add: count_list_distinct)
  then show ?thesis using assms(2) by simp
qed (use assms in simp)

context datastore
begin

lemma no_nodes: "find (nodes D) (nodeTbl s) = [] \<longleftrightarrow> (\<forall>i. node_of D s i = None)"
proof
  assume "find (nodes D) (nodeTbl s) = []"
  then show "\<forall>i. node_of D s i = None"
    using node.find_rows [of _ "nodeTbl s"] node.findOne_key [of _ "nodeTbl s"] unfolding node_of_def
    by (metis empty_iff empty_set not_None_eq)
next
  assume "\<forall>i. node_of D s i = None"
  then show "find (nodes D) (nodeTbl s) = []"
    using node.find_rows [of _ "nodeTbl s"] by (cases "find (nodes D) (nodeTbl s)") (auto simp: node_of_def)
qed

lemma assigned_default:
  assumes "\<forall>i n. node_of D (exec (registerAll E D (registrations D s None)) s) i = Some n \<longrightarrow> nodeStatus n = Active"
  shows "distinct (assigned_ids D s None)"
    "j \<in> set (assigned_ids D s None) \<longleftrightarrow> node_of D (exec (registerAll E D (registrations D s None)) s) j \<noteq> None"
proof -
  let ?u = "exec (registerAll E D (registrations D s None)) s"
  let ?rows = "find (nodes D) (nodeTbl ?u)"
  have rows: "n \<in> set ?rows \<longleftrightarrow> node_of D ?u (nodeId n) = Some n" for n by (simp add: node.find_rows node_of_def)
  have "assigned_ids D s None = result (resolveAssignedNodes E D None) s" by (simp add: resolve_result)
  also have "\<dots> = map nodeId (filter (\<lambda>n. nodeStatus n = Active) ?rows)"
    by (simp add: resolveAssignedNodes_def registrations_def listNodes_def)
  also have "\<dots> = map nodeId ?rows" using rows assms by (auto simp: filter_id_conv)
  finally have ids: "assigned_ids D s None = map nodeId ?rows" .
  have "inj_on nodeId (set ?rows)" by (rule inj_onI) (metis rows option.inject)
  then show "distinct (assigned_ids D s None)" unfolding ids by (simp add: distinct_map node.find_distinct)
  show "j \<in> set (assigned_ids D s None) \<longleftrightarrow> node_of D ?u j \<noteq> None"
  proof
    assume "j \<in> set (assigned_ids D s None)"
    then obtain n where "n \<in> set ?rows" "j = nodeId n" unfolding ids by (auto simp only: set_map)
    then show "node_of D ?u j \<noteq> None" using rows by auto
  next
    assume "node_of D ?u j \<noteq> None"
    then obtain n where n: "node_of D ?u j = Some n" by blast
    moreover have "nodeId n = j" using n node.findOne_key by (simp add: node_of_def)
    ultimately have "n \<in> set ?rows" using rows by simp
    then show "j \<in> set (assigned_ids D s None)" unfolding ids using \<open>nodeId n = j\<close> by force
  qed
qed

lemma crew_step:
  assumes "same_crew D s a"
  shows "rel_option same_work
      (map_option (worked True ^^ count_list (assigned_ids D s None) j)
        (case map_of (rev (registrations D s None)) j of None \<Rightarrow> node_of D s j | Some ty \<Rightarrow> Some (fresh_node j ty)))
      (map_option (worked_ref True) (map_of (registry a) j))"
proof -
  let ?u = "exec (registerAll plain_env D (registrations D s None)) s"
  have u: "node_of D ?u i = (case map_of (rev (registrations D s None)) i of None \<Rightarrow> node_of D s i | Some ty \<Rightarrow> Some (fresh_node i ty))" for i
    by (rule registerAll_nodes)
  have rel: "rel_option same_work (node_of D ?u i) (map_of (registry a) i)" for i
  proof (cases "\<forall>i. node_of D s i = None")
    case True
    then have none: "find (nodes D) (nodeTbl s) = []" by (simp add: no_nodes)
    have "map fst (rev DEFAULT_NODES) = rev (map fst (registry a))"
      using assms by (simp add: same_crew_def roster_ref_def rev_map)
    then have dom: "map_of (rev DEFAULT_NODES) i = None \<longleftrightarrow> map_of (registry a) i = None"
      unfolding map_of_eq_None_iff by (metis set_map set_rev)
    have zero: "map_of (registry a) i = Some m \<Longrightarrow> same_work (fresh_node i ty) m" for m ty
      using assms True by (simp add: same_crew_def roster_ref_def same_work_def fresh_node_def)
    show ?thesis using dom zero True none unfolding u
      by (cases "map_of (registry a) i") (auto simp: registrations_def)
  next
    case False
    then have "find (nodes D) (nodeTbl s) \<noteq> []" by (simp add: no_nodes)
    then show ?thesis using assms False unfolding u by (simp add: same_crew_def registrations_def)
  qed
  have act: "\<forall>i n. node_of D ?u i = Some n \<longrightarrow> nodeStatus n = Active"
    by (metis rel option_rel_Some1 same_work_def)
  have "count_list (assigned_ids D s None) j = (if node_of D ?u j = None then 0 else 1)"
    using assigned_default(1) [OF act] assigned_default(2) [OF act, where j = j] by (simp add: count_list_distinct)
  then show ?thesis using rel [of j] unfolding u [symmetric]
    by (cases "node_of D ?u j") (auto simp: option_rel_Some1 worked_same)
qed

lemma judge_one:
  fixes s :: "'z sys_scheme" and E :: env and input :: RunProcessDto
  assumes "intact E D s" "verdict_of D s (dtoProcessId input) = None \<or> confirmed D s (dtoProcessId input)"
  defines "w \<equiv> exec (workAll D (assigned_ids D s (dtoNodeIds input))) (exec (admit E D input) s)"
  shows "result (judge E D (dtoProcessId input)) w = 1"
    "verdict_of D (exec (judge E D (dtoProcessId input)) w) q \<noteq> None \<longleftrightarrow> q = dtoProcessId input \<or> verdict_of D s q \<noteq> None"
    "\<forall>v. verdict_of D s q = Some v \<longrightarrow> verified v = 1 \<Longrightarrow>
      verdict_of D (exec (judge E D (dtoProcessId input)) w) q = Some v \<Longrightarrow> verified v = 1"
proof -
  let ?pid = "dtoProcessId input"
  have w: "verdict_of D w p = verdict_of D s p" for p by (simp add: w_def)
  show one: "result (judge E D ?pid) w = 1"
  proof (cases "verdict_of D s ?pid")
    case None
    then show ?thesis using judge_run(1) [OF fresh_judgement [OF assms(1) None]] by (simp add: w_def)
  next
    case (Some v)
    then show ?thesis using assms(2) verify_existing [of D w ?pid v E] by (simp add: w confirmed_def judge_def)
  qed
  then have res: "resVerified (result (verify E D ?pid) w) = 1" by (simp add: judge_def)
  show "verdict_of D (exec (judge E D ?pid) w) q \<noteq> None \<longleftrightarrow> q = ?pid \<or> verdict_of D s q \<noteq> None"
    by (auto simp: judge_def verify_verdict_of w)
  show "verified v = 1" if "\<forall>v. verdict_of D s q = Some v \<longrightarrow> verified v = 1"
    "verdict_of D (exec (judge E D ?pid) w) q = Some v"
    using that res by (auto simp: judge_def verify_verdict_of w split: if_splits)
qed

lemma mirror_inadmissible:
  fixes s :: "'z sys_scheme"
  assumes "mirrors E D s a" "\<not> dtoAdmissible dto"
  shows "mirrors E D (exec (runProcess E D dto) s) (exec (runProcess_ref E (request_of dto)) a)"
    "same_answer (result (runProcess E D dto) s) (result (runProcess_ref E (request_of dto)) a)"
proof -
  have ref: "\<not> reqAdmissible (request_of dto)" using assms(2) by (simp add: request_of_def)
  have ok: "coin_ok D s" using assms(1) by (simp add: mirrors_def)
  note b = inadmissible_run [OF ok assms(2), where E = E] and r = inadmissible_ref [OF ref, where E = E and a = a]
  have "volume (entries D (exec (runProcess E D dto) s)) = volume (entries D s)"
    unfolding b(2) by (simp add: volume_def recorded_def contribution_other)
  moreover have "same_crew D (exec (runProcess E D dto) s) (exec (runProcess_ref E (request_of dto)) a) = same_crew D s a"
    by (simp add: same_crew_def roster_ref_def b(7) r(7))
  ultimately show "mirrors E D (exec (runProcess E D dto) s) (exec (runProcess_ref E (request_of dto)) a)"
    using assms(1) by (simp add: mirrors_def b(3-6,8) r(2-9) pool_of_def)
  show "same_answer (result (runProcess E D dto) s) (result (runProcess_ref E (request_of dto)) a)"
    unfolding b(1) r(1) by (simp add: same_answer_def request_of_def)
qed

lemma mirror_admissible:
  fixes s :: "'z sys_scheme"
  assumes "mirrors E D s a" "dtoAdmissible dto" "plain_request dto"
  shows "mirrors E D (exec (runProcess E D dto) s) (exec (runProcess_ref E (request_of dto)) a)"
    "same_answer (result (runProcess E D dto) s) (result (runProcess_ref E (request_of dto)) a)"
proof -
  let ?req = "request_of dto" and ?pid = "dtoProcessId dto" and ?t = "exec (runProcess E D dto) s"
    and ?b = "exec (runProcess_ref E (request_of dto)) a"
  have req: "reqId ?req = ?pid" "reqAmount ?req = dtoAmount dto" "reqAdmissible ?req"
    using assms(2) by (simp_all add: request_of_def)
  have ids: "dtoNodeIds dto = None" "assignable D s (dtoNodeIds dto)" "is_finite (dtoAmount dto)"
    "(case dtoEpoch dto of Some n \<Rightarrow> n | None \<Rightarrow> DEFAULT_EPOCH) = DEFAULT_EPOCH"
    using assms(3) by (auto simp: plain_request_def)
  have M: "coin_ok D s" "intact E D s" "intact_ref E a" "same_crew D s a"
    "rel_option (\<lambda>v w. verified v = 1 \<and> verified_ref w) (verdict_of D s p) (verdicts_ref a p)" for p
    using assms(1) by (simp_all add: mirrors_def)
  have due: "verdict_due a (reqId ?req)" using M(5) [of ?pid] by (auto simp: verdict_due_def req elim: option.rel_cases)
  have pos: "verdict_of D s ?pid = None \<or> confirmed D s ?pid"
    using M(5) [of ?pid] by (auto simp: confirmed_def elim: option.rel_cases)
  note one = judge_one [OF M(2) pos]
  note b = settled_run [OF M(1) assms(2) ids(2) one(1), unfolded ids(4)]
  note r = verified_ref_run [OF req(3) M(3) due, unfolded req]
  have roster: "roster_ref a" using M(4) by (simp add: same_crew_def)
  have vol: "volume (entries D ?t) = volume (entries D s) + dtoAmount dto"
    unfolding b(2) using ids(3)
    by (simp add: verdict_entries_volume [unfolded volume_def] admit_volume [unfolded volume_def] settle_entries_def volume_def recorded_def contribution_def CONFIRMED_VOLUME_EVENT_def
        COMMISSION_EPOCH_EVENT_def minted_payload_def number_or_0_def)
  have fees: "pool_of D ?t DEFAULT_EPOCH = pool_of D s DEFAULT_EPOCH + computeFee (dtoAmount dto) 0"
    using b(8) by (auto simp: pool_of_def accrued_def split: option.splits)
  have verds: "rel_option (\<lambda>v w. verified v = 1 \<and> verified_ref w) (verdict_of D ?t p) (verdicts_ref ?b p)" for p
  proof -
    have all1: "\<forall>v. verdict_of D s p = Some v \<longrightarrow> verified v = 1" using M(5) [of p] by (auto elim: option.rel_cases)
    have "verdicts_ref ?b p \<noteq> None \<longleftrightarrow> p = ?pid \<or> verdicts_ref a p \<noteq> None"
      "\<And>w. verdicts_ref ?b p = Some w \<Longrightarrow> verified_ref w"
      using r(9) M(5) [of p] by (auto elim: option.rel_cases split: if_splits)
    moreover have "verdict_of D ?t p \<noteq> None \<longleftrightarrow> p = ?pid \<or> verdict_of D s p \<noteq> None"
      "\<And>v. verdict_of D ?t p = Some v \<Longrightarrow> verified v = 1"
      unfolding b(6) using one(2) [of p] one(3) [OF all1] by blast+
    moreover have "verdict_of D s p = None \<longleftrightarrow> verdicts_ref a p = None" using M(5) [of p] by (auto elim: option.rel_cases)
    ultimately show ?thesis by (cases "verdict_of D ?t p"; cases "verdicts_ref ?b p") auto
  qed
  have reg: "\<And>i. i \<in> set (assigned_ids D s (dtoNodeIds dto)) \<Longrightarrow> node_of D (exec (admit E D dto) s) i \<noteq> None"
    using admit_registered [OF ids(2)] by blast
  have nodes: "rel_option same_work (node_of D ?t j) (map_of (registry ?b) j)" for j
    using crew_step [OF M(4), of j] workAll_run(2) [OF reg, where j = j] registry_worked [OF roster r(7), of j]
    by (simp add: b(7) admit_nodes ids(1))
  have rost: "roster_ref ?b" using roster r(8) registry_worked [OF roster r(7)] by (auto simp: roster_ref_def)
  have "map_of (registry ?b) ''node-1'' \<noteq> None"
    by (rule roster_node_1 [OF rost])
  then have "\<not> (\<forall>i. node_of D ?t i = None)" using nodes [of "''node-1''"] by (fastforce simp: option_rel_Some2)
  then have crew: "same_crew D ?t ?b" using rost nodes unfolding same_crew_def by (simp only: if_False simp_thms)
  show "mirrors E D ?t ?b" unfolding mirrors_def
    using assms(1) b(3,4,5) r(2-6,10) vol fees verds crew M(2)
    by (simp add: mirrors_def cycled_def computeFee_same)
  show "same_answer (result (runProcess E D dto) s) (result (runProcess_ref E ?req) a)"
    unfolding b(1) r(1) by (simp add: same_answer_def computeFee_same)
qed

lemma mirror_step:
  fixes s :: "'z sys_scheme"
  assumes "mirrors E D s a" "plain_request dto"
  shows "mirrors E D (exec (runProcess E D dto) s) (exec (runProcess_ref E (request_of dto)) a)"
    "same_answer (result (runProcess E D dto) s) (result (runProcess_ref E (request_of dto)) a)"
  using mirror_inadmissible [OF assms(1), of dto] mirror_admissible [OF assms(1), of dto] assms(2) by blast+

end

section \<open>Sequences of requests\<close>

text \<open>The two programs on the same requests, with the answers they give.\<close>

fun backendRuns :: "env \<Rightarrow> database \<Rightarrow> RunProcessDto list \<Rightarrow> ('z sys_scheme, (error + RunProcessResult) list) state" where
  "backendRuns E D [] = return []"
| "backendRuns E D (dto # dtos) = do {
     r \<leftarrow> runProcess E D dto;
     rs \<leftarrow> backendRuns E D dtos;
     return (r # rs)
   }"

fun referenceRuns :: "env \<Rightarrow> ProcessRequest list \<Rightarrow> (AST, (error + RunResult_ref) list) state" where
  "referenceRuns E [] = return []"
| "referenceRuns E (req # reqs) = do {
     r \<leftarrow> runProcess_ref E req;
     rs \<leftarrow> referenceRuns E reqs;
     return (r # rs)
   }"

lemma newAST_views:
  "coinMinted newAST = 0" "coinBurned newAST = 0" "coinEarned newAST = 0" "pool newAST = 0" "confirmedVolume newAST = 0"
  "verdicts_ref newAST = Map.empty" "snapshots_ref newAST = []"
  "registry newAST = map (\<lambda>(i, ty). (i, \<lparr>id_ref = i, type_ref = ty, uptime_ref = default_uptime, successes_ref = 0,
     total_ref = 0, nodeStatus_ref = Active_ref, reputation_ref = 0, weight_ref = 0, earned_ref = 0\<rparr>))
     [(''node-1'', Validator), (''node-2'', Router), (''node-3'', Recorder)]"
  by (simp_all add: newAST_def register_ref_def emptyAST_def Let_def)

context datastore
begin

lemma mirrors_start: "mirrors E D boot newAST"
proof -
  have "roster_ref newAST" by (auto simp: roster_ref_def newAST_views DEFAULT_NODES_def split: if_splits)
  moreover have "\<forall>i m. map_of (registry newAST) i = Some m \<longrightarrow> successes_ref m = 0 \<and> total_ref m = 0"
    by (auto simp: newAST_views split: if_splits)
  ultimately have "same_crew D boot newAST"
    by (simp add: same_crew_def node_of_def boot_def node.findOne_empty)
  moreover have "coin_ok D boot" "intact E D boot" using boot_ok(1) boot_ok(2) [of E]
    by (simp_all add: economy_def books_def logs_ok_def)
  ultimately show ?thesis
    by (simp add: mirrors_def newAST_views intact_ref_def tallies_def boot_def zeroLedger_def ledg.findOne_empty
        entries_def history_def snap.findAsc_empty volume_def pool_of_def epoch_of_def epoc.findOne_empty verdict_of_def
        verd.findOne_empty)
qed

lemma mirror_runs:
  fixes s :: "'z sys_scheme"
  assumes "mirrors E D s a" "\<forall>dto \<in> set dtos. plain_request dto"
  shows "mirrors E D (exec (backendRuns E D dtos) s) (exec (referenceRuns E (map request_of dtos)) a) \<and>
    list_all2 same_answer (result (backendRuns E D dtos) s) (result (referenceRuns E (map request_of dtos)) a)"
  using assms by (induction dtos arbitrary: s a) (simp_all add: mirror_step)

end

definition sample :: RunProcessDto where
  "sample = \<lparr>dtoProcessId = ''p1'', dtoAmount = 1, dtoType = ''transfer'', dtoAdmissible = True,
             dtoNodeIds = None, dtoEpoch = None\<rparr>"

text \<open>C22: the backend implements the reference. Started side by side and given any sequence of requests
  with finite amounts that leave node assignment and epoch to the orchestrator, repeated and
  inadmissible ones included, the two answer every request alike (same verdict, reason, minted
  amount and fee) and end with the same tallies, the same fee pool, the same confirmed volume, and
  hence the same supply and index, and with verdicts for the same processes.\<close>

theorem backend_implements_reference:
  fixes dtos :: "RunProcessDto list" and E :: env
  assumes "datastore D" "\<forall>dto \<in> set dtos. plain_request dto"
  defines "s \<equiv> exec (backendRuns E D dtos) boot" and "a \<equiv> exec (referenceRuns E (map request_of dtos)) newAST"
  shows "list_all2 same_answer (result (backendRuns E D dtos) boot) (result (referenceRuns E (map request_of dtos)) newAST)
    \<and> processMinted (tallies D s) = coinMinted a \<and> processBurned (tallies D s) = coinBurned a
    \<and> earnedRetained (tallies D s) = coinEarned a \<and> pool_of D s DEFAULT_EPOCH = pool a
    \<and> result (totalProcessVolume D) s = result volume_ref a \<and> result (reserveIndex E D) s = result (reserveIndex_ref E) a
    \<and> result (totalSupply D) s = Inr (result totalSupply_ref a)
    \<and> (\<forall>p. confirmed D s p \<longleftrightarrow> result (authorizeEmission p) a)
    \<and> fst (result (reconstruct_ref E) a)"
proof -
  have M: "mirrors E D s a" and ans: "list_all2 same_answer (result (backendRuns E D dtos) boot)
      (result (referenceRuns E (map request_of dtos)) newAST)"
    using datastore.mirror_runs [OF assms(1) datastore.mirrors_start [OF assms(1)] assms(2), of E] by (simp_all add: s_def a_def)
  have "confirmed D s p \<longleftrightarrow> result (authorizeEmission p) a" for p
  proof -
    have "rel_option (\<lambda>v w. verified v = 1 \<and> verified_ref w) (verdict_of D s p) (verdicts_ref a p)"
      using M by (simp add: mirrors_def)
    then show ?thesis by (auto simp: confirmed_def authorizeEmission_def elim: option.rel_cases)
  qed
  then show ?thesis using ans M
    by (simp add: mirrors_def datastore.read_run [OF assms(1)] totalProcessVolume_run reserveIndex_ref_def volume_ref_def totalSupply_ref_def supply_of_def
        reconstruct_ref_def intact_ref_def Let_def)
qed

theorem backend_implements_reference_witness:
  "list_all2 same_answer (result (backendRuns plain_env mem_db [sample, sample]) boot)
    (result (referenceRuns plain_env (map request_of [sample, sample])) newAST)"
proof -
  have "\<forall>d \<in> set [sample, sample]. plain_request d" by (simp add: sample_def plain_request_def one_number_def)
  from backend_implements_reference [OF mem.datastore_axioms this, of plain_env] show ?thesis by (rule conjunct1)
qed

end
