(* ===== verification/Demo.thy ===== *)
theory Demo
  imports Reference
begin

text \<open>
  \<open>reference/ast-core/src/demo.ts\<close>: the walk through the reference core, from four process requests to the
  state of every part, as the list of lines it prints. The texts are Russian; \<open>utf8\<close> is the UTF-8 form of
  a list of code points.
\<close>

definition utf8_char :: "nat \<Rightarrow> string" where
  "utf8_char c =
     (if c < 128 then [char_of c]
      else if c < 2048 then [char_of (192 + c div 64), char_of (128 + c mod 64)]
      else [char_of (224 + c div 4096), char_of (128 + c div 64 mod 64), char_of (128 + c mod 64)])"

definition utf8 :: "nat list \<Rightarrow> string" where
  "utf8 cs = concat (map utf8_char cs)"

section \<open>The lines\<close>

definition demo_header :: "string list" where
  "demo_header =
     [concat (replicate 47 (utf8 [9552])), ''  AST (Aros Studio Tokenomics) '' @ utf8 [8212] @
     '' Model 1 core'', ''  '' @ utf8 [1055, 1086, 1083, 1085, 1099, 1081, 32, 1078, 1080, 1079, 1085, 1077,
     1085, 1085, 1099, 1081, 32, 1094, 1080, 1082, 1083, 32, 1087, 1088, 1086, 1094, 1077, 1089, 1089, 1072] @
     '', end-to-end'', concat (replicate 47 (utf8 [9552]))]"

definition runs_title :: "string" where
  "runs_title =
     utf8 [10, 9472, 9472, 32, 1055, 1088, 1086, 1075, 1086, 1085, 32, 1087, 1088, 1086, 1094, 1077, 1089,
     1089, 1086, 1074, 32, 9472, 9472]"

definition demo_requests :: "ProcessRequest list" where
  "demo_requests =
     [\<lparr>reqId = ''P-1001'', reqAmount = Fin 500, reqType = ''transfer'', reqAdmissible = True\<rparr>,
     \<lparr>reqId = ''P-1002'', reqAmount = Fin 700, reqType = ''settlement'', reqAdmissible = True\<rparr>,
     \<lparr>reqId = ''P-1003'', reqAmount = Fin 300, reqType = ''transfer'', reqAdmissible = False\<rparr>,
     \<lparr>reqId = ''P-1004'', reqAmount = Fin 900, reqType = ''settlement'', reqAdmissible = True\<rparr>]"

definition verifiedLine :: "string \<Rightarrow> string \<Rightarrow> string \<Rightarrow> string" where
  "verifiedLine i minted fee =
     utf8 [10004, 32] @ i @ '': verified, minted='' @ minted @ '', fee='' @ fee"

definition rejectedLine :: "string \<Rightarrow> string \<Rightarrow> string" where
  "rejectedLine i reason =
     ''x '' @ i @ '': '' @ utf8 [1053, 1045, 32, 1087, 1086, 1076, 1090, 1074, 1077, 1088, 1078, 1076, 1105,
     1085, 32, 40] @ reason @ '') '' @ utf8 [8212, 32, 1089, 1090, 1086, 1080, 1084, 1086, 1089, 1090, 1100,
     32, 1085, 1077, 32, 1074, 1086, 1079, 1085, 1080, 1082, 1083, 1072]"

definition epoch_title :: "string" where
  "epoch_title =
     utf8 [10, 9472, 9472, 32, 1060, 1080, 1085, 1072, 1083, 1080, 1079, 1072, 1094, 1080, 1103, 32, 1101,
     1087, 1086, 1093, 1080, 32, 40, 1086, 1087, 1083, 1072, 1090, 1072, 32, 1085, 1086, 1076, 1072, 1084] @
     '' post-factum) '' @ utf8 [9472, 9472]"

definition paymentLine :: "env \<Rightarrow> string \<times> number \<Rightarrow> string" where
  "paymentLine E d =
     ''  '' @ fst d @ '': '' @ utf8 [1086, 1087, 1083, 1072, 1090, 1072, 32] @ toFixed E 4 (snd d) @ '' ('' @
     utf8 [1091, 1076, 1077, 1088, 1078, 1072, 1085, 1086, 32, 1085, 1086, 1076, 1086, 1081, 41]"

definition marginLine :: "env \<Rightarrow> Finalize_ref \<Rightarrow> string" where
  "marginLine E ep =
     ''  '' @ utf8 [1086, 1087, 1077, 1088, 1072, 1094, 1080, 1086, 1085, 1085, 1072, 1103, 32, 1084, 1072,
     1088, 1078, 1072] @ '' AST: '' @ toFixed E 4 (margin_ref ep) @ '' | '' @ utf8 [1087, 1091, 1083, 32,
     1089, 1074, 1077, 1076, 1105, 1085, 58, 32] @ boolText (reconciled_ref ep)"

definition supply_title :: "string" where
  "supply_title =
     utf8 [10, 9472, 9472, 32, 1057, 1086, 1089, 1090, 1086, 1103, 1085, 1080, 1077, 32, 1089, 1091, 1087,
     1087, 1083, 1072, 1103] @ '' ArosCoin '' @ utf8 [9472, 9472]"

definition talliesLine :: "env \<Rightarrow> SupplySnapshot_ref \<Rightarrow> string" where
  "talliesLine E s =
     ''  processMinted='' @ numStr E (processMinted_ref s) @ ''  processBurned='' @ numStr E
     (processBurned_ref s) @ ''  earnedRetained='' @ toFixed E 4 (earnedRetained_ref s)"

definition supplyLine :: "env \<Rightarrow> number \<Rightarrow> number \<Rightarrow> string" where
  "supplyLine E net supply =
     ''  processNet='' @ numStr E net @ '' ('' @ utf8 [8594] @ ''0)  totalSupply='' @ toFixed E 4 supply @
     '' (= '' @ utf8 [1079, 1072, 1088, 1072, 1073, 1086, 1090, 1072, 1085, 1085, 1086, 1077, 32, 1091, 1076,
     1077, 1088, 1078, 1072, 1085, 1085, 1086, 1077, 41]"

definition metrics_title :: "string" where
  "metrics_title =
     utf8 [10, 9472, 9472, 32, 1052, 1077, 1090, 1088, 1080, 1082, 1080, 32, 1091, 1089, 1090, 1086, 1081,
     1095, 1080, 1074, 1086, 1089, 1090, 1080, 32, 9472, 9472]"

definition metricsLines :: "env \<Rightarrow> Metrics_ref \<Rightarrow> string list" where
  "metricsLines E m =
     [''  reserveIndex='' @ toFixed E 4 (reserveIndexOf_ref m) @ ''  velocity='' @ toFixed E 2 (velocityOf_ref
     m) @ ''  internalPrice='' @ toFixed E 4 (internalPriceOf_ref m), ''  Release Phase '' @ utf8 [1072, 1082,
     1090, 1080, 1074, 1085, 1072, 58, 32] @ boolText (snd (releaseOf_ref m)) @ '' (mature='' @ boolText (fst
     (releaseOf_ref m)) @ '')'']"

definition nodes_title :: "string" where
  "nodes_title =
     utf8 [10, 9472, 9472, 32, 1053, 1086, 1076, 1099, 32, 40, 1074, 1083, 1080, 1103, 1085, 1080, 1077, 32,
     1080, 1079, 32, 1088, 1072, 1073, 1086, 1090, 1099, 32, 1080, 32, 1088, 1077, 1087, 1091, 1090, 1072,
     1094, 1080, 1080, 44, 32, 1073, 1077, 1079, 32, 1089, 1090, 1077, 1081, 1082, 1080, 1085, 1075, 1072, 41,
     32, 9472, 9472]"

fun nodeTypeText :: "NodeType \<Rightarrow> string" where
  "nodeTypeText Validator = ''validator''"
| "nodeTypeText Router = ''router''"
| "nodeTypeText Recorder = ''recorder''"

definition nodeLine :: "env \<Rightarrow> NodeEntity_ref \<Rightarrow> string" where
  "nodeLine E n =
     ''  '' @ id_ref n @ '' ['' @ nodeTypeText (type_ref n) @ ''] reputation='' @ toFixed E 3 (reputation_ref
     n) @ '' weight='' @ toFixed E 3 (weight_ref n) @ '' earned='' @ toFixed E 4 (earned_ref n)"

definition chain_title :: "string" where
  "chain_title =
     utf8 [10, 9472, 9472] @ '' NodeChain ('' @ utf8 [1089, 1080, 1089, 1090, 1077, 1084, 1072, 32, 1079,
     1072, 1087, 1080, 1089, 1080, 41, 32, 9472, 9472]"

definition chainLine :: "env \<Rightarrow> int \<Rightarrow> bool \<times> int option \<Rightarrow> string" where
  "chainLine E h rc =
     ''  '' @ utf8 [1089, 1085, 1080, 1084, 1082, 1086, 1074] @ '' (ExecutionSnapshot): '' @ intStr E h @
     ''  '' @ utf8 [1094, 1077, 1083, 1086, 1089, 1090, 1085, 1086, 1089, 1090, 1100, 32, 1094, 1077, 1087,
     1086, 1095, 1082, 1080, 58, 32] @ (if fst rc then ''OK'' else utf8 [1053, 1040, 1056, 1059, 1064, 1045,
     1053, 1040, 64] @ (case snd rc of None \<Rightarrow> ''undefined'' | Some i \<Rightarrow> intStr E i))"

definition eye_title :: "string" where
  "eye_title =
     utf8 [10, 9472, 9472] @ '' All-Seeing Eye ('' @ utf8 [1087, 1072, 1089, 1089, 1080, 1074, 1085, 1099,
     1081, 32, 1085, 1072, 1076, 1079, 1086, 1088, 41, 32, 9472, 9472]"

definition eyeLine :: "env \<Rightarrow> nat \<Rightarrow> nat \<Rightarrow> string" where
  "eyeLine E entries_count signals_count =
     ''  '' @ utf8 [1079, 1072, 1087, 1080, 1089, 1077, 1081, 32, 1074] @ '' oversight ledger: '' @ intStr E
     (int entries_count) @ ''  '' @ utf8 [1089, 1080, 1075, 1085, 1072, 1083, 1086, 1074, 32, 1094, 1077,
     1083, 1086, 1089, 1090, 1085, 1086, 1089, 1090, 1080, 58, 32] @ intStr E (int signals_count)"

definition closing :: "string list" where
  "closing =
     [''  (Eye '' @ utf8 [1090, 1086, 1083, 1100, 1082, 1086, 32, 1085, 1072, 1073, 1083, 1102, 1076, 1072,
     1083, 32, 1080, 32, 1083, 1086, 1075, 1080, 1088, 1086, 1074, 1072, 1083, 32, 8212, 32, 1085, 1080, 32,
     1086, 1076, 1085, 1086, 1075, 1086, 32, 1080, 1079, 1084, 1077, 1085, 1077, 1085, 1080, 1103, 32, 1089,
     1086, 1089, 1090, 1086, 1103, 1085, 1080, 1103, 41], utf8 [10, 9989] @ '' AST Model 1: '' @ utf8 [1087,
     1086, 1083, 1085, 1099, 1081, 32, 1094, 1080, 1082, 1083, 32, 1086, 1090, 1088, 1072, 1073, 1086, 1090,
     1072, 1083] @ '' end-to-end.'']"

section \<open>The program\<close>

definition resultLine :: "env \<Rightarrow> RunResult_ref \<Rightarrow> string" where
  "resultLine E res =
     (if runVerified_ref res
      then verifiedLine (runProcess_id_ref res)
        (case runMinted_ref res of None \<Rightarrow> ''undefined'' | Some x \<Rightarrow> numStr E x)
        (case runFee_ref res of None \<Rightarrow> ''undefined'' | Some x \<Rightarrow> numStr E x)
      else rejectedLine (runProcess_id_ref res) (case runReason_ref res of None \<Rightarrow> ''undefined'' | Some r \<Rightarrow> r))"

fun runLines :: "env \<Rightarrow> ProcessRequest list \<Rightarrow> (AST, error + string list) state" where
  "runLines E [] = return (Inr [])"
| "runLines E (r # rs) = tryM (runProcess_ref E r) (\<lambda>res.
     tryM (runLines E rs) (\<lambda>printed. return (Inr (resultLine E res # printed))))"

definition demo_run :: "env \<Rightarrow> (AST, error + string list) state" where
  "demo_run E = tryM (runLines E demo_requests) (\<lambda>ran. do {
     ep \<leftarrow> finalizeEpoch_ref E;
     s \<leftarrow> snapshot_ref;
     net \<leftarrow> processNet_ref;
     supply \<leftarrow> totalSupply_ref;
     m \<leftarrow> metrics_ref E;
     ns \<leftarrow> listNodes_ref;
     rc \<leftarrow> reconstruct_ref E;
     h \<leftarrow> height;
     seen \<leftarrow> ledger_ref;
     alarms \<leftarrow> getSignals;
     return (Inr (demo_header @ [runs_title] @ ran @
       [epoch_title] @ map (paymentLine E) (distributionLog_ref ep) @ [marginLine E ep] @
       [supply_title, talliesLine E s, supplyLine E net supply] @
       [metrics_title] @ metricsLines E m @
       [nodes_title] @ map (nodeLine E) ns @
       [chain_title, chainLine E h rc] @
       [eye_title, eyeLine E (length seen) (length alarms)] @ closing))
   })"

section \<open>What it prints\<close>

lemma payLoop_ref_frame [simp]:
  "coinMinted (exec (payLoop_ref d W ns paid dl) a) = coinMinted a" "coinBurned (exec (payLoop_ref d W ns paid dl) a) = coinBurned a"
  "snapshots_ref (exec (payLoop_ref d W ns paid dl) a) = snapshots_ref a"
  by (induction d W ns paid dl arbitrary: a rule: payLoop_ref.induct) (simp_all add: Let_def recordEarned_ref_def)

lemma finalizePool_frame [simp]:
  "coinMinted (exec (finalizePool ns) a) = coinMinted a" "coinBurned (exec (finalizePool ns) a) = coinBurned a"
  "snapshots_ref (exec (finalizePool ns) a) = snapshots_ref a"
  by (simp_all add: finalizePool_def Let_def case_prod_beta)

lemma finalizeEpoch_ref_frame [simp]:
  "coinMinted (exec (finalizeEpoch_ref E) a) = coinMinted a" "coinBurned (exec (finalizeEpoch_ref E) a) = coinBurned a"
  "intact_ref E (exec (finalizeEpoch_ref E) a) = intact_ref E a"
  by (simp_all add: finalizeEpoch_ref_def listNodes_ref_def intact_ref_def)

lemma payLoop_ref_earned: "is_double (coinEarned a) \<Longrightarrow> is_double (coinEarned (exec (payLoop_ref d W ns paid dl) a))"
  by (induction d W ns paid dl arbitrary: a rule: payLoop_ref.induct) (simp_all add: Let_def recordEarned_ref_def)

lemma finalizeEpoch_ref_earned: "is_double (coinEarned a) \<Longrightarrow> is_double (coinEarned (exec (finalizeEpoch_ref E) a))"
  by (simp add: finalizeEpoch_ref_def finalizePool_def listNodes_ref_def Let_def case_prod_beta payLoop_ref_earned)

text \<open>The four runs, from a fresh core.\<close>

abbreviation feeText :: "env \<Rightarrow> number \<Rightarrow> string" where
  "feeText E amount \<equiv> numStr E (computeFee_ref amount 0)"

definition settled_core :: "env \<Rightarrow> number \<Rightarrow> string set \<Rightarrow> AST \<Rightarrow> bool" where
  "settled_core E m ps a \<longleftrightarrow> intact_ref E a \<and> coinMinted a = m \<and> coinBurned a = m \<and> coinEarned a = 0 \<and>
     dom (verdicts_ref a) = ps"

lemma run_admitted:
  fixes E :: env and x :: number and t :: string
  assumes "settled_core E m ps a" "i \<notin> ps"
  defines "r \<equiv> \<lparr>reqId = i, reqAmount = x, reqType = t, reqAdmissible = True\<rparr>"
  shows "result (runProcess_ref E r) a = Inr \<lparr>runProcess_id_ref = i, runVerified_ref = True, runReason_ref = None,
      runMinted_ref = Some x, runFee_ref = Some (computeFee_ref x 0)\<rparr>"
    "settled_core E (m + x) (insert i ps) (exec (runProcess_ref E r) a)"
proof -
  have c: "reqAdmissible r" "intact_ref E a" "verdict_due a (reqId r)"
    using assms(1,2) by (auto simp: r_def settled_core_def verdict_due_def split: option.splits)
  note run = verified_ref_run [OF c]
  show "result (runProcess_ref E r) a = Inr \<lparr>runProcess_id_ref = i, runVerified_ref = True, runReason_ref = None,
      runMinted_ref = Some x, runFee_ref = Some (computeFee_ref x 0)\<rparr>" using run(1) by (simp add: r_def)
  obtain v where "verdicts_ref (exec (runProcess_ref E r) a) = (verdicts_ref a)(reqId r \<mapsto> v)" using run(9) by blast
  then show "settled_core E (m + x) (insert i ps) (exec (runProcess_ref E r) a)"
    using run(2,3,4,10) assms(1) by (simp add: settled_core_def) (simp add: r_def)
qed

lemma run_refused:
  fixes E :: env and x :: number and i t :: string
  assumes "settled_core E m ps a"
  defines "r \<equiv> \<lparr>reqId = i, reqAmount = x, reqType = t, reqAdmissible = False\<rparr>"
  shows "result (runProcess_ref E r) a = Inr \<lparr>runProcess_id_ref = i, runVerified_ref = False,
      runReason_ref = Some ''inadmissible'', runMinted_ref = None, runFee_ref = None\<rparr>"
    "settled_core E m ps (exec (runProcess_ref E r) a)"
  using inadmissible_ref [of r E a] assms(1) by (simp_all add: r_def settled_core_def)

lemma demo_runs:
  fixes E :: env
  shows "result (runLines E demo_requests) newAST = Inr
      [verifiedLine ''P-1001'' (numStr E (Fin 500)) (feeText E (Fin 500)),
       verifiedLine ''P-1002'' (numStr E (Fin 700)) (feeText E (Fin 700)),
       rejectedLine ''P-1003'' ''inadmissible'',
       verifiedLine ''P-1004'' (numStr E (Fin 900)) (feeText E (Fin 900))]"
    "settled_core E (Fin 2100) {''P-1001'', ''P-1002'', ''P-1004''} (exec (runLines E demo_requests) newAST)"
proof -
  have 0: "settled_core E 0 {} newAST"
    by (simp add: settled_core_def newAST_def emptyAST_def register_ref_def intact_ref_def Let_def)
  have sums: "((0 + Fin 500) + Fin 700) + Fin 900 = Fin 2100"
  proof -
    have "rnd 500 = Fin 500" "rnd 1200 = Fin 1200" "rnd 2100 = Fin 2100"
      using num_of_int_exact [of 500] num_of_int_exact [of 1200] num_of_int_exact [of 2100] by (simp_all add: num_of_int_def)
    then show ?thesis by (simp add: zero_number_def)
  qed
  note r1 = run_admitted [OF 0, of "''P-1001''" "Fin 500" "''transfer''", simplified]
  note r2 = run_admitted [OF r1(2), of "''P-1002''" "Fin 700" "''settlement''", simplified]
  note r3 = run_refused [OF r2(2), of "''P-1003''" "Fin 300" "''transfer''"]
  note r4 = run_admitted [OF r3(2), of "''P-1004''" "Fin 900" "''settlement''", simplified]
  show "result (runLines E demo_requests) newAST = Inr
      [verifiedLine ''P-1001'' (numStr E (Fin 500)) (feeText E (Fin 500)),
       verifiedLine ''P-1002'' (numStr E (Fin 700)) (feeText E (Fin 700)),
       rejectedLine ''P-1003'' ''inadmissible'',
       verifiedLine ''P-1004'' (numStr E (Fin 900)) (feeText E (Fin 900))]"
    by (simp add: demo_requests_def tryM_simps r1(1) r2(1) r3(1) r4(1) resultLine_def)
  show "settled_core E (Fin 2100) {''P-1001'', ''P-1002'', ''P-1004''} (exec (runLines E demo_requests) newAST)"
    using r4(2) by (simp add: demo_requests_def tryM_simps r1(1) r2(1) r3(1) r4(1) sums insert_commute)
qed

text \<open>The demonstration runs to the end and prints what it claims. Whatever the digest, the logarithm and the
  number rendering, no run throws; the three admissible requests are confirmed with their amount and
  fee and the inadmissible one is refused; the tallies are both 2100, their net is 0, the total supply
  printed is the earned part, and the chain is reported intact.\<close>

lemma demonstration_prints:
  fixes E :: env
  shows "\<exists>s epoch_part metrics_part h eye_part.
      result (demo_run E) newAST = Inr (demo_header @ [runs_title,
        verifiedLine ''P-1001'' (numStr E (Fin 500)) (feeText E (Fin 500)),
        verifiedLine ''P-1002'' (numStr E (Fin 700)) (feeText E (Fin 700)),
        rejectedLine ''P-1003'' ''inadmissible'',
        verifiedLine ''P-1004'' (numStr E (Fin 900)) (feeText E (Fin 900))] @ epoch_part @
        [supply_title, talliesLine E s, supplyLine E 0 (earnedRetained_ref s)] @ metrics_part @
        [chain_title, chainLine E h (True, None)] @ eye_part)
    \<and> processMinted_ref s = Fin 2100 \<and> processBurned_ref s = Fin 2100"
proof -
  let ?a = "exec (runLines E demo_requests) newAST"
  let ?b = "exec (finalizeEpoch_ref E) ?a"
  have core: "settled_core E (Fin 2100) {''P-1001'', ''P-1002'', ''P-1004''} ?a" by (rule demo_runs(2))
  then have "is_double (coinEarned ?b)" by (simp add: settled_core_def finalizeEpoch_ref_earned)
  then have total: "0 + coinEarned ?b = coinEarned ?b" "Fin 2100 - Fin 2100 = 0"
    using minus_self [of "Fin 2100"] by (simp_all add: zero_plus_double)
  have ok: "intact_ref E ?b" "coinMinted ?b = Fin 2100" "coinBurned ?b = Fin 2100"
    using core by (simp_all add: settled_core_def)
  have a: "coinMinted ?a = Fin 2100" "coinBurned ?a = Fin 2100" using core by (simp_all add: settled_core_def)
  let ?c = "exec snapshot_ref ?b"
  have c: "coinMinted ?c = Fin 2100" "coinBurned ?c = Fin 2100" "coinEarned ?c = coinEarned ?b" "intact_ref E ?c"
    using ok by simp_all
  have m: "intact_ref E (exec (metrics_ref E) ?c)"
    using c(4) by (simp add: metrics_ref_def reserveIndex_ref_def totalSupply_ref_def retained_ref_def volume_ref_def
        check_ref_def intact_ref_def Let_def)
  then have chain: "result (reconstruct_ref E) (exec (metrics_ref E) ?c) = (True, None)"
    "exec (reconstruct_ref E) (exec (metrics_ref E) ?c) = exec (metrics_ref E) ?c"
    by (simp_all add: reconstruct_ref_def intact_ref_def Let_def)
  have s: "result snapshot_ref ?b = \<lparr>processMinted_ref = Fin 2100, processBurned_ref = Fin 2100,
      earnedRetained_ref = coinEarned ?b, supplyTime_ref = tick ?b + 1\<rparr>"
    using ok by (simp add: snapshot_ref_def now_ref_def)
  have "\<exists>epoch_part metrics_part h eye_part. result (demo_run E) newAST = Inr (demo_header @ [runs_title,
        verifiedLine ''P-1001'' (numStr E (Fin 500)) (feeText E (Fin 500)),
        verifiedLine ''P-1002'' (numStr E (Fin 700)) (feeText E (Fin 700)),
        rejectedLine ''P-1003'' ''inadmissible'',
        verifiedLine ''P-1004'' (numStr E (Fin 900)) (feeText E (Fin 900))] @ epoch_part @
        [supply_title, talliesLine E (result snapshot_ref ?b), supplyLine E 0 (coinEarned ?b)] @ metrics_part @
        [chain_title, chainLine E h (True, None)] @ eye_part)"
    unfolding demo_run_def
    by (rule exI [of _ "[epoch_title] @ map (paymentLine E) (distributionLog_ref (result (finalizeEpoch_ref E) ?a)) @
          [marginLine E (result (finalizeEpoch_ref E) ?a)]"],
        rule exI [of _ "[metrics_title] @ metricsLines E (result (metrics_ref E) ?c) @
          [nodes_title] @ map (nodeLine E) (map snd (registry (exec (metrics_ref E) ?c)))"],
        rule exI [of _ "result height (exec (metrics_ref E) ?c)"],
        rule exI [of _ "[eye_title, eyeLine E (length (oversightLedger (exec (metrics_ref E) ?c)))
          (length (signals (exec (metrics_ref E) ?c)))] @ closing"])
      (simp add: tryM_simps demo_runs(1) processNet_ref_def totalSupply_ref_def listNodes_ref_def chain a total height_def
        ledger_ref_def getSignals_def)
  then show ?thesis by (intro exI [of _ "result snapshot_ref ?b"]) (simp add: s)
qed

end
