(* ===== verification/Columns.thy ===== *)
theory Columns
  imports Entities
begin

text \<open>
  The column transformers of the entities. A driver hands a number back as it is or, for
  \<open>bigint\<close> and \<open>decimal\<close> columns, as text; the transformers turn it into a number again.
  \<open>toNum\<close> is \<open>Number(text)\<close> and \<open>driver\<close> what a column returns for the value stored in it.
  A column that loses nothing but the representation is read back exactly, which is why the model's
  repositories return the rows that were saved.
\<close>

datatype column = ColumnNull | ColumnText string | ColumnNumber number

definition numericTo :: "number \<Rightarrow> number" where
  "numericTo v = v"

definition numericBigintFrom :: "(string \<Rightarrow> number) \<Rightarrow> column \<Rightarrow> number option" where
  "numericBigintFrom toNum c =
     (case c of ColumnNull \<Rightarrow> None | ColumnText t \<Rightarrow> Some (toNum t) | ColumnNumber x \<Rightarrow> Some x)"

definition numericFrom :: "(string \<Rightarrow> number) \<Rightarrow> column \<Rightarrow> number option" where
  "numericFrom toNum c =
     (case c of ColumnNull \<Rightarrow> None | ColumnText t \<Rightarrow> Some (toNum t) | ColumnNumber x \<Rightarrow> Some x)"

definition numericDecimalFrom :: "(string \<Rightarrow> number) \<Rightarrow> column \<Rightarrow> number" where
  "numericDecimalFrom toNum c =
     (case c of ColumnNull \<Rightarrow> 0 | ColumnText t \<Rightarrow> toNum t | ColumnNumber x \<Rightarrow> x)"

locale column_store =
  fixes toNum :: "string \<Rightarrow> number" and driver :: "number \<Rightarrow> column"
  assumes not_null: "driver v \<noteq> ColumnNull"
    and number_kept: "driver v = ColumnNumber x \<Longrightarrow> x = v"
    and text_kept: "driver v = ColumnText t \<Longrightarrow> toNum t = v"
begin

lemma read_back:
  "numericBigintFrom toNum (driver (numericTo v)) = Some v" "numericFrom toNum (driver (numericTo v)) = Some v"
  "numericDecimalFrom toNum (driver (numericTo v)) = v"
  using not_null [of v] number_kept [of v] text_kept [of v]
  by (auto simp: numericBigintFrom_def numericFrom_def numericDecimalFrom_def numericTo_def split: column.splits)

end

text \<open>SQLite, the driver of the tests, returns numbers.\<close>

interpretation sqlite: column_store toNum ColumnNumber for toNum
  by unfold_locales auto

text \<open>Only the ledger reads a missing value as zero; the other entities pass the null on.\<close>

lemma null_column:
  "numericBigintFrom toNum ColumnNull = None" "numericDecimalFrom toNum ColumnNull = 0"
  by (simp_all add: numericBigintFrom_def numericDecimalFrom_def)

end
