(* ===== verification/JsText.thy ===== *)
theory JsText
  imports Prelude
begin

text \<open>
  JavaScript strings as the repository's scripts use them: lists of UTF-16 code units, the string
  methods they call, and the part of ECMAScript regular expressions their patterns need. A pattern
  is matched by backtracking in the order of the standard: \<open>ms r k\<close> lists the cursors a match of
  \<open>r\<close> from cursor \<open>k\<close> can end in, best first. A repetition goes on only while it consumes
  input, as the standard demands, so the length of the rest bounds the number of rounds
  (\<open>rounds_enough\<close>).
\<close>

type_synonym jstr = "nat list"

definition js :: "string \<Rightarrow> jstr" where
  "js s = map of_char s"

lemma js_append: "js (s @ t) = js s @ js t"
  by (simp add: js_def)

definition dec :: "nat \<Rightarrow> jstr" where
  "dec n = js (decimal n)"

section \<open>String methods\<close>

fun contains :: "jstr \<Rightarrow> jstr \<Rightarrow> bool" where
  "contains w [] = (w = [])"
| "contains w (c # s) = (prefix w (c # s) \<or> contains w s)"

fun splitNL :: "jstr \<Rightarrow> jstr list" where
  "splitNL [] = [[]]"
| "splitNL (c # s) =
     (if c = 10 then [] # splitNL s
      else case splitNL s of [] \<Rightarrow> [[c]] | l # ls \<Rightarrow> (c # l) # ls)"

fun joinWith :: "jstr \<Rightarrow> jstr list \<Rightarrow> jstr" where
  "joinWith sep [] = []"
| "joinWith sep [x] = x"
| "joinWith sep (x # y # xs) = x @ sep @ joinWith sep (y # xs)"

definition isSpace :: "nat \<Rightarrow> bool" where
  "isSpace c \<longleftrightarrow> c \<in> {9, 10, 11, 12, 13, 32, 160, 0x1680, 0x2028, 0x2029, 0x202F, 0x205F, 0x3000, 0xFEFF} \<or>
     (0x2000 \<le> c \<and> c \<le> 0x200A)"

definition trim :: "jstr \<Rightarrow> jstr" where
  "trim s = rev (dropWhile isSpace (rev (dropWhile isSpace s)))"

definition lastN :: "nat \<Rightarrow> 'a list \<Rightarrow> 'a list" where
  "lastN n xs = drop (length xs - n) xs"

definition padEnd :: "jstr \<Rightarrow> nat \<Rightarrow> jstr" where
  "padEnd s n = s @ replicate (n - length s) 32"

lemma contains_sublist: "contains w s \<longleftrightarrow> (\<exists>a b. s = a @ w @ b)"
proof (induction s)
  case IH: (Cons c s)
  show ?case
  proof
    assume "contains w (c # s)"
    then consider b where "c # s = w @ b" | a b where "s = a @ w @ b" using IH by (auto simp: prefix_def)
    then show "\<exists>a b. c # s = a @ w @ b"
    proof cases
      case (1 b)
      then show ?thesis by (intro exI [of _ "[]"] exI [of _ b]) simp
    next
      case (2 a b)
      then show ?thesis by (intro exI [of _ "c # a"] exI [of _ b]) simp
    qed
  next
    assume "\<exists>a b. c # s = a @ w @ b"
    then obtain a b where eq: "c # s = a @ w @ b" by blast
    show "contains w (c # s)"
    proof (cases a)
      case Nil
      then have "prefix w (c # s)" using eq by (simp only: append_Nil prefix_def) blast
      then show ?thesis by simp
    next
      case (Cons d a')
      then have "s = a' @ w @ b" using eq by simp
      then show ?thesis using IH by auto
    qed
  qed
qed auto

lemma splitNL_join: "joinWith [10] (splitNL s) = s" "splitNL s \<noteq> []" "\<forall>l \<in> set (splitNL s). 10 \<notin> set l"
proof -
  have "joinWith [10] (splitNL s) = s \<and> splitNL s \<noteq> [] \<and> (\<forall>l \<in> set (splitNL s). 10 \<notin> set l)"
  proof (induction s)
    case (Cons c s)
    then show ?case by (cases "splitNL s"; cases "tl (splitNL s)") auto
  qed simp
  then show "joinWith [10] (splitNL s) = s" "splitNL s \<noteq> []" "\<forall>l \<in> set (splitNL s). 10 \<notin> set l" by auto
qed

section \<open>Regular expressions\<close>

datatype re =
    Unit "nat \<Rightarrow> bool"
  | Empty
  | Seq re re
  | Alt re re
  | Star bool re
  | Group re
  | WordBoundary
  | NotAhead re

text \<open>A cursor: the unit before it, the rest of the input, and what the last group captured.\<close>

type_synonym cursor = "nat option \<times> jstr \<times> jstr option"

definition rest :: "cursor \<Rightarrow> jstr" where
  "rest k = fst (snd k)"

definition wordUnit :: "nat \<Rightarrow> bool" where
  "wordUnit c \<longleftrightarrow> (48 \<le> c \<and> c \<le> 57) \<or> (65 \<le> c \<and> c \<le> 90) \<or> c = 95 \<or> (97 \<le> c \<and> c \<le> 122)"

fun rounds :: "bool \<Rightarrow> (cursor \<Rightarrow> cursor list) \<Rightarrow> nat \<Rightarrow> cursor \<Rightarrow> cursor list" where
  "rounds greedy f 0 k = [k]"
| "rounds greedy f (Suc n) k =
     (let more = concat (map (\<lambda>k'. if length (rest k') < length (rest k) then rounds greedy f n k' else []) (f k))
      in if greedy then more @ [k] else k # more)"

primrec ms :: "re \<Rightarrow> cursor \<Rightarrow> cursor list" where
  "ms (Unit P) = (\<lambda>(p, s, c). case s of [] \<Rightarrow> [] | x # r \<Rightarrow> if P x then [(Some x, r, c)] else [])"
| "ms Empty = (\<lambda>k. [k])"
| "ms (Seq a b) = (\<lambda>k. concat (map (ms b) (ms a k)))"
| "ms (Alt a b) = (\<lambda>k. ms a k @ ms b k)"
| "ms (Star g a) = (\<lambda>k. rounds g (ms a) (length (rest k)) k)"
| "ms (Group a) = (\<lambda>k. map (\<lambda>(p, s, c). (p, s, Some (take (length (rest k) - length s) (rest k)))) (ms a k))"
| "ms WordBoundary = (\<lambda>(p, s, c).
     if (p \<noteq> None \<and> wordUnit (the p)) \<noteq> (s \<noteq> [] \<and> wordUnit (hd s)) then [(p, s, c)] else [])"
| "ms (NotAhead a) = (\<lambda>k. if ms a k = [] then [k] else [])"

text \<open>Literals, a repetition of at least one, and the classes \<open>.\<close> and \<open>\<backslash>s\<close>; with the
  flag \<open>i\<close> a literal letter stands for both of its cases.\<close>

fun upper :: "nat \<Rightarrow> nat" where
  "upper c = (if 97 \<le> c \<and> c \<le> 122 then c - 32 else c)"

fun word :: "bool \<Rightarrow> jstr \<Rightarrow> re" where
  "word ci [] = Empty"
| "word ci (c # s) = Seq (Unit (\<lambda>x. if ci then upper x = upper c else x = c)) (word ci s)"

definition dot :: re where
  "dot = Unit (\<lambda>c. c \<notin> {10, 13, 0x2028, 0x2029})"

definition space :: re where
  "space = Unit isSpace"

definition anyUnit :: re where
  "anyUnit = Unit (\<lambda>_. True)"

definition plus :: "bool \<Rightarrow> re \<Rightarrow> re" where
  "plus g r = Seq r (Star g r)"

text \<open>\<open>match\<close> without the flag \<open>g\<close>: the first position from which the pattern matches.\<close>

fun search :: "re \<Rightarrow> nat option \<Rightarrow> jstr \<Rightarrow> cursor option" where
  "search r p [] = (case ms r (p, [], None) of [] \<Rightarrow> None | k # _ \<Rightarrow> Some k)"
| "search r p (x # s) =
     (case ms r (p, x # s, None) of [] \<Rightarrow> search r (Some x) s | k # _ \<Rightarrow> Some k)"

definition test :: "re \<Rightarrow> jstr \<Rightarrow> bool" where
  "test r s \<longleftrightarrow> search r None s \<noteq> None"

text \<open>With the flag \<open>g\<close>: all matches from left to right, each beginning where the last one ended,
  one unit further after an empty one.\<close>

function countAll :: "re \<Rightarrow> nat option \<Rightarrow> jstr \<Rightarrow> nat" where
  "countAll r p s =
     (case ms r (p, s, None) of
        [] \<Rightarrow> (case s of [] \<Rightarrow> 0 | x # s' \<Rightarrow> countAll r (Some x) s')
      | (q, t, _) # _ \<Rightarrow>
          if length t < length s then 1 + countAll r q t
          else (case s of [] \<Rightarrow> 1 | x # s' \<Rightarrow> 1 + countAll r (Some x) s'))"
  by pat_completeness auto
termination by (relation "measure (\<lambda>(r, p, s). length s)") auto

function replaceAll :: "re \<Rightarrow> jstr \<Rightarrow> nat option \<Rightarrow> jstr \<Rightarrow> jstr" where
  "replaceAll r w p s =
     (case ms r (p, s, None) of
        [] \<Rightarrow> (case s of [] \<Rightarrow> [] | x # s' \<Rightarrow> x # replaceAll r w (Some x) s')
      | (q, t, _) # _ \<Rightarrow>
          if length t < length s then w @ replaceAll r w q t
          else w @ (case s of [] \<Rightarrow> [] | x # s' \<Rightarrow> x # replaceAll r w (Some x) s'))"
  by pat_completeness auto
termination by (relation "measure (\<lambda>(r, w, p, s). length s)") auto

text \<open>The texts of all matches with what their group captured, and replacement by a function of the
  text before the match, the match, the text after it and the capture: everywhere
  (\<open>replaceWith\<close>) or at the first match (\<open>replaceOnce\<close>). \<open>passed\<close> is the text already passed.\<close>

definition before :: "jstr \<Rightarrow> nat option" where
  "before passed = (if passed = [] then None else Some (last passed))"

function matchesOf :: "re \<Rightarrow> nat option \<Rightarrow> jstr \<Rightarrow> (jstr \<times> jstr option) list" where
  "matchesOf r p s =
     (case ms r (p, s, None) of
        [] \<Rightarrow> (case s of [] \<Rightarrow> [] | x # s' \<Rightarrow> matchesOf r (Some x) s')
      | (q, t, c) # _ \<Rightarrow>
          if length t < length s then (take (length s - length t) s, c) # matchesOf r q t
          else ([], c) # (case s of [] \<Rightarrow> [] | x # s' \<Rightarrow> matchesOf r (Some x) s'))"
  by pat_completeness auto
termination by (relation "measure (\<lambda>(r, p, s). length s)") auto

type_synonym replacer = "jstr \<Rightarrow> jstr \<Rightarrow> jstr \<Rightarrow> jstr option \<Rightarrow> jstr"

function replaceWith :: "re \<Rightarrow> replacer \<Rightarrow> jstr \<Rightarrow> jstr \<Rightarrow> jstr" where
  "replaceWith r f passed s =
     (case ms r (before passed, s, None) of
        [] \<Rightarrow> (case s of [] \<Rightarrow> [] | x # s' \<Rightarrow> x # replaceWith r f (passed @ [x]) s')
      | (q, t, c) # _ \<Rightarrow>
          let m = take (length s - length t) s
          in if length t < length s then f passed m t c @ replaceWith r f (passed @ m) t
             else f passed [] s c @ (case s of [] \<Rightarrow> [] | x # s' \<Rightarrow> x # replaceWith r f (passed @ [x]) s'))"
  by pat_completeness auto
termination by (relation "measure (\<lambda>(r, f, d, s). length s)") auto

fun replaceOnce :: "re \<Rightarrow> replacer \<Rightarrow> jstr \<Rightarrow> jstr \<Rightarrow> jstr" where
  "replaceOnce r f passed s =
     (case ms r (before passed, s, None) of
        [] \<Rightarrow> (case s of [] \<Rightarrow> [] | x # s' \<Rightarrow> x # replaceOnce r f (passed @ [x]) s')
      | (q, t, c) # _ \<Rightarrow> f passed (take (length s - length t) s) t c @ t)"

text \<open>A replacement text with its \<open>$\<close> patterns; the patterns in question have at most one group.\<close>

fun expand :: "jstr \<Rightarrow> replacer" where
  "expand (x # y # r) b m a c =
     (if x = 36 then
        if y = 36 then 36 # expand r b m a c
        else if y = 38 then m @ expand r b m a c
        else if y = 96 then b @ expand r b m a c
        else if y = 39 then a @ expand r b m a c
        else if y = 49 \<and> c \<noteq> None then the c @ expand r b m a c
        else x # expand (y # r) b m a c
      else x # expand (y # r) b m a c)"
| "expand r b m a c = r"

declare countAll.simps [simp del] replaceAll.simps [simp del] matchesOf.simps [simp del] replaceWith.simps [simp del]
  replaceOnce.simps [simp del]

section \<open>What the patterns match\<close>

lemma rounds_fuel:
  "length (rest k) \<le> n \<Longrightarrow> length (rest k) \<le> m \<Longrightarrow> rounds g f n k = rounds g f m k"
proof (induction n arbitrary: m k)
  case 0
  then show ?case by (cases m) (auto simp: Let_def concat_eq_Nil_conv)
next
  case (Suc n)
  show ?case
  proof (cases m)
    case 0
    then show ?thesis using Suc.prems by (auto simp: Let_def concat_eq_Nil_conv)
  next
    case (Suc m')
    have "length (rest k') < length (rest k) \<Longrightarrow> rounds g f n k' = rounds g f m' k'" for k'
      using Suc.IH [of k' m'] Suc.prems Suc by simp
    then have "map (\<lambda>k'. if length (rest k') < length (rest k) then rounds g f n k' else []) (f k) =
      map (\<lambda>k'. if length (rest k') < length (rest k) then rounds g f m' k' else []) (f k)" by simp
    then show ?thesis by (simp only: Suc rounds.simps)
  qed
qed

lemma rounds_enough: "length (rest k) \<le> n \<Longrightarrow> rounds g f n k = rounds g f (length (rest k)) k"
  by (rule rounds_fuel) simp_all

lemma ms_word:
  "ms (word False w) (p, s, c) = (if prefix w s then [(if w = [] then p else Some (last w), drop (length w) s, c)] else [])"
proof (induction w arbitrary: p s)
  case (Cons x w)
  show ?case by (cases s) (auto simp: Cons)
qed simp

lemma test_word: "test (word False w) s \<longleftrightarrow> contains w s"
proof -
  have "search (word False w) p s \<noteq> None \<longleftrightarrow> contains w s" for p
    by (induction s arbitrary: p) (auto simp: ms_word)
  then show ?thesis by (simp add: test_def)
qed

lemma test_Alt: "test (Alt a b) s \<longleftrightarrow> test a s \<or> test b s"
proof -
  have "search (Alt a b) p s \<noteq> None \<longleftrightarrow> search a p s \<noteq> None \<or> search b p s \<noteq> None" for p
    by (induction s arbitrary: p) (auto split: list.splits)
  then show ?thesis by (simp add: test_def)
qed

lemma count_zero: "countAll r p s = 0 \<longleftrightarrow> search r p s = None"
proof (induction s arbitrary: p)
  case Nil
  then show ?case by (subst countAll.simps) (auto split: list.splits)
next
  case (Cons x s)
  then show ?case by (subst countAll.simps) (auto split: list.splits)
qed

lemma count_test: "0 < countAll r None s \<longleftrightarrow> test r s"
  using count_zero [of r None s] by (auto simp: test_def)

lemma expand_plain: "36 \<notin> set r \<Longrightarrow> expand r b m a c = r"
  by (induction r b m a c rule: expand.induct) auto

text \<open>Replacing a text by itself changes nothing.\<close>

lemma replace_same:
  assumes "w \<noteq> []" "\<And>b a c. f b w a c = w"
  shows "replaceWith (word False w) f passed s = s"
proof (induction "length s" arbitrary: passed s rule: less_induct)
  case less
  show ?case
  proof (cases "prefix w s")
    case True
    then obtain t where s: "s = w @ t" by (auto simp: prefix_def)
    have "replaceWith (word False w) f (passed @ w) t = t" using less [of t] assms(1) by (simp add: s)
    then show ?thesis
      using assms by (subst replaceWith.simps) (simp add: s ms_word Let_def del: word.simps)
  next
    case False
    then show ?thesis
      using less by (subst replaceWith.simps) (auto simp: ms_word simp del: word.simps split: list.split)
  qed
qed

end
