(* ===== verification/RepoTree.thy ===== *)
theory RepoTree
  imports JsText
begin

text \<open>
  What the repository's maintenance scripts see of the machine: a tree of files and directories,
  some of which cannot be read, and commands run through \<open>execSync\<close>, which either returns the
  standard output or throws an error that carries both outputs. The tree is the state a script
  reads; \<open>execSync\<close>, \<open>JSON.parse\<close> and the clock are parameters.
\<close>

datatype node =
    File jstr
  | LockedFile
  | Dir "(jstr \<times> node) list"
  | LockedDir
  | Special

fun lookup :: "node \<Rightarrow> jstr list \<Rightarrow> node option" where
  "lookup n [] = Some n"
| "lookup (Dir es) (x # xs) = (case map_of es x of None \<Rightarrow> None | Some m \<Rightarrow> lookup m xs)"
| "lookup _ (x # xs) = None"

text \<open>\<open>path.join(ROOT, p)\<close> for the relative paths that occur: the segments between slashes.\<close>

fun splitSlash :: "jstr \<Rightarrow> jstr list" where
  "splitSlash [] = [[]]"
| "splitSlash (c # s) =
     (if c = 47 then [] # splitSlash s
      else case splitSlash s of [] \<Rightarrow> [[c]] | l # ls \<Rightarrow> (c # l) # ls)"

definition segments :: "jstr \<Rightarrow> jstr list" where
  "segments p = filter (\<lambda>x. x \<noteq> []) (splitSlash p)"

definition existsSync :: "node \<Rightarrow> jstr \<Rightarrow> bool" where
  "existsSync fs p \<longleftrightarrow> lookup fs (segments p) \<noteq> None"

text \<open>The outcome of a command: its output, or the two outputs the thrown error carries.\<close>

type_synonym command = "jstr \<Rightarrow> (jstr \<times> jstr) + jstr"

definition runBoth :: "command \<Rightarrow> jstr \<Rightarrow> jstr" where
  "runBoth execSync cmd = (case execSync cmd of Inr out \<Rightarrow> out | Inl (out, err) \<Rightarrow> out @ err)"

section \<open>Characters outside ASCII\<close>

definition tick_mark :: jstr where "tick_mark = [0x2705]"
definition cross_mark :: jstr where "cross_mark = [0x274C]"
definition warn_mark :: jstr where "warn_mark = [0x26A0, 0xFE0F]"
definition red_mark :: jstr where "red_mark = [0xD83D, 0xDD34]"
definition orange_mark :: jstr where "orange_mark = [0xD83D, 0xDFE0]"
definition dash :: jstr where "dash = [0x2014]"
definition middot :: jstr where "middot = [0xB7]"

end
