(* ===== verification/NightlyAudit.thy ===== *)
theory NightlyAudit
  imports RepoTree Json
begin

text \<open>
  The nightly audit (\<open>scripts/nightly-audit.ts\<close>): it counts markers in the files of fourteen
  modules, runs the tests, the type checker and the security audit, classifies the result and
  writes a report. The two tree walks are recursive functions on the tree; a file that cannot be
  read ends the walk of its directory, as the exception does in the code, and what was counted
  before stays counted. The console output is the list of the logged lines.
\<close>

section \<open>Counting\<close>

definition MODULES :: "jstr list" where
  "MODULES = map js [''01_coin_engine'', ''02_nodechain_engine'', ''03_token_management_layer'',
     ''04_aros_value_circulation'', ''05_bridge_layer'', ''06_governance_layer'', ''07_processing_layer'',
     ''08_fee_distribution'', ''09_crypto_ingestion_pipeline'', ''10_proof_of_transaction_engine'',
     ''11_node_security_and_payments'', ''12_nodechain_ai_agents'', ''13_extra_supervisory_layer'',
     ''14_decentralized_tx_encoding'']"

record ModuleAuditResult =
  modName :: jstr
  modExists :: bool
  todoCount :: nat
  stubCount :: nat
  mockCount :: nat
  tsFiles :: nat

datatype Health = HEALTHY | WARNING | CRITICAL

text \<open>\<open>new RegExp(pattern, 'gi')\<close> for the patterns in use: letters, underscores and the dot.\<close>

fun patternRe :: "jstr \<Rightarrow> re" where
  "patternRe [] = Empty"
| "patternRe (c # s) = Seq (if c = 46 then dot else Unit (\<lambda>x. upper x = upper c)) (patternRe s)"

definition countPatterns :: "jstr list \<Rightarrow> jstr \<Rightarrow> nat" where
  "countPatterns patterns content = foldl (\<lambda>c p. c + countAll (patternRe p) None content) 0 patterns"

definition hasExt :: "jstr list \<Rightarrow> jstr \<Rightarrow> bool" where
  "hasExt exts nm \<longleftrightarrow> list_ex (\<lambda>ext. suffix ext nm) exts"

fun walkMatches :: "jstr list \<Rightarrow> jstr list \<Rightarrow> (jstr \<times> node) list \<Rightarrow> nat \<Rightarrow> nat" where
  "walkMatches pats exts [] count = count"
| "walkMatches pats exts ((nm, Dir es) # ents) count =
     (if nm \<noteq> js ''node_modules'' \<and> nm \<noteq> js ''dist''
      then walkMatches pats exts ents (walkMatches pats exts es count)
      else walkMatches pats exts ents count)"
| "walkMatches pats exts ((nm, File content) # ents) count =
     walkMatches pats exts ents (if hasExt exts nm then count + countPatterns pats content else count)"
| "walkMatches pats exts ((nm, LockedFile) # ents) count =
     (if hasExt exts nm then count else walkMatches pats exts ents count)"
| "walkMatches pats exts ((nm, LockedDir) # ents) count = walkMatches pats exts ents count"
| "walkMatches pats exts ((nm, Special) # ents) count = walkMatches pats exts ents count"

definition SOURCE_EXTS :: "jstr list" where
  "SOURCE_EXTS = [js ''.ts'', js ''.js'']"

definition countMatches :: "node \<Rightarrow> jstr list \<Rightarrow> jstr list \<Rightarrow> jstr list \<Rightarrow> nat" where
  "countMatches fs dir pats exts =
     (case lookup fs dir of Some (Dir es) \<Rightarrow> walkMatches pats exts es 0 | _ \<Rightarrow> 0)"

fun walkFiles :: "(jstr \<times> node) list \<Rightarrow> nat \<Rightarrow> nat" where
  "walkFiles [] count = count"
| "walkFiles ((nm, Dir es) # ents) count =
     (if nm \<noteq> js ''node_modules'' then walkFiles ents (walkFiles es count)
      else walkFiles ents (if hasExt SOURCE_EXTS nm then count + 1 else count))"
| "walkFiles ((nm, LockedDir) # ents) count =
     (if nm \<noteq> js ''node_modules'' then walkFiles ents count
      else walkFiles ents (if hasExt SOURCE_EXTS nm then count + 1 else count))"
| "walkFiles ((nm, _) # ents) count = walkFiles ents (if hasExt SOURCE_EXTS nm then count + 1 else count)"

definition countTsFiles :: "node \<Rightarrow> jstr list \<Rightarrow> nat" where
  "countTsFiles fs dir = (case lookup fs dir of Some (Dir es) \<Rightarrow> walkFiles es 0 | _ \<Rightarrow> 0)"

definition TODO_PATTERNS :: "jstr list" where
  "TODO_PATTERNS = map js [''TODO'', ''FIXME'', ''HACK'', ''XXX'']"

definition STUB_PATTERNS :: "jstr list" where
  "STUB_PATTERNS = map js [''stub'', ''placeholder'', ''not.implemented'', ''NOT_IMPLEMENTED'']"

definition MOCK_PATTERNS :: "jstr list" where
  "MOCK_PATTERNS = map js [''mock'', ''fake'', ''dummy'']"

definition auditModule :: "node \<Rightarrow> jstr \<Rightarrow> ModuleAuditResult" where
  "auditModule fs nm =
     (if lookup fs [nm] = None
      then \<lparr>modName = nm, modExists = False, todoCount = 0, stubCount = 0, mockCount = 0, tsFiles = 0\<rparr>
      else let allMocks = countMatches fs [nm] MOCK_PATTERNS SOURCE_EXTS;
               testMocks = countMatches fs [nm, js ''__tests__''] MOCK_PATTERNS SOURCE_EXTS
           in \<lparr>modName = nm, modExists = True,
               todoCount = countMatches fs [nm] TODO_PATTERNS SOURCE_EXTS,
               stubCount = countMatches fs [nm] STUB_PATTERNS SOURCE_EXTS,
               mockCount = nat (max 0 (int allMocks - int testMocks)),
               tsFiles = countTsFiles fs [nm]\<rparr>)"

section \<open>The checks\<close>

definition runTests :: "command \<Rightarrow> nat \<times> nat" where
  "runTests execSync =
     (let output = runBoth execSync (js ''npm test'')
      in (countAll (Alt (word False [0x2713]) (Alt (word False (js ''PASS '')) (word False (js ''passed'')))) None output,
          countAll (Alt (word False [0x2717]) (Alt (word False (js ''FAIL '')) (word False (js ''failed'')))) None output))"

definition runTypeCheck :: "command \<Rightarrow> nat" where
  "runTypeCheck execSync = countAll (word False (js ''error TS'')) None (runBoth execSync (js ''npx tsc --noEmit''))"

text \<open>\<open>parsed.metadata?.vulnerabilities?.critical ?? 0\<close>: the first access throws on a parsed
  \<open>null\<close>, the optional ones yield \<open>undefined\<close>.\<close>

fun property :: "json option \<Rightarrow> string \<Rightarrow> json option" where
  "property (Some (JObj ps)) k = map_of ps k"
| "property _ k = None"

definition orZero :: "json option \<Rightarrow> number" where
  "orZero v = (case v of None \<Rightarrow> 0 | Some JNull \<Rightarrow> 0 | Some x \<Rightarrow> to_number x)"

definition runSecurityAudit :: "(jstr \<Rightarrow> json option) \<Rightarrow> command \<Rightarrow> number \<times> number" where
  "runSecurityAudit parse execSync =
     (case parse (runBoth execSync (js ''npm audit --json'')) of
        None \<Rightarrow> (0, 0)
      | Some JNull \<Rightarrow> (0, 0)
      | Some parsed \<Rightarrow>
          let vulnerabilities = property (property (Some parsed) ''metadata'') ''vulnerabilities''
          in (orZero (property vulnerabilities ''critical''), orZero (property vulnerabilities ''high'')))"

definition overallHealthOf :: "nat \<Rightarrow> nat \<Rightarrow> number \<Rightarrow> Health" where
  "overallHealthOf failed errors critical =
     (let criticalCount = (if failed > 0 then 1 else 0) + (if errors > 0 then 1 else 0) + (if 0 < critical then 1 else 0 :: nat)
      in if criticalCount = 0 then HEALTHY else if criticalCount \<le> 1 then WARNING else CRITICAL)"

section \<open>The report and the run\<close>

record AuditSummary =
  sumDate :: jstr
  sumCommit :: jstr
  sumModules :: "ModuleAuditResult list"
  testsPassed :: nat
  testsFailed :: nat
  tscErrors :: nat
  secCritical :: number
  secHigh :: number
  totalTodos :: nat
  totalStubs :: nat
  overallHealth :: Health

definition moduleRow :: "ModuleAuditResult \<Rightarrow> jstr" where
  "moduleRow m =
     js ''| '' @ modName m @ js '' | '' @ (if modExists m then tick_mark else cross_mark) @ js '' | '' @ dec (todoCount m) @
     js '' | '' @ dec (stubCount m) @ js '' | '' @ dec (mockCount m) @ js '' | '' @ dec (tsFiles m) @ js '' |''"

definition healthLabel :: "Health \<Rightarrow> jstr" where
  "healthLabel h =
     (if h = HEALTHY then tick_mark @ js '' HEALTHY''
      else if h = WARNING then warn_mark @ js '' WARNING'' else cross_mark @ js '' CRITICAL'')"

definition generateReport :: "env \<Rightarrow> AuditSummary \<Rightarrow> jstr" where
  "generateReport E s = joinWith [10]
     [js ''# Nightly Audit Report '' @ dash @ js '' AST-Aros-Financial-Paradigm'',
      [],
      js ''**Date:** '' @ sumDate s,
      js ''**Commit:** `'' @ sumCommit s @ js ''`'',
      js ''**Overall Health:** '' @ healthLabel (overallHealth s),
      [],
      js ''---'',
      [],
      js ''## Module Coverage (14 modules)'',
      [],
      js ''| Module | Exists | TODOs | Stubs | Mocks | TS Files |'',
      js ''|--------|--------|-------|-------|-------|----------|'',
      joinWith [10] (map moduleRow (sumModules s)),
      [],
      js ''**Totals:** TODOs: **'' @ dec (totalTodos s) @ js ''** | Stubs: **'' @ dec (totalStubs s) @ js ''**'',
      [],
      js ''---'',
      [],
      js ''## Test Suite'',
      [],
      js ''| Metric | Value |'',
      js ''|--------|-------|'',
      js ''| Tests passed | '' @ tick_mark @ js '' '' @ dec (testsPassed s) @ js '' |'',
      js ''| Tests failed | '' @
        (if testsFailed s > 0 then cross_mark @ js '' '' @ dec (testsFailed s) else tick_mark @ js '' 0'') @ js '' |'',
      [],
      js ''---'',
      [],
      js ''## TypeScript'',
      [],
      js ''| Metric | Value |'',
      js ''|--------|-------|'',
      js ''| Type errors | '' @
        (if tscErrors s > 0 then cross_mark @ js '' '' @ dec (tscErrors s) else tick_mark @ js '' 0'') @ js '' |'',
      [],
      js ''---'',
      [],
      js ''## Security (npm audit)'',
      [],
      js ''| Severity | Count |'',
      js ''|----------|-------|'',
      js ''| Critical | '' @
        (if 0 < secCritical s then red_mark @ js '' '' @ js (numStr E (secCritical s)) else tick_mark @ js '' 0'') @ js '' |'',
      js ''| High | '' @
        (if 0 < secHigh s then orange_mark @ js '' '' @ js (numStr E (secHigh s)) else tick_mark @ js '' 0'') @ js '' |'',
      [],
      js ''---'',
      [],
      js ''## Action Items'',
      [],
      (if testsFailed s > 0 then js ''- '' @ cross_mark @ js '' Fix '' @ dec (testsFailed s) @ js '' failing test(s)'' else []),
      (if tscErrors s > 0 then js ''- '' @ cross_mark @ js '' Fix '' @ dec (tscErrors s) @ js '' TypeScript error(s)'' else []),
      (if 0 < secCritical s
       then js ''- '' @ red_mark @ js '' Address '' @ js (numStr E (secCritical s)) @ js '' critical security vulnerability(ies)''
       else []),
      (if totalTodos s > 20
       then js ''- '' @ warn_mark @ js '' '' @ dec (totalTodos s) @ js '' TODOs in code '' @ dash @ js '' consider triaging'' else []),
      (if overallHealth s = HEALTHY then tick_mark @ js '' All systems nominal. No critical issues found.'' else []),
      [],
      js ''---'',
      js ''*Auto-generated by nightly-audit.ts '' @ middot @ js '' '' @ sumDate s @ js ''*'',
      []]"

text \<open>What a run leaves behind: the logged lines, the report file and the exit code. \<open>started\<close> and
  \<open>isoNow\<close> are the two readings of the clock; the date is the part in front of the \<open>T\<close>.\<close>

record AuditRun =
  auditOut :: "jstr list"
  auditReport :: jstr
  auditExit :: nat
  auditSummary :: AuditSummary

definition rule :: jstr where
  "rule = replicate 60 61"

definition moduleLine :: "jstr \<Rightarrow> ModuleAuditResult \<Rightarrow> jstr" where
  "moduleLine m res =
     js ''  '' @ m @ js '': '' @
     (if modExists res then tick_mark @ js '' ('' @ dec (tsFiles res) @ js '' files, '' @ dec (todoCount res) @ js '' TODOs)''
      else cross_mark @ js '' MISSING'')"

definition healthName :: "Health \<Rightarrow> jstr" where
  "healthName h = (case h of HEALTHY \<Rightarrow> js ''HEALTHY'' | WARNING \<Rightarrow> js ''WARNING'' | CRITICAL \<Rightarrow> js ''CRITICAL'')"

definition auditMain ::
  "env \<Rightarrow> (jstr \<Rightarrow> json option) \<Rightarrow> command \<Rightarrow> jstr \<Rightarrow> jstr \<Rightarrow> jstr \<Rightarrow> node \<Rightarrow> AuditRun" where
  "auditMain E parse execSync started isoNow reportFile fs =
     (let date = takeWhile (\<lambda>c. c \<noteq> 84) isoNow;
          commit = trim (runBoth execSync (js ''git rev-parse --short HEAD''));
          modules = map (auditModule fs) MODULES;
          todos = foldl (\<lambda>s m. s + todoCount m) 0 modules;
          stubs = foldl (\<lambda>s m. s + stubCount m) 0 modules;
          (passed, failed) = runTests execSync;
          errors = runTypeCheck execSync;
          (critical, high) = runSecurityAudit parse execSync;
          health = overallHealthOf failed errors critical;
          summary = \<lparr>sumDate = date, sumCommit = commit, sumModules = modules, testsPassed = passed,
                     testsFailed = failed, tscErrors = errors, secCritical = critical, secHigh = high,
                     totalTodos = todos, totalStubs = stubs, overallHealth = health\<rparr>
      in \<lparr>auditOut =
            [rule, js ''AST Nightly Audit '' @ dash @ js '' nightly-audit.ts'', js ''Started: '' @ started, rule,
             [10] @ js ''[1/4] Auditing 14 modules...''] @
            map2 moduleLine MODULES modules @
            [[10] @ js ''[2/4] Running test suite...'', js ''  Running test suite...'',
             js ''  Passed: '' @ dec passed @ js '' | Failed: '' @ dec failed,
             [10] @ js ''[3/4] TypeScript check...'', js ''  Running TypeScript type check...'',
             js ''  Errors: '' @ dec errors,
             [10] @ js ''[4/4] Security audit...'', js ''  Running npm security audit...'',
             js ''  Critical: '' @ js (numStr E critical) @ js '' | High: '' @ js (numStr E high),
             [10] @ rule, js ''Overall Health: '' @ healthName health,
             js ''Report written to: '' @ reportFile, rule],
          auditReport = generateReport E summary,
          auditExit = (if health = CRITICAL then 1 else 0),
          auditSummary = summary\<rparr>)"

section \<open>What the audit reports\<close>

lemma run_eq:
  fixes E :: env and parse :: "jstr \<Rightarrow> json option" and execSync :: command and started isoNow reportFile :: jstr and fs :: node
  defines "r \<equiv> auditMain E parse execSync started isoNow reportFile fs"
  shows "auditExit r = (if overallHealth (auditSummary r) = CRITICAL then 1 else 0)"
    "overallHealth (auditSummary r) =
       overallHealthOf (snd (runTests execSync)) (runTypeCheck execSync) (fst (runSecurityAudit parse execSync))"
    "sumModules (auditSummary r) = map (auditModule fs) MODULES"
    "auditReport r = generateReport E (auditSummary r)"
  by (simp_all add: r_def auditMain_def Let_def split: prod.splits)

lemma tests_failed_iff:
  "0 < snd (runTests execSync) \<longleftrightarrow>
     (\<exists>w \<in> {[0x2717], js ''FAIL '', js ''failed''}. contains w (runBoth execSync (js ''npm test'')))"
  by (simp add: runTests_def Let_def count_test test_Alt test_word del: word.simps)

lemma type_errors_iff:
  "0 < runTypeCheck execSync \<longleftrightarrow> contains (js ''error TS'') (runBoth execSync (js ''npx tsc --noEmit''))"
  by (simp add: runTypeCheck_def count_test test_word)

text \<open>C38: the audit's verdict. Let three alarms be that the test output mentions a failure, that the
  compiler output mentions a type error, and that the security audit counts a critical
  vulnerability: the run is healthy when none is raised, a warning when exactly one is, critical
  otherwise, and it exits with 1 exactly when at least two are raised.\<close>

theorem audit_verdict:
  fixes E :: env and parse :: "jstr \<Rightarrow> json option" and execSync :: command and started isoNow reportFile :: jstr and fs :: node
  defines "r \<equiv> auditMain E parse execSync started isoNow reportFile fs"
    and "tests \<equiv> (\<exists>w \<in> {[0x2717], js ''FAIL '', js ''failed''}. contains w (runBoth execSync (js ''npm test'')))"
    and "types \<equiv> contains (js ''error TS'') (runBoth execSync (js ''npx tsc --noEmit''))"
    and "sec \<equiv> 0 < fst (runSecurityAudit parse execSync)"
  shows "(overallHealth (auditSummary r) = HEALTHY \<longleftrightarrow> \<not> tests \<and> \<not> types \<and> \<not> sec)
    \<and> (auditExit r = 1 \<longleftrightarrow> (tests \<and> types) \<or> (tests \<and> sec) \<or> (types \<and> sec))
    \<and> (overallHealth (auditSummary r) = CRITICAL \<longleftrightarrow> auditExit r = 1)"
proof -
  have alarms: "tests \<longleftrightarrow> 0 < snd (runTests execSync)" "types \<longleftrightarrow> 0 < runTypeCheck execSync"
    by (simp_all only: tests_def types_def tests_failed_iff type_errors_iff)
  show ?thesis unfolding r_def run_eq alarms sec_def by (simp add: overallHealthOf_def)
qed

text \<open>A tree in which no source file is locked: no walk is cut short.\<close>

fun readable :: "jstr list \<Rightarrow> (jstr \<times> node) list \<Rightarrow> bool" where
  "readable exts [] = True"
| "readable exts ((nm, Dir es) # ents) = (readable exts es \<and> readable exts ents)"
| "readable exts ((nm, LockedFile) # ents) = (\<not> hasExt exts nm \<and> readable exts ents)"
| "readable exts ((nm, _) # ents) = readable exts ents"

lemma walk_offset:
  "readable exts es \<Longrightarrow> walkMatches pats exts es (a + b) = a + walkMatches pats exts es b"
  by (induction pats exts es b arbitrary: a rule: walkMatches.induct) (auto simp: add.assoc)

lemma walk_start: "readable exts es \<Longrightarrow> walkMatches pats exts es a = a + walkMatches pats exts es 0"
  using walk_offset [of exts es pats a 0] by simp

lemma walk_Cons:
  assumes "readable exts (e # es)"
  shows "walkMatches pats exts (e # es) 0 = walkMatches pats exts [e] 0 + walkMatches pats exts es 0"
proof -
  obtain nm n where e: "e = (nm, n)" by force
  show ?thesis
    using assms unfolding e by (cases n) (auto simp: walk_start [of exts es pats "walkMatches pats exts x 0" for x] walk_start
        [of exts es pats "countPatterns pats x" for x])
qed

lemma readable_Cons: "readable exts (e # es) \<longleftrightarrow> readable exts [e] \<and> readable exts es"
  by (cases e; cases "snd e") auto

lemma readable_filter: "readable exts es \<Longrightarrow> readable exts (filter P es)"
  by (induction exts es rule: readable.induct) auto

lemma walk_filter:
  assumes "readable exts es" "distinct (map fst es)"
  shows "walkMatches pats exts es 0 =
    (case map_of es nm of None \<Rightarrow> 0 | Some n \<Rightarrow> walkMatches pats exts [(nm, n)] 0) +
    walkMatches pats exts (filter (\<lambda>e. fst e \<noteq> nm) es) 0"
  using assms
proof (induction es)
  case (Cons e es)
  have r: "readable exts [e]" "readable exts es" using Cons.prems(1) readable_Cons by blast+
  note rf = readable_filter [OF r(2)]
  obtain k n where e: "e = (k, n)" by force
  show ?case
  proof (cases "k = nm")
    case True
    then have "nm \<notin> fst ` set es" using Cons.prems(2) e by simp
    then have "filter (\<lambda>x. fst x \<noteq> nm) es = es" by (auto simp: filter_id_conv)
    then show ?thesis using walk_Cons [OF Cons.prems(1)] True e by simp
  next
    case False
    have "readable exts (e # filter (\<lambda>x. fst x \<noteq> nm) es)" using r(1) rf readable_Cons by blast
    then show ?thesis using walk_Cons [OF Cons.prems(1), of pats] walk_Cons [of exts e "filter (\<lambda>x. fst x \<noteq> nm) es" pats]
        Cons.IH r(2) Cons.prems(2) False e by simp
  qed
qed simp

text \<open>The mocks an audit reports for a module are those outside its test directory. When every source
  file of the module can be read, the reported number is exactly what the walk counts in the
  module without its top-level \<open>__tests__\<close> entry, and the clamp at zero never acts.\<close>

theorem module_mocks_outside_tests:
  assumes "lookup fs [nm] = Some (Dir es)" "readable SOURCE_EXTS es" "distinct (map fst es)"
  shows "mockCount (auditModule fs nm) =
      walkMatches MOCK_PATTERNS SOURCE_EXTS (filter (\<lambda>e. fst e \<noteq> js ''__tests__'') es) 0
    \<and> countMatches fs [nm, js ''__tests__''] MOCK_PATTERNS SOURCE_EXTS \<le> countMatches fs [nm] MOCK_PATTERNS SOURCE_EXTS"
proof -
  let ?t = "js ''__tests__''"
  have look: "lookup fs [nm, ?t] = map_of es ?t"
    using assms(1) by (cases fs) (auto split: option.splits)
  have ext: "\<not> hasExt SOURCE_EXTS ?t" "?t \<noteq> js ''node_modules''" "?t \<noteq> js ''dist''"
    by (simp_all add: hasExt_def SOURCE_EXTS_def js_def suffix_def)
  have "walkMatches MOCK_PATTERNS SOURCE_EXTS es 0 =
      countMatches fs [nm, ?t] MOCK_PATTERNS SOURCE_EXTS +
      walkMatches MOCK_PATTERNS SOURCE_EXTS (filter (\<lambda>e. fst e \<noteq> ?t) es) 0"
    using walk_filter [OF assms(2,3), of MOCK_PATTERNS ?t] look ext
    by (auto simp: countMatches_def split: option.splits node.splits)
  then show ?thesis using assms(1) by (simp add: auditModule_def countMatches_def)
qed

definition demo_module :: "(jstr \<times> node) list" where
  "demo_module = [(js ''a.ts'', File (js ''mock'')), (js ''__tests__'', Dir [(js ''b.ts'', File (js ''fake Mock''))])]"

theorem module_mocks_outside_tests_witness:
  "mockCount (auditModule (Dir [(js ''m'', Dir demo_module)]) (js ''m'')) = 1"
proof -
  have pre: "lookup (Dir [(js ''m'', Dir demo_module)]) [js ''m''] = Some (Dir demo_module)"
    "readable SOURCE_EXTS demo_module" "distinct (map fst demo_module)"
    by (simp_all add: demo_module_def js_def)
  have "walkMatches MOCK_PATTERNS SOURCE_EXTS (filter (\<lambda>e. fst e \<noteq> js ''__tests__'') demo_module) 0 = 1"
    by code_simp
  then show ?thesis using module_mocks_outside_tests [OF pre] by simp
qed

end
