(* ===== verification/AgentsStatus.thy ===== *)
theory AgentsStatus
  imports RepoTree
begin

text \<open>
  The status dashboard (\<open>scripts/agents-status.ts\<close>): which workflows, modules and scripts of the
  repository exist, printed line by line. \<open>mtime\<close> is the modification time of a file as an ISO
  string, or \<open>None\<close> where \<open>statSync\<close> throws.
\<close>

record AgentStatus =
  agName :: jstr
  agModule :: jstr
  agWorkflowFile :: jstr
  agTestPath :: "jstr option"
  agWorkflowExists :: bool
  agModuleExists :: bool
  agTestsExist :: bool
  agLastModified :: "jstr option"

record Listed =
  liName :: jstr
  liPath :: jstr
  liExists :: bool

record SystemStatus =
  stAgents :: "AgentStatus list"
  stWorkflows :: "Listed list"
  stScripts :: "Listed list"
  stLastAuditReport :: "jstr option"
  stGitBranch :: jstr
  stLastCommit :: jstr

section \<open>Collecting\<close>

definition fileExists :: "node \<Rightarrow> string \<Rightarrow> bool" where
  "fileExists fs p = existsSync fs (js p)"

definition getLastModified :: "(jstr \<Rightarrow> jstr option) \<Rightarrow> jstr \<Rightarrow> jstr" where
  "getLastModified mtime p = (case mtime p of Some t \<Rightarrow> takeWhile (\<lambda>c. c \<noteq> 84) t | None \<Rightarrow> js ''unknown'')"

definition found :: "command \<Rightarrow> string \<Rightarrow> bool" where
  "found execSync cmd \<longleftrightarrow> length (trim (runBoth execSync (js cmd))) > 0"

definition agentBase ::
  "node \<Rightarrow> string \<Rightarrow> string \<Rightarrow> string \<Rightarrow> string option \<Rightarrow> bool \<Rightarrow> bool \<Rightarrow> AgentStatus" where
  "agentBase fs nm md flow testPath moduleOk testsOk =
     \<lparr>agName = js nm, agModule = js md, agWorkflowFile = js flow, agTestPath = map_option js testPath,
      agWorkflowExists = fileExists fs flow, agModuleExists = moduleOk, agTestsExist = testsOk, agLastModified = None\<rparr>"

definition DISPATCHER :: string where
  "DISPATCHER = ''.github/workflows/agent-dispatcher.yml''"

definition checkAgents :: "(jstr \<Rightarrow> jstr option) \<Rightarrow> command \<Rightarrow> node \<Rightarrow> AgentStatus list" where
  "checkAgents mtime execSync fs =
     map (\<lambda>a. a\<lparr>agLastModified :=
            (if agWorkflowExists a then Some (getLastModified mtime (agWorkflowFile a)) else None)\<rparr>)
       [agentBase fs ''AGENT-CHAIN'' ''02_nodechain_engine'' DISPATCHER (Some ''tests/unit/nodechain'')
          (fileExists fs ''02_nodechain_engine'')
          (fileExists fs ''tests/unit/nodechain'' \<or> found execSync ''find tests -name \"*.spec.ts\" | grep -i nodechain''),
        agentBase fs ''AGENT-BRIDGE'' ''05_bridge_layer'' DISPATCHER (Some ''tests/unit/bridge'')
          (fileExists fs ''05_bridge_layer'')
          (fileExists fs ''tests/unit/bridge'' \<or> found execSync ''find tests -name \"*.spec.ts\" | grep -i bridge''),
        agentBase fs ''AGENT-GOV'' ''06_governance_layer'' DISPATCHER (Some ''tests/unit/governance'')
          (fileExists fs ''06_governance_layer'') (fileExists fs ''tests/unit/governance''),
        agentBase fs ''AGENT-EMISSION'' ''10_proof_of_transaction_engine'' DISPATCHER (Some ''tests/unit/emission'')
          (fileExists fs ''10_proof_of_transaction_engine'')
          (found execSync ''find tests -name \"*.spec.ts\" | grep -iE \"emission|proof\"''),
        agentBase fs ''AGENT-TEST-INT'' ''all modules'' DISPATCHER (Some ''tests/'') True (fileExists fs ''tests''),
        agentBase fs ''AGENT-AUTOFIX'' ''CI/CD'' ''.github/workflows/auto-fix.yml'' None True True,
        agentBase fs ''AGENT-NIGHTLY'' ''all modules'' ''.github/workflows/nightly-audit.yml'' None True True]"

definition listed :: "node \<Rightarrow> string \<times> string \<Rightarrow> Listed" where
  "listed fs = (\<lambda>(nm, p). \<lparr>liName = js nm, liPath = js p, liExists = fileExists fs p\<rparr>)"

definition WORKFLOWS :: "(string \<times> string) list" where
  "WORKFLOWS = [(''CI (main)'', ''.github/workflows/ci.yml''), (''Auto-Fix'', ''.github/workflows/auto-fix.yml''),
     (''Agent Dispatcher'', ''.github/workflows/agent-dispatcher.yml''),
     (''Nightly Audit'', ''.github/workflows/nightly-audit.yml''), (''AI Review'', ''.github/workflows/ai-review.yml'')]"

definition checkWorkflows :: "node \<Rightarrow> Listed list" where
  "checkWorkflows fs = map (listed fs) WORKFLOWS"

definition checkScripts :: "node \<Rightarrow> Listed list" where
  "checkScripts fs = map (listed fs)
     [(''fix-ci.ts'', ''scripts/fix-ci.ts''), (''nightly-audit.ts'', ''scripts/nightly-audit.ts''),
      (''agents-status.ts'', ''scripts/agents-status.ts''), (''simulate_flow.ts'', ''scripts/simulate_flow.ts''),
      (''test_governance.ts'', ''scripts/test_governance.ts'')]"

section \<open>Printing\<close>

definition sgr :: "string \<Rightarrow> jstr \<Rightarrow> jstr" where
  "sgr code s = [27] @ js (''['' @ code @ ''m'') @ s @ [27] @ js ''[0m''"

definition bold :: "jstr \<Rightarrow> jstr" where "bold = sgr ''1''"
definition green :: "jstr \<Rightarrow> jstr" where "green = sgr ''32''"
definition red :: "jstr \<Rightarrow> jstr" where "red = sgr ''31''"
definition yellow :: "jstr \<Rightarrow> jstr" where "yellow = sgr ''33''"
definition cyan :: "jstr \<Rightarrow> jstr" where "cyan = sgr ''36''"

definition okLabel :: jstr where "okLabel = green (tick_mark @ js '' OK'')"
definition missLabel :: jstr where "missLabel = red (cross_mark @ js '' MISSING'')"
definition warnLabel :: jstr where "warnLabel = yellow (warn_mark @ js ''  PARTIAL'')"

definition thinRule :: jstr where
  "thinRule = js ''  '' @ replicate 62 0x2500"

definition thickRule :: jstr where
  "thickRule = bold (replicate 64 0x2550)"

definition workflowLine :: "Listed \<Rightarrow> jstr" where
  "workflowLine flow =
     js ''  '' @ (if liExists flow then okLabel else missLabel) @ js ''  '' @ padEnd (liName flow) 22 @ js '' '' @ liPath flow"

definition agentLine :: "AgentStatus \<Rightarrow> jstr" where
  "agentLine agent =
     (let allOk = (agWorkflowExists agent \<and> agModuleExists agent);
          s = (if allOk then okLabel else if \<not> agWorkflowExists agent then missLabel else warnLabel);
          testIcon = (if agTestsExist agent then green [0xD83E, 0xDDEA] else yellow [0xD83D, 0xDEAB])
      in js ''  '' @ s @ js ''  '' @ padEnd (agName agent) 18 @ js '' module: '' @ padEnd (agModule agent) 32 @ js '' tests: '' @ testIcon)"

definition scriptLine :: "Listed \<Rightarrow> jstr" where
  "scriptLine sc = js ''  '' @ (if liExists sc then okLabel else missLabel) @ js ''  '' @ liPath sc"

definition healthyAgents :: "SystemStatus \<Rightarrow> nat" where
  "healthyAgents st = length (filter (\<lambda>a. agWorkflowExists a \<and> agModuleExists a) (stAgents st))"

definition healthyWorkflows :: "SystemStatus \<Rightarrow> nat" where
  "healthyWorkflows st = length (filter liExists (stWorkflows st))"

definition overallOk :: "SystemStatus \<Rightarrow> bool" where
  "overallOk st \<longleftrightarrow> healthyAgents st = length (stAgents st) \<and> healthyWorkflows st = length (stWorkflows st)"

definition printDashboard :: "jstr \<Rightarrow> SystemStatus \<Rightarrow> jstr list" where
  "printDashboard isoNow st =
     [[10] @ thickRule, bold (js ''  AST-Aros-Financial-Paradigm '' @ dash @ js '' Agent System Status''), thickRule,
      js ''  Branch: '' @ cyan (stGitBranch st), js ''  Commit: '' @ cyan (stLastCommit st),
      js ''  Date:   '' @ isoNow, []] @
     [bold (js ''  WORKFLOWS''), thinRule] @ map workflowLine (stWorkflows st) @ [[]] @
     [bold (js ''  AGENTS''), thinRule] @ map agentLine (stAgents st) @ [[]] @
     [bold (js ''  SCRIPTS''), thinRule] @ map scriptLine (stScripts st) @ [[]] @
     (case stLastAuditReport st of
        None \<Rightarrow> []
      | Some report \<Rightarrow>
          if report = [] then []
          else [bold (js ''  LAST NIGHTLY AUDIT''), thinRule] @ map (\<lambda>l. js ''  '' @ l) (take 8 (splitNL report)) @ [[]]) @
     [bold (js ''  SUMMARY''), thinRule,
      js ''  Agents:    '' @ green (dec (healthyAgents st)) @ js ''/'' @ dec (length (stAgents st)) @ js '' operational'',
      js ''  Workflows: '' @ green (dec (healthyWorkflows st)) @ js ''/'' @ dec (length (stWorkflows st)) @ js '' present'',
      js ''  Status:    '' @ (if overallOk st then green (js ''ALL SYSTEMS OPERATIONAL'') else yellow (js ''SOME COMPONENTS MISSING'')),
      thickRule, []]"

text \<open>A report file that exists and cannot be read as a file makes \<open>main\<close> reject before anything is
  printed, and the process exits with 1.\<close>

definition REPORT :: jstr where
  "REPORT = js ''NIGHTLY_AUDIT_REPORT.md''"

definition collect :: "(jstr \<Rightarrow> jstr option) \<Rightarrow> command \<Rightarrow> node \<Rightarrow> jstr option \<Rightarrow> SystemStatus" where
  "collect mtime execSync fs report =
     \<lparr>stAgents = checkAgents mtime execSync fs, stWorkflows = checkWorkflows fs, stScripts = checkScripts fs,
      stLastAuditReport = report, stGitBranch = trim (runBoth execSync (js ''git rev-parse --abbrev-ref HEAD'')),
      stLastCommit = trim (runBoth execSync (js ''git log --oneline -1''))\<rparr>"

definition statusMain :: "(jstr \<Rightarrow> jstr option) \<Rightarrow> command \<Rightarrow> jstr \<Rightarrow> node \<Rightarrow> jstr list \<times> nat" where
  "statusMain mtime execSync isoNow fs =
     (case lookup fs [REPORT] of
        None \<Rightarrow> (printDashboard isoNow (collect mtime execSync fs None), 0)
      | Some (File report) \<Rightarrow> (printDashboard isoNow (collect mtime execSync fs (Some report)), 0)
      | Some _ \<Rightarrow> ([], 1))"

section \<open>What the dashboard says\<close>

lemma length_filter_all: "length (filter P xs) = length xs \<longleftrightarrow> list_all P xs"
  using sum_length_filter_compl [of P xs] by (auto simp: list_all_iff filter_empty_conv)

lemma collect_ok:
  "overallOk (collect mtime execSync fs r) \<longleftrightarrow>
     list_all (\<lambda>(_, p). fileExists fs p) WORKFLOWS \<and>
     list_all (fileExists fs) [''02_nodechain_engine'', ''05_bridge_layer'', ''06_governance_layer'',
       ''10_proof_of_transaction_engine'']"
  unfolding overallOk_def healthyAgents_def healthyWorkflows_def length_filter_all
  by (auto simp: collect_def checkAgents_def checkWorkflows_def agentBase_def listed_def WORKFLOWS_def DISPATCHER_def)

text \<open>The dashboard's overall line is right. When it is printed, it says that all systems are
  operational exactly if the five workflow files and the four module directories of the
  agents exist; tests, scripts and the audit report have no influence on it.\<close>

theorem dashboard_verdict:
  assumes "statusMain mtime execSync isoNow fs = (out, 0)"
  shows "(js ''  Status:    '' @ green (js ''ALL SYSTEMS OPERATIONAL'')) = out ! (length out - 3) \<longleftrightarrow>
    list_all (\<lambda>(_, p). fileExists fs p) WORKFLOWS \<and>
    list_all (fileExists fs) [''02_nodechain_engine'', ''05_bridge_layer'', ''06_governance_layer'',
      ''10_proof_of_transaction_engine'']"
proof -
  obtain r where out: "out = printDashboard isoNow (collect mtime execSync fs r)"
    using assms by (auto simp: statusMain_def split: option.splits node.splits)
  let ?line = "js ''  Status:    '' @ (if overallOk (collect mtime execSync fs r) then green (js ''ALL SYSTEMS OPERATIONAL'')
    else yellow (js ''SOME COMPONENTS MISSING''))"
  obtain front where "out = front @ [?line, thickRule, []]" unfolding out printDashboard_def by simp
  then have "out ! (length out - 3) = ?line" by (simp add: nth_append)
  moreover have "green (js ''ALL SYSTEMS OPERATIONAL'') \<noteq> yellow (js ''SOME COMPONENTS MISSING'')"
    by (simp add: green_def yellow_def sgr_def js_def)
  ultimately show ?thesis unfolding collect_ok [symmetric, of fs mtime execSync r] by simp
qed

theorem dashboard_verdict_witness:
  "js ''  Status:    '' @ green (js ''ALL SYSTEMS OPERATIONAL'') \<noteq>
     fst (statusMain (\<lambda>_. None) (\<lambda>_. Inr []) [] (Dir [])) ! (length (fst (statusMain (\<lambda>_. None) (\<lambda>_. Inr []) [] (Dir []))) - 3)"
proof -
  have "statusMain (\<lambda>_. None) (\<lambda>_. Inr []) [] (Dir []) = (fst (statusMain (\<lambda>_. None) (\<lambda>_. Inr []) [] (Dir [])), 0)"
    by (simp add: statusMain_def)
  from dashboard_verdict [OF this] show ?thesis
    by (simp add: fileExists_def existsSync_def segments_def js_def WORKFLOWS_def)
qed

end
