(* ===== verification/FixCi.thy ===== *)
theory FixCi
  imports RepoTree Json
begin

text \<open>
  The CI repair script (\<open>scripts/fix-ci.ts\<close>): it reads a CI log, classifies it, tries five known
  fixes in order and escalates with a report when none was applied. The model follows the
  JavaScript the script compiles to. The first three fixes call their own parameter \<open>log\<close>, a string
  that shadows the logging function, so their first statement throws and the rest of their bodies is
  dead code. A run is a computation over the lines logged, the commands run and the files written;
  an exception reaches the handler at the end of the script, which exits with 1.
\<close>

section \<open>Arguments and types\<close>

record options =
  LOG_FILE :: jstr
  ERROR_SUMMARY :: jstr
  RUN_ID :: jstr
  ATTEMPT :: "int option"
  DRY_RUN :: bool
  ROOT :: jstr

fun argAfter :: "jstr \<Rightarrow> jstr list \<Rightarrow> jstr option" where
  "argAfter flag [] = None"
| "argAfter flag (a # as) = (if a = flag then (case as of [] \<Rightarrow> None | v # _ \<Rightarrow> Some v) else argAfter flag as)"

definition orElse :: "'a option \<Rightarrow> 'a \<Rightarrow> 'a" where
  "orElse x d = (case x of Some v \<Rightarrow> v | None \<Rightarrow> d)"

text \<open>\<open>parseInt(s, 10)\<close>; \<open>None\<close> is NaN.\<close>

definition isDigit :: "nat \<Rightarrow> bool" where
  "isDigit c \<longleftrightarrow> 48 \<le> c \<and> c \<le> 57"

definition parseInt10 :: "jstr \<Rightarrow> int option" where
  "parseInt10 s =
     (let t = dropWhile isSpace s;
          (sign, v) = (case t of [] \<Rightarrow> (1, t) | c # r \<Rightarrow> if c = 45 then (- 1, r) else if c = 43 then (1, r) else (1, t));
          ds = takeWhile isDigit v
      in if ds = [] then None else Some (sign * foldl (\<lambda>n d. 10 * n + (int d - 48)) 0 ds))"

definition parseArgs :: "jstr \<Rightarrow> jstr list \<Rightarrow> options" where
  "parseArgs cwd args =
     \<lparr>LOG_FILE = orElse (argAfter (js ''--log-file'') args) (js ''full_ci_log.txt''),
      ERROR_SUMMARY = orElse (argAfter (js ''--error-summary'') args) [],
      RUN_ID = orElse (argAfter (js ''--run-id'') args) (js ''local''),
      ATTEMPT = parseInt10 (orElse (argAfter (js ''--attempt'') args) (js ''0'')),
      DRY_RUN = (js ''--dry-run'' \<in> set args),
      ROOT = cwd\<rparr>"

record FixResult =
  applied :: bool
  fixDescription :: jstr
  details :: "jstr option"

record CIAnalysis =
  failedStep :: jstr
  errorType :: jstr
  patterns :: "jstr list"
  rawErrors :: "jstr list"

section \<open>Effects\<close>

record ci_state =
  ciOut :: "jstr list"
  ciRun :: "(jstr \<times> jstr) list"
  ciWritten :: "(jstr \<times> jstr) list"

definition logLine :: "jstr \<Rightarrow> (ci_state, unit) state" where
  "logLine msg = modify (\<lambda>s. s\<lparr>ciOut := ciOut s @ [msg]\<rparr>)"

definition writeFile :: "jstr \<Rightarrow> jstr \<Rightarrow> (ci_state, unit) state" where
  "writeFile p content = modify (\<lambda>s. s\<lparr>ciWritten := ciWritten s @ [(p, content)]\<rparr>)"

text \<open>\<open>run\<close>: the command in a directory under the root. A failing command yields the output its
  error carries.\<close>

definition run :: "(jstr \<Rightarrow> command) \<Rightarrow> options \<Rightarrow> jstr \<Rightarrow> jstr \<Rightarrow> (ci_state, jstr) state" where
  "run execSync opts cmd dir =
     (if DRY_RUN opts then do {
        logLine (js ''[DRY RUN] '' @ cmd);
        return []
      } else do {
        modify (\<lambda>s. s\<lparr>ciRun := ciRun s @ [(dir, cmd)]\<rparr>);
        return (case execSync dir cmd of Inr out \<Rightarrow> out | Inl (out, err) \<Rightarrow> out)
      })"

text \<open>\<open>readLog\<close>: an existing log that is not a readable file makes \<open>readFileSync\<close> throw.\<close>

definition readFailure :: error where
  "readFailure = Error ''readFileSync''"

definition readLog :: "node \<Rightarrow> options \<Rightarrow> error + jstr" where
  "readLog fs opts =
     (case (if LOG_FILE opts = [] then None else lookup fs (segments (LOG_FILE opts))) of
        Some (File t) \<Rightarrow> Inr t
      | Some _ \<Rightarrow> Inl readFailure
      | None \<Rightarrow> Inr (if ERROR_SUMMARY opts \<noteq> [] then ERROR_SUMMARY opts else []))"

text \<open>\<open>findFiles\<close>: the walk collects the paths of the files whose name the pattern accepts; a directory
  that cannot be read is skipped.\<close>

fun walkFind :: "(jstr \<Rightarrow> bool) \<Rightarrow> jstr \<Rightarrow> (jstr \<times> node) list \<Rightarrow> jstr list" where
  "walkFind accepts d [] = []"
| "walkFind accepts d ((nm, Dir es) # ents) =
     (if \<not> prefix [46] nm \<and> nm \<noteq> js ''node_modules'' \<and> nm \<noteq> js ''dist''
      then walkFind accepts (d @ [47] @ nm) es @ walkFind accepts d ents else walkFind accepts d ents)"
| "walkFind accepts d ((nm, File _) # ents) =
     (if accepts nm then [d @ [47] @ nm] else []) @ walkFind accepts d ents"
| "walkFind accepts d ((nm, LockedFile) # ents) =
     (if accepts nm then [d @ [47] @ nm] else []) @ walkFind accepts d ents"
| "walkFind accepts d ((nm, _) # ents) = walkFind accepts d ents"

definition findFiles :: "node \<Rightarrow> (jstr \<Rightarrow> bool) \<Rightarrow> jstr \<Rightarrow> jstr list" where
  "findFiles fs accepts dir =
     (case lookup fs (segments dir) of Some (Dir es) \<Rightarrow> walkFind accepts dir es | _ \<Rightarrow> [])"

section \<open>Analysis\<close>

definition stepRe :: re where
  "stepRe = Seq (word True (js ''##[error]'')) (Seq (Star False dot) (Seq (word True (js ''step:''))
     (Seq (Star True space) (Group (plus True dot)))))"

definition runRe :: re where
  "runRe = Seq (word True (js ''Run '')) (Seq (Group (plus False dot)) (Seq (word True [10])
     (Seq (Star False anyUnit) (word True (js ''error'')))))"

definition testFailRe :: re where
  "testFailRe = Alt (word False [0x25CF, 32]) (Alt (word False (js ''FAIL '')) (word False [0x2717, 32]))"

definition groupText :: "cursor option \<Rightarrow> jstr option" where
  "groupText k = (case k of Some (_, _, c) \<Rightarrow> c | None \<Rightarrow> None)"

definition known :: "jstr \<Rightarrow> jstr \<Rightarrow> jstr" where
  "known errType t = (if errType = js ''unknown'' then t else errType)"

definition analyzeLog :: "jstr \<Rightarrow> CIAnalysis" where
  "analyzeLog logContent =
     (let ls = splitNL logContent;
          stepMatch = (case search stepRe None logContent of Some k \<Rightarrow> Some k | None \<Rightarrow> search runRe None logContent);
          failedStep = (case groupText stepMatch of Some g \<Rightarrow> trim g | None \<Rightarrow> js ''unknown'');
          tsErrors = filter (contains (js ''error TS'')) ls;
          p1 = (if tsErrors \<noteq> [] then [js ''typescript-error''] else []);
          e1 = (if tsErrors \<noteq> [] then js ''TypeScript'' else js ''unknown'');
          r1 = (if tsErrors \<noteq> [] then take 10 tsErrors else []);
          testFailLines = filter (test testFailRe) ls;
          p2 = (if testFailLines \<noteq> [] then p1 @ [js ''test-failure''] else p1);
          e2 = (if testFailLines \<noteq> [] then known e1 (js ''Test'') else e1);
          r2 = (if testFailLines \<noteq> [] then r1 @ take 10 testFailLines else r1);
          moduleErrors = filter (contains (js ''Cannot find module'')) ls;
          p3 = (if moduleErrors \<noteq> [] then p2 @ [js ''missing-module''] else p2);
          e3 = (if moduleErrors \<noteq> [] then known e2 (js ''Import'') else e2);
          r3 = (if moduleErrors \<noteq> [] then r2 @ take 5 moduleErrors else r2);
          buildFail = (contains (js ''Build failed'') logContent \<or> contains (js ''npm ERR!'') logContent);
          p4 = (if buildFail then p3 @ [js ''build-failure''] else p3);
          e4 = (if buildFail then known e3 (js ''Build'') else e3);
          workdir = (contains (js ''cd contracts'') logContent \<and> contains (js ''No such file'') logContent);
          p5 = (if workdir then p4 @ [js ''wrong-workdir''] else p4);
          e5 = (if workdir then known e4 (js ''Workflow'') else e4);
          hardhat = (contains (js ''HardhatError'') logContent \<or> contains (js ''hardhat'') logContent);
          p6 = (if hardhat then p5 @ [js ''hardhat-error''] else p5);
          e6 = (if hardhat then known e5 (js ''Hardhat'') else e5)
      in \<lparr>failedStep = failedStep, errorType = e6, patterns = p6, rawErrors = r3\<rparr>)"

section \<open>Fixes\<close>

definition notCallable :: error where
  "notCallable = Error ''TypeError: log is not a function''"

definition refused :: "jstr \<Rightarrow> FixResult" where
  "refused d = \<lparr>applied = False, fixDescription = d, details = None\<rparr>"

text \<open>
  In the first three repairs \<open>log\<close> is the parameter, the text of the CI log. Calling it throws; the
  statements after the first such call are translated as they stand. They read files back after
  writing them; paths are taken from the root, and what lies outside it is not in the tree.
\<close>

definition callValue :: "jstr \<Rightarrow> jstr \<Rightarrow> (ci_state, error + unit) state" where
  "callValue f msg = throw notCallable"

fun normalSegments :: "jstr list \<Rightarrow> jstr list \<Rightarrow> jstr list option" where
  "normalSegments acc [] = Some (rev acc)"
| "normalSegments acc (x # xs) =
     (if x = [46] then normalSegments acc xs
      else if x = [46, 46] then (case acc of [] \<Rightarrow> None | _ # acc' \<Rightarrow> normalSegments acc' xs)
      else normalSegments (x # acc) xs)"

definition fromRoot :: "jstr \<Rightarrow> jstr option" where
  "fromRoot p = map_option (joinWith [47]) (normalSegments [] (segments p))"

definition existsAt :: "node \<Rightarrow> jstr option \<Rightarrow> bool" where
  "existsAt fs p = (case p of None \<Rightarrow> False | Some q \<Rightarrow> existsSync fs q)"

definition readNow :: "node \<Rightarrow> jstr \<Rightarrow> (ci_state, error + jstr) state" where
  "readNow fs p = do {
     written \<leftarrow> gets ciWritten;
     return (case map_of (rev written) p of
       Some content \<Rightarrow> Inr content
     | None \<Rightarrow> (case lookup fs (segments p) of Some (File content) \<Rightarrow> Inr content | _ \<Rightarrow> Inl readFailure))
   }"

definition patchFile :: "options \<Rightarrow> jstr \<Rightarrow> jstr \<Rightarrow> (ci_state, unit) state" where
  "patchFile opts p content = (if \<not> DRY_RUN opts then writeFile p content else return ())"

definition quoted :: "jstr \<Rightarrow> jstr" where
  "quoted t = [39] @ t @ [39]"

definition outcomeOf :: "jstr list \<Rightarrow> jstr \<Rightarrow> jstr \<Rightarrow> jstr \<Rightarrow> FixResult" where
  "outcomeOf fixedList done_text failed_text info =
     \<lparr>applied = (fixedList \<noteq> []),
      fixDescription = (if fixedList \<noteq> [] then done_text @ joinWith (js ''; '') fixedList else failed_text),
      details = Some info\<rparr>"

subsection \<open>Missing modules\<close>

definition moduleRe :: re where
  "moduleRe = Seq (word False (js ''Cannot find module '' @ [39])) (Seq (Group (plus True (Unit (\<lambda>c. c \<noteq> 39)))) (word False [39]))"

definition tsFileRe :: re where
  "tsFileRe = Seq (word False (js ''.ts'')) (NotAhead anyUnit)"

definition missingModules :: "jstr \<Rightarrow> jstr list" where
  "missingModules t = map (\<lambda>(m, c). case c of None \<Rightarrow> [] | Some g \<Rightarrow> g) (matchesOf moduleRe None t)"

fun uniq :: "jstr list \<Rightarrow> jstr list \<Rightarrow> jstr list" where
  "uniq seen [] = []"
| "uniq seen (x # xs) = (if x \<in> set seen then uniq seen xs else x # uniq (x # seen) xs)"

text \<open>The pattern is the quoted import with every special character escaped, so it matches just that
  text; the replacement text is the same, with its \<open>$\<close> patterns expanded.\<close>

definition correctImport :: "jstr \<Rightarrow> jstr \<Rightarrow> jstr" where
  "correctImport modName content =
     (let w = js ''from '' @ quoted modName in replaceWith (word False w) (expand w) [] content)"

fun fixFiles :: "options \<Rightarrow> node \<Rightarrow> jstr \<Rightarrow> jstr list \<Rightarrow> jstr list \<Rightarrow> (ci_state, error + jstr list) state" where
  "fixFiles opts fs modName [] fixedList = return (Inr fixedList)"
| "fixFiles opts fs modName (file # files) fixedList =
     tryM (readNow fs file) (\<lambda>content.
       let correctedContent = correctImport modName content in
       if contains modName content \<and> correctedContent \<noteq> content then do {
         patchFile opts file correctedContent;
         fixFiles opts fs modName files (fixedList @ [ROOT opts @ [47] @ file @ js '': corrected import '' @ quoted modName])
       } else fixFiles opts fs modName files fixedList)"

text \<open>\<open>{ ...pkg.dependencies, ...pkg.devDependencies }[modName]\<close> as a condition. Reading a property of \<open>null\<close>
  throws; a spread string or array contributes its indices; every object inherits the properties of
  \<open>Object.prototype\<close>. Dependency names are ASCII.\<close>

definition spreadProps :: "json option \<Rightarrow> (jstr \<times> json) list" where
  "spreadProps v =
     (case v of
        Some (JObj ps) \<Rightarrow> map (\<lambda>(k, x). (js k, x)) ps
      | Some (JArr vs) \<Rightarrow> map (\<lambda>(i, x). (dec i, x)) (enumerate 0 vs)
      | Some (JStr t) \<Rightarrow> map (\<lambda>(i, c). (dec i, JStr [c])) (enumerate 0 t)
      | _ \<Rightarrow> [])"

definition inheritedProps :: "string list" where
  "inheritedProps =
     [''constructor'', ''hasOwnProperty'', ''isPrototypeOf'', ''propertyIsEnumerable'', ''toLocaleString'', ''toString'',
      ''valueOf'', ''__proto__'', ''__defineGetter__'', ''__defineSetter__'', ''__lookupGetter__'', ''__lookupSetter__'']"

fun truthyJson :: "json \<Rightarrow> bool" where
  "truthyJson JNull = False"
| "truthyJson (JBool b) = b"
| "truthyJson (JNum x) = (x \<noteq> NaN \<and> x \<noteq> Fin 0)"
| "truthyJson (JStr t) = (t \<noteq> [])"
| "truthyJson _ = True"

definition member :: "json \<Rightarrow> string \<Rightarrow> json option" where
  "member v k = (case v of JObj ps \<Rightarrow> map_of ps k | _ \<Rightarrow> None)"

definition hasDependency :: "json \<Rightarrow> jstr \<Rightarrow> bool" where
  "hasDependency pkg modName =
     (let props = rev (spreadProps (member pkg ''dependencies'') @ spreadProps (member pkg ''devDependencies''))
      in case map_of props modName of
           Some v \<Rightarrow> truthyJson v
         | None \<Rightarrow> modName \<in> js ` set inheritedProps)"

fun moduleLoop ::
  "(jstr \<Rightarrow> json option) \<Rightarrow> (jstr \<Rightarrow> command) \<Rightarrow> options \<Rightarrow> node \<Rightarrow> jstr \<Rightarrow> jstr list \<Rightarrow> jstr list \<Rightarrow>
     (ci_state, error + jstr list) state" where
  "moduleLoop parse execSync opts fs logText [] fixedList = return (Inr fixedList)"
| "moduleLoop parse execSync opts fs logText (modName # mods) fixedList =
     tryM (if prefix [46] modName \<or> prefix (js ''@/'') modName
           then fixFiles opts fs modName (findFiles fs (test tsFileRe) (js ''src'')) fixedList
           else return (Inr fixedList)) (\<lambda>fixedList.
     tryM (readNow fs (js ''package.json'')) (\<lambda>content.
     case parse content of
       None \<Rightarrow> throw (Error ''SyntaxError'')
     | Some pkg \<Rightarrow>
         if pkg = JNull then throw (Error ''TypeError'')
         else if \<not> hasDependency pkg modName \<and> \<not> prefix [46] modName then
           tryM (callValue logText (js ''Installing missing package: '' @ modName)) (\<lambda>_. do {
             run execSync opts (js ''npm install '' @ modName @ js '' --save 2>&1'') [];
             moduleLoop parse execSync opts fs logText mods (fixedList @ [js ''Installed missing package: '' @ modName])
           })
         else moduleLoop parse execSync opts fs logText mods fixedList))"

definition fixMissingModule ::
  "(jstr \<Rightarrow> json option) \<Rightarrow> (jstr \<Rightarrow> command) \<Rightarrow> options \<Rightarrow> node \<Rightarrow> jstr \<Rightarrow> (ci_state, error + FixResult) state" where
  "fixMissingModule parse execSync opts fs logText =
     tryM (callValue logText (js ''Detected: Cannot find module '' @ dash @ js '' scanning for broken imports...'')) (\<lambda>_.
     let uniqueModules = uniq [] (missingModules logText) in
     tryM (callValue logText (js ''Missing modules: '' @ joinWith (js '', '') uniqueModules)) (\<lambda>_.
     tryM (moduleLoop parse execSync opts fs logText uniqueModules []) (\<lambda>fixedList.
     return (Inr (outcomeOf fixedList (js ''Fixed missing modules: '')
       (js ''Could not auto-fix missing modules: '' @ joinWith (js '', '') uniqueModules) (joinWith [10] fixedList))))))"

subsection \<open>Test failures\<close>

definition failRe :: re where
  "failRe = Seq (word False (js ''FAIL '')) (Group (Seq (word False (js ''tests/'')) (plus True (Unit (\<lambda>c. \<not> isSpace c)))))"

definition failedFiles :: "jstr \<Rightarrow> jstr list" where
  "failedFiles t = map (\<lambda>(m, c). replaceOnce (word False (js ''FAIL '')) (\<lambda>_ _ _ _. []) [] m) (matchesOf failRe None t)"

definition jestFnRe :: re where
  "jestFnRe = Seq (word False (js ''jest.fn()'')) (NotAhead (word False (js ''.mock'')))"

definition itRe :: re where
  "itRe = Seq (word False (js ''it('' @ [39])) (Seq (Group (plus True (Unit (\<lambda>c. c \<noteq> 39))))
     (word False ([39] @ js '', () => {'')))"

definition patchTest :: "jstr \<Rightarrow> jstr" where
  "patchTest content =
     (let mockFix = replaceWith jestFnRe (expand (js ''jest.fn().mockResolvedValue(undefined)'')) [] content
      in replaceWith itRe (expand (js ''it('' @ [39] @ js ''$1'' @ [39] @ js '', async () => {'')) [] mockFix)"

fun testLoop :: "options \<Rightarrow> node \<Rightarrow> jstr list \<Rightarrow> jstr list \<Rightarrow> (ci_state, error + jstr list) state" where
  "testLoop opts fs [] fixedList = return (Inr fixedList)"
| "testLoop opts fs (testFile # files) fixedList =
     (let fullPath = fromRoot testFile in
      if \<not> existsAt fs fullPath then testLoop opts fs files fixedList
      else tryM (readNow fs (the fullPath)) (\<lambda>content.
        let asyncFix = patchTest content in
        if asyncFix \<noteq> content then do {
          patchFile opts (the fullPath) asyncFix;
          testLoop opts fs files (fixedList @ [testFile @ js '': patched mock return values and async patterns''])
        } else testLoop opts fs files fixedList))"

definition fixTestFailure :: "options \<Rightarrow> node \<Rightarrow> jstr \<Rightarrow> (ci_state, error + FixResult) state" where
  "fixTestFailure opts fs logText =
     tryM (callValue logText (js ''Detected: Test failures '' @ dash @ js '' analyzing...'')) (\<lambda>_.
     let files = failedFiles logText in
     if files = [] then return (Inr (refused (js ''Could not identify failing test files'')))
     else tryM (testLoop opts fs files []) (\<lambda>fixedList.
       return (Inr (outcomeOf fixedList (js ''Patched test files: '')
         (js ''Test failures in ['' @ joinWith (js '', '') files @ js ''] require manual inspection'') (joinWith [10] fixedList)))))"

subsection \<open>Type errors\<close>

text \<open>The five groups of the diagnostic's pattern. A group does not change what matches, so group \<open>n\<close> is
  read by matching with the capture on the \<open>n\<close>-th one; the pattern is anchored at both ends.\<close>

definition digitRe :: re where
  "digitRe = plus True (Unit isDigit)"

definition diagnosticRe :: "nat \<Rightarrow> re" where
  "diagnosticRe n =
     (let g = (\<lambda>i r. if n = i then Group r else r) in
      Seq (g 1 (Seq (plus True dot) (word False (js ''.ts''))))
     (Seq (word False (js ''('')) (Seq (g 2 digitRe) (Seq (word False (js '','')) (Seq (g 3 digitRe)
     (Seq (word False (js ''): error '')) (Seq (g 4 (Seq (word False (js ''TS'')) digitRe))
     (Seq (word False (js '': '')) (g 5 (plus True dot))))))))))"

definition diagnosticGroup :: "nat \<Rightarrow> jstr \<Rightarrow> jstr option" where
  "diagnosticGroup n l =
     (case filter (\<lambda>k. rest k = []) (ms (diagnosticRe n) (None, l, None)) of [] \<Rightarrow> None | (_, _, c) # _ \<Rightarrow> c)"

definition underRoot :: "options \<Rightarrow> jstr \<Rightarrow> jstr option" where
  "underRoot opts filePath =
     (if prefix [47] filePath
      then (if prefix (ROOT opts @ [47]) filePath then fromRoot (drop (length (ROOT opts) + 1) filePath) else None)
      else fromRoot filePath)"

text \<open>\<open>lines[i]\<close> with \<open>??\<close>, and \<open>lines[i] = v\<close>: beyond the end the array grows and the holes join as
  empty; an index that is no array index leaves the elements alone.\<close>

definition lineAt :: "jstr list \<Rightarrow> int \<Rightarrow> jstr" where
  "lineAt ls i = (if 0 \<le> i \<and> nat i < length ls then ls ! nat i else [])"

definition setLine :: "jstr list \<Rightarrow> int \<Rightarrow> jstr \<Rightarrow> jstr list" where
  "setLine ls i v =
     (if i < 0 \<or> 2 ^ 32 - 1 \<le> i then ls
      else if nat i < length ls then ls[nat i := v]
      else ls @ replicate (nat i - length ls) [] @ [v])"

definition asAny :: "jstr \<Rightarrow> jstr" where
  "asAny l = replaceOnce (Seq (word False (js '')'')) (NotAhead anyUnit)) (expand (js '' as any)'')) [] l"

definition anyParam :: "jstr \<Rightarrow> jstr" where
  "anyParam l = replaceOnce (Seq (word False (js ''('')) (Seq (Group (plus True (Unit wordUnit))) (word False (js '')''))))
     (expand (js ''($1: any)'')) [] l"

definition nameRe :: re where
  "nameRe = Seq (word False (js ''Cannot find name '' @ [39])) (Seq (Group (plus True (Unit wordUnit))) (word False [39]))"

definition fixLine ::
  "options \<Rightarrow> node \<Rightarrow> jstr \<Rightarrow> jstr \<Rightarrow> jstr \<Rightarrow> (ci_state, error + jstr list) state" where
  "fixLine opts fs logText fullPath errLine =
     tryM (readNow fs fullPath) (\<lambda>content.
     let ls = splitNL content;
         filePath = the (diagnosticGroup 1 errLine); lineNum = the (diagnosticGroup 2 errLine);
         errCode = the (diagnosticGroup 4 errLine); errMsg = the (diagnosticGroup 5 errLine);
         lineIndex = (case parseInt10 lineNum of None \<Rightarrow> - 1 | Some n \<Rightarrow> n - 1);
         lineContent = lineAt ls lineIndex
     in if errCode = js ''TS2345'' \<and> \<not> contains (js '' as '') lineContent then do {
          patchFile opts fullPath (joinWith [10] (setLine ls lineIndex (asAny lineContent)));
          return (Inr [filePath @ js '':'' @ lineNum @ js '' '' @ dash @ js '' added '' @ quoted (js ''as any'') @ js '' for TS2345''])
        }
        else if errCode = js ''TS2304'' then
          (case groupText (search nameRe None errMsg) of
             None \<Rightarrow> return (Inr [])
           | Some nm \<Rightarrow> tryM (callValue logText (js ''  Cannot resolve '' @ quoted nm @ js '' '' @ dash @ js '' needs manual import''))
               (\<lambda>_. return (Inr [])))
        else if errCode = js ''TS7006'' then do {
          patchFile opts fullPath (joinWith [10] (setLine ls lineIndex (anyParam lineContent)));
          return (Inr [filePath @ js '':'' @ lineNum @ js '' '' @ dash @ js '' added '' @ quoted (js ''any'') @ js '' type for TS7006''])
        }
        else return (Inr []))"

fun tsLoop :: "options \<Rightarrow> node \<Rightarrow> jstr \<Rightarrow> jstr list \<Rightarrow> jstr list \<Rightarrow> (ci_state, error + jstr list) state" where
  "tsLoop opts fs logText [] fixedList = return (Inr fixedList)"
| "tsLoop opts fs logText (errLine # errs) fixedList =
     (case diagnosticGroup 1 errLine of
        None \<Rightarrow> tsLoop opts fs logText errs fixedList
      | Some filePath \<Rightarrow>
          let fullPath = underRoot opts filePath in
          if \<not> existsAt fs fullPath then tsLoop opts fs logText errs fixedList
          else tryM (fixLine opts fs logText (the fullPath) errLine) (\<lambda>new.
            tsLoop opts fs logText errs (fixedList @ new)))"

definition fixTypescriptErrors ::
  "(jstr \<Rightarrow> command) \<Rightarrow> options \<Rightarrow> node \<Rightarrow> jstr \<Rightarrow> (ci_state, error + FixResult) state" where
  "fixTypescriptErrors execSync opts fs logText =
     tryM (callValue logText (js ''Detected: TypeScript errors '' @ dash @ js '' running tsc diagnostics...'')) (\<lambda>_. do {
     tscOut \<leftarrow> run execSync opts (js ''npx tsc --noEmit 2>&1'') [];
     let errors = filter (contains (js ''error TS'')) (splitNL tscOut);
     if errors = [] then return (Inr (refused (js ''No current TypeScript errors found'')))
     else
       tryM (callValue logText (js ''TypeScript errors ('' @ dec (length errors) @ js ''):'')) (\<lambda>_.
       tryM (forE (\<lambda>e. callValue logText (js ''  '' @ e)) (take 10 errors)) (\<lambda>_.
       tryM (tsLoop opts fs logText (take 20 errors) []) (\<lambda>fixedList.
       return (Inr (outcomeOf fixedList (js ''Applied TypeScript fixes: '')
         (js ''TypeScript errors require manual attention ('' @ dec (length errors) @ js '' errors)'')
         (joinWith [10] (take 20 errors)))))))
   })"

subsection \<open>Workflow and contracts\<close>

definition CI_YML :: jstr where
  "CI_YML = js ''.github/workflows/ci.yml''"

definition workdirRe :: re where
  "workdirRe = Seq (word False (js ''cd contracts'')) WordBoundary"

definition fixWrongWorkdir :: "options \<Rightarrow> node \<Rightarrow> (ci_state, error + FixResult) state" where
  "fixWrongWorkdir opts fs = do {
     logLine (js ''Detected: Wrong working directory \"cd contracts\" in workflow...'');
     (case lookup fs (segments CI_YML) of
        None \<Rightarrow> return (Inr (refused (js ''ci.yml not found'')))
      | Some (File content) \<Rightarrow>
          (case (if existsSync fs (js ''smart_contracts'') then Some (js ''smart_contracts'')
                 else if existsSync fs (js ''contracts'') then Some (js ''contracts'') else None) of
             None \<Rightarrow> return (Inr (refused (js ''Cannot find contracts directory'')))
           | Some actualDir \<Rightarrow>
               let fixed = replaceAll workdirRe (js ''cd '' @ actualDir) None content
               in if fixed = content
                  then return (Inr (refused (js ''Pattern \"cd contracts\" not found in ci.yml'')))
                  else do {
                    (if \<not> DRY_RUN opts then writeFile CI_YML fixed else return ());
                    return (Inr \<lparr>applied = True,
                      fixDescription = js ''Fixed ci.yml: \"cd contracts\" '' @ [0x2192] @ js '' \"cd '' @ actualDir @ js ''\"'',
                      details = Some (js ''Wrong directory reference corrected in .github/workflows/ci.yml'')\<rparr>)
                  })
      | Some _ \<Rightarrow> throw readFailure)
   }"

definition fixHardhatError :: "(jstr \<Rightarrow> command) \<Rightarrow> options \<Rightarrow> node \<Rightarrow> (ci_state, error + FixResult) state" where
  "fixHardhatError execSync opts fs = do {
     logLine (js ''Detected: Hardhat compilation error '' @ dash @ js '' checking smart_contracts setup...'');
     if \<not> existsSync fs (js ''smart_contracts'') then return (Inr (refused (js ''smart_contracts directory not found'')))
     else if \<not> existsSync fs (js ''smart_contracts/package.json'')
     then return (Inr (refused (js ''smart_contracts/package.json not found'')))
     else do {
       logLine (js ''Reinstalling smart_contracts dependencies...'');
       run execSync opts (js ''npm install'') (js ''smart_contracts'');
       return (Inr \<lparr>applied = True, fixDescription = js ''Reinstalled smart_contracts/node_modules'',
         details = Some (js ''Ran npm install in smart_contracts directory'')\<rparr>)
     }
   }"

type_synonym FailurePattern = "jstr \<times> (jstr \<Rightarrow> bool) \<times> (jstr \<Rightarrow> (ci_state, error + FixResult) state)"

definition knownFixes ::
  "(jstr \<Rightarrow> json option) \<Rightarrow> (jstr \<Rightarrow> command) \<Rightarrow> options \<Rightarrow> node \<Rightarrow> FailurePattern list" where
  "knownFixes parse execSync opts fs =
     [(js ''fix-missing-module'', contains (js ''Cannot find module''), fixMissingModule parse execSync opts fs),
      (js ''fix-test-failure'',
       test (Alt (word False [0x25CF, 32]) (Alt (word False (js ''FAIL '')) (word False (js ''Test suite failed'')))),
       fixTestFailure opts fs),
      (js ''fix-typescript-errors'', contains (js ''error TS''), fixTypescriptErrors execSync opts fs),
      (js ''fix-wrong-workdir'',
       (\<lambda>t. contains (js ''cd contracts'') t \<and> contains (js ''No such file or directory'') t),
       (\<lambda>_. fixWrongWorkdir opts fs)),
      (js ''fix-hardhat-error'',
       (\<lambda>t. contains (js ''HardhatError'') t \<or> (contains (js ''hardhat compile'') t \<and> contains (js ''Error'') t)),
       (\<lambda>_. fixHardhatError execSync opts fs))]"

section \<open>Escalation and main\<close>

definition attemptText :: "env \<Rightarrow> options \<Rightarrow> jstr" where
  "attemptText E opts = (case ATTEMPT opts of None \<Rightarrow> js ''NaN'' | Some i \<Rightarrow> js (intStr E i))"

definition escalationReport :: "env \<Rightarrow> options \<Rightarrow> jstr \<Rightarrow> CIAnalysis \<Rightarrow> jstr \<Rightarrow> jstr" where
  "escalationReport E opts isoNow analysis logContent = joinWith [10]
     [[],
      js ''ESCALATION REPORT '' @ dash @ js '' CI Auto-Fix Unable to Resolve'',
      js ''==================================================='',
      js ''Run ID:      '' @ RUN_ID opts,
      js ''Attempt:     '' @ attemptText E opts,
      js ''Timestamp:   '' @ isoNow,
      js ''Failed Step: '' @ failedStep analysis,
      js ''Error Type:  '' @ errorType analysis,
      js ''Patterns:    '' @ (if patterns analysis = [] then js ''none detected'' else joinWith (js '', '') (patterns analysis)),
      [],
      js ''Raw Errors (first 20):'',
      joinWith [10] (take 20 (rawErrors analysis)),
      [],
      js ''CI Log (last 50 lines):'',
      joinWith [10] (lastN 50 (splitNL logContent)),
      []]"

definition REPORT_PATH :: jstr where
  "REPORT_PATH = js ''ESCALATION_REPORT.md''"

definition escalate :: "env \<Rightarrow> options \<Rightarrow> jstr \<Rightarrow> CIAnalysis \<Rightarrow> jstr \<Rightarrow> (ci_state, unit) state" where
  "escalate E opts isoNow analysis logContent = do {
     writeFile REPORT_PATH (escalationReport E opts isoNow analysis logContent);
     logLine (js ''ESCALATION: Written to ESCALATION_REPORT.md'');
     logLine (js ''This failure requires manual human intervention.'')
   }"

text \<open>The loop over the fixes collects the descriptions of the applied ones.\<close>

fun fixLoop :: "FailurePattern list \<Rightarrow> jstr \<Rightarrow> jstr list \<Rightarrow> (ci_state, error + jstr list) state" where
  "fixLoop [] logContent appliedFixes = return (Inr appliedFixes)"
| "fixLoop ((nm, detect, fix) # fs) logContent appliedFixes =
     (if detect logContent then do {
        logLine ([10] @ js ''Applying fix: '' @ nm);
        tryM (fix logContent) (\<lambda>res.
          if applied res then do {
            logLine (js ''  '' @ tick_mark @ js '' Fix applied: '' @ fixDescription res);
            logLine (js ''FIX_DESCRIPTION:'' @ fixDescription res);
            fixLoop fs logContent (appliedFixes @ [fixDescription res])
          } else do {
            logLine (js ''  '' @ warn_mark @ js ''  Fix not applicable: '' @ fixDescription res);
            fixLoop fs logContent appliedFixes
          })
      } else fixLoop fs logContent appliedFixes)"

definition rule60 :: jstr where
  "rule60 = replicate 60 61"

definition boolUnits :: "bool \<Rightarrow> jstr" where
  "boolUnits b = (if b then js ''true'' else js ''false'')"

fun logAll :: "jstr list \<Rightarrow> (ci_state, unit) state" where
  "logAll [] = return ()"
| "logAll (l # ls) = do { logLine l; logAll ls }"

definition finish :: "(jstr \<Rightarrow> command) \<Rightarrow> options \<Rightarrow> jstr list \<Rightarrow> (ci_state, nat) state" where
  "finish execSync opts appliedFixes = do {
     logAll ([[10] @ rule60, js ''Fixes applied ('' @ dec (length appliedFixes) @ js ''):''] @
       map (\<lambda>(i, f). js ''  '' @ dec (i + 1) @ js ''. '' @ f) (enumerate 0 appliedFixes) @
       [rule60, [10] @ js ''Verifying TypeScript after fixes...'']);
     verifyOut \<leftarrow> run execSync opts (js ''npx tsc --noEmit 2>&1'') [];
     let remainingErrors = length (filter (contains (js ''error TS'')) (splitNL verifyOut));
     logLine (if remainingErrors > 0
       then warn_mark @ js ''  '' @ dec remainingErrors @ js '' TypeScript errors remain after fix. Manual review needed.''
       else tick_mark @ js '' TypeScript clean after fixes.'');
     return 0
   }"

definition banner :: "env \<Rightarrow> options \<Rightarrow> jstr list" where
  "banner E opts =
     [rule60, js ''AST Self-Healing CI '' @ dash @ js '' fix-ci.ts'',
      js ''Run ID: '' @ RUN_ID opts @ js ''  |  Attempt: '' @ attemptText E opts @ js ''  |  Dry-run: '' @ boolUnits (DRY_RUN opts),
      rule60]"

definition analysisLines :: "CIAnalysis \<Rightarrow> jstr list" where
  "analysisLines analysis =
     [[10] @ js ''Analysis:'', js ''  Failed step: '' @ failedStep analysis, js ''  Error type:  '' @ errorType analysis,
      js ''  Patterns:    '' @ (if patterns analysis = [] then js ''none'' else joinWith (js '', '') (patterns analysis)),
      js ''  Errors:      '' @ dec (length (rawErrors analysis)) @ js '' lines'' @ [10]]"

definition mainBody ::
  "env \<Rightarrow> (jstr \<Rightarrow> json option) \<Rightarrow> (jstr \<Rightarrow> command) \<Rightarrow> options \<Rightarrow> jstr \<Rightarrow> node \<Rightarrow> (ci_state, error + nat) state" where
  "mainBody E parse execSync opts isoNow fs = do {
     logAll (banner E opts);
     tryM (return (readLog fs opts)) (\<lambda>logContent. do {
       (if logContent = [] then logLine (js ''WARNING: No CI log content available. Running in limited mode.'') else return ());
       let analysis = analyzeLog logContent;
       logAll (analysisLines analysis);
       tryM (fixLoop (knownFixes parse execSync opts fs) logContent []) (\<lambda>appliedFixes.
         if appliedFixes = [] then do {
           logLine ([10] @ js ''No automatic fix could be applied.'');
           escalate E opts isoNow analysis logContent;
           return (Inr 1)
         } else do {
           code \<leftarrow> finish execSync opts appliedFixes;
           return (Inr code)
         })
     })
   }"

text \<open>The exit code of the process; \<open>main().catch\<close> exits with 1.\<close>

definition fixCi :: "env \<Rightarrow> (jstr \<Rightarrow> json option) \<Rightarrow> (jstr \<Rightarrow> command) \<Rightarrow> jstr \<Rightarrow> jstr list \<Rightarrow> jstr \<Rightarrow> node \<Rightarrow> (ci_state, nat) state" where
  "fixCi E parse execSync cwd args isoNow fs = do {
     r \<leftarrow> mainBody E parse execSync (parseArgs cwd args) isoNow fs;
     return (case r of Inl e \<Rightarrow> 1 | Inr code \<Rightarrow> code)
   }"

section \<open>Outcomes\<close>

text \<open>The effects that matter outside the console.\<close>

definition effects :: "ci_state \<Rightarrow> (jstr \<times> jstr) list \<times> (jstr \<times> jstr) list" where
  "effects s = (ciRun s, ciWritten s)"

lemma log_effects [simp]: "effects (exec (logLine m) s) = effects s" "effects (exec (logAll ls) s) = effects s"
proof -
  show *: "effects (exec (logLine m) s) = effects s" for m s by (simp add: logLine_def effects_def)
  show "effects (exec (logAll ls) s) = effects s" by (induction ls arbitrary: s) (simp_all add: *)
qed

definition crashes :: "jstr \<Rightarrow> bool" where
  "crashes t \<longleftrightarrow> (\<exists>w \<in> {js ''Cannot find module'', [0x25CF, 32], js ''FAIL '', js ''Test suite failed'', js ''error TS''}. contains w t)"

text \<open>The first statement of the first three repairs throws, so none of the others runs.\<close>

lemma dead_repairs:
  "fixMissingModule parse execSync opts fs t = throw notCallable"
  "fixTestFailure opts fs t = throw notCallable"
  "fixTypescriptErrors execSync opts fs t = throw notCallable"
  by (simp_all add: fixMissingModule_def fixTestFailure_def fixTypescriptErrors_def callValue_def tryM_def)

text \<open>And had the logger been called, the repair of broken relative imports would still repair nothing: it
  replaces the import by itself.\<close>

lemma import_repair_changes_nothing:
  assumes "36 \<notin> set modName"
  shows "correctImport modName content = content"
    and "exec (fixFiles opts fs modName files acc) s = s"
proof -
  show *: "correctImport modName content = content" for content
    unfolding correctImport_def Let_def
    by (rule replace_same) (use assms in \<open>auto simp: expand_plain quoted_def js_def\<close>)
  have r: "exec (readNow fs f) s = s" for f by (simp add: readNow_def)
  show "exec (fixFiles opts fs modName files acc) s = s"
    by (induction files arbitrary: acc) (simp_all add: tryM_simps r * Let_def split: sum.splits)
qed

lemma loop_crash:
  assumes "crashes t"
  shows "result (fixLoop (knownFixes parse execSync opts fs) t []) s = Inl notCallable"
    "effects (exec (fixLoop (knownFixes parse execSync opts fs) t []) s) = effects s"
  using assms
  by (auto simp: crashes_def knownFixes_def tryM_simps dead_repairs
      test_Alt test_word simp del: word.simps)

text \<open>C39: the first three repairs never run. Whenever the log that the script reads mentions a missing
  module, a failing test or a TypeScript error, the run throws out of the repair of that
  failure: it exits with 1 having run no command and written no file, so there is neither a repair
  nor an escalation report.\<close>

theorem fix_ci_crashes:
  assumes "readLog fs (parseArgs cwd args) = Inr t" "crashes t"
  shows "result (fixCi E parse execSync cwd args isoNow fs) s = 1 \<and> effects (exec (fixCi E parse execSync cwd args isoNow fs) s) = effects s"
  using assms by (simp add: fixCi_def mainBody_def tryM_simps loop_crash Let_def)

theorem fix_ci_crashes_witness:
  "result (fixCi plain_env (\<lambda>_. None) (\<lambda>_ _. Inr []) [] [js ''--error-summary'', js ''error TS2304''] [] (Dir [])) \<lparr>ciOut = [], ciRun = [], ciWritten = []\<rparr> = 1"
proof -
  have "readLog (Dir []) (parseArgs [] [js ''--error-summary'', js ''error TS2304'']) = Inr (js ''error TS2304'')"
    by (simp add: readLog_def parseArgs_def orElse_def segments_def js_def)
  moreover have "contains (js ''error TS'') (js ''error TS2304'')" by (simp add: js_def)
  then have "crashes (js ''error TS2304'')" unfolding crashes_def by blast
  ultimately show ?thesis using fix_ci_crashes by blast
qed

lemma workdir_effects:
  "effects (exec (fixWrongWorkdir opts fs) s) = effects s \<or> \<not> DRY_RUN opts"
  by (auto simp: fixWrongWorkdir_def Let_def split: option.splits node.splits)

lemma hardhat_effects:
  "effects (exec (fixHardhatError execSync opts fs) s) = effects s \<or> \<not> DRY_RUN opts"
  by (auto simp: fixHardhatError_def run_def)

lemma loop_dry:
  assumes "\<forall>(nm, detect, fix) \<in> set fl. \<forall>t s. effects (exec (fix t) s) = effects s"
  shows "effects (exec (fixLoop fl t acc) s) = effects s"
  using assms
proof (induction fl t acc arbitrary: s rule: fixLoop.induct)
  case (2 nm detect repair fl t acc)
  then show ?case by (auto simp: tryM_simps split: sum.splits)
qed simp

text \<open>A dry run changes nothing but the escalation report. With \<open>--dry-run\<close> no command is run at
  all, and if a file is written it is \<open>ESCALATION_REPORT.md\<close>, which happens exactly when no repair
  is applied and none crashes.\<close>

lemma fix_ci_dry_run:
  assumes "js ''--dry-run'' \<in> set args"
  shows "ciRun (exec (fixCi E parse execSync cwd args isoNow fs) s) = ciRun s
    \<and> (ciWritten (exec (fixCi E parse execSync cwd args isoNow fs) s) = ciWritten s
      \<or> (\<exists>report. ciWritten (exec (fixCi E parse execSync cwd args isoNow fs) s) = ciWritten s @ [(REPORT_PATH, report)]
          \<and> result (fixCi E parse execSync cwd args isoNow fs) s = 1))"
proof -
  let ?o = "parseArgs cwd args"
  have dry: "DRY_RUN ?o" using assms by (simp add: parseArgs_def)
  have all: "\<forall>(nm, detect, fix) \<in> set (knownFixes parse execSync ?o fs). \<forall>t s. effects (exec (fix t) s) = effects s"
    using workdir_effects [of ?o] hardhat_effects [of execSync ?o] dry
    by (auto simp: knownFixes_def dead_repairs)
  note loop = loop_dry [OF all]
  have fin: "effects (exec (finish execSync ?o as) s') = effects s'" for as s'
    using dry by (simp add: finish_def run_def Let_def)
  have esc: "effects (exec (escalate E ?o isoNow an t) s') =
      (fst (effects s'), snd (effects s') @ [(REPORT_PATH, escalationReport E ?o isoNow an t)])" for an t s'
    by (simp add: escalate_def logLine_def writeFile_def effects_def)
  define m where "m = mainBody E parse execSync ?o isoNow fs"
  have "effects (exec m s) = effects s \<or>
    (\<exists>report. effects (exec m s) = (fst (effects s), snd (effects s) @ [(REPORT_PATH, report)]) \<and> result m s = Inr 1)"
  proof (cases "readLog fs ?o")
    case (Inl e)
    then show ?thesis by (simp add: m_def mainBody_def tryM_simps)
  next
    case (Inr t)
    define w where "w = exec (do {
       logAll (banner E ?o);
       (if t = [] then logLine (js ''WARNING: No CI log content available. Running in limited mode.'') else return ());
       logAll (analysisLines (analyzeLog t)) }) s"
    have w: "effects w = effects s" by (simp add: w_def)
    let ?L = "fixLoop (knownFixes parse execSync ?o fs) t []"
    have m: "exec m s = (case result ?L w of Inl e \<Rightarrow> exec ?L w
        | Inr as \<Rightarrow> if as = [] then exec (escalate E ?o isoNow (analyzeLog t) t)
              (exec (logLine ([10] @ js ''No automatic fix could be applied.'')) (exec ?L w))
            else exec (finish execSync ?o as) (exec ?L w))"
      "result ?L w = Inr [] \<Longrightarrow> result m s = Inr 1"
      by (simp_all add: m_def mainBody_def tryM_simps Let_def Inr w_def split: sum.splits)
    show ?thesis unfolding m(1) using m(2) w
      by (cases "result ?L w") (simp_all add: loop fin esc)
  qed
  then show ?thesis by (auto simp: fixCi_def m_def [symmetric] effects_def)
qed

text \<open>A log without any known failure is escalated: the report is written and the exit code is 1.\<close>

lemma fix_ci_escalates:
  assumes "readLog fs (parseArgs cwd args) = Inr t" "\<not> crashes t" "\<not> contains (js ''cd contracts'') t"
    "\<not> contains (js ''HardhatError'') t" "\<not> contains (js ''hardhat compile'') t"
  shows "result (fixCi E parse execSync cwd args isoNow fs) s = 1"
    "ciWritten (exec (fixCi E parse execSync cwd args isoNow fs) s) = ciWritten s @
       [(REPORT_PATH, escalationReport E (parseArgs cwd args) isoNow (analyzeLog t) t)]"
proof -
  have loop: "fixLoop (knownFixes parse execSync (parseArgs cwd args) fs) t [] = return (Inr [])"
    using assms(2-5) by (simp add: knownFixes_def crashes_def test_Alt test_word del: word.simps)
  have esc: "effects (exec (escalate E o' isoNow an t) s') =
      (fst (effects s'), snd (effects s') @ [(REPORT_PATH, escalationReport E o' isoNow an t)])" for o' an s'
    by (simp add: escalate_def logLine_def writeFile_def effects_def)
  have "effects (exec (fixCi E parse execSync cwd args isoNow fs) s) =
    (fst (effects s), snd (effects s) @ [(REPORT_PATH, escalationReport E (parseArgs cwd args) isoNow (analyzeLog t) t)])"
    using assms(1) by (simp add: fixCi_def mainBody_def tryM_simps loop Let_def esc)
  then show "ciWritten (exec (fixCi E parse execSync cwd args isoNow fs) s) = ciWritten s @
       [(REPORT_PATH, escalationReport E (parseArgs cwd args) isoNow (analyzeLog t) t)]" by (simp add: effects_def)
  show "result (fixCi E parse execSync cwd args isoNow fs) s = 1"
    using assms(1) by (simp add: fixCi_def mainBody_def tryM_simps loop Let_def)
qed

end
