(* ===== verification/Frontend.thy ===== *)
theory Frontend
  imports Json
begin

text \<open>
  The front end's data hook (\<open>frontend/src/hooks/useData.ts\<close>), which polls four endpoints, and the
  colour tables of the governance panel. A request either fails or gives a response with the flag
  \<open>ok\<close> and a body that may not be JSON. What a poll stores is untyped JSON: the TypeScript
  interfaces are not checked at run time. \<open>getRoute\<close> says which paths
  the backend's controllers declare for GET.
\<close>

record view_state =
  viewNodes :: json
  viewTransactions :: json
  viewProposals :: json
  viewStats :: json
  viewLoading :: bool

definition initialView :: view_state where
  "initialView = \<lparr>viewNodes = JArr [], viewTransactions = JArr [], viewProposals = JArr [],
     viewStats = JObj [(''ledgerHeight'', jint 0), (''activeNodes'', jint 0), (''epoch'', jint 1)], viewLoading = True\<rparr>"

record response =
  respOk :: bool
  respBody :: "json option"

definition ENDPOINTS :: "string list" where
  "ENDPOINTS = [''/nodechain/nodes'', ''/nodechain/stats'', ''/api/v1/ledger/recent?limit=20'', ''/governance/proposals'']"

text \<open>The four guarded updates in order; a body that is not JSON throws and ends them.\<close>

fun applyResponses :: "(response \<times> (json \<Rightarrow> view_state \<Rightarrow> view_state)) list \<Rightarrow> view_state \<Rightarrow> view_state" where
  "applyResponses [] s = s"
| "applyResponses ((r, store) # rs) s =
     (if respOk r then (case respBody r of None \<Rightarrow> s | Some j \<Rightarrow> applyResponses rs (store j s))
      else applyResponses rs s)"

definition setNodes :: "json \<Rightarrow> view_state \<Rightarrow> view_state" where "setNodes j s = s\<lparr>viewNodes := j\<rparr>"
definition setStats :: "json \<Rightarrow> view_state \<Rightarrow> view_state" where "setStats j s = s\<lparr>viewStats := j\<rparr>"
definition setTransactions :: "json \<Rightarrow> view_state \<Rightarrow> view_state" where "setTransactions j s = s\<lparr>viewTransactions := j\<rparr>"
definition setProposals :: "json \<Rightarrow> view_state \<Rightarrow> view_state" where "setProposals j s = s\<lparr>viewProposals := j\<rparr>"

definition fetchData :: "(string \<Rightarrow> response option) \<Rightarrow> view_state \<Rightarrow> view_state" where
  "fetchData fetch s =
     (case those (map fetch ENDPOINTS) of
        Some rs \<Rightarrow> applyResponses (zip rs [setNodes, setStats, setTransactions, setProposals]) s
      | None \<Rightarrow> s)\<lparr>viewLoading := False\<rparr>"

definition getImpactColor :: "string \<Rightarrow> string" where
  "getImpactColor impact =
     (if impact = ''CRITICAL'' then ''var(--color-danger)'' else if impact = ''HIGH'' then ''#ff8800''
      else if impact = ''MEDIUM'' then ''var(--color-primary)'' else ''var(--color-success)'')"

definition getStatusColor :: "string \<Rightarrow> string" where
  "getStatusColor status =
     (if status = ''ACTIVE'' then ''var(--color-success)'' else if status = ''VETOED'' then ''var(--color-danger)''
      else if status = ''FAILED_QUORUM'' then ''#ff8800'' else ''var(--color-text-dim)'')"

section \<open>Polling\<close>

lemma poll_ends_loading: "\<not> viewLoading (fetchData fetch s)"
  by (simp add: fetchData_def)

lemma those_None: "None \<in> set xs \<Longrightarrow> those xs = None"
  by (induction xs) (auto split: option.split)

lemma those_Some: "None \<notin> set xs \<Longrightarrow> those xs = Some (map the xs)"
proof (induction xs)
  case (Cons a xs)
  then show ?case by (cases a) auto
qed simp

lemma poll_rejected:
  assumes "e \<in> set ENDPOINTS" "fetch e = None"
  shows "fetchData fetch s = s\<lparr>viewLoading := False\<rparr>"
proof -
  have "None \<in> set (map fetch ENDPOINTS)" using assms by (metis image_eqI list.set_map)
  then show ?thesis by (simp add: fetchData_def those_None)
qed

text \<open>A view is only ever replaced by the body of a successful response of its own endpoint.\<close>

lemma poll_sources:
  "viewNodes (fetchData fetch s) = viewNodes s \<or>
     (\<exists>r. fetch ''/nodechain/nodes'' = Some r \<and> respOk r \<and> respBody r = Some (viewNodes (fetchData fetch s)))"
proof (cases "None \<in> set (map fetch ENDPOINTS)")
  case True
  then show ?thesis by (simp add: fetchData_def those_None)
next
  case False
  define e1 e2 e3 e4 where "e1 = ''/nodechain/nodes''" and "e2 = ''/nodechain/stats''"
    and "e3 = ''/api/v1/ledger/recent?limit=20''" and "e4 = ''/governance/proposals''"
  have E: "ENDPOINTS = [e1, e2, e3, e4]" by (simp add: ENDPOINTS_def e1_def e2_def e3_def e4_def)
  obtain a where a: "fetch e1 = Some a" using False by (cases "fetch e1") (auto simp: E)
  have "viewNodes (fetchData fetch s) = viewNodes s \<or>
     (\<exists>r. fetch e1 = Some r \<and> respOk r \<and> respBody r = Some (viewNodes (fetchData fetch s)))"
    using those_Some [OF False] a
    by (simp add: E fetchData_def setNodes_def setStats_def setTransactions_def setProposals_def split: option.split)
  then show ?thesis by (simp only: e1_def)
qed

text \<open>The backend declares none of the four paths. Against a server that answers undeclared paths with
  404 the views keep their initial values for ever.\<close>

definition getRoute :: "string \<Rightarrow> bool" where
  "getRoute url =
     (let path = takeWhile (\<lambda>c. c \<noteq> CHR ''?'') url
      in path \<in> {''/'', ''/metrics''} \<or> take 11 path = ''/processes/'')"

lemma endpoints_undeclared: "list_all (\<lambda>e. \<not> getRoute e) ENDPOINTS"
  by (simp add: ENDPOINTS_def getRoute_def)

lemma poll_backend:
  assumes "\<forall>p. \<not> getRoute p \<longrightarrow> (\<exists>b. fetch p = Some \<lparr>respOk = False, respBody = b\<rparr>)"
  shows "fetchData fetch s = s\<lparr>viewLoading := False\<rparr>"
proof -
  have "\<exists>b. fetch e = Some \<lparr>respOk = False, respBody = b\<rparr>" if "e \<in> set ENDPOINTS" for e
    using assms endpoints_undeclared that by (auto simp: list_all_iff)
  then obtain b where b: "\<And>e. e \<in> set ENDPOINTS \<Longrightarrow> fetch e = Some \<lparr>respOk = False, respBody = b e\<rparr>" by metis
  then have "map fetch ENDPOINTS = map (\<lambda>e. Some \<lparr>respOk = False, respBody = b e\<rparr>) ENDPOINTS" by simp
  then show ?thesis by (simp add: fetchData_def ENDPOINTS_def)
qed

end
