(* ===== verification/Views.thy ===== *)
theory Views
  imports Frontend
begin

text \<open>
  The components of the front end (\<open>frontend/src/App.tsx\<close> and \<open>frontend/src/components\<close>): each is a
  function from the data of the polling hook to the element tree it returns. The data is JSON that
  nothing has checked, so reading a property of \<open>undefined\<close> or \<open>null\<close>, calling a method that is
  not there and rendering an object throw; \<open>None\<close> is a component that throws. A value is
  \<open>None\<close> for \<open>undefined\<close>. React's keys, which never reach the page, are left out; \<open>localTime\<close> is
  \<open>new Date(v).toLocaleTimeString()\<close>.
\<close>

section \<open>Elements and values\<close>

datatype attr = Style "(string \<times> string) list" | Class string | OnClick string | Prop string string

datatype element = Text string | Element string "attr list" "element list"

type_synonym js_value = "json option"

definition property :: "json \<Rightarrow> string \<Rightarrow> js_value option" where
  "property v k =
     (case v of JNull \<Rightarrow> None | JObj ps \<Rightarrow> Some (map_of ps k) | _ \<Rightarrow> Some None)"

definition arrayOf :: "json \<Rightarrow> json list option" where
  "arrayOf v = (case v of JArr vs \<Rightarrow> Some vs | _ \<Rightarrow> None)"

fun child :: "env \<Rightarrow> json \<Rightarrow> element list option"
  and children :: "env \<Rightarrow> json list \<Rightarrow> element list option" where
  "child E JNull = Some []"
| "child E (JBool b) = Some []"
| "child E (JNum x) = Some [Text (numStr E x)]"
| "child E (JStr t) = Some [Text t]"
| "child E (JArr vs) = children E vs"
| "child E (JObj ps) = None"
| "children E [] = Some []"
| "children E (v # vs) = do { a \<leftarrow> child E v; b \<leftarrow> children E vs; Some (a @ b) }"

definition field :: "env \<Rightarrow> json \<Rightarrow> string \<Rightarrow> element list option" where
  "field E v k = do { p \<leftarrow> property v k; (case p of None \<Rightarrow> Some [] | Some j \<Rightarrow> child E j) }"

fun mapO :: "('a \<Rightarrow> 'b option) \<Rightarrow> 'a list \<Rightarrow> 'b list option" where
  "mapO f [] = Some []"
| "mapO f (x # xs) = do { y \<leftarrow> f x; ys \<leftarrow> mapO f xs; Some (y # ys) }"

definition replacement :: string where
  "replacement = [CHR 0xEF, CHR 0xBF, CHR 0xBD]"

text \<open>\<open>substring(0, n)\<close> counts UTF-16 units: characters of four bytes are two of them.\<close>

fun substring0 :: "nat \<Rightarrow> string \<Rightarrow> string" where
  "substring0 0 s = []"
| "substring0 (Suc n) [] = []"
| "substring0 (Suc n) (c # s) =
     (if c < CHR 0x80 then c # substring0 n s
      else if c < CHR 0xE0 then c # take 1 s @ substring0 n (drop 1 s)
      else if c < CHR 0xF0 then c # take 2 s @ substring0 n (drop 2 s)
      else if n = 0 then replacement
      else c # take 3 s @ substring0 (n - 1) (drop 3 s))"

definition prefixOf :: "nat \<Rightarrow> json \<Rightarrow> string \<Rightarrow> string option" where
  "prefixOf n v k =
     do { p \<leftarrow> property v k; (case p of Some (JStr t) \<Rightarrow> Some (substring0 n t) | _ \<Rightarrow> None) }"

text \<open>\<open>String(v)\<close>; in an array \<open>null\<close> is the empty text.\<close>

fun textJ :: "env \<Rightarrow> json \<Rightarrow> string"
  and itemTexts :: "env \<Rightarrow> json list \<Rightarrow> string list" where
  "textJ E JNull = ''null''"
| "textJ E (JBool b) = (if b then ''true'' else ''false'')"
| "textJ E (JNum x) = numStr E x"
| "textJ E (JStr t) = t"
| "textJ E (JArr vs) = concatWith '','' (itemTexts E vs)"
| "textJ E (JObj ps) = ''[object Object]''"
| "itemTexts E [] = []"
| "itemTexts E (v # vs) = (if v = JNull then [] else textJ E v) # itemTexts E vs"

definition textOf :: "env \<Rightarrow> js_value \<Rightarrow> string" where
  "textOf E p = (case p of None \<Rightarrow> ''undefined'' | Some v \<Rightarrow> textJ E v)"

definition truthy :: "js_value \<Rightarrow> bool" where
  "truthy p =
     (case p of None \<Rightarrow> False | Some JNull \<Rightarrow> False | Some (JBool b) \<Rightarrow> b
      | Some (JNum x) \<Rightarrow> x \<noteq> 0 \<and> x \<noteq> NaN | Some (JStr t) \<Rightarrow> t \<noteq> [] | Some (JArr vs) \<Rightarrow> True | Some (JObj ps) \<Rightarrow> True)"

definition lengthIsZero :: "json \<Rightarrow> bool option" where
  "lengthIsZero v =
     (case v of JNull \<Rightarrow> None | JArr vs \<Rightarrow> Some (vs = []) | JStr t \<Rightarrow> Some (t = [])
      | JObj ps \<Rightarrow> Some (map_of ps ''length'' = Some (JNum 0)) | _ \<Rightarrow> Some False)"

section \<open>Overview\<close>

record card =
  cardLabel :: string
  cardValue :: "element list"
  cardColor :: string

definition cardView :: "card \<Rightarrow> element" where
  "cardView c =
     Element ''div'' [Class ''glass-panel'', Style [(''padding'', ''24px''), (''textAlign'', ''center'')]]
       [Element ''h3'' [Style [(''margin'', ''0 0 10px 0''), (''color'', ''var(--color-text-dim)''), (''fontSize'', ''14px''), (''textTransform'', ''uppercase'')]]
          [Text (cardLabel c)],
        Element ''div'' [Style [(''fontSize'', ''36px''), (''fontWeight'', ''bold''), (''color'', cardColor c), (''textShadow'', ''0 0 20px '' @ cardColor c @ ''40'')]]
          (cardValue c)]"

definition Overview :: "env \<Rightarrow> json \<Rightarrow> element option" where
  "Overview E stats = do {
     height \<leftarrow> field E stats ''ledgerHeight'';
     active \<leftarrow> field E stats ''activeNodes'';
     epoch \<leftarrow> property stats ''epoch'';
     Some (Element ''div'' [Style [(''display'', ''grid''), (''gridTemplateColumns'', ''repeat(auto-fit, minmax(250px, 1fr))''), (''gap'', ''20px'')]]
       (map cardView
          [\<lparr>cardLabel = ''Ledger Height'', cardValue = height, cardColor = ''var(--color-primary)''\<rparr>,
           \<lparr>cardLabel = ''Active Validators'', cardValue = active, cardColor = ''var(--color-secondary)''\<rparr>,
           \<lparr>cardLabel = ''Current Epoch'', cardValue = [Text (''#'' @ textOf E epoch)], cardColor = ''var(--color-success)''\<rparr>]))
   }"

section \<open>Node list\<close>

definition bullet :: string where
  "bullet = [CHR 0xE2, CHR 0x80, CHR 0xA2]"

definition nodeCard :: "env \<Rightarrow> json \<Rightarrow> element option" where
  "nodeCard E node = do {
     ident \<leftarrow> field E node ''id'';
     ip \<leftarrow> field E node ''ip'';
     type \<leftarrow> field E node ''type'';
     active \<leftarrow> property node ''isActive'';
     Some (Element ''div'' [Class ''glass-panel'', Style [(''padding'', ''20px''), (''display'', ''flex''), (''alignItems'', ''center''), (''gap'', ''15px'')]]
       [Element ''div'' [Style [(''width'', ''40px''), (''height'', ''40px''), (''borderRadius'', ''10px''), (''background'', ''rgba(255, 255, 255, 0.05)''),
            (''display'', ''flex''), (''alignItems'', ''center''), (''justifyContent'', ''center'')]]
          [Element ''Server'' [Prop ''size'' ''20'', Prop ''color'' ''var(--color-primary)''] []],
        Element ''div'' [Style [(''flex'', ''1''), (''overflow'', ''hidden'')]]
          [Element ''div'' [Style [(''fontWeight'', ''bold''), (''fontSize'', ''14px''), (''whiteSpace'', ''nowrap''), (''overflow'', ''hidden''), (''textOverflow'', ''ellipsis'')]] ident,
           Element ''div'' [Style [(''fontSize'', ''12px''), (''color'', ''var(--color-text-dim)''), (''marginTop'', ''4px'')]]
             (ip @ [Text ('' '' @ bullet @ '' ''), Element ''span'' [Style [(''color'', ''var(--color-secondary)'')]] type])],
        if truthy active
        then Element ''CheckCircle'' [Prop ''size'' ''18'', Prop ''color'' ''var(--color-success)''] []
        else Element ''XCircle'' [Prop ''size'' ''18'', Prop ''color'' ''var(--color-text-dim)''] []])
   }"

definition NodeList :: "env \<Rightarrow> json list \<Rightarrow> element option" where
  "NodeList E ns = do {
     cards \<leftarrow> mapO (nodeCard E) ns;
     Some (Element ''div'' [Style [(''display'', ''grid''), (''gridTemplateColumns'', ''repeat(auto-fill, minmax(300px, 1fr))''), (''gap'', ''20px'')]] cards)
   }"

section \<open>Ledger feed\<close>

definition headCell :: "string \<Rightarrow> string \<Rightarrow> element" where
  "headCell align t =
     Element ''th'' [Style [(''padding'', ''15px''), (''textAlign'', align), (''color'', ''var(--color-text-dim)''), (''fontSize'', ''12px'')]] [Text t]"

definition txIcon :: "js_value \<Rightarrow> element list" where
  "txIcon type =
     (if type = Some (JStr ''MINT'') then [Element ''ArrowDownLeft'' [Prop ''size'' ''14'', Prop ''color'' ''var(--color-success)''] []] else []) @
     (if type = Some (JStr ''BURN'') then [Element ''ArrowUpRight'' [Prop ''size'' ''14'', Prop ''color'' ''var(--color-danger)''] []] else []) @
     (if type = Some (JStr ''REWARD'') then [Element ''Box'' [Prop ''size'' ''14'', Prop ''color'' ''var(--color-primary)''] []] else [])"

definition txRow :: "env \<Rightarrow> (js_value \<Rightarrow> string) \<Rightarrow> json \<Rightarrow> element option" where
  "txRow E localTime tx = do {
     type \<leftarrow> property tx ''type'';
     typeText \<leftarrow> field E tx ''type'';
     hash \<leftarrow> prefixOf 16 tx ''hash'';
     amount \<leftarrow> field E tx ''amount'';
     created \<leftarrow> property tx ''createdAt'';
     Some (Element ''tr'' [Style [(''borderTop'', ''1px solid var(--glass-border)'')]]
       [Element ''td'' [Style [(''padding'', ''15px''), (''display'', ''flex''), (''alignItems'', ''center''), (''gap'', ''10px'')]]
          (txIcon type @
           [Element ''span'' [Style [(''fontSize'', ''12px''), (''fontWeight'', ''bold''),
               (''color'', if type = Some (JStr ''MINT'') then ''var(--color-success)''
                          else if type = Some (JStr ''BURN'') then ''var(--color-danger)'' else ''var(--color-primary)'')]] typeText]),
        Element ''td'' [Style [(''padding'', ''15px''), (''fontFamily'', ''monospace''), (''fontSize'', ''12px''), (''color'', ''var(--color-text-dim)'')]]
          [Text hash, Text ''...''],
        Element ''td'' [Style [(''padding'', ''15px''), (''textAlign'', ''right''), (''fontWeight'', ''bold'')]]
          (amount @ [Text '' AROS'']),
        Element ''td'' [Style [(''padding'', ''15px''), (''textAlign'', ''right''), (''fontSize'', ''12px''), (''color'', ''var(--color-text-dim)'')]]
          [Text (localTime created)]])
   }"

definition LedgerFeed :: "env \<Rightarrow> (js_value \<Rightarrow> string) \<Rightarrow> json list \<Rightarrow> element option" where
  "LedgerFeed E localTime txs = do {
     rows \<leftarrow> mapO (txRow E localTime) txs;
     Some (Element ''div'' [Class ''glass-panel'', Style [(''overflow'', ''hidden'')]]
       [Element ''table'' [Style [(''width'', ''100%''), (''borderCollapse'', ''collapse'')]]
          [Element ''thead'' [Style [(''background'', ''rgba(255, 255, 255, 0.03)'')]]
             [Element ''tr'' []
                [headCell ''left'' ''TYPE'', headCell ''left'' ''HASH'', headCell ''right'' ''AMOUNT'', headCell ''right'' ''TIME'']],
           Element ''tbody'' [] rows]])
   }"

section \<open>Navigation bar\<close>

definition navItems :: "(string \<times> string \<times> string) list" where
  "navItems = [(''overview'', ''Overview'', ''Activity''), (''validators'', ''Validators'', ''Globe''),
               (''ledger'', ''Ledger'', ''Layers''), (''governance'', ''Governance'', ''FileText'')]"

definition navButton :: "string \<Rightarrow> string \<times> string \<times> string \<Rightarrow> element" where
  "navButton currentView item =
     (case item of (ident, label, icon) \<Rightarrow>
        Element ''button'' [OnClick ident, Class ''glass-panel'',
            Style [(''padding'', ''8px 16px''), (''display'', ''flex''), (''alignItems'', ''center''), (''gap'', ''8px''), (''cursor'', ''pointer''),
              (''background'', if currentView = ident then ''rgba(0, 240, 255, 0.15)'' else ''transparent''),
              (''borderColor'', if currentView = ident then ''var(--color-primary)'' else ''transparent''),
              (''color'', if currentView = ident then ''var(--color-primary)'' else ''var(--color-text-dim)''),
              (''transition'', ''all 0.2s'')]]
          [Element icon [Prop ''size'' ''16''] [], Text label])"

definition Navbar :: "string \<Rightarrow> element" where
  "Navbar currentView =
     Element ''nav'' [Class ''glass-panel'', Style [(''marginBottom'', ''20px''), (''padding'', ''15px 25px''), (''display'', ''flex''),
         (''alignItems'', ''center''), (''justifyContent'', ''space-between'')]]
       [Element ''div'' [Style [(''display'', ''flex''), (''alignItems'', ''center''), (''gap'', ''10px'')]]
          [Element ''div'' [Style [(''width'', ''32px''), (''height'', ''32px''), (''background'', ''var(--color-primary)''), (''borderRadius'', ''50%''),
              (''boxShadow'', ''0 0 15px var(--color-primary)'')]] [],
           Element ''h2'' [Style [(''margin'', ''0''), (''background'', ''linear-gradient(to right, #fff, #aaa)''), (''WebkitBackgroundClip'', ''text''),
              (''WebkitTextFillColor'', ''transparent'')]] [Text ''AST Aros'']],
        Element ''div'' [Style [(''display'', ''flex''), (''gap'', ''10px'')]] (map (navButton currentView) navItems)]"

section \<open>Governance panel\<close>

definition colorOf :: "(string \<Rightarrow> string) \<Rightarrow> js_value \<Rightarrow> string" where
  "colorOf table p = (case p of Some (JStr t) \<Rightarrow> table t | _ \<Rightarrow> table [])"

definition badge :: "string \<Rightarrow> element list \<Rightarrow> element" where
  "badge color content =
     Element ''span'' [Style [(''background'', ''rgba(0, 0, 0, 0.3)''), (''border'', ''1px solid '' @ color), (''color'', color),
         (''padding'', ''4px 8px''), (''borderRadius'', ''4px''), (''fontSize'', ''11px''), (''fontWeight'', ''bold'')]] content"

definition detail :: "string \<Rightarrow> element list \<Rightarrow> element" where
  "detail label content =
     Element ''span'' [] [Text label, Element ''strong'' [Style [(''color'', ''white'')]] content]"

definition voteButtons :: element where
  "voteButtons =
     Element ''div'' [Style [(''marginTop'', ''20px''), (''display'', ''flex''), (''gap'', ''10px'')]]
       [Element ''button'' [Class ''glass-panel'', Style [(''flex'', ''2''), (''padding'', ''12px''), (''cursor'', ''pointer''),
            (''background'', ''rgba(0, 255, 157, 0.05)''), (''color'', ''var(--color-success)''), (''fontWeight'', ''bold''),
            (''border'', ''1px solid rgba(0,255,157,0.3)''), (''transition'', ''all 0.2s'')]] [Text ''VOTE YES''],
        Element ''button'' [Class ''glass-panel'', Style [(''flex'', ''2''), (''padding'', ''12px''), (''cursor'', ''pointer''),
            (''background'', ''rgba(255, 0, 85, 0.05)''), (''color'', ''var(--color-danger)''), (''fontWeight'', ''bold''),
            (''border'', ''1px solid rgba(255,0,85,0.3)''), (''transition'', ''all 0.2s'')]] [Text ''VOTE NO''],
        Element ''button'' [Class ''glass-panel'', Style [(''flex'', ''1''), (''padding'', ''12px''), (''cursor'', ''pointer''),
            (''color'', ''var(--color-text-dim)''), (''border'', ''1px solid rgba(255,255,255,0.1)'')]] [Text ''ABSTAIN'']]"

definition proposalCard :: "env \<Rightarrow> json \<Rightarrow> element option" where
  "proposalCard E prop = do {
     status \<leftarrow> property prop ''status'';
     statusText \<leftarrow> field E prop ''status'';
     impact \<leftarrow> property prop ''impactLevel'';
     impactText \<leftarrow> field E prop ''impactLevel'';
     ident \<leftarrow> prefixOf 8 prop ''id'';
     title \<leftarrow> field E prop ''title'';
     actionType \<leftarrow> field E prop ''actionType'';
     quorum \<leftarrow> field E prop ''requiredQuorumPercent'';
     timelock \<leftarrow> field E prop ''timelockWindow'';
     descr \<leftarrow> field E prop ''description'';
     Some (Element ''div'' [Class ''glass-panel'', Style [(''padding'', ''24px''), (''position'', ''relative''), (''overflow'', ''hidden'')]]
       ([Element ''div'' [Style [(''display'', ''flex''), (''justifyContent'', ''space-between''), (''marginBottom'', ''15px'')]]
           [Element ''div'' [Style [(''display'', ''flex''), (''gap'', ''10px'')]]
              [badge (colorOf getStatusColor status) statusText,
               badge (colorOf getImpactColor impact) (impactText @ [Text '' IMPACT''])],
            Element ''span'' [Style [(''fontSize'', ''12px''), (''color'', ''var(--color-text-dim)''), (''fontFamily'', ''monospace'')]]
              [Text ''ID: '', Text ident]],
         Element ''h3'' [Style [(''margin'', ''0 0 10px 0''), (''fontSize'', ''18px'')]] title,
         Element ''div'' [Style [(''display'', ''flex''), (''gap'', ''20px''), (''fontSize'', ''12px''), (''color'', ''var(--color-text-dim)''), (''marginBottom'', ''15px'')]]
           [detail ''Type: '' actionType, detail ''Quorum Required: '' (quorum @ [Text ''%'']), detail ''TimeLock: '' (timelock @ [Text '' Snapshots''])],
         Element ''p'' [Style [(''color'', ''var(--color-text-dim)''), (''fontSize'', ''14px''), (''lineHeight'', ''1.6''), (''marginBottom'', ''20px'')]] descr] @
        (if status = Some (JStr ''ACTIVE'') then [voteButtons] else [])))
   }"

definition GovernancePanel :: "env \<Rightarrow> json \<Rightarrow> element option" where
  "GovernancePanel E proposals = do {
     none \<leftarrow> lengthIsZero proposals;
     if none then Some (Element ''div'' [Style [(''textAlign'', ''center''), (''padding'', ''40px''), (''color'', ''var(--color-text-dim)'')]]
                          [Text ''No active proposals found.''])
     else do {
       ps \<leftarrow> arrayOf proposals;
       cards \<leftarrow> mapO (proposalCard E) ps;
       Some (Element ''div'' [Style [(''display'', ''grid''), (''gap'', ''20px'')]] cards)
     }
   }"

section \<open>Page\<close>

definition loadingView :: element where
  "loadingView =
     Element ''div'' [Style [(''height'', ''100vh''), (''display'', ''flex''), (''alignItems'', ''center''), (''justifyContent'', ''center''), (''color'', ''var(--color-primary)'')]]
       [Text ''INITIALIZING AST SYSTEM...'']"

definition overviewPage :: "env \<Rightarrow> (js_value \<Rightarrow> string) \<Rightarrow> view_state \<Rightarrow> element option" where
  "overviewPage E localTime d = do {
     cards \<leftarrow> Overview E (viewStats d);
     txs \<leftarrow> arrayOf (viewTransactions d);
     feed \<leftarrow> LedgerFeed E localTime (take 5 txs);
     ns \<leftarrow> arrayOf (viewNodes d);
     nodes \<leftarrow> NodeList E (take 4 ns);
     Some (Element ''div'' [Style [(''display'', ''flex''), (''flexDirection'', ''column''), (''gap'', ''20px'')]]
       [cards,
        Element ''div'' [Style [(''display'', ''grid''), (''gridTemplateColumns'', ''1.5fr 1fr''), (''gap'', ''20px''), (''marginTop'', ''10px'')]]
          [feed,
           Element ''div'' [Class ''glass-panel'', Style [(''padding'', ''20px'')]]
             [Element ''h3'' [Style [(''marginTop'', ''0'')]] [Text ''Active Validators''], nodes]]])
   }"

definition App :: "env \<Rightarrow> (js_value \<Rightarrow> string) \<Rightarrow> string \<Rightarrow> view_state \<Rightarrow> element option" where
  "App E localTime view d =
     (if viewLoading d then Some loadingView
      else do {
        content \<leftarrow>
          (if view = ''overview'' then do { page \<leftarrow> overviewPage E localTime d; Some [page] }
           else if view = ''validators'' then do { ns \<leftarrow> arrayOf (viewNodes d); page \<leftarrow> NodeList E ns; Some [page] }
           else if view = ''ledger'' then do { txs \<leftarrow> arrayOf (viewTransactions d); page \<leftarrow> LedgerFeed E localTime txs; Some [page] }
           else if view = ''governance'' then do { page \<leftarrow> GovernancePanel E (viewProposals d); Some [page] }
           else Some []);
        Some (Element ''div'' [Class ''page-container''] [Navbar view, Element ''main'' [] content])
      })"

section \<open>What a page shows and does\<close>

fun handlers :: "element \<Rightarrow> string list" where
  "handlers (Text t) = []"
| "handlers (Element tag as es) =
     concat (map (\<lambda>a. case a of OnClick v \<Rightarrow> [v] | _ \<Rightarrow> []) as) @ concat (map handlers es)"

lemma navigation: "handlers (Navbar v) = [''overview'', ''validators'', ''ledger'', ''governance'']"
  by (simp add: Navbar_def navButton_def navItems_def)

fun buttons :: "element \<Rightarrow> nat" where
  "buttons (Text t) = 0"
| "buttons (Element tag as es) = (if tag = ''button'' then 1 else 0) + sum_list (map buttons es)"

fun texts :: "element \<Rightarrow> string list" where
  "texts (Text t) = [t]"
| "texts (Element tag as es) = concat (map texts es)"

definition isActive_prop :: "json \<Rightarrow> bool" where
  "isActive_prop p \<longleftrightarrow> property p ''status'' = Some (Some (JStr ''ACTIVE''))"

definition inert :: "element list \<Rightarrow> bool" where
  "inert es \<longleftrightarrow> concat (map handlers es) = [] \<and> sum_list (map buttons es) = 0"

lemma inert_simps [simp]:
  "inert []" "inert (Text t # es) = inert es" "inert (es @ fs) = (inert es \<and> inert fs)"
  by (auto simp: inert_def)

lemma inert_child:
  "child E j = Some es \<Longrightarrow> inert es" "children E js = Some es \<Longrightarrow> inert es"
  by (induction E j and E js arbitrary: es and es rule: child_children.induct)
    (auto simp: Option.bind_eq_Some_conv bind_eq_Some_conv)

lemma inert_field: "field E v k = Some es \<Longrightarrow> inert es"
  by (auto simp: field_def bind_eq_Some_conv intro: inert_child split: option.splits)

lemma proposalCard_acts:
  assumes "proposalCard E p = Some el"
  shows "handlers el = []" "buttons el = (if isActive_prop p then 3 else 0)"
  using assms
  by (auto simp: proposalCard_def bind_eq_Some_conv isActive_prop_def voteButtons_def badge_def detail_def inert_def
      dest!: inert_field)

lemma cards_act:
  "mapO (proposalCard E) ps = Some els \<Longrightarrow>
     concat (map handlers els) = [] \<and> sum_list (map buttons els) = 3 * length (filter isActive_prop ps)"
  by (induction ps arbitrary: els) (auto simp: bind_eq_Some_conv dest: proposalCard_acts)

text \<open>The governance panel offers its three voting buttons for the active proposals and for no
  other one, and none of the buttons has a handler: a vote cannot be cast from the page.\<close>

theorem panel_offers_no_vote:
  assumes "GovernancePanel E (JArr ps) = Some el"
  shows "buttons el = 3 * length (filter isActive_prop ps) \<and> handlers el = []"
  using assms cards_act [of E ps]
  by (auto simp: GovernancePanel_def lengthIsZero_def arrayOf_def bind_eq_Some_conv split: if_splits)

definition proposal :: "string \<Rightarrow> json" where
  "proposal status = JObj [(''id'', JStr ''p-1''), (''title'', JStr ''t''), (''status'', JStr status), (''impactLevel'', JStr ''HIGH'')]"

theorem panel_offers_no_vote_witness:
  "\<exists>el. GovernancePanel plain_env (JArr [proposal ''ACTIVE'', proposal ''VETOED'']) = Some el \<and> buttons el = 3"
proof -
  obtain el where el: "GovernancePanel plain_env (JArr [proposal ''ACTIVE'', proposal ''VETOED'']) = Some el"
    by (auto simp: GovernancePanel_def lengthIsZero_def arrayOf_def proposalCard_def property_def proposal_def field_def prefixOf_def)
  moreover have "filter isActive_prop [proposal ''ACTIVE'', proposal ''VETOED''] = [proposal ''ACTIVE'']"
    by (simp add: isActive_prop_def property_def proposal_def)
  ultimately show ?thesis using panel_offers_no_vote [OF el] by simp
qed

text \<open>C40: against a server that answers undeclared paths with an error status, however often the front
  end polls, the overview reports height 0, no validators and epoch 1, and the other pages are empty.\<close>

theorem frontend_shows_no_data:
  assumes "\<forall>p. \<not> getRoute p \<longrightarrow> (\<exists>b. fetch p = Some \<lparr>respOk = False, respBody = b\<rparr>)"
  shows "map (\<lambda>view. map_option texts (App E localTime view ((fetchData fetch ^^ Suc n) initialView)))
           [''overview'', ''validators'', ''ledger'', ''governance'']
       = map (\<lambda>content. Some ([''AST Aros'', ''Overview'', ''Validators'', ''Ledger'', ''Governance''] @ content))
           [[''Ledger Height'', intStr E 0, ''Active Validators'', intStr E 0, ''Current Epoch'', ''#'' @ intStr E 1,
             ''TYPE'', ''HASH'', ''AMOUNT'', ''TIME'', ''Active Validators''],
            [], [''TYPE'', ''HASH'', ''AMOUNT'', ''TIME''], [''No active proposals found.'']]"
proof -
  have "(fetchData fetch ^^ n) (initialView\<lparr>viewLoading := False\<rparr>) = initialView\<lparr>viewLoading := False\<rparr>" for n
    by (induction n) (simp_all add: poll_backend [OF assms])
  then have d: "(fetchData fetch ^^ Suc n) initialView = initialView\<lparr>viewLoading := False\<rparr>"
    by (simp only: funpow_Suc_right comp_def poll_backend [OF assms])
  show ?thesis
    unfolding d
    by (simp add: App_def initialView_def arrayOf_def overviewPage_def NodeList_def LedgerFeed_def GovernancePanel_def
        lengthIsZero_def Overview_def cardView_def field_def property_def textOf_def headCell_def Navbar_def navItems_def
        navButton_def intStr_def)
qed

theorem frontend_shows_no_data_witness:
  "map_option texts (App plain_env (\<lambda>_. []) ''governance'' ((fetchData (\<lambda>_. Some \<lparr>respOk = False, respBody = None\<rparr>) ^^ Suc 0) initialView))
     = Some [''AST Aros'', ''Overview'', ''Validators'', ''Ledger'', ''Governance'', ''No active proposals found.'']"
  using frontend_shows_no_data [of "\<lambda>_. Some \<lparr>respOk = False, respBody = None\<rparr>" plain_env "\<lambda>_. []" 0]
  by (simp del: funpow.simps)

end
