(* ===== verification/Bootstrap.thy ===== *)
theory Bootstrap
  imports Http Wiring
begin

text \<open>
  The entry point of the service, \<open>src/main.ts\<close>: the calls to the framework in their order. Creating the
  application, listening and asking for the URL may reject; the rejection is not handled, so what
  follows does not happen.
\<close>

section \<open>The calls\<close>

datatype server_action =
    CreateApp nest_name "string list"
  | UseGlobalPipe pipe_options
  | EnableCors
  | Listen json
  | LogInfo string

type_synonym framework = "server_action \<Rightarrow> error + string"

definition perform :: "framework \<Rightarrow> server_action \<Rightarrow> (server_action list, error + string) state" where
  "perform F a = do { modify (\<lambda>as. as @ [a]); return (F a) }"

definition logLevels :: "string list" where
  "logLevels = [''error'', ''warn'', ''log'', ''debug'', ''verbose'']"

text \<open>A template literal prints the port as the string or number it is.\<close>

definition portText :: "env \<Rightarrow> json \<Rightarrow> string" where
  "portText E p = (case p of JStr s \<Rightarrow> s | JNum x \<Rightarrow> numStr E x | _ \<Rightarrow> [])"

definition bootstrap :: "env \<Rightarrow> framework \<Rightarrow> string \<Rightarrow> (string \<rightharpoonup> string) \<Rightarrow> (server_action list, error + unit) state" where
  "bootstrap E F url config =
     tryM (perform F (CreateApp AppModule logLevels)) (\<lambda>_. do {
       modify (\<lambda>as. as @ [UseGlobalPipe pipeOptions, EnableCors]);
       let port = listenPort config;
       tryM (perform F (Listen port)) (\<lambda>_. do {
         modify (\<lambda>as. as @ [LogInfo (''Application is running on: '' @ url), LogInfo (''Port: '' @ portText E port)]);
         return (Inr ())
       })
     })"

text \<open>The service listens only behind the validation pipe, and it says it is running only after it
  listens.\<close>

lemma bootstrap_order:
  "\<exists>rest. exec (bootstrap E F url config) [] = [CreateApp AppModule logLevels] @ rest
    \<and> (Listen p \<in> set rest \<longrightarrow> p = listenPort config \<and> (\<exists>more. rest = [UseGlobalPipe pipeOptions, EnableCors, Listen p] @ more))
    \<and> (LogInfo t \<in> set rest \<longrightarrow> Listen (listenPort config) \<in> set rest \<and> (\<exists>u. F (Listen (listenPort config)) = Inr u))"
  by (cases "F (CreateApp AppModule logLevels)"; cases "F (Listen (listenPort config))")
    (auto simp: bootstrap_def perform_def tryM_simps Let_def)

end
