(* ===== verification/Token.thy ===== *)
theory Token
  imports Prelude "HOL-Library.Word"
begin

text \<open>
  The token contract that the smart contract package deploys, from the Solidity sources the repository
  holds: \<open>contracts/ArosCoinReserveManager.sol\<close> and, as inputs of the compilation stored under
  \<open>artifacts/build-info\<close>, OpenZeppelin's \<open>ERC20\<close>, \<open>ERC20Burnable\<close> and \<open>Ownable\<close>. Amounts are words of
  256 bits and addresses words of 160 bits; arithmetic outside \<open>unchecked\<close> reverts on overflow, inside it
  wraps. An external call runs to its end or reverts, which takes back everything it wrote, its
  events included. \<open>sender\<close> is \<open>msg.sender\<close>. Gas is not modelled, and a call carries no ether.
\<close>

section \<open>Storage, events and errors\<close>

type_synonym address = "160 word"
type_synonym uint256 = "256 word"
type_synonym bytes32 = "256 word"

datatype contract_event =
    Transfer address address uint256
  | Approval address address uint256
  | OwnershipTransferred address address
  | Minted address uint256 bytes32
  | Burned address uint256 bytes32

datatype revert =
    ERC20InsufficientBalance address uint256 uint256
  | ERC20InvalidSender address
  | ERC20InvalidReceiver address
  | ERC20InsufficientAllowance address uint256 uint256
  | ERC20InvalidApprover address
  | ERC20InvalidSpender address
  | OwnableUnauthorizedAccount address
  | OwnableInvalidOwner address
  | ReasonString string
  | Panic nat

record contract_state =
  balanceOf :: "address \<Rightarrow> uint256"
  allowances :: "address \<Rightarrow> address \<Rightarrow> uint256"
  tokenSupply :: uint256
  tokenName :: string
  tokenSymbol :: string
  contractOwner :: address
  usedReferences :: "bytes32 \<Rightarrow> bool"
  contractEvents :: "contract_event list"

type_synonym 'a contract = "(contract_state, revert + 'a) state"

abbreviation revertWith :: "revert \<Rightarrow> 'a contract" where
  "revertWith e \<equiv> return (Inl e)"

definition store :: "(contract_state \<Rightarrow> contract_state) \<Rightarrow> unit contract" where
  "store f = do { modify f; return (Inr ()) }"

definition emitEvent :: "contract_event \<Rightarrow> unit contract" where
  "emitEvent ev = store (\<lambda>s. s\<lparr>contractEvents := contractEvents s @ [ev]\<rparr>)"

lemma run_store [simp, run_simps]: "exec (store f) s = f s" "result (store f) s = Inr ()"
  by (simp_all add: store_def)

lemma run_emitEvent [simp, run_simps]:
  "exec (emitEvent ev) s = s\<lparr>contractEvents := contractEvents s @ [ev]\<rparr>" "result (emitEvent ev) s = Inr ()"
  by (simp_all add: emitEvent_def)

section \<open>ERC20\<close>

definition max256 :: uint256 where
  "max256 = - 1"

definition erc20_update :: "address \<Rightarrow> address \<Rightarrow> uint256 \<Rightarrow> unit contract" where
  "erc20_update src dst value =
     tryM (if src = 0 then do {
             total \<leftarrow> gets tokenSupply;
             if unat total + unat value < 2 ^ 256
             then store (\<lambda>s. s\<lparr>tokenSupply := total + value\<rparr>)
             else revertWith (Panic 0x11)
           } else do {
             fromBalance \<leftarrow> gets (\<lambda>s. balanceOf s src);
             if fromBalance < value
             then revertWith (ERC20InsufficientBalance src fromBalance value)
             else store (\<lambda>s. s\<lparr>balanceOf := (balanceOf s)(src := fromBalance - value)\<rparr>)
           }) (\<lambda>_.
     tryM (if dst = 0
           then store (\<lambda>s. s\<lparr>tokenSupply := tokenSupply s - value\<rparr>)
           else store (\<lambda>s. s\<lparr>balanceOf := (balanceOf s)(dst := balanceOf s dst + value)\<rparr>)) (\<lambda>_.
     emitEvent (Transfer src dst value)))"

definition erc20_transfer :: "address \<Rightarrow> address \<Rightarrow> uint256 \<Rightarrow> unit contract" where
  "erc20_transfer src dst value =
     (if src = 0 then revertWith (ERC20InvalidSender 0)
      else if dst = 0 then revertWith (ERC20InvalidReceiver 0)
      else erc20_update src dst value)"

definition erc20_mint :: "address \<Rightarrow> uint256 \<Rightarrow> unit contract" where
  "erc20_mint account value =
     (if account = 0 then revertWith (ERC20InvalidReceiver 0) else erc20_update 0 account value)"

definition erc20_burn :: "address \<Rightarrow> uint256 \<Rightarrow> unit contract" where
  "erc20_burn account value =
     (if account = 0 then revertWith (ERC20InvalidSender 0) else erc20_update account 0 value)"

definition erc20_approve :: "address \<Rightarrow> address \<Rightarrow> uint256 \<Rightarrow> bool \<Rightarrow> unit contract" where
  "erc20_approve holder spender value logged =
     (if holder = 0 then revertWith (ERC20InvalidApprover 0)
      else if spender = 0 then revertWith (ERC20InvalidSpender 0)
      else tryM (store (\<lambda>s. s\<lparr>allowances := (allowances s)(holder := (allowances s holder)(spender := value))\<rparr>)) (\<lambda>_.
        if logged then emitEvent (Approval holder spender value) else return (Inr ())))"

definition erc20_spendAllowance :: "address \<Rightarrow> address \<Rightarrow> uint256 \<Rightarrow> unit contract" where
  "erc20_spendAllowance holder spender value = do {
     currentAllowance \<leftarrow> gets (\<lambda>s. allowances s holder spender);
     if currentAllowance < max256 then
       if currentAllowance < value
       then revertWith (ERC20InsufficientAllowance spender currentAllowance value)
       else erc20_approve holder spender (currentAllowance - value) False
     else return (Inr ())
   }"

section \<open>The external functions\<close>

definition transfer_fn :: "address \<Rightarrow> address \<Rightarrow> uint256 \<Rightarrow> bool contract" where
  "transfer_fn sender dst value = tryM (erc20_transfer sender dst value) (\<lambda>_. return (Inr True))"

definition approve_fn :: "address \<Rightarrow> address \<Rightarrow> uint256 \<Rightarrow> bool contract" where
  "approve_fn sender spender value = tryM (erc20_approve sender spender value True) (\<lambda>_. return (Inr True))"

definition transferFrom_fn :: "address \<Rightarrow> address \<Rightarrow> address \<Rightarrow> uint256 \<Rightarrow> bool contract" where
  "transferFrom_fn sender src dst value =
     tryM (erc20_spendAllowance src sender value) (\<lambda>_.
     tryM (erc20_transfer src dst value) (\<lambda>_. return (Inr True)))"

definition burn_fn :: "address \<Rightarrow> uint256 \<Rightarrow> unit contract" where
  "burn_fn sender value = erc20_burn sender value"

definition burnFrom_fn :: "address \<Rightarrow> address \<Rightarrow> uint256 \<Rightarrow> unit contract" where
  "burnFrom_fn sender account value =
     tryM (erc20_spendAllowance account sender value) (\<lambda>_. erc20_burn account value)"

text \<open>\<open>Ownable\<close>: the modifier \<open>onlyOwner\<close> checks the sender before the body.\<close>

definition onlyOwner :: "address \<Rightarrow> 'a contract \<Rightarrow> 'a contract" where
  "onlyOwner sender body = do {
     owner \<leftarrow> gets contractOwner;
     if owner \<noteq> sender then revertWith (OwnableUnauthorizedAccount sender) else body
   }"

definition setOwner :: "address \<Rightarrow> unit contract" where
  "setOwner newOwner = do {
     oldOwner \<leftarrow> gets contractOwner;
     tryM (store (\<lambda>s. s\<lparr>contractOwner := newOwner\<rparr>)) (\<lambda>_. emitEvent (OwnershipTransferred oldOwner newOwner))
   }"

definition renounceOwnership_fn :: "address \<Rightarrow> unit contract" where
  "renounceOwnership_fn sender = onlyOwner sender (setOwner 0)"

definition transferOwnership_fn :: "address \<Rightarrow> address \<Rightarrow> unit contract" where
  "transferOwnership_fn sender newOwner =
     onlyOwner sender (if newOwner = 0 then revertWith (OwnableInvalidOwner 0) else setOwner newOwner)"

text \<open>\<open>ArosCoinReserveManager\<close>.\<close>

definition referenceUsed :: string where
  "referenceUsed = ''Reference already used''"

definition mint_fn :: "address \<Rightarrow> address \<Rightarrow> uint256 \<Rightarrow> bytes32 \<Rightarrow> unit contract" where
  "mint_fn sender dst amount txReference = onlyOwner sender (do {
     used \<leftarrow> gets (\<lambda>s. usedReferences s txReference);
     if used then revertWith (ReasonString referenceUsed)
     else tryM (erc20_mint dst amount) (\<lambda>_.
          tryM (store (\<lambda>s. s\<lparr>usedReferences := (usedReferences s)(txReference := True)\<rparr>)) (\<lambda>_.
          emitEvent (Minted dst amount txReference)))
   })"

definition burnWithReference_fn :: "address \<Rightarrow> address \<Rightarrow> uint256 \<Rightarrow> bytes32 \<Rightarrow> unit contract" where
  "burnWithReference_fn sender src amount txReference = onlyOwner sender (do {
     used \<leftarrow> gets (\<lambda>s. usedReferences s txReference);
     if used then revertWith (ReasonString referenceUsed)
     else tryM (erc20_burn src amount) (\<lambda>_.
          tryM (store (\<lambda>s. s\<lparr>usedReferences := (usedReferences s)(txReference := True)\<rparr>)) (\<lambda>_.
          emitEvent (Burned src amount txReference)))
   })"

text \<open>The constructors, bases first: \<open>ERC20("ArosCoin", "AROS") Ownable(msg.sender)\<close>. The storage
  starts zeroed.\<close>

definition blank :: contract_state where
  "blank = \<lparr>balanceOf = (\<lambda>_. 0), allowances = (\<lambda>_ _. 0), tokenSupply = 0, tokenName = '''', tokenSymbol = '''',
     contractOwner = 0, usedReferences = (\<lambda>_. False), contractEvents = []\<rparr>"

definition constructor_fn :: "address \<Rightarrow> unit contract" where
  "constructor_fn sender =
     tryM (store (\<lambda>s. s\<lparr>tokenName := ''ArosCoin'', tokenSymbol := ''AROS''\<rparr>)) (\<lambda>_.
     if sender = 0 then revertWith (OwnableInvalidOwner 0) else setOwner sender)"

section \<open>Calls\<close>

datatype contract_call =
    Call_allowance address address
  | Call_approve address uint256
  | Call_balanceOf address
  | Call_burn uint256
  | Call_burnFrom address uint256
  | Call_burnWithReference address uint256 bytes32
  | Call_decimals
  | Call_isReferenceUsed bytes32
  | Call_mint address uint256 bytes32
  | Call_name
  | Call_owner
  | Call_renounceOwnership
  | Call_symbol
  | Call_totalSupply
  | Call_transfer address uint256
  | Call_transferFrom address address uint256
  | Call_transferOwnership address

datatype abi_value = AddressV address | UintV uint256 | Uint8V "8 word" | Bytes32V bytes32 | BoolV bool | StringV string

definition view :: "(contract_state \<Rightarrow> abi_value) \<Rightarrow> abi_value list contract" where
  "view f = do { v \<leftarrow> gets f; return (Inr [v]) }"

definition returning :: "('a \<Rightarrow> abi_value list) \<Rightarrow> 'a contract \<Rightarrow> abi_value list contract" where
  "returning f m = tryM m (\<lambda>a. return (Inr (f a)))"

definition flag :: "bool \<Rightarrow> abi_value list" where
  "flag b = [BoolV b]"

definition nothing :: "unit \<Rightarrow> abi_value list" where
  "nothing _ = []"

fun dispatch :: "address \<Rightarrow> contract_call \<Rightarrow> abi_value list contract" where
  "dispatch sender (Call_allowance holder spender) = view (\<lambda>s. UintV (allowances s holder spender))"
| "dispatch sender (Call_approve spender value) = returning flag (approve_fn sender spender value)"
| "dispatch sender (Call_balanceOf account) = view (\<lambda>s. UintV (balanceOf s account))"
| "dispatch sender (Call_burn value) = returning nothing (burn_fn sender value)"
| "dispatch sender (Call_burnFrom account value) = returning nothing (burnFrom_fn sender account value)"
| "dispatch sender (Call_burnWithReference src amount txReference) =
     returning nothing (burnWithReference_fn sender src amount txReference)"
| "dispatch sender Call_decimals = view (\<lambda>s. Uint8V 18)"
| "dispatch sender (Call_isReferenceUsed txReference) = view (\<lambda>s. BoolV (usedReferences s txReference))"
| "dispatch sender (Call_mint dst amount txReference) = returning nothing (mint_fn sender dst amount txReference)"
| "dispatch sender Call_name = view (\<lambda>s. StringV (tokenName s))"
| "dispatch sender Call_owner = view (\<lambda>s. AddressV (contractOwner s))"
| "dispatch sender Call_renounceOwnership = returning nothing (renounceOwnership_fn sender)"
| "dispatch sender Call_symbol = view (\<lambda>s. StringV (tokenSymbol s))"
| "dispatch sender Call_totalSupply = view (\<lambda>s. UintV (tokenSupply s))"
| "dispatch sender (Call_transfer dst value) = returning flag (transfer_fn sender dst value)"
| "dispatch sender (Call_transferFrom src dst value) = returning flag (transferFrom_fn sender src dst value)"
| "dispatch sender (Call_transferOwnership newOwner) = returning nothing (transferOwnership_fn sender newOwner)"

text \<open>A transaction: a revert takes back what the call wrote.\<close>

definition transact :: "'a contract \<Rightarrow> contract_state \<Rightarrow> (revert + 'a) \<times> contract_state" where
  "transact m s = (case result m s of Inl e \<Rightarrow> (Inl e, s) | Inr a \<Rightarrow> (Inr a, exec m s))"

definition transacted :: "address \<Rightarrow> contract_call \<Rightarrow> contract_state \<Rightarrow> contract_state" where
  "transacted sender c s = snd (transact (dispatch sender c) s)"

definition accepted :: "address \<Rightarrow> contract_call \<Rightarrow> contract_state \<Rightarrow> bool" where
  "accepted sender c s \<longleftrightarrow> (case fst (transact (dispatch sender c) s) of Inl _ \<Rightarrow> False | Inr _ \<Rightarrow> True)"

definition deployed :: "address \<Rightarrow> contract_state option" where
  "deployed sender = (case transact (constructor_fn sender) blank of (Inl _, _) \<Rightarrow> None | (Inr _, s) \<Rightarrow> Some s)"

text \<open>The states of a deployed contract.\<close>

inductive on_chain :: "contract_state \<Rightarrow> bool" where
  deployment: "deployed sender = Some s \<Longrightarrow> on_chain s"
| transaction: "on_chain s \<Longrightarrow> on_chain (transacted sender c s)"

end
