(* ===== verification/Abi.thy ===== *)
theory Abi
  imports Token
begin

text \<open>
  The vocabulary of the contract bindings: the entries of a contract interface (ABI), the types of the
  TypeScript declarations, and \<open>generate\<close>, the declarations that belong to an interface under the
  type mapping of typechain for ethers 6: what goes in is an \<open>AddressLike\<close>, a \<open>BigNumberish\<close> or a
  \<open>BytesLike\<close>, what comes out a \<open>string\<close> or a \<open>bigint\<close>. The second half models
  \<open>typechain-types/common.ts\<close>: which overrides a call takes and what it resolves to.
\<close>

section \<open>Contract interfaces\<close>

datatype abi_type = AddressT | Uint256T | Uint8T | Bytes32T | BoolT | StringT

datatype mutability = Nonpayable | Payable | View

datatype abi_param = Param (paramName: string) (internalType: abi_type) (paramType: abi_type)

definition abiArg :: "string \<Rightarrow> abi_type \<Rightarrow> abi_param" where
  "abiArg n t = Param n t t"

datatype abi_entry =
    AbiConstructor "abi_param list" mutability
  | AbiError string "abi_param list"
  | AbiEvent bool string "(bool \<times> abi_param) list"
  | AbiFunction string "abi_param list" "abi_param list" mutability

fun typeText :: "abi_type \<Rightarrow> string" where
  "typeText AddressT = ''address''"
| "typeText Uint256T = ''uint256''"
| "typeText Uint8T = ''uint8''"
| "typeText Bytes32T = ''bytes32''"
| "typeText BoolT = ''bool''"
| "typeText StringT = ''string''"

definition eventSignature :: "string \<Rightarrow> abi_param list \<Rightarrow> string" where
  "eventSignature n ps = n @ ''('' @ concatWith '','' (map (\<lambda>p. typeText (paramType p)) ps) @ '')''"

section \<open>TypeScript declarations\<close>

datatype ts_type = AddressLike | BigNumberish | BytesLike | TsBoolean | TsString | TsBigint | TsVoid

datatype ts_method = TypedContractMethod "(string \<times> ts_type) list" "ts_type list" mutability

datatype event_types = EventTypes
  (inputTuple: "(string \<times> ts_type) list") (outputTuple: "(string \<times> ts_type) list") (outputObject: "(string \<times> ts_type) list")

record bindings =
  functionNames :: "string list"
  eventNames :: "string list"
  encoders :: "(string \<times> ts_type list option) list"
  decoders :: "string list"
  eventTypes :: "(string \<times> event_types) list"
  methodFields :: "(string \<times> ts_method) list"
  functionOverloads :: "(string \<times> ts_method) list"
  eventOverloads :: "(string \<times> string) list"
  filterKeys :: "(string \<times> string) list"

fun inputType :: "abi_type \<Rightarrow> ts_type" where
  "inputType AddressT = AddressLike"
| "inputType Uint256T = BigNumberish"
| "inputType Uint8T = BigNumberish"
| "inputType Bytes32T = BytesLike"
| "inputType BoolT = TsBoolean"
| "inputType StringT = TsString"

fun outputType :: "abi_type \<Rightarrow> ts_type" where
  "outputType AddressT = TsString"
| "outputType Uint256T = TsBigint"
| "outputType Uint8T = TsBigint"
| "outputType Bytes32T = TsString"
| "outputType BoolT = TsBoolean"
| "outputType StringT = TsString"

definition typedInputs :: "abi_param list \<Rightarrow> (string \<times> ts_type) list" where
  "typedInputs ps = map (\<lambda>p. (paramName p, inputType (paramType p))) ps"

definition typedOutputs :: "abi_param list \<Rightarrow> (string \<times> ts_type) list" where
  "typedOutputs ps = map (\<lambda>p. (paramName p, outputType (paramType p))) ps"

fun methodOf :: "abi_entry \<Rightarrow> (string \<times> ts_method) list" where
  "methodOf (AbiFunction n ins outs mut) =
     [(n, TypedContractMethod (typedInputs ins)
            (if outs = [] then [TsVoid] else map (\<lambda>p. outputType (paramType p)) outs) mut)]"
| "methodOf _ = []"

fun encoderOf :: "abi_entry \<Rightarrow> (string \<times> ts_type list option) list" where
  "encoderOf (AbiFunction n ins outs mut) =
     [(n, if ins = [] then None else Some (map (\<lambda>p. inputType (paramType p)) ins))]"
| "encoderOf _ = []"

definition eventSpace :: "string \<Rightarrow> string" where
  "eventSpace n = n @ ''Event''"

fun eventTypeOf :: "abi_entry \<Rightarrow> (string \<times> event_types) list" where
  "eventTypeOf (AbiEvent anon n ps) =
     [(eventSpace n, EventTypes (typedInputs (map snd ps)) (typedOutputs (map snd ps)) (typedOutputs (map snd ps)))]"
| "eventTypeOf _ = []"

fun eventOf :: "abi_entry \<Rightarrow> (string \<times> string) list" where
  "eventOf (AbiEvent anon n ps) = [(n, eventSpace n)]"
| "eventOf _ = []"

fun filterOf :: "abi_entry \<Rightarrow> (string \<times> string) list" where
  "filterOf (AbiEvent anon n ps) = [(eventSignature n (map snd ps), eventSpace n), (n, eventSpace n)]"
| "filterOf _ = []"

definition generate :: "abi_entry list \<Rightarrow> bindings" where
  "generate abi =
     \<lparr>functionNames = map fst (concat (map methodOf abi)),
      eventNames = map fst (concat (map eventOf abi)),
      encoders = concat (map encoderOf abi),
      decoders = map fst (concat (map methodOf abi)),
      eventTypes = concat (map eventTypeOf abi),
      methodFields = concat (map methodOf abi),
      functionOverloads = concat (map methodOf abi),
      eventOverloads = concat (map eventOf abi),
      filterKeys = concat (map filterOf abi)\<rparr>"

section \<open>Calls in TypeScript\<close>

text \<open>\<open>Overrides\<close>: the fields of ethers' \<open>TransactionRequest\<close>, which is a parameter, less the ones a
  call of this mutability may not set.\<close>

definition without :: "string list \<Rightarrow> string list \<Rightarrow> string list" where
  "without allFields ks = filter (\<lambda>f. f \<notin> set ks) allFields"

definition BaseOverrides :: "string list \<Rightarrow> string list" where
  "BaseOverrides request = without request [''to'', ''data'']"

definition NonPayableOverrides :: "string list \<Rightarrow> string list" where
  "NonPayableOverrides request = without (BaseOverrides request) [''value'', ''blockTag'', ''enableCcipRead'']"

definition PayableOverrides :: "string list \<Rightarrow> string list" where
  "PayableOverrides request = without (BaseOverrides request) [''blockTag'', ''enableCcipRead'']"

definition ViewOverrides :: "string list \<Rightarrow> string list" where
  "ViewOverrides request = without request [''to'', ''data'']"

fun Overrides :: "string list \<Rightarrow> mutability \<Rightarrow> string list" where
  "Overrides request Nonpayable = NonPayableOverrides request"
| "Overrides request Payable = PayableOverrides request"
| "Overrides request View = ViewOverrides request"

text \<open>\<open>ContractMethodArgs\<close>: the arguments of the method, with or without a last argument of overrides.\<close>

datatype ts_arg = TypedArg ts_type | OverridesArg "string list"

definition ContractMethodArgs :: "string list \<Rightarrow> (string \<times> ts_type) list \<Rightarrow> mutability \<Rightarrow> ts_arg list list" where
  "ContractMethodArgs request as mut =
     [map (\<lambda>(n, t). TypedArg t) as, map (\<lambda>(n, t). TypedArg t) as @ [OverridesArg (Overrides request mut)]]"

text \<open>What the promise of a call resolves to; \<open>DefaultReturnType\<close> takes the first component of the
  declared results.\<close>

datatype ts_result = ResultOf ts_type | ContractTransactionResponse

definition DefaultReturnType :: "ts_type list \<Rightarrow> ts_type" where
  "DefaultReturnType r = hd r"

fun callResult :: "ts_method \<Rightarrow> ts_result" where
  "callResult (TypedContractMethod as r mut) =
     (if mut = View then ResultOf (DefaultReturnType r) else ContractTransactionResponse)"

end
