(* ===== verification/AbiTables.thy ===== *)
theory AbiTables
  imports Abi
begin

text \<open>
  The interfaces of the nine contracts as the factories carry them (the constant \<open>_abi\<close> of each file
  under \<open>typechain-types/factories\<close>), entry by entry in the order of the file.
\<close>

section \<open>The contracts' interfaces\<close>

subsection \<open>\<open>Ownable\<close>\<close>

definition Ownable_errors :: "abi_entry list" where
  "Ownable_errors =
     [AbiError ''OwnableInvalidOwner'' [abiArg ''owner'' AddressT],
      AbiError ''OwnableUnauthorizedAccount'' [abiArg ''account'' AddressT]]"

definition Ownable_events :: "abi_entry list" where
  "Ownable_events =
     [AbiEvent False ''OwnershipTransferred''
          [(True, abiArg ''previousOwner'' AddressT), (True, abiArg ''newOwner'' AddressT)]]"

definition Ownable_functions :: "abi_entry list" where
  "Ownable_functions =
     [AbiFunction ''owner'' [] [abiArg '''' AddressT] View,
      AbiFunction ''renounceOwnership'' [] [] Nonpayable,
      AbiFunction ''transferOwnership'' [abiArg ''newOwner'' AddressT] [] Nonpayable]"

definition Ownable_abi :: "abi_entry list" where
  "Ownable_abi = Ownable_errors @ Ownable_events @ Ownable_functions"

lemmas Ownable_interface =
  Ownable_errors_def Ownable_events_def Ownable_functions_def Ownable_abi_def

subsection \<open>\<open>IERC1155Errors\<close>\<close>

definition IERC1155Errors_abi :: "abi_entry list" where
  "IERC1155Errors_abi =
     [AbiError ''ERC1155InsufficientBalance''
          [abiArg ''sender'' AddressT, abiArg ''balance'' Uint256T, abiArg ''needed'' Uint256T,
          abiArg ''tokenId'' Uint256T],
      AbiError ''ERC1155InvalidApprover'' [abiArg ''approver'' AddressT],
      AbiError ''ERC1155InvalidArrayLength''
          [abiArg ''idsLength'' Uint256T, abiArg ''valuesLength'' Uint256T],
      AbiError ''ERC1155InvalidOperator'' [abiArg ''operator'' AddressT],
      AbiError ''ERC1155InvalidReceiver'' [abiArg ''receiver'' AddressT],
      AbiError ''ERC1155InvalidSender'' [abiArg ''sender'' AddressT],
      AbiError ''ERC1155MissingApprovalForAll'' [abiArg ''operator'' AddressT, abiArg ''owner'' AddressT]]"

lemmas IERC1155Errors_interface =
  IERC1155Errors_abi_def

subsection \<open>\<open>IERC20Errors\<close>\<close>

definition IERC20Errors_abi :: "abi_entry list" where
  "IERC20Errors_abi =
     [AbiError ''ERC20InsufficientAllowance''
          [abiArg ''spender'' AddressT, abiArg ''allowance'' Uint256T, abiArg ''needed'' Uint256T],
      AbiError ''ERC20InsufficientBalance''
          [abiArg ''sender'' AddressT, abiArg ''balance'' Uint256T, abiArg ''needed'' Uint256T],
      AbiError ''ERC20InvalidApprover'' [abiArg ''approver'' AddressT],
      AbiError ''ERC20InvalidReceiver'' [abiArg ''receiver'' AddressT],
      AbiError ''ERC20InvalidSender'' [abiArg ''sender'' AddressT],
      AbiError ''ERC20InvalidSpender'' [abiArg ''spender'' AddressT]]"

lemmas IERC20Errors_interface =
  IERC20Errors_abi_def

subsection \<open>\<open>IERC721Errors\<close>\<close>

definition IERC721Errors_abi :: "abi_entry list" where
  "IERC721Errors_abi =
     [AbiError ''ERC721IncorrectOwner''
          [abiArg ''sender'' AddressT, abiArg ''tokenId'' Uint256T, abiArg ''owner'' AddressT],
      AbiError ''ERC721InsufficientApproval'' [abiArg ''operator'' AddressT, abiArg ''tokenId'' Uint256T],
      AbiError ''ERC721InvalidApprover'' [abiArg ''approver'' AddressT],
      AbiError ''ERC721InvalidOperator'' [abiArg ''operator'' AddressT],
      AbiError ''ERC721InvalidOwner'' [abiArg ''owner'' AddressT],
      AbiError ''ERC721InvalidReceiver'' [abiArg ''receiver'' AddressT],
      AbiError ''ERC721InvalidSender'' [abiArg ''sender'' AddressT],
      AbiError ''ERC721NonexistentToken'' [abiArg ''tokenId'' Uint256T]]"

lemmas IERC721Errors_interface =
  IERC721Errors_abi_def

subsection \<open>\<open>IERC20\<close>\<close>

definition IERC20_events :: "abi_entry list" where
  "IERC20_events =
     [AbiEvent False ''Approval'' [(True, abiArg ''owner'' AddressT), (True, abiArg ''spender'' AddressT),
          (False, abiArg ''value'' Uint256T)],
      AbiEvent False ''Transfer''
          [(True, abiArg ''from'' AddressT), (True, abiArg ''to'' AddressT),
          (False, abiArg ''value'' Uint256T)]]"

definition IERC20_functions :: "abi_entry list" where
  "IERC20_functions =
     [AbiFunction ''allowance'' [abiArg ''owner'' AddressT, abiArg ''spender'' AddressT]
          [abiArg '''' Uint256T] View,
      AbiFunction ''approve'' [abiArg ''spender'' AddressT, abiArg ''value'' Uint256T]
          [abiArg '''' BoolT] Nonpayable,
      AbiFunction ''balanceOf'' [abiArg ''account'' AddressT] [abiArg '''' Uint256T] View,
      AbiFunction ''totalSupply'' [] [abiArg '''' Uint256T] View,
      AbiFunction ''transfer'' [abiArg ''to'' AddressT, abiArg ''value'' Uint256T]
          [abiArg '''' BoolT] Nonpayable,
      AbiFunction ''transferFrom''
          [abiArg ''from'' AddressT, abiArg ''to'' AddressT, abiArg ''value'' Uint256T]
          [abiArg '''' BoolT] Nonpayable]"

definition IERC20_abi :: "abi_entry list" where
  "IERC20_abi = IERC20_events @ IERC20_functions"

lemmas IERC20_interface =
  IERC20_events_def IERC20_functions_def IERC20_abi_def

subsection \<open>\<open>IERC20Metadata\<close>\<close>

definition IERC20Metadata_events :: "abi_entry list" where
  "IERC20Metadata_events =
     [AbiEvent False ''Approval'' [(True, abiArg ''owner'' AddressT), (True, abiArg ''spender'' AddressT),
          (False, abiArg ''value'' Uint256T)],
      AbiEvent False ''Transfer''
          [(True, abiArg ''from'' AddressT), (True, abiArg ''to'' AddressT),
          (False, abiArg ''value'' Uint256T)]]"

definition IERC20Metadata_functions1 :: "abi_entry list" where
  "IERC20Metadata_functions1 =
     [AbiFunction ''allowance'' [abiArg ''owner'' AddressT, abiArg ''spender'' AddressT]
          [abiArg '''' Uint256T] View,
      AbiFunction ''approve'' [abiArg ''spender'' AddressT, abiArg ''value'' Uint256T]
          [abiArg '''' BoolT] Nonpayable,
      AbiFunction ''balanceOf'' [abiArg ''account'' AddressT] [abiArg '''' Uint256T] View,
      AbiFunction ''decimals'' [] [abiArg '''' Uint8T] View,
      AbiFunction ''name'' [] [abiArg '''' StringT] View,
      AbiFunction ''symbol'' [] [abiArg '''' StringT] View,
      AbiFunction ''totalSupply'' [] [abiArg '''' Uint256T] View]"

definition IERC20Metadata_functions2 :: "abi_entry list" where
  "IERC20Metadata_functions2 =
     [AbiFunction ''transfer'' [abiArg ''to'' AddressT, abiArg ''value'' Uint256T] [abiArg '''' BoolT] Nonpayable,
      AbiFunction ''transferFrom''
          [abiArg ''from'' AddressT, abiArg ''to'' AddressT, abiArg ''value'' Uint256T]
          [abiArg '''' BoolT] Nonpayable]"

definition IERC20Metadata_abi :: "abi_entry list" where
  "IERC20Metadata_abi = IERC20Metadata_events @ IERC20Metadata_functions1 @ IERC20Metadata_functions2"

lemmas IERC20Metadata_interface =
  IERC20Metadata_events_def IERC20Metadata_functions1_def IERC20Metadata_functions2_def
  IERC20Metadata_abi_def

subsection \<open>\<open>ERC20\<close>\<close>

definition ERC20_errors :: "abi_entry list" where
  "ERC20_errors =
     [AbiError ''ERC20InsufficientAllowance''
          [abiArg ''spender'' AddressT, abiArg ''allowance'' Uint256T, abiArg ''needed'' Uint256T],
      AbiError ''ERC20InsufficientBalance''
          [abiArg ''sender'' AddressT, abiArg ''balance'' Uint256T, abiArg ''needed'' Uint256T],
      AbiError ''ERC20InvalidApprover'' [abiArg ''approver'' AddressT],
      AbiError ''ERC20InvalidReceiver'' [abiArg ''receiver'' AddressT],
      AbiError ''ERC20InvalidSender'' [abiArg ''sender'' AddressT],
      AbiError ''ERC20InvalidSpender'' [abiArg ''spender'' AddressT]]"

definition ERC20_events :: "abi_entry list" where
  "ERC20_events =
     [AbiEvent False ''Approval'' [(True, abiArg ''owner'' AddressT), (True, abiArg ''spender'' AddressT),
          (False, abiArg ''value'' Uint256T)],
      AbiEvent False ''Transfer''
          [(True, abiArg ''from'' AddressT), (True, abiArg ''to'' AddressT),
          (False, abiArg ''value'' Uint256T)]]"

definition ERC20_functions1 :: "abi_entry list" where
  "ERC20_functions1 =
     [AbiFunction ''allowance'' [abiArg ''owner'' AddressT, abiArg ''spender'' AddressT]
          [abiArg '''' Uint256T] View,
      AbiFunction ''approve'' [abiArg ''spender'' AddressT, abiArg ''value'' Uint256T]
          [abiArg '''' BoolT] Nonpayable,
      AbiFunction ''balanceOf'' [abiArg ''account'' AddressT] [abiArg '''' Uint256T] View,
      AbiFunction ''decimals'' [] [abiArg '''' Uint8T] View,
      AbiFunction ''name'' [] [abiArg '''' StringT] View,
      AbiFunction ''symbol'' [] [abiArg '''' StringT] View,
      AbiFunction ''totalSupply'' [] [abiArg '''' Uint256T] View]"

definition ERC20_functions2 :: "abi_entry list" where
  "ERC20_functions2 =
     [AbiFunction ''transfer'' [abiArg ''to'' AddressT, abiArg ''value'' Uint256T] [abiArg '''' BoolT] Nonpayable,
      AbiFunction ''transferFrom''
          [abiArg ''from'' AddressT, abiArg ''to'' AddressT, abiArg ''value'' Uint256T]
          [abiArg '''' BoolT] Nonpayable]"

definition ERC20_abi :: "abi_entry list" where
  "ERC20_abi = ERC20_errors @ ERC20_events @ ERC20_functions1 @ ERC20_functions2"

lemmas ERC20_interface =
  ERC20_errors_def ERC20_events_def ERC20_functions1_def ERC20_functions2_def ERC20_abi_def

subsection \<open>\<open>ERC20Burnable\<close>\<close>

definition ERC20Burnable_errors :: "abi_entry list" where
  "ERC20Burnable_errors =
     [AbiError ''ERC20InsufficientAllowance''
          [abiArg ''spender'' AddressT, abiArg ''allowance'' Uint256T, abiArg ''needed'' Uint256T],
      AbiError ''ERC20InsufficientBalance''
          [abiArg ''sender'' AddressT, abiArg ''balance'' Uint256T, abiArg ''needed'' Uint256T],
      AbiError ''ERC20InvalidApprover'' [abiArg ''approver'' AddressT],
      AbiError ''ERC20InvalidReceiver'' [abiArg ''receiver'' AddressT],
      AbiError ''ERC20InvalidSender'' [abiArg ''sender'' AddressT],
      AbiError ''ERC20InvalidSpender'' [abiArg ''spender'' AddressT]]"

definition ERC20Burnable_events :: "abi_entry list" where
  "ERC20Burnable_events =
     [AbiEvent False ''Approval'' [(True, abiArg ''owner'' AddressT), (True, abiArg ''spender'' AddressT),
          (False, abiArg ''value'' Uint256T)],
      AbiEvent False ''Transfer''
          [(True, abiArg ''from'' AddressT), (True, abiArg ''to'' AddressT),
          (False, abiArg ''value'' Uint256T)]]"

definition ERC20Burnable_functions1 :: "abi_entry list" where
  "ERC20Burnable_functions1 =
     [AbiFunction ''allowance'' [abiArg ''owner'' AddressT, abiArg ''spender'' AddressT]
          [abiArg '''' Uint256T] View,
      AbiFunction ''approve'' [abiArg ''spender'' AddressT, abiArg ''value'' Uint256T]
          [abiArg '''' BoolT] Nonpayable,
      AbiFunction ''balanceOf'' [abiArg ''account'' AddressT] [abiArg '''' Uint256T] View,
      AbiFunction ''burn'' [abiArg ''value'' Uint256T] [] Nonpayable,
      AbiFunction ''burnFrom'' [abiArg ''account'' AddressT, abiArg ''value'' Uint256T] [] Nonpayable,
      AbiFunction ''decimals'' [] [abiArg '''' Uint8T] View,
      AbiFunction ''name'' [] [abiArg '''' StringT] View,
      AbiFunction ''symbol'' [] [abiArg '''' StringT] View]"

definition ERC20Burnable_functions2 :: "abi_entry list" where
  "ERC20Burnable_functions2 =
     [AbiFunction ''totalSupply'' [] [abiArg '''' Uint256T] View,
      AbiFunction ''transfer'' [abiArg ''to'' AddressT, abiArg ''value'' Uint256T]
          [abiArg '''' BoolT] Nonpayable,
      AbiFunction ''transferFrom''
          [abiArg ''from'' AddressT, abiArg ''to'' AddressT, abiArg ''value'' Uint256T]
          [abiArg '''' BoolT] Nonpayable]"

definition ERC20Burnable_abi :: "abi_entry list" where
  "ERC20Burnable_abi = ERC20Burnable_errors @ ERC20Burnable_events @ ERC20Burnable_functions1 @ ERC20Burnable_functions2"

lemmas ERC20Burnable_interface =
  ERC20Burnable_errors_def ERC20Burnable_events_def ERC20Burnable_functions1_def
  ERC20Burnable_functions2_def ERC20Burnable_abi_def

subsection \<open>\<open>ArosCoinReserveManager\<close>\<close>

definition ArosCoinReserveManager_errors :: "abi_entry list" where
  "ArosCoinReserveManager_errors =
     [AbiConstructor [] Nonpayable,
      AbiError ''ERC20InsufficientAllowance''
          [abiArg ''spender'' AddressT, abiArg ''allowance'' Uint256T, abiArg ''needed'' Uint256T],
      AbiError ''ERC20InsufficientBalance''
          [abiArg ''sender'' AddressT, abiArg ''balance'' Uint256T, abiArg ''needed'' Uint256T],
      AbiError ''ERC20InvalidApprover'' [abiArg ''approver'' AddressT],
      AbiError ''ERC20InvalidReceiver'' [abiArg ''receiver'' AddressT],
      AbiError ''ERC20InvalidSender'' [abiArg ''sender'' AddressT],
      AbiError ''ERC20InvalidSpender'' [abiArg ''spender'' AddressT],
      AbiError ''OwnableInvalidOwner'' [abiArg ''owner'' AddressT],
      AbiError ''OwnableUnauthorizedAccount'' [abiArg ''account'' AddressT]]"

definition ArosCoinReserveManager_events :: "abi_entry list" where
  "ArosCoinReserveManager_events =
     [AbiEvent False ''Approval'' [(True, abiArg ''owner'' AddressT), (True, abiArg ''spender'' AddressT),
          (False, abiArg ''value'' Uint256T)],
      AbiEvent False ''Burned''
          [(True, abiArg ''from'' AddressT), (False, abiArg ''amount'' Uint256T),
          (True, abiArg ''txReference'' Bytes32T)],
      AbiEvent False ''Minted''
          [(True, abiArg ''to'' AddressT), (False, abiArg ''amount'' Uint256T),
          (True, abiArg ''txReference'' Bytes32T)],
      AbiEvent False ''OwnershipTransferred''
          [(True, abiArg ''previousOwner'' AddressT), (True, abiArg ''newOwner'' AddressT)],
      AbiEvent False ''Transfer''
          [(True, abiArg ''from'' AddressT), (True, abiArg ''to'' AddressT),
          (False, abiArg ''value'' Uint256T)]]"

definition ArosCoinReserveManager_functions1 :: "abi_entry list" where
  "ArosCoinReserveManager_functions1 =
     [AbiFunction ''allowance'' [abiArg ''owner'' AddressT, abiArg ''spender'' AddressT]
          [abiArg '''' Uint256T] View,
      AbiFunction ''approve'' [abiArg ''spender'' AddressT, abiArg ''value'' Uint256T]
          [abiArg '''' BoolT] Nonpayable,
      AbiFunction ''balanceOf'' [abiArg ''account'' AddressT] [abiArg '''' Uint256T] View,
      AbiFunction ''burn'' [abiArg ''value'' Uint256T] [] Nonpayable,
      AbiFunction ''burnFrom'' [abiArg ''account'' AddressT, abiArg ''value'' Uint256T] [] Nonpayable,
      AbiFunction ''burnWithReference''
          [abiArg ''from'' AddressT, abiArg ''amount'' Uint256T, abiArg ''txReference'' Bytes32T]
          [] Nonpayable,
      AbiFunction ''decimals'' [] [abiArg '''' Uint8T] View]"

definition ArosCoinReserveManager_functions2 :: "abi_entry list" where
  "ArosCoinReserveManager_functions2 =
     [AbiFunction ''isReferenceUsed'' [abiArg ''txReference'' Bytes32T] [abiArg '''' BoolT] View,
      AbiFunction ''mint'' [abiArg ''to'' AddressT, abiArg ''amount'' Uint256T,
          abiArg ''txReference'' Bytes32T] [] Nonpayable,
      AbiFunction ''name'' [] [abiArg '''' StringT] View,
      AbiFunction ''owner'' [] [abiArg '''' AddressT] View,
      AbiFunction ''renounceOwnership'' [] [] Nonpayable,
      AbiFunction ''symbol'' [] [abiArg '''' StringT] View,
      AbiFunction ''totalSupply'' [] [abiArg '''' Uint256T] View,
      AbiFunction ''transfer'' [abiArg ''to'' AddressT, abiArg ''value'' Uint256T]
          [abiArg '''' BoolT] Nonpayable]"

definition ArosCoinReserveManager_functions3 :: "abi_entry list" where
  "ArosCoinReserveManager_functions3 =
     [AbiFunction ''transferFrom'' [abiArg ''from'' AddressT, abiArg ''to'' AddressT, abiArg ''value'' Uint256T]
          [abiArg '''' BoolT] Nonpayable,
      AbiFunction ''transferOwnership'' [abiArg ''newOwner'' AddressT] [] Nonpayable]"

definition ArosCoinReserveManager_abi :: "abi_entry list" where
  "ArosCoinReserveManager_abi = ArosCoinReserveManager_errors @
     ArosCoinReserveManager_events @
     ArosCoinReserveManager_functions1 @
     ArosCoinReserveManager_functions2 @
     ArosCoinReserveManager_functions3"

lemmas ArosCoinReserveManager_interface =
  ArosCoinReserveManager_errors_def ArosCoinReserveManager_events_def
  ArosCoinReserveManager_functions1_def ArosCoinReserveManager_functions2_def
  ArosCoinReserveManager_functions3_def ArosCoinReserveManager_abi_def

end
