(* ===== verification/BindingTables.thy ===== *)
theory BindingTables
  imports Abi
begin

text \<open>
  The TypeScript declarations of the nine contracts (the files under \<open>typechain-types/@openzeppelin\<close> and
  \<open>typechain-types/contracts\<close>), section by section in the order of the file: the names \<open>getFunction\<close> and
  \<open>getEvent\<close> accept, the argument types of \<open>encodeFunctionData\<close>, the functions \<open>decodeFunctionResult\<close>
  knows, the event namespaces, the typed methods, the overloads and the keys of \<open>filters\<close>.
\<close>

section \<open>The declared types\<close>

subsection \<open>\<open>Ownable\<close>\<close>

definition Ownable_getFunctionNames :: "string list" where
  "Ownable_getFunctionNames =
     [''owner'', ''renounceOwnership'', ''transferOwnership'']"

definition Ownable_getEventNames :: "string list" where
  "Ownable_getEventNames =
     [''OwnershipTransferred'']"

definition Ownable_encoders :: "(string \<times> ts_type list option) list" where
  "Ownable_encoders =
     [(''owner'', None),
      (''renounceOwnership'', None),
      (''transferOwnership'', Some [AddressLike])]"

definition Ownable_decoders :: "string list" where
  "Ownable_decoders =
     [''owner'', ''renounceOwnership'', ''transferOwnership'']"

definition Ownable_eventTypes :: "(string \<times> event_types) list" where
  "Ownable_eventTypes =
     [(''OwnershipTransferredEvent'', EventTypes
        [(''previousOwner'', AddressLike), (''newOwner'', AddressLike)]
        [(''previousOwner'', TsString), (''newOwner'', TsString)]
        [(''previousOwner'', TsString), (''newOwner'', TsString)])]"

definition Ownable_methodFields :: "(string \<times> ts_method) list" where
  "Ownable_methodFields =
     [(''owner'', TypedContractMethod [] [TsString] View),
      (''renounceOwnership'', TypedContractMethod [] [TsVoid] Nonpayable),
      (''transferOwnership'', TypedContractMethod [(''newOwner'', AddressLike)] [TsVoid] Nonpayable)]"

definition Ownable_functionOverloads :: "(string \<times> ts_method) list" where
  "Ownable_functionOverloads =
     [(''owner'', TypedContractMethod [] [TsString] View),
      (''renounceOwnership'', TypedContractMethod [] [TsVoid] Nonpayable),
      (''transferOwnership'', TypedContractMethod [(''newOwner'', AddressLike)] [TsVoid] Nonpayable)]"

definition Ownable_eventOverloads :: "(string \<times> string) list" where
  "Ownable_eventOverloads =
     [(''OwnershipTransferred'', ''OwnershipTransferredEvent'')]"

definition Ownable_filterKeys :: "(string \<times> string) list" where
  "Ownable_filterKeys =
     [(''OwnershipTransferred(address,address)'', ''OwnershipTransferredEvent''),
      (''OwnershipTransferred'', ''OwnershipTransferredEvent'')]"

definition Ownable_bindings :: "bindings" where
  "Ownable_bindings =
     \<lparr>functionNames = Ownable_getFunctionNames,
      eventNames = Ownable_getEventNames,
      encoders = Ownable_encoders,
      decoders = Ownable_decoders,
      eventTypes = Ownable_eventTypes,
      methodFields = Ownable_methodFields,
      functionOverloads = Ownable_functionOverloads,
      eventOverloads = Ownable_eventOverloads,
      filterKeys = Ownable_filterKeys\<rparr>"

lemmas Ownable_declared =
  Ownable_getFunctionNames_def Ownable_getEventNames_def Ownable_encoders_def Ownable_decoders_def
  Ownable_eventTypes_def Ownable_methodFields_def Ownable_functionOverloads_def Ownable_eventOverloads_def
  Ownable_filterKeys_def Ownable_bindings_def

subsection \<open>\<open>IERC1155Errors\<close>\<close>

definition IERC1155Errors_bindings :: "bindings" where
  "IERC1155Errors_bindings =
     \<lparr>functionNames = [], eventNames = [], encoders = [], decoders = [], eventTypes = [],
      methodFields = [], functionOverloads = [], eventOverloads = [], filterKeys = []\<rparr>"

lemmas IERC1155Errors_declared =
  IERC1155Errors_bindings_def

subsection \<open>\<open>IERC20Errors\<close>\<close>

definition IERC20Errors_bindings :: "bindings" where
  "IERC20Errors_bindings =
     \<lparr>functionNames = [], eventNames = [], encoders = [], decoders = [], eventTypes = [],
      methodFields = [], functionOverloads = [], eventOverloads = [], filterKeys = []\<rparr>"

lemmas IERC20Errors_declared =
  IERC20Errors_bindings_def

subsection \<open>\<open>IERC721Errors\<close>\<close>

definition IERC721Errors_bindings :: "bindings" where
  "IERC721Errors_bindings =
     \<lparr>functionNames = [], eventNames = [], encoders = [], decoders = [], eventTypes = [],
      methodFields = [], functionOverloads = [], eventOverloads = [], filterKeys = []\<rparr>"

lemmas IERC721Errors_declared =
  IERC721Errors_bindings_def

subsection \<open>\<open>IERC20\<close>\<close>

definition IERC20_getFunctionNames :: "string list" where
  "IERC20_getFunctionNames =
     [''allowance'', ''approve'', ''balanceOf'', ''totalSupply'', ''transfer'', ''transferFrom'']"

definition IERC20_getEventNames :: "string list" where
  "IERC20_getEventNames =
     [''Approval'', ''Transfer'']"

definition IERC20_encoders :: "(string \<times> ts_type list option) list" where
  "IERC20_encoders =
     [(''allowance'', Some [AddressLike, AddressLike]),
      (''approve'', Some [AddressLike, BigNumberish]),
      (''balanceOf'', Some [AddressLike]),
      (''totalSupply'', None),
      (''transfer'', Some [AddressLike, BigNumberish]),
      (''transferFrom'', Some [AddressLike, AddressLike, BigNumberish])]"

definition IERC20_decoders :: "string list" where
  "IERC20_decoders =
     [''allowance'', ''approve'', ''balanceOf'', ''totalSupply'', ''transfer'', ''transferFrom'']"

definition IERC20_eventTypes :: "(string \<times> event_types) list" where
  "IERC20_eventTypes =
     [(''ApprovalEvent'', EventTypes
        [(''owner'', AddressLike), (''spender'', AddressLike), (''value'', BigNumberish)]
        [(''owner'', TsString), (''spender'', TsString), (''value'', TsBigint)]
        [(''owner'', TsString), (''spender'', TsString), (''value'', TsBigint)]),
      (''TransferEvent'', EventTypes
        [(''from'', AddressLike), (''to'', AddressLike), (''value'', BigNumberish)]
        [(''from'', TsString), (''to'', TsString), (''value'', TsBigint)]
        [(''from'', TsString), (''to'', TsString), (''value'', TsBigint)])]"

definition IERC20_methodFields :: "(string \<times> ts_method) list" where
  "IERC20_methodFields =
     [(''allowance'', TypedContractMethod [(''owner'', AddressLike), (''spender'', AddressLike)] [TsBigint] View),
      (''approve'', TypedContractMethod [(''spender'', AddressLike), (''value'', BigNumberish)]
          [TsBoolean] Nonpayable),
      (''balanceOf'', TypedContractMethod [(''account'', AddressLike)] [TsBigint] View),
      (''totalSupply'', TypedContractMethod [] [TsBigint] View),
      (''transfer'', TypedContractMethod [(''to'', AddressLike), (''value'', BigNumberish)]
          [TsBoolean] Nonpayable),
      (''transferFrom'', TypedContractMethod
          [(''from'', AddressLike), (''to'', AddressLike), (''value'', BigNumberish)] [TsBoolean] Nonpayable)]"

definition IERC20_functionOverloads :: "(string \<times> ts_method) list" where
  "IERC20_functionOverloads =
     [(''allowance'', TypedContractMethod [(''owner'', AddressLike), (''spender'', AddressLike)] [TsBigint] View),
      (''approve'', TypedContractMethod [(''spender'', AddressLike), (''value'', BigNumberish)]
          [TsBoolean] Nonpayable),
      (''balanceOf'', TypedContractMethod [(''account'', AddressLike)] [TsBigint] View),
      (''totalSupply'', TypedContractMethod [] [TsBigint] View),
      (''transfer'', TypedContractMethod [(''to'', AddressLike), (''value'', BigNumberish)]
          [TsBoolean] Nonpayable),
      (''transferFrom'', TypedContractMethod
          [(''from'', AddressLike), (''to'', AddressLike), (''value'', BigNumberish)] [TsBoolean] Nonpayable)]"

definition IERC20_eventOverloads :: "(string \<times> string) list" where
  "IERC20_eventOverloads =
     [(''Approval'', ''ApprovalEvent''), (''Transfer'', ''TransferEvent'')]"

definition IERC20_filterKeys :: "(string \<times> string) list" where
  "IERC20_filterKeys =
     [(''Approval(address,address,uint256)'', ''ApprovalEvent''),
      (''Approval'', ''ApprovalEvent''),
      (''Transfer(address,address,uint256)'', ''TransferEvent''),
      (''Transfer'', ''TransferEvent'')]"

definition IERC20_bindings :: "bindings" where
  "IERC20_bindings =
     \<lparr>functionNames = IERC20_getFunctionNames,
      eventNames = IERC20_getEventNames,
      encoders = IERC20_encoders,
      decoders = IERC20_decoders,
      eventTypes = IERC20_eventTypes,
      methodFields = IERC20_methodFields,
      functionOverloads = IERC20_functionOverloads,
      eventOverloads = IERC20_eventOverloads,
      filterKeys = IERC20_filterKeys\<rparr>"

lemmas IERC20_declared =
  IERC20_getFunctionNames_def IERC20_getEventNames_def IERC20_encoders_def IERC20_decoders_def
  IERC20_eventTypes_def IERC20_methodFields_def IERC20_functionOverloads_def IERC20_eventOverloads_def
  IERC20_filterKeys_def IERC20_bindings_def

subsection \<open>\<open>IERC20Metadata\<close>\<close>

definition IERC20Metadata_getFunctionNames :: "string list" where
  "IERC20Metadata_getFunctionNames =
     [''allowance'', ''approve'', ''balanceOf'', ''decimals'', ''name'', ''symbol'', ''totalSupply'',
      ''transfer'', ''transferFrom'']"

definition IERC20Metadata_getEventNames :: "string list" where
  "IERC20Metadata_getEventNames =
     [''Approval'', ''Transfer'']"

definition IERC20Metadata_encoders :: "(string \<times> ts_type list option) list" where
  "IERC20Metadata_encoders =
     [(''allowance'', Some [AddressLike, AddressLike]),
      (''approve'', Some [AddressLike, BigNumberish]),
      (''balanceOf'', Some [AddressLike]),
      (''decimals'', None),
      (''name'', None),
      (''symbol'', None),
      (''totalSupply'', None),
      (''transfer'', Some [AddressLike, BigNumberish]),
      (''transferFrom'', Some [AddressLike, AddressLike, BigNumberish])]"

definition IERC20Metadata_decoders :: "string list" where
  "IERC20Metadata_decoders =
     [''allowance'', ''approve'', ''balanceOf'', ''decimals'', ''name'', ''symbol'', ''totalSupply'',
      ''transfer'', ''transferFrom'']"

definition IERC20Metadata_eventTypes :: "(string \<times> event_types) list" where
  "IERC20Metadata_eventTypes =
     [(''ApprovalEvent'', EventTypes
        [(''owner'', AddressLike), (''spender'', AddressLike), (''value'', BigNumberish)]
        [(''owner'', TsString), (''spender'', TsString), (''value'', TsBigint)]
        [(''owner'', TsString), (''spender'', TsString), (''value'', TsBigint)]),
      (''TransferEvent'', EventTypes
        [(''from'', AddressLike), (''to'', AddressLike), (''value'', BigNumberish)]
        [(''from'', TsString), (''to'', TsString), (''value'', TsBigint)]
        [(''from'', TsString), (''to'', TsString), (''value'', TsBigint)])]"

definition IERC20Metadata_methodFields :: "(string \<times> ts_method) list" where
  "IERC20Metadata_methodFields =
     [(''allowance'', TypedContractMethod [(''owner'', AddressLike), (''spender'', AddressLike)] [TsBigint] View),
      (''approve'', TypedContractMethod [(''spender'', AddressLike), (''value'', BigNumberish)]
          [TsBoolean] Nonpayable),
      (''balanceOf'', TypedContractMethod [(''account'', AddressLike)] [TsBigint] View),
      (''decimals'', TypedContractMethod [] [TsBigint] View),
      (''name'', TypedContractMethod [] [TsString] View),
      (''symbol'', TypedContractMethod [] [TsString] View),
      (''totalSupply'', TypedContractMethod [] [TsBigint] View),
      (''transfer'', TypedContractMethod [(''to'', AddressLike), (''value'', BigNumberish)]
          [TsBoolean] Nonpayable),
      (''transferFrom'', TypedContractMethod
          [(''from'', AddressLike), (''to'', AddressLike), (''value'', BigNumberish)] [TsBoolean] Nonpayable)]"

definition IERC20Metadata_functionOverloads :: "(string \<times> ts_method) list" where
  "IERC20Metadata_functionOverloads =
     [(''allowance'', TypedContractMethod [(''owner'', AddressLike), (''spender'', AddressLike)] [TsBigint] View),
      (''approve'', TypedContractMethod [(''spender'', AddressLike), (''value'', BigNumberish)]
          [TsBoolean] Nonpayable),
      (''balanceOf'', TypedContractMethod [(''account'', AddressLike)] [TsBigint] View),
      (''decimals'', TypedContractMethod [] [TsBigint] View),
      (''name'', TypedContractMethod [] [TsString] View),
      (''symbol'', TypedContractMethod [] [TsString] View),
      (''totalSupply'', TypedContractMethod [] [TsBigint] View),
      (''transfer'', TypedContractMethod [(''to'', AddressLike), (''value'', BigNumberish)]
          [TsBoolean] Nonpayable),
      (''transferFrom'', TypedContractMethod
          [(''from'', AddressLike), (''to'', AddressLike), (''value'', BigNumberish)] [TsBoolean] Nonpayable)]"

definition IERC20Metadata_eventOverloads :: "(string \<times> string) list" where
  "IERC20Metadata_eventOverloads =
     [(''Approval'', ''ApprovalEvent''), (''Transfer'', ''TransferEvent'')]"

definition IERC20Metadata_filterKeys :: "(string \<times> string) list" where
  "IERC20Metadata_filterKeys =
     [(''Approval(address,address,uint256)'', ''ApprovalEvent''),
      (''Approval'', ''ApprovalEvent''),
      (''Transfer(address,address,uint256)'', ''TransferEvent''),
      (''Transfer'', ''TransferEvent'')]"

definition IERC20Metadata_bindings :: "bindings" where
  "IERC20Metadata_bindings =
     \<lparr>functionNames = IERC20Metadata_getFunctionNames,
      eventNames = IERC20Metadata_getEventNames,
      encoders = IERC20Metadata_encoders,
      decoders = IERC20Metadata_decoders,
      eventTypes = IERC20Metadata_eventTypes,
      methodFields = IERC20Metadata_methodFields,
      functionOverloads = IERC20Metadata_functionOverloads,
      eventOverloads = IERC20Metadata_eventOverloads,
      filterKeys = IERC20Metadata_filterKeys\<rparr>"

lemmas IERC20Metadata_declared =
  IERC20Metadata_getFunctionNames_def IERC20Metadata_getEventNames_def IERC20Metadata_encoders_def
  IERC20Metadata_decoders_def IERC20Metadata_eventTypes_def IERC20Metadata_methodFields_def
  IERC20Metadata_functionOverloads_def IERC20Metadata_eventOverloads_def IERC20Metadata_filterKeys_def
  IERC20Metadata_bindings_def

subsection \<open>\<open>ERC20\<close>\<close>

definition ERC20_getFunctionNames :: "string list" where
  "ERC20_getFunctionNames =
     [''allowance'', ''approve'', ''balanceOf'', ''decimals'', ''name'', ''symbol'', ''totalSupply'',
      ''transfer'', ''transferFrom'']"

definition ERC20_getEventNames :: "string list" where
  "ERC20_getEventNames =
     [''Approval'', ''Transfer'']"

definition ERC20_encoders :: "(string \<times> ts_type list option) list" where
  "ERC20_encoders =
     [(''allowance'', Some [AddressLike, AddressLike]),
      (''approve'', Some [AddressLike, BigNumberish]),
      (''balanceOf'', Some [AddressLike]),
      (''decimals'', None),
      (''name'', None),
      (''symbol'', None),
      (''totalSupply'', None),
      (''transfer'', Some [AddressLike, BigNumberish]),
      (''transferFrom'', Some [AddressLike, AddressLike, BigNumberish])]"

definition ERC20_decoders :: "string list" where
  "ERC20_decoders =
     [''allowance'', ''approve'', ''balanceOf'', ''decimals'', ''name'', ''symbol'', ''totalSupply'',
      ''transfer'', ''transferFrom'']"

definition ERC20_eventTypes :: "(string \<times> event_types) list" where
  "ERC20_eventTypes =
     [(''ApprovalEvent'', EventTypes
        [(''owner'', AddressLike), (''spender'', AddressLike), (''value'', BigNumberish)]
        [(''owner'', TsString), (''spender'', TsString), (''value'', TsBigint)]
        [(''owner'', TsString), (''spender'', TsString), (''value'', TsBigint)]),
      (''TransferEvent'', EventTypes
        [(''from'', AddressLike), (''to'', AddressLike), (''value'', BigNumberish)]
        [(''from'', TsString), (''to'', TsString), (''value'', TsBigint)]
        [(''from'', TsString), (''to'', TsString), (''value'', TsBigint)])]"

definition ERC20_methodFields :: "(string \<times> ts_method) list" where
  "ERC20_methodFields =
     [(''allowance'', TypedContractMethod [(''owner'', AddressLike), (''spender'', AddressLike)] [TsBigint] View),
      (''approve'', TypedContractMethod [(''spender'', AddressLike), (''value'', BigNumberish)]
          [TsBoolean] Nonpayable),
      (''balanceOf'', TypedContractMethod [(''account'', AddressLike)] [TsBigint] View),
      (''decimals'', TypedContractMethod [] [TsBigint] View),
      (''name'', TypedContractMethod [] [TsString] View),
      (''symbol'', TypedContractMethod [] [TsString] View),
      (''totalSupply'', TypedContractMethod [] [TsBigint] View),
      (''transfer'', TypedContractMethod [(''to'', AddressLike), (''value'', BigNumberish)]
          [TsBoolean] Nonpayable),
      (''transferFrom'', TypedContractMethod
          [(''from'', AddressLike), (''to'', AddressLike), (''value'', BigNumberish)] [TsBoolean] Nonpayable)]"

definition ERC20_functionOverloads :: "(string \<times> ts_method) list" where
  "ERC20_functionOverloads =
     [(''allowance'', TypedContractMethod [(''owner'', AddressLike), (''spender'', AddressLike)] [TsBigint] View),
      (''approve'', TypedContractMethod [(''spender'', AddressLike), (''value'', BigNumberish)]
          [TsBoolean] Nonpayable),
      (''balanceOf'', TypedContractMethod [(''account'', AddressLike)] [TsBigint] View),
      (''decimals'', TypedContractMethod [] [TsBigint] View),
      (''name'', TypedContractMethod [] [TsString] View),
      (''symbol'', TypedContractMethod [] [TsString] View),
      (''totalSupply'', TypedContractMethod [] [TsBigint] View),
      (''transfer'', TypedContractMethod [(''to'', AddressLike), (''value'', BigNumberish)]
          [TsBoolean] Nonpayable),
      (''transferFrom'', TypedContractMethod
          [(''from'', AddressLike), (''to'', AddressLike), (''value'', BigNumberish)] [TsBoolean] Nonpayable)]"

definition ERC20_eventOverloads :: "(string \<times> string) list" where
  "ERC20_eventOverloads =
     [(''Approval'', ''ApprovalEvent''), (''Transfer'', ''TransferEvent'')]"

definition ERC20_filterKeys :: "(string \<times> string) list" where
  "ERC20_filterKeys =
     [(''Approval(address,address,uint256)'', ''ApprovalEvent''),
      (''Approval'', ''ApprovalEvent''),
      (''Transfer(address,address,uint256)'', ''TransferEvent''),
      (''Transfer'', ''TransferEvent'')]"

definition ERC20_bindings :: "bindings" where
  "ERC20_bindings =
     \<lparr>functionNames = ERC20_getFunctionNames,
      eventNames = ERC20_getEventNames,
      encoders = ERC20_encoders,
      decoders = ERC20_decoders,
      eventTypes = ERC20_eventTypes,
      methodFields = ERC20_methodFields,
      functionOverloads = ERC20_functionOverloads,
      eventOverloads = ERC20_eventOverloads,
      filterKeys = ERC20_filterKeys\<rparr>"

lemmas ERC20_declared =
  ERC20_getFunctionNames_def ERC20_getEventNames_def ERC20_encoders_def ERC20_decoders_def
  ERC20_eventTypes_def ERC20_methodFields_def ERC20_functionOverloads_def ERC20_eventOverloads_def
  ERC20_filterKeys_def ERC20_bindings_def

subsection \<open>\<open>ERC20Burnable\<close>\<close>

definition ERC20Burnable_getFunctionNames :: "string list" where
  "ERC20Burnable_getFunctionNames =
     [''allowance'', ''approve'', ''balanceOf'', ''burn'', ''burnFrom'', ''decimals'', ''name'', ''symbol'',
      ''totalSupply'', ''transfer'', ''transferFrom'']"

definition ERC20Burnable_getEventNames :: "string list" where
  "ERC20Burnable_getEventNames =
     [''Approval'', ''Transfer'']"

definition ERC20Burnable_encoders :: "(string \<times> ts_type list option) list" where
  "ERC20Burnable_encoders =
     [(''allowance'', Some [AddressLike, AddressLike]),
      (''approve'', Some [AddressLike, BigNumberish]),
      (''balanceOf'', Some [AddressLike]),
      (''burn'', Some [BigNumberish]),
      (''burnFrom'', Some [AddressLike, BigNumberish]),
      (''decimals'', None),
      (''name'', None),
      (''symbol'', None),
      (''totalSupply'', None),
      (''transfer'', Some [AddressLike, BigNumberish]),
      (''transferFrom'', Some [AddressLike, AddressLike, BigNumberish])]"

definition ERC20Burnable_decoders :: "string list" where
  "ERC20Burnable_decoders =
     [''allowance'', ''approve'', ''balanceOf'', ''burn'', ''burnFrom'', ''decimals'', ''name'', ''symbol'',
      ''totalSupply'', ''transfer'', ''transferFrom'']"

definition ERC20Burnable_eventTypes :: "(string \<times> event_types) list" where
  "ERC20Burnable_eventTypes =
     [(''ApprovalEvent'', EventTypes
        [(''owner'', AddressLike), (''spender'', AddressLike), (''value'', BigNumberish)]
        [(''owner'', TsString), (''spender'', TsString), (''value'', TsBigint)]
        [(''owner'', TsString), (''spender'', TsString), (''value'', TsBigint)]),
      (''TransferEvent'', EventTypes
        [(''from'', AddressLike), (''to'', AddressLike), (''value'', BigNumberish)]
        [(''from'', TsString), (''to'', TsString), (''value'', TsBigint)]
        [(''from'', TsString), (''to'', TsString), (''value'', TsBigint)])]"

definition ERC20Burnable_methodFields :: "(string \<times> ts_method) list" where
  "ERC20Burnable_methodFields =
     [(''allowance'', TypedContractMethod [(''owner'', AddressLike), (''spender'', AddressLike)] [TsBigint] View),
      (''approve'', TypedContractMethod [(''spender'', AddressLike), (''value'', BigNumberish)]
          [TsBoolean] Nonpayable),
      (''balanceOf'', TypedContractMethod [(''account'', AddressLike)] [TsBigint] View),
      (''burn'', TypedContractMethod [(''value'', BigNumberish)] [TsVoid] Nonpayable),
      (''burnFrom'', TypedContractMethod [(''account'', AddressLike), (''value'', BigNumberish)]
          [TsVoid] Nonpayable),
      (''decimals'', TypedContractMethod [] [TsBigint] View),
      (''name'', TypedContractMethod [] [TsString] View),
      (''symbol'', TypedContractMethod [] [TsString] View),
      (''totalSupply'', TypedContractMethod [] [TsBigint] View),
      (''transfer'', TypedContractMethod [(''to'', AddressLike), (''value'', BigNumberish)]
          [TsBoolean] Nonpayable),
      (''transferFrom'', TypedContractMethod
          [(''from'', AddressLike), (''to'', AddressLike), (''value'', BigNumberish)] [TsBoolean] Nonpayable)]"

definition ERC20Burnable_functionOverloads :: "(string \<times> ts_method) list" where
  "ERC20Burnable_functionOverloads =
     [(''allowance'', TypedContractMethod [(''owner'', AddressLike), (''spender'', AddressLike)] [TsBigint] View),
      (''approve'', TypedContractMethod [(''spender'', AddressLike), (''value'', BigNumberish)]
          [TsBoolean] Nonpayable),
      (''balanceOf'', TypedContractMethod [(''account'', AddressLike)] [TsBigint] View),
      (''burn'', TypedContractMethod [(''value'', BigNumberish)] [TsVoid] Nonpayable),
      (''burnFrom'', TypedContractMethod [(''account'', AddressLike), (''value'', BigNumberish)]
          [TsVoid] Nonpayable),
      (''decimals'', TypedContractMethod [] [TsBigint] View),
      (''name'', TypedContractMethod [] [TsString] View),
      (''symbol'', TypedContractMethod [] [TsString] View),
      (''totalSupply'', TypedContractMethod [] [TsBigint] View),
      (''transfer'', TypedContractMethod [(''to'', AddressLike), (''value'', BigNumberish)]
          [TsBoolean] Nonpayable),
      (''transferFrom'', TypedContractMethod
          [(''from'', AddressLike), (''to'', AddressLike), (''value'', BigNumberish)] [TsBoolean] Nonpayable)]"

definition ERC20Burnable_eventOverloads :: "(string \<times> string) list" where
  "ERC20Burnable_eventOverloads =
     [(''Approval'', ''ApprovalEvent''), (''Transfer'', ''TransferEvent'')]"

definition ERC20Burnable_filterKeys :: "(string \<times> string) list" where
  "ERC20Burnable_filterKeys =
     [(''Approval(address,address,uint256)'', ''ApprovalEvent''),
      (''Approval'', ''ApprovalEvent''),
      (''Transfer(address,address,uint256)'', ''TransferEvent''),
      (''Transfer'', ''TransferEvent'')]"

definition ERC20Burnable_bindings :: "bindings" where
  "ERC20Burnable_bindings =
     \<lparr>functionNames = ERC20Burnable_getFunctionNames,
      eventNames = ERC20Burnable_getEventNames,
      encoders = ERC20Burnable_encoders,
      decoders = ERC20Burnable_decoders,
      eventTypes = ERC20Burnable_eventTypes,
      methodFields = ERC20Burnable_methodFields,
      functionOverloads = ERC20Burnable_functionOverloads,
      eventOverloads = ERC20Burnable_eventOverloads,
      filterKeys = ERC20Burnable_filterKeys\<rparr>"

lemmas ERC20Burnable_declared =
  ERC20Burnable_getFunctionNames_def ERC20Burnable_getEventNames_def ERC20Burnable_encoders_def
  ERC20Burnable_decoders_def ERC20Burnable_eventTypes_def ERC20Burnable_methodFields_def
  ERC20Burnable_functionOverloads_def ERC20Burnable_eventOverloads_def ERC20Burnable_filterKeys_def
  ERC20Burnable_bindings_def

subsection \<open>\<open>ArosCoinReserveManager\<close>\<close>

definition ArosCoinReserveManager_getFunctionNames :: "string list" where
  "ArosCoinReserveManager_getFunctionNames =
     [''allowance'', ''approve'', ''balanceOf'', ''burn'', ''burnFrom'', ''burnWithReference'', ''decimals'',
      ''isReferenceUsed'', ''mint'', ''name'', ''owner'', ''renounceOwnership'', ''symbol'', ''totalSupply'',
      ''transfer'', ''transferFrom'', ''transferOwnership'']"

definition ArosCoinReserveManager_getEventNames :: "string list" where
  "ArosCoinReserveManager_getEventNames =
     [''Approval'', ''Burned'', ''Minted'', ''OwnershipTransferred'', ''Transfer'']"

definition ArosCoinReserveManager_encoders :: "(string \<times> ts_type list option) list" where
  "ArosCoinReserveManager_encoders =
     [(''allowance'', Some [AddressLike, AddressLike]),
      (''approve'', Some [AddressLike, BigNumberish]),
      (''balanceOf'', Some [AddressLike]),
      (''burn'', Some [BigNumberish]),
      (''burnFrom'', Some [AddressLike, BigNumberish]),
      (''burnWithReference'', Some [AddressLike, BigNumberish, BytesLike]),
      (''decimals'', None),
      (''isReferenceUsed'', Some [BytesLike]),
      (''mint'', Some [AddressLike, BigNumberish, BytesLike]),
      (''name'', None),
      (''owner'', None),
      (''renounceOwnership'', None),
      (''symbol'', None),
      (''totalSupply'', None),
      (''transfer'', Some [AddressLike, BigNumberish]),
      (''transferFrom'', Some [AddressLike, AddressLike, BigNumberish]),
      (''transferOwnership'', Some [AddressLike])]"

definition ArosCoinReserveManager_decoders :: "string list" where
  "ArosCoinReserveManager_decoders =
     [''allowance'', ''approve'', ''balanceOf'', ''burn'', ''burnFrom'', ''burnWithReference'', ''decimals'',
      ''isReferenceUsed'', ''mint'', ''name'', ''owner'', ''renounceOwnership'', ''symbol'', ''totalSupply'',
      ''transfer'', ''transferFrom'', ''transferOwnership'']"

definition ArosCoinReserveManager_eventTypes :: "(string \<times> event_types) list" where
  "ArosCoinReserveManager_eventTypes =
     [(''ApprovalEvent'', EventTypes
        [(''owner'', AddressLike), (''spender'', AddressLike), (''value'', BigNumberish)]
        [(''owner'', TsString), (''spender'', TsString), (''value'', TsBigint)]
        [(''owner'', TsString), (''spender'', TsString), (''value'', TsBigint)]),
      (''BurnedEvent'', EventTypes
        [(''from'', AddressLike), (''amount'', BigNumberish), (''txReference'', BytesLike)]
        [(''from'', TsString), (''amount'', TsBigint), (''txReference'', TsString)]
        [(''from'', TsString), (''amount'', TsBigint), (''txReference'', TsString)]),
      (''MintedEvent'', EventTypes
        [(''to'', AddressLike), (''amount'', BigNumberish), (''txReference'', BytesLike)]
        [(''to'', TsString), (''amount'', TsBigint), (''txReference'', TsString)]
        [(''to'', TsString), (''amount'', TsBigint), (''txReference'', TsString)]),
      (''OwnershipTransferredEvent'', EventTypes
        [(''previousOwner'', AddressLike), (''newOwner'', AddressLike)]
        [(''previousOwner'', TsString), (''newOwner'', TsString)]
        [(''previousOwner'', TsString), (''newOwner'', TsString)]),
      (''TransferEvent'', EventTypes
        [(''from'', AddressLike), (''to'', AddressLike), (''value'', BigNumberish)]
        [(''from'', TsString), (''to'', TsString), (''value'', TsBigint)]
        [(''from'', TsString), (''to'', TsString), (''value'', TsBigint)])]"

definition ArosCoinReserveManager_methodFields :: "(string \<times> ts_method) list" where
  "ArosCoinReserveManager_methodFields =
     [(''allowance'', TypedContractMethod [(''owner'', AddressLike), (''spender'', AddressLike)] [TsBigint] View),
      (''approve'', TypedContractMethod [(''spender'', AddressLike), (''value'', BigNumberish)]
          [TsBoolean] Nonpayable),
      (''balanceOf'', TypedContractMethod [(''account'', AddressLike)] [TsBigint] View),
      (''burn'', TypedContractMethod [(''value'', BigNumberish)] [TsVoid] Nonpayable),
      (''burnFrom'', TypedContractMethod [(''account'', AddressLike), (''value'', BigNumberish)]
          [TsVoid] Nonpayable),
      (''burnWithReference'', TypedContractMethod
          [(''from'', AddressLike), (''amount'', BigNumberish), (''txReference'', BytesLike)]
          [TsVoid] Nonpayable),
      (''decimals'', TypedContractMethod [] [TsBigint] View),
      (''isReferenceUsed'', TypedContractMethod [(''txReference'', BytesLike)] [TsBoolean] View),
      (''mint'', TypedContractMethod
          [(''to'', AddressLike), (''amount'', BigNumberish), (''txReference'', BytesLike)]
          [TsVoid] Nonpayable),
      (''name'', TypedContractMethod [] [TsString] View),
      (''owner'', TypedContractMethod [] [TsString] View),
      (''renounceOwnership'', TypedContractMethod [] [TsVoid] Nonpayable),
      (''symbol'', TypedContractMethod [] [TsString] View),
      (''totalSupply'', TypedContractMethod [] [TsBigint] View),
      (''transfer'', TypedContractMethod [(''to'', AddressLike), (''value'', BigNumberish)]
          [TsBoolean] Nonpayable),
      (''transferFrom'', TypedContractMethod
          [(''from'', AddressLike), (''to'', AddressLike), (''value'', BigNumberish)] [TsBoolean] Nonpayable),
      (''transferOwnership'', TypedContractMethod [(''newOwner'', AddressLike)] [TsVoid] Nonpayable)]"

definition ArosCoinReserveManager_functionOverloads :: "(string \<times> ts_method) list" where
  "ArosCoinReserveManager_functionOverloads =
     [(''allowance'', TypedContractMethod [(''owner'', AddressLike), (''spender'', AddressLike)] [TsBigint] View),
      (''approve'', TypedContractMethod [(''spender'', AddressLike), (''value'', BigNumberish)]
          [TsBoolean] Nonpayable),
      (''balanceOf'', TypedContractMethod [(''account'', AddressLike)] [TsBigint] View),
      (''burn'', TypedContractMethod [(''value'', BigNumberish)] [TsVoid] Nonpayable),
      (''burnFrom'', TypedContractMethod [(''account'', AddressLike), (''value'', BigNumberish)]
          [TsVoid] Nonpayable),
      (''burnWithReference'', TypedContractMethod
          [(''from'', AddressLike), (''amount'', BigNumberish), (''txReference'', BytesLike)]
          [TsVoid] Nonpayable),
      (''decimals'', TypedContractMethod [] [TsBigint] View),
      (''isReferenceUsed'', TypedContractMethod [(''txReference'', BytesLike)] [TsBoolean] View),
      (''mint'', TypedContractMethod
          [(''to'', AddressLike), (''amount'', BigNumberish), (''txReference'', BytesLike)]
          [TsVoid] Nonpayable),
      (''name'', TypedContractMethod [] [TsString] View),
      (''owner'', TypedContractMethod [] [TsString] View),
      (''renounceOwnership'', TypedContractMethod [] [TsVoid] Nonpayable),
      (''symbol'', TypedContractMethod [] [TsString] View),
      (''totalSupply'', TypedContractMethod [] [TsBigint] View),
      (''transfer'', TypedContractMethod [(''to'', AddressLike), (''value'', BigNumberish)]
          [TsBoolean] Nonpayable),
      (''transferFrom'', TypedContractMethod
          [(''from'', AddressLike), (''to'', AddressLike), (''value'', BigNumberish)] [TsBoolean] Nonpayable),
      (''transferOwnership'', TypedContractMethod [(''newOwner'', AddressLike)] [TsVoid] Nonpayable)]"

definition ArosCoinReserveManager_eventOverloads :: "(string \<times> string) list" where
  "ArosCoinReserveManager_eventOverloads =
     [(''Approval'', ''ApprovalEvent''),
      (''Burned'', ''BurnedEvent''),
      (''Minted'', ''MintedEvent''),
      (''OwnershipTransferred'', ''OwnershipTransferredEvent''),
      (''Transfer'', ''TransferEvent'')]"

definition ArosCoinReserveManager_filterKeys :: "(string \<times> string) list" where
  "ArosCoinReserveManager_filterKeys =
     [(''Approval(address,address,uint256)'', ''ApprovalEvent''),
      (''Approval'', ''ApprovalEvent''),
      (''Burned(address,uint256,bytes32)'', ''BurnedEvent''),
      (''Burned'', ''BurnedEvent''),
      (''Minted(address,uint256,bytes32)'', ''MintedEvent''),
      (''Minted'', ''MintedEvent''),
      (''OwnershipTransferred(address,address)'', ''OwnershipTransferredEvent''),
      (''OwnershipTransferred'', ''OwnershipTransferredEvent''),
      (''Transfer(address,address,uint256)'', ''TransferEvent''),
      (''Transfer'', ''TransferEvent'')]"

definition ArosCoinReserveManager_bindings :: "bindings" where
  "ArosCoinReserveManager_bindings =
     \<lparr>functionNames = ArosCoinReserveManager_getFunctionNames,
      eventNames = ArosCoinReserveManager_getEventNames,
      encoders = ArosCoinReserveManager_encoders,
      decoders = ArosCoinReserveManager_decoders,
      eventTypes = ArosCoinReserveManager_eventTypes,
      methodFields = ArosCoinReserveManager_methodFields,
      functionOverloads = ArosCoinReserveManager_functionOverloads,
      eventOverloads = ArosCoinReserveManager_eventOverloads,
      filterKeys = ArosCoinReserveManager_filterKeys\<rparr>"

lemmas ArosCoinReserveManager_declared =
  ArosCoinReserveManager_getFunctionNames_def ArosCoinReserveManager_getEventNames_def
  ArosCoinReserveManager_encoders_def ArosCoinReserveManager_decoders_def
  ArosCoinReserveManager_eventTypes_def ArosCoinReserveManager_methodFields_def
  ArosCoinReserveManager_functionOverloads_def ArosCoinReserveManager_eventOverloads_def
  ArosCoinReserveManager_filterKeys_def ArosCoinReserveManager_bindings_def

end
