(* ===== verification/TokenLedger.thy ===== *)
theory TokenLedger
  imports Token
begin

text \<open>
  What the token contract promises. A \<open>token_ledger\<close> keeps natural numbers and no running total;
  \<open>ledger_step\<close> says which calls it accepts and what they do. The contract implements it: its words
  of 256 bits never wrap, \<open>unchecked\<close> blocks included, because the supply it stores is the sum of all
  balances. On top of that, every reference is used once, and only the owner issues tokens.
\<close>

section \<open>The abstract ledger\<close>

record token_ledger =
  bal :: "address \<Rightarrow> nat"
  allow :: "address \<Rightarrow> address \<Rightarrow> nat"
  admin :: address
  spent :: "bytes32 \<Rightarrow> bool"

definition sum_all :: "(address \<Rightarrow> nat) \<Rightarrow> nat" where
  "sum_all f = (\<Sum>a \<in> UNIV. f a)"

definition move :: "address \<Rightarrow> address \<Rightarrow> nat \<Rightarrow> token_ledger \<Rightarrow> token_ledger option" where
  "move src dst v L =
     (if src = 0 \<or> dst = 0 \<or> bal L src < v then None
      else Some (L\<lparr>bal := (let b = (bal L)(src := bal L src - v) in b(dst := b dst + v))\<rparr>))"

definition issue :: "address \<Rightarrow> nat \<Rightarrow> token_ledger \<Rightarrow> token_ledger option" where
  "issue dst v L =
     (if dst = 0 \<or> 2 ^ 256 \<le> sum_all (bal L) + v then None
      else Some (L\<lparr>bal := (bal L)(dst := bal L dst + v)\<rparr>))"

definition destroy :: "address \<Rightarrow> nat \<Rightarrow> token_ledger \<Rightarrow> token_ledger option" where
  "destroy src v L =
     (if src = 0 \<or> bal L src < v then None else Some (L\<lparr>bal := (bal L)(src := bal L src - v)\<rparr>))"

definition permit :: "address \<Rightarrow> address \<Rightarrow> nat \<Rightarrow> token_ledger \<Rightarrow> token_ledger option" where
  "permit holder spender v L =
     (if holder = 0 \<or> spender = 0 then None
      else Some (L\<lparr>allow := (allow L)(holder := (allow L holder)(spender := v))\<rparr>))"

definition spend :: "address \<Rightarrow> address \<Rightarrow> nat \<Rightarrow> token_ledger \<Rightarrow> token_ledger option" where
  "spend holder spender v L =
     (if allow L holder spender = 2 ^ 256 - 1 then Some L
      else if allow L holder spender < v then None
      else permit holder spender (allow L holder spender - v) L)"

definition as_admin :: "address \<Rightarrow> (token_ledger \<Rightarrow> token_ledger option) \<Rightarrow> token_ledger \<Rightarrow> token_ledger option" where
  "as_admin sender g L = (if admin L = sender then g L else None)"

definition once :: "bytes32 \<Rightarrow> (token_ledger \<Rightarrow> token_ledger option) \<Rightarrow> token_ledger \<Rightarrow> token_ledger option" where
  "once r g L = (if spent L r then None else map_option (\<lambda>L'. L'\<lparr>spent := (spent L')(r := True)\<rparr>) (g L))"

fun ledger_step :: "address \<Rightarrow> contract_call \<Rightarrow> token_ledger \<Rightarrow> token_ledger option" where
  "ledger_step sender (Call_approve spender value) L = permit sender spender (unat value) L"
| "ledger_step sender (Call_burn value) L = destroy sender (unat value) L"
| "ledger_step sender (Call_burnFrom account value) L =
     Option.bind (spend account sender (unat value) L) (destroy account (unat value))"
| "ledger_step sender (Call_burnWithReference src amount r) L = as_admin sender (once r (destroy src (unat amount))) L"
| "ledger_step sender (Call_mint dst amount r) L = as_admin sender (once r (issue dst (unat amount))) L"
| "ledger_step sender Call_renounceOwnership L = as_admin sender (\<lambda>L. Some (L\<lparr>admin := 0\<rparr>)) L"
| "ledger_step sender (Call_transfer dst value) L = move sender dst (unat value) L"
| "ledger_step sender (Call_transferFrom src dst value) L =
     Option.bind (spend src sender (unat value) L) (move src dst (unat value))"
| "ledger_step sender (Call_transferOwnership newOwner) L =
     as_admin sender (\<lambda>L. if newOwner = 0 then None else Some (L\<lparr>admin := newOwner\<rparr>)) L"
| "ledger_step sender _ L = Some L"

section \<open>The refinement\<close>

definition abs_ledger :: "contract_state \<Rightarrow> token_ledger" where
  "abs_ledger s = \<lparr>bal = (\<lambda>a. unat (balanceOf s a)), allow = (\<lambda>a b. unat (allowances s a b)),
     admin = contractOwner s, spent = usedReferences s\<rparr>"

definition solvent :: "contract_state \<Rightarrow> bool" where
  "solvent s \<longleftrightarrow> unat (tokenSupply s) = sum_all (\<lambda>a. unat (balanceOf s a)) \<and> balanceOf s 0 = 0"

definition implements :: "'a contract \<Rightarrow> (token_ledger \<Rightarrow> token_ledger option) \<Rightarrow> bool" where
  "implements m g \<longleftrightarrow> (\<forall>s. solvent s \<longrightarrow>
     (case result m s of
        Inl _ \<Rightarrow> g (abs_ledger s) = None
      | Inr _ \<Rightarrow> solvent (exec m s) \<and> g (abs_ledger s) = Some (abs_ledger (exec m s))))"

lemma implementsI:
  assumes "\<And>s. solvent s \<Longrightarrow> case result m s of
        Inl _ \<Rightarrow> g (abs_ledger s) = None
      | Inr _ \<Rightarrow> solvent (exec m s) \<and> g (abs_ledger s) = Some (abs_ledger (exec m s))"
  shows "implements m g"
  using assms by (simp add: implements_def)

lemma implementsD:
  assumes "implements m g" "solvent s"
  shows "result m s = Inl e \<Longrightarrow> g (abs_ledger s) = None"
    and "result m s = Inr a \<Longrightarrow> solvent (exec m s)"
    and "result m s = Inr a \<Longrightarrow> g (abs_ledger s) = Some (abs_ledger (exec m s))"
  using assms(1) [unfolded implements_def, rule_format, OF assms(2)] by simp_all

lemma implements_tryM:
  assumes "implements m g" "\<And>a. implements (f a) h"
  shows "implements (tryM m f) (\<lambda>L. Option.bind (g L) h)"
proof (rule implementsI)
  fix s assume s: "solvent s"
  show "case result (tryM m f) s of
        Inl _ \<Rightarrow> Option.bind (g (abs_ledger s)) h = None
      | Inr _ \<Rightarrow> solvent (exec (tryM m f) s) \<and> Option.bind (g (abs_ledger s)) h = Some (abs_ledger (exec (tryM m f) s))"
  proof (cases "result m s")
    case (Inl e)
    then show ?thesis using implementsD(1) [OF assms(1) s Inl] by (simp add: tryM_simps)
  next
    case (Inr a)
    note m = implementsD(2,3) [OF assms(1) s Inr]
    have "case result (f a) (exec m s) of
        Inl _ \<Rightarrow> h (abs_ledger (exec m s)) = None
      | Inr _ \<Rightarrow> solvent (exec (f a) (exec m s)) \<and> h (abs_ledger (exec m s)) = Some (abs_ledger (exec (f a) (exec m s)))"
      using assms(2) m(1) unfolding implements_def by blast
    then show ?thesis using m(2) Inr by (simp add: tryM_simps split: sum.splits)
  qed
qed

lemma implements_map:
  assumes "implements m g"
  shows "implements (tryM m (\<lambda>a. return (Inr (f a)))) g"
  using assms by (auto simp: implements_def tryM_simps split: sum.splits)

subsection \<open>Sums of balances\<close>

lemma total_upd: "sum_all (f(x := v)) + f x = sum_all f + v"
proof -
  have "sum_all (f(x := v)) = v + (\<Sum>a \<in> UNIV - {x}. f a)"
    unfolding sum_all_def by (subst sum.remove [of _ x]) (auto intro: sum.cong)
  moreover have "sum_all f = f x + (\<Sum>a \<in> UNIV - {x}. f a)"
    unfolding sum_all_def by (simp add: sum.remove [of _ x])
  ultimately show ?thesis by simp
qed

lemma total_ge: "f x \<le> sum_all f"
  unfolding sum_all_def by (rule member_le_sum) simp_all

lemma unat_upd: "(\<lambda>a. unat ((f(x := v)) a)) = (\<lambda>a. unat (f a))(x := unat v)"
  by auto

lemma unat_bound: "unat (x :: uint256) < 2 ^ 256"
  using unsigned_less [of x] by simp

lemma unat_plus: "unat x + unat y < 2 ^ 256 \<Longrightarrow> unat (x + y) = unat x + unat (y :: uint256)"
  using unat_add_lem [of x y] by simp

lemma unat_minus: "\<not> x < y \<Longrightarrow> unat (x - y) = unat x - unat (y :: uint256)"
  by (simp add: unat_sub not_less)

lemma unat_less: "x < y \<longleftrightarrow> unat x < unat (y :: uint256)"
  by (simp add: word_less_nat_alt)

lemma below_max: "x < max256 \<longleftrightarrow> unat x \<noteq> 2 ^ 256 - 1"
proof -
  have m: "unat max256 = 2 ^ 256 - 1" by (simp add: max256_def unsigned_minus_1_eq_mask mask_eq_exp_minus_1)
  have "x < max256 \<longleftrightarrow> unat x < 2 ^ 256 - 1" by (simp only: unat_less m)
  also have "\<dots> \<longleftrightarrow> unat x \<noteq> 2 ^ 256 - 1" using unat_bound [of x] by linarith
  finally show ?thesis .
qed

subsection \<open>The operations\<close>

lemma transfer_implements: "implements (erc20_transfer src dst value) (move src dst (unat value))"
proof (rule implementsI)
  fix s assume s: "solvent s"
  let ?b = "\<lambda>a. unat (balanceOf s a)" and ?v = "unat value"
  have sup: "unat (tokenSupply s) = sum_all ?b" and zero: "balanceOf s 0 = 0" using s by (simp_all add: solvent_def)
  consider (fails) "src = 0 \<or> dst = 0 \<or> balanceOf s src < value" | (ok) "src \<noteq> 0" "dst \<noteq> 0" "\<not> balanceOf s src < value"
    by blast
  then show "case result (erc20_transfer src dst value) s of
        Inl _ \<Rightarrow> move src dst ?v (abs_ledger s) = None
      | Inr _ \<Rightarrow> solvent (exec (erc20_transfer src dst value) s) \<and>
          move src dst ?v (abs_ledger s) = Some (abs_ledger (exec (erc20_transfer src dst value) s))"
  proof cases
    case fails
    then show ?thesis
      by (auto simp: erc20_transfer_def erc20_update_def tryM_simps move_def abs_ledger_def unat_less)
  next
    case ok
    let ?w1 = "(balanceOf s)(src := balanceOf s src - value)"
    let ?w2 = "?w1(dst := ?w1 dst + value)"
    let ?n1 = "?b(src := ?b src - ?v)"
    let ?n2 = "?n1(dst := ?n1 dst + ?v)"
    have le: "?v \<le> ?b src" using ok(3) by (simp add: unat_less)
    have w1: "(\<lambda>a. unat (?w1 a)) = ?n1" using ok(3) by (auto simp: fun_eq_iff unat_minus)
    have t1: "sum_all ?n1 + ?v = sum_all ?b" using total_upd [of ?b src "?b src - ?v"] le total_ge [of ?b src] by simp
    have dst1: "unat (?w1 dst) = ?n1 dst" using fun_cong [OF w1, of dst] by simp
    have "?n1 dst + ?v \<le> sum_all ?b" using t1 total_ge [of ?n1 dst] by simp
    then have "?n1 dst + ?v < 2 ^ 256" using sup unat_bound [of "tokenSupply s"] by simp
    then have dst2: "unat (?w1 dst + value) = ?n1 dst + ?v" using dst1 unat_plus [of "?w1 dst" "value"] by simp
    have w2: "(\<lambda>a. unat (?w2 a)) = ?n2" by (simp only: unat_upd dst2 unat_minus [OF ok(3)])
    have t2: "sum_all ?n2 = sum_all ?b" using total_upd [of ?n1 dst "?n1 dst + ?v"] t1 by simp
    have run: "result (erc20_transfer src dst value) s = Inr ()"
      "exec (erc20_transfer src dst value) s =
         s\<lparr>balanceOf := ?w2, contractEvents := contractEvents s @ [Transfer src dst value]\<rparr>"
      using ok by (simp_all add: erc20_transfer_def erc20_update_def tryM_simps)
    show ?thesis
      using ok le sup zero t2 by (simp add: run solvent_def abs_ledger_def move_def Let_def w2 [simplified])
  qed
qed

lemma mint_implements: "implements (erc20_mint dst value) (issue dst (unat value))"
proof (rule implementsI)
  fix s assume s: "solvent s"
  let ?b = "\<lambda>a. unat (balanceOf s a)" and ?v = "unat value"
  have sup: "unat (tokenSupply s) = sum_all ?b" and zero: "balanceOf s 0 = 0" using s by (simp_all add: solvent_def)
  show "case result (erc20_mint dst value) s of
        Inl _ \<Rightarrow> issue dst ?v (abs_ledger s) = None
      | Inr _ \<Rightarrow> solvent (exec (erc20_mint dst value) s) \<and>
          issue dst ?v (abs_ledger s) = Some (abs_ledger (exec (erc20_mint dst value) s))"
  proof (cases "dst \<noteq> 0 \<and> sum_all ?b + ?v < 2 ^ 256")
    case False
    then show ?thesis
      by (auto simp: erc20_mint_def erc20_update_def tryM_simps issue_def abs_ledger_def sup)
  next
    case True
    have "?b dst + ?v < 2 ^ 256" using True total_ge [of ?b dst] by simp
    then have w: "(\<lambda>a. unat (((balanceOf s)(dst := balanceOf s dst + value)) a)) = ?b(dst := ?b dst + ?v)"
      by (auto simp: fun_eq_iff unat_plus)
    have t: "sum_all (?b(dst := ?b dst + ?v)) = sum_all ?b + ?v" using total_upd [of ?b dst "?b dst + ?v"] by simp
    have "unat (tokenSupply s + value) = sum_all ?b + ?v" using True sup unat_plus [of "tokenSupply s" "value"] by simp
    then show ?thesis
      using True zero t w [simplified]
      by (simp add: erc20_mint_def erc20_update_def tryM_simps issue_def abs_ledger_def solvent_def sup)
  qed
qed

lemma burn_implements: "implements (erc20_burn src value) (destroy src (unat value))"
proof (rule implementsI)
  fix s assume s: "solvent s"
  let ?b = "\<lambda>a. unat (balanceOf s a)" and ?v = "unat value"
  have sup: "unat (tokenSupply s) = sum_all ?b" and zero: "balanceOf s 0 = 0" using s by (simp_all add: solvent_def)
  show "case result (erc20_burn src value) s of
        Inl _ \<Rightarrow> destroy src ?v (abs_ledger s) = None
      | Inr _ \<Rightarrow> solvent (exec (erc20_burn src value) s) \<and>
          destroy src ?v (abs_ledger s) = Some (abs_ledger (exec (erc20_burn src value) s))"
  proof (cases "src \<noteq> 0 \<and> \<not> balanceOf s src < value")
    case False
    then show ?thesis
      by (auto simp: erc20_burn_def erc20_update_def tryM_simps destroy_def abs_ledger_def unat_less)
  next
    case True
    have le: "?v \<le> ?b src" using True by (simp add: unat_less)
    have w: "(\<lambda>a. unat (((balanceOf s)(src := balanceOf s src - value)) a)) = ?b(src := ?b src - ?v)"
      using True by (auto simp: fun_eq_iff unat_minus)
    have t: "sum_all (?b(src := ?b src - ?v)) + ?v = sum_all ?b"
      using total_upd [of ?b src "?b src - ?v"] le total_ge [of ?b src] by simp
    then have "\<not> tokenSupply s < value" by (simp add: unat_less sup)
    then have "unat (tokenSupply s - value) = sum_all (?b(src := ?b src - ?v))" using t sup by (simp add: unat_minus)
    then show ?thesis
      using True le zero w [simplified]
      by (simp add: erc20_burn_def erc20_update_def tryM_simps destroy_def abs_ledger_def solvent_def)
  qed
qed

lemma approve_implements: "implements (erc20_approve holder spender value b) (permit holder spender (unat value))"
  by (rule implementsI)
    (auto simp: erc20_approve_def tryM_simps permit_def abs_ledger_def solvent_def fun_eq_iff)

lemma spend_implements: "implements (erc20_spendAllowance holder spender value) (spend holder spender (unat value))"
proof (rule implementsI)
  fix s assume s: "solvent s"
  let ?m = "erc20_spendAllowance holder spender value" and ?c = "allowances s holder spender"
  have max: "?c < max256 \<longleftrightarrow> allow (abs_ledger s) holder spender \<noteq> 2 ^ 256 - 1"
    by (simp only: below_max) (simp add: abs_ledger_def)
  have small: "?c < value \<longleftrightarrow> allow (abs_ledger s) holder spender < unat value" by (simp add: unat_less abs_ledger_def)
  show "case result ?m s of
        Inl _ \<Rightarrow> spend holder spender (unat value) (abs_ledger s) = None
      | Inr _ \<Rightarrow> solvent (exec ?m s) \<and> spend holder spender (unat value) (abs_ledger s) = Some (abs_ledger (exec ?m s))"
  proof (cases "?c < max256 \<and> \<not> ?c < value")
    case False
    then show ?thesis using s by (auto simp: erc20_spendAllowance_def spend_def max small)
  next
    case True
    have m: "result ?m s = result (erc20_approve holder spender (?c - value) False) s"
      "exec ?m s = exec (erc20_approve holder spender (?c - value) False) s"
      using True by (simp_all add: erc20_spendAllowance_def)
    have "unat (?c - value) = allow (abs_ledger s) holder spender - unat value"
      using True by (simp add: unat_minus abs_ledger_def)
    then have g: "spend holder spender (unat value) (abs_ledger s) = permit holder spender (unat (?c - value)) (abs_ledger s)"
      using True max small by (simp add: spend_def)
    show ?thesis
      unfolding m g by (rule approve_implements [unfolded implements_def, rule_format, OF s])
  qed
qed

lemma setOwner_implements: "implements (setOwner newOwner) (\<lambda>L. Some (L\<lparr>admin := newOwner\<rparr>))"
  by (rule implementsI) (simp add: setOwner_def tryM_simps abs_ledger_def solvent_def)

lemma onlyOwner_implements:
  assumes "implements m g"
  shows "implements (onlyOwner sender m) (as_admin sender g)"
  using assms by (auto simp: implements_def onlyOwner_def as_admin_def abs_ledger_def split: sum.splits)

lemma once_implements:
  assumes "implements m g"
  shows "implements (do {
     used \<leftarrow> gets (\<lambda>s. usedReferences s r);
     if used then revertWith e
     else tryM m (\<lambda>_. tryM (store (\<lambda>s. s\<lparr>usedReferences := (usedReferences s)(r := True)\<rparr>)) (\<lambda>_. emitEvent ev))
   }) (once r g)" (is "implements ?m _")
proof (rule implementsI)
  fix s assume s: "solvent s"
  show "case result ?m s of Inl _ \<Rightarrow> once r g (abs_ledger s) = None
    | Inr _ \<Rightarrow> solvent (exec ?m s) \<and> once r g (abs_ledger s) = Some (abs_ledger (exec ?m s))"
  proof (cases "usedReferences s r")
    case True
    then show ?thesis by (simp add: once_def abs_ledger_def)
  next
    case fresh: False
    show ?thesis
    proof (cases "result m s")
      case (Inl e)
      then show ?thesis using implementsD(1) [OF assms s Inl] fresh by (simp add: tryM_simps once_def abs_ledger_def)
    next
      case (Inr a)
      then show ?thesis using implementsD(2,3) [OF assms s Inr] fresh
        by (simp add: tryM_simps once_def abs_ledger_def solvent_def)
    qed
  qed
qed

lemma view_implements: "implements (view f) Some"
  by (rule implementsI) (simp add: view_def)

lemma returning_implements: "implements m g \<Longrightarrow> implements (returning f m) g"
  unfolding returning_def by (rule implements_map)

lemma checked_owner_implements:
  "implements (if newOwner = 0 then revertWith e else setOwner newOwner)
     (\<lambda>L. if newOwner = 0 then None else Some (L\<lparr>admin := newOwner\<rparr>))"
  using setOwner_implements [of newOwner] by (auto intro: implementsI)

lemmas implements_rules =
  returning_implements view_implements transfer_implements mint_implements burn_implements approve_implements
  spend_implements setOwner_implements onlyOwner_implements once_implements implements_tryM implements_map
  checked_owner_implements

lemma step_eta: "ledger_step sender (Call_allowance a b) = Some" "ledger_step sender (Call_balanceOf a) = Some"
  "ledger_step sender Call_decimals = Some" "ledger_step sender (Call_isReferenceUsed r) = Some"
  "ledger_step sender Call_name = Some" "ledger_step sender Call_owner = Some"
  "ledger_step sender Call_symbol = Some" "ledger_step sender Call_totalSupply = Some"
  "ledger_step sender (Call_approve a v) = permit sender a (unat v)"
  "ledger_step sender (Call_burn v) = destroy sender (unat v)"
  "ledger_step sender (Call_burnFrom a v) = (\<lambda>L. Option.bind (spend a sender (unat v) L) (destroy a (unat v)))"
  "ledger_step sender (Call_burnWithReference a v r) = as_admin sender (once r (destroy a (unat v)))"
  "ledger_step sender (Call_mint a v r) = as_admin sender (once r (issue a (unat v)))"
  "ledger_step sender Call_renounceOwnership = as_admin sender (\<lambda>L. Some (L\<lparr>admin := 0\<rparr>))"
  "ledger_step sender (Call_transfer a v) = move sender a (unat v)"
  "ledger_step sender (Call_transferFrom a b v) = (\<lambda>L. Option.bind (spend a sender (unat v) L) (move a b (unat v)))"
  "ledger_step sender (Call_transferOwnership a) =
     as_admin sender (\<lambda>L. if a = 0 then None else Some (L\<lparr>admin := a\<rparr>))"
  by (simp_all add: fun_eq_iff)

lemma dispatch_implements: "implements (dispatch sender c) (ledger_step sender c)"
  by (cases c)
    (simp_all only: dispatch.simps step_eta approve_fn_def burn_fn_def burnFrom_fn_def burnWithReference_fn_def mint_fn_def
      renounceOwnership_fn_def transfer_fn_def transferFrom_fn_def transferOwnership_fn_def,
     (intro implements_rules)+)

section \<open>Deployed contracts\<close>

lemma solvent_transacted: "solvent s \<Longrightarrow> solvent (transacted sender c s)"
  using implementsD(2) [OF dispatch_implements, of s sender c]
  by (auto simp: transacted_def transact_def split: sum.splits)

lemma deployed_state:
  assumes "deployed sender = Some s"
  shows "s = blank\<lparr>tokenName := ''ArosCoin'', tokenSymbol := ''AROS'', contractOwner := sender,
    contractEvents := [OwnershipTransferred 0 sender]\<rparr>" "sender \<noteq> 0"
  using assms by (auto simp: deployed_def transact_def constructor_fn_def setOwner_def tryM_simps blank_def split: if_splits)

lemma on_chain_solvent: "on_chain s \<Longrightarrow> solvent s"
proof (induction rule: on_chain.induct)
  case (deployment sender s)
  show ?case by (simp add: deployed_state(1) [OF deployment] solvent_def blank_def sum_all_def)
qed (rule solvent_transacted)

text \<open>C25: the arithmetic of the token is exact. In every state a deployed contract reaches, whoever
  called it and with whatever arguments, the supply it stores is the sum of the balances of all
  addresses, and the zero address holds nothing. So no addition and no subtraction in an
  \<open>unchecked\<close> block wraps around.\<close>

theorem supply_is_sum_of_balances:
  assumes "on_chain s"
  shows "unat (tokenSupply s) = (\<Sum>a \<in> UNIV. unat (balanceOf s a)) \<and> balanceOf s 0 = 0"
  using on_chain_solvent [OF assms] by (simp add: solvent_def sum_all_def)

lemma on_chain_example: "on_chain (transacted 1 (Call_mint 2 1000 7) (blank\<lparr>tokenName := ''ArosCoin'', tokenSymbol := ''AROS'',
    contractOwner := 1, contractEvents := [OwnershipTransferred 0 1]\<rparr>))"
proof (rule on_chain.transaction, rule on_chain.deployment)
  show "deployed 1 = Some (blank\<lparr>tokenName := ''ArosCoin'', tokenSymbol := ''AROS'',
    contractOwner := 1, contractEvents := [OwnershipTransferred 0 1]\<rparr>)"
    by (simp add: deployed_def transact_def constructor_fn_def setOwner_def tryM_simps blank_def)
qed

lemma example_mint: "transacted 1 (Call_mint 2 1000 7) (blank\<lparr>tokenName := ''ArosCoin'', tokenSymbol := ''AROS'',
    contractOwner := 1, contractEvents := [OwnershipTransferred 0 1]\<rparr>) =
  \<lparr>balanceOf = (\<lambda>_. 0)(2 := 1000), allowances = (\<lambda>_ _. 0), tokenSupply = 1000, tokenName = ''ArosCoin'',
   tokenSymbol = ''AROS'', contractOwner = 1, usedReferences = (\<lambda>_. False)(7 := True),
   contractEvents = [OwnershipTransferred 0 1, Transfer 0 2 1000, Minted 2 1000 7]\<rparr>"
  by (simp add: transacted_def transact_def returning_def mint_fn_def onlyOwner_def erc20_mint_def erc20_update_def
      tryM_simps blank_def)

lemmas example_state = on_chain_example [unfolded example_mint]

theorem supply_is_sum_of_balances_witness:
  "unat (1000 :: uint256) = (\<Sum>a \<in> UNIV. unat (((\<lambda>_. 0)(2 := 1000) :: address \<Rightarrow> uint256) a))"
  using supply_is_sum_of_balances [OF example_state] by simp

text \<open>C24: the contract implements the abstract ledger. From every state it reaches, a call is accepted
  exactly when the ledger of natural numbers accepts it, and then it does to the storage what
  the ledger does; a call the ledger rejects reverts and leaves the storage as it was.\<close>

theorem contract_implements_ledger:
  assumes "on_chain s"
  shows "case transact (dispatch sender c) s of
      (Inl e, s') \<Rightarrow> ledger_step sender c (abs_ledger s) = None \<and> s' = s
    | (Inr values, s') \<Rightarrow> ledger_step sender c (abs_ledger s) = Some (abs_ledger s')"
  using implementsD(1,3) [OF dispatch_implements on_chain_solvent [OF assms], of sender c]
  by (auto simp: transact_def split: sum.splits)

theorem contract_implements_ledger_witness:
  "ledger_step 2 (Call_transfer 3 400) (abs_ledger (transacted 1 (Call_mint 2 1000 7)
     (blank\<lparr>tokenName := ''ArosCoin'', tokenSymbol := ''AROS'', contractOwner := 1, contractEvents := [OwnershipTransferred 0 1]\<rparr>))) \<noteq> None"
  using contract_implements_ledger [OF on_chain_example, of 2 "Call_transfer 3 400"] unfolding example_mint
  by (simp add: transact_def returning_def transfer_fn_def erc20_transfer_def erc20_update_def tryM_simps)

section \<open>Supply and references\<close>

fun mintedBy :: "contract_call \<Rightarrow> nat" where
  "mintedBy (Call_mint dst amount r) = unat amount"
| "mintedBy _ = 0"

fun burnedBy :: "contract_call \<Rightarrow> nat" where
  "burnedBy (Call_burn amount) = unat amount"
| "burnedBy (Call_burnFrom src amount) = unat amount"
| "burnedBy (Call_burnWithReference src amount r) = unat amount"
| "burnedBy _ = 0"

lemma total_move: "move src dst v L = Some L' \<Longrightarrow> sum_all (bal L') = sum_all (bal L)"
  using total_upd [of "bal L" src "bal L src - v"]
    total_upd [of "(bal L)(src := bal L src - v)" dst "((bal L)(src := bal L src - v)) dst + v"] total_ge [of "bal L" src]
  by (auto simp: move_def Let_def split: if_splits)

lemma total_issue: "issue dst v L = Some L' \<Longrightarrow> sum_all (bal L') = sum_all (bal L) + v"
  using total_upd [of "bal L" dst "bal L dst + v"] by (auto simp: issue_def split: if_splits)

lemma total_destroy: "destroy src v L = Some L' \<Longrightarrow> sum_all (bal L') + v = sum_all (bal L)"
  using total_upd [of "bal L" src "bal L src - v"] total_ge [of "bal L" src] by (auto simp: destroy_def split: if_splits)

lemma bal_permit: "permit holder spender v L = Some L' \<Longrightarrow> bal L' = bal L"
  by (auto simp: permit_def split: if_splits)

lemma bal_spend: "spend holder spender v L = Some L' \<Longrightarrow> bal L' = bal L"
  by (auto simp: spend_def bal_permit split: if_splits)

lemma bal_once: "once r g L = Some L' \<Longrightarrow> \<exists>M. g L = Some M \<and> bal L' = bal M"
  by (auto simp: once_def split: if_splits)

lemma step_total:
  "ledger_step sender c L = Some L' \<Longrightarrow> sum_all (bal L') + burnedBy c = sum_all (bal L) + mintedBy c"
  by (cases c)
    (auto simp: as_admin_def bind_eq_Some_conv total_move total_issue bal_permit dest: bal_spend dest!: bal_once total_destroy
      split: if_splits)

text \<open>The events that carry a reference, and what they say.\<close>

fun booked :: "contract_event \<Rightarrow> bool" where
  "booked (Minted dst amount r) = True"
| "booked (Burned src amount r) = True"
| "booked _ = False"

fun reference :: "contract_event \<Rightarrow> bytes32 option" where
  "reference (Minted dst amount r) = Some r"
| "reference (Burned src amount r) = Some r"
| "reference _ = None"

fun issued :: "contract_event \<Rightarrow> nat" where
  "issued (Minted dst amount r) = unat amount"
| "issued _ = 0"

fun redeemed :: "contract_event \<Rightarrow> nat" where
  "redeemed (Burned src amount r) = unat amount"
| "redeemed _ = 0"

definition bookings :: "contract_state \<Rightarrow> contract_event list" where
  "bookings s = filter booked (contractEvents s)"

definition same_books :: "contract_state \<Rightarrow> contract_state \<Rightarrow> bool" where
  "same_books s t \<longleftrightarrow> bookings t = bookings s \<and> usedReferences t = usedReferences s"

abbreviation quiet :: "'a contract \<Rightarrow> bool" where
  "quiet \<equiv> safe (\<lambda>_. True) same_books"

interpretation book: preorder_rel same_books
  by unfold_locales (auto simp: same_books_def)

lemma quiet_if: "quiet m \<Longrightarrow> quiet n \<Longrightarrow> quiet (if b then m else n)"
  by (rule book.safe_if)

lemma quiet_store: "(\<And>s. contractEvents (f s) = contractEvents s \<and> usedReferences (f s) = usedReferences s) \<Longrightarrow> quiet (store f)"
  by (rule safeI) (simp add: same_books_def bookings_def)

lemma quiet_event: "\<not> booked ev \<Longrightarrow> quiet (emitEvent ev)"
  by (rule safeI) (simp add: same_books_def bookings_def)

lemmas quiet_rules = book.safe_return book.safe_gets book.safe_bind book.safe_tryM quiet_if quiet_store quiet_event

lemma quiet_update: "quiet (erc20_update src dst value)"
  unfolding erc20_update_def by (intro quiet_rules) simp_all

lemma quiet_erc20:
  "quiet (erc20_transfer src dst value)" "quiet (erc20_mint dst value)" "quiet (erc20_burn src value)"
  "quiet (erc20_approve src dst value b)" "quiet (erc20_spendAllowance src dst value)" "quiet (setOwner newOwner)"
  unfolding erc20_transfer_def erc20_mint_def erc20_burn_def erc20_approve_def erc20_spendAllowance_def setOwner_def
  by (intro quiet_rules quiet_update; simp)+

fun entry :: "contract_call \<Rightarrow> contract_event option" where
  "entry (Call_mint dst amount r) = Some (Minted dst amount r)"
| "entry (Call_burnWithReference src amount r) = Some (Burned src amount r)"
| "entry _ = None"

lemma quiet_dispatch: "entry c = None \<Longrightarrow> quiet (dispatch sender c)"
  by (cases c)
    (simp_all only: entry.simps dispatch.simps view_def returning_def approve_fn_def burn_fn_def burnFrom_fn_def
      onlyOwner_def renounceOwnership_fn_def transfer_fn_def transferFrom_fn_def transferOwnership_fn_def option.distinct,
     (intro quiet_rules quiet_erc20)+)

lemma entry_dispatch:
  assumes "entry c = Some ev" "result (dispatch sender c) s = Inr values"
  shows "\<exists>r. reference ev = Some r \<and> contractOwner s = sender \<and> \<not> usedReferences s r
    \<and> bookings (exec (dispatch sender c) s) = bookings s @ [ev]
    \<and> usedReferences (exec (dispatch sender c) s) = (usedReferences s)(r := True)"
proof -
  have q: "bookings (exec m s) = bookings s \<and> usedReferences (exec m s) = usedReferences s" if "quiet m" for m :: "unit contract" and s
    using safeD(2) [OF that, of s] by (simp add: same_books_def)
  note q = q [OF quiet_erc20(2)] q [OF quiet_erc20(3)]
  show ?thesis
    using assms q
    by (cases c)
      (auto simp: returning_def mint_fn_def burnWithReference_fn_def onlyOwner_def tryM_simps bookings_def split: if_splits sum.splits)
qed

definition references :: "contract_event list \<Rightarrow> bytes32 list" where
  "references evs = List.map_filter reference evs"

lemma from_books:
  "references (contractEvents s) = references (bookings s)"
  "sum_list (map issued (contractEvents s)) = sum_list (map issued (bookings s))"
  "sum_list (map redeemed (contractEvents s)) = sum_list (map redeemed (bookings s))"
proof -
  have "reference ev = None" "issued ev = 0" "redeemed ev = 0" if "\<not> booked ev" for ev using that by (cases ev; simp)+
  then have "references evs = references (filter booked evs)
      \<and> sum_list (map issued evs) = sum_list (map issued (filter booked evs))
      \<and> sum_list (map redeemed evs) = sum_list (map redeemed (filter booked evs))" for evs
    by (induction evs) (auto simp: references_def List.map_filter_simps split: option.splits)
  then show "references (contractEvents s) = references (bookings s)"
    "sum_list (map issued (contractEvents s)) = sum_list (map issued (bookings s))"
    "sum_list (map redeemed (contractEvents s)) = sum_list (map redeemed (bookings s))" unfolding bookings_def by blast+
qed

definition well_booked :: "contract_state \<Rightarrow> bool" where
  "well_booked s \<longleftrightarrow> distinct (references (bookings s)) \<and> {r. usedReferences s r} = set (references (bookings s))
     \<and> unat (tokenSupply s) + sum_list (map redeemed (bookings s)) \<le> sum_list (map issued (bookings s))"

lemma accepted_run:
  "accepted sender c s \<longleftrightarrow> (\<exists>vs. result (dispatch sender c) s = Inr vs)"
  "transacted sender c s = (if accepted sender c s then exec (dispatch sender c) s else s)"
  by (auto simp: accepted_def transacted_def transact_def split: sum.splits)

lemma supply_step:
  assumes "solvent s" "accepted sender c s"
  shows "unat (tokenSupply (transacted sender c s)) + burnedBy c = unat (tokenSupply s) + mintedBy c"
proof -
  obtain vs where run: "result (dispatch sender c) s = Inr vs" using assms(2) accepted_run(1) by blast
  note d = implementsD(2,3) [OF dispatch_implements assms(1) run]
  have "sum_all (bal (abs_ledger s)) = unat (tokenSupply s)" if "solvent s" for s
    using that by (simp add: solvent_def abs_ledger_def)
  then show ?thesis using step_total [OF d(2)] d(1) assms accepted_run(2) by simp
qed

lemma entry_amounts:
  "entry c = Some ev \<Longrightarrow> issued ev = mintedBy c \<and> redeemed ev = burnedBy c"
  "entry c = None \<Longrightarrow> mintedBy c = 0"
  by (cases c; auto)+

lemma well_booked_transacted:
  assumes "solvent s" "well_booked s"
  shows "well_booked (transacted sender c s)"
proof (cases "accepted sender c s")
  case True
  note supp = supply_step [OF assms(1) True]
  have t: "transacted sender c s = exec (dispatch sender c) s" using True accepted_run(2) by simp
  show ?thesis
  proof (cases "entry c")
    case None
    have "same_books s (transacted sender c s)" unfolding t using safeD(2) [OF quiet_dispatch [OF None]] by simp
    then show ?thesis using assms(2) supp entry_amounts(2) [OF None] by (auto simp: well_booked_def same_books_def)
  next
    case (Some ev)
    from True obtain vs where "result (dispatch sender c) s = Inr vs" using accepted_run(1) by blast
    from entry_dispatch [OF Some this] obtain r where r: "reference ev = Some r" "\<not> usedReferences s r"
      "bookings (transacted sender c s) = bookings s @ [ev]" "usedReferences (transacted sender c s) = (usedReferences s)(r := True)"
      unfolding t by blast
    have refs: "references (bookings s @ [ev]) = references (bookings s) @ [r]"
      using r(1) by (simp add: references_def List.map_filter_def)
    have "r \<notin> set (references (bookings s))" using r(2) assms(2) by (auto simp: well_booked_def)
    then show ?thesis
      using assms(2) supp entry_amounts(1) [OF Some] by (auto simp: well_booked_def r(3,4) refs)
  qed
qed (use assms accepted_run(2) in simp)

lemma on_chain_well_booked: "on_chain s \<Longrightarrow> well_booked s"
proof (induction rule: on_chain.induct)
  case (deployment sender s)
  show ?case by (simp add: deployed_state(1) [OF deployment] well_booked_def bookings_def blank_def references_def List.map_filter_simps)
next
  case (transaction s sender c)
  then show ?case by (intro well_booked_transacted on_chain_solvent)
qed

text \<open>C23: no double issuance. In every state of a deployed contract the references of all \<open>Minted\<close> and
  \<open>Burned\<close> events are pairwise distinct, \<open>isReferenceUsed\<close> answers true for exactly these, and the
  supply is at most what was minted less what was burned under a reference, the difference being
  what holders burned on their own.\<close>

theorem references_used_once:
  assumes "on_chain s"
  shows "distinct (references (contractEvents s))
    \<and> (\<forall>r. result (dispatch sender (Call_isReferenceUsed r)) s = Inr [BoolV (r \<in> set (references (contractEvents s)))])
    \<and> unat (tokenSupply s) + sum_list (map redeemed (contractEvents s)) \<le> sum_list (map issued (contractEvents s))"
  using on_chain_well_booked [OF assms] by (auto simp: well_booked_def from_books view_def)

theorem references_used_once_witness:
  "result (dispatch 5 (Call_isReferenceUsed 7)) (transacted 1 (Call_mint 2 1000 7) (blank\<lparr>tokenName := ''ArosCoin'', tokenSymbol := ''AROS'',
    contractOwner := 1, contractEvents := [OwnershipTransferred 0 1]\<rparr>)) = Inr [BoolV True]"
  using references_used_once [OF on_chain_example, of 5] unfolding example_mint
  by (simp add: references_def List.map_filter_simps)

text \<open>Only the owner issues tokens, and only under a fresh reference. A transaction changes the
  supply of a deployed contract by exactly the amount its call names. An accepted \<open>mint\<close> was sent by the
  owner with a reference that had not been used and is used from then on; the same holds for
  \<open>burnWithReference\<close>; and a rejected call changes nothing.\<close>

lemma issuance_needs_owner_and_fresh_reference:
  assumes "on_chain s"
  shows "(accepted sender c s \<longrightarrow>
        unat (tokenSupply (transacted sender c s)) + burnedBy c = unat (tokenSupply s) + mintedBy c)
    \<and> (accepted sender c s \<and> (c = Call_mint a amount r \<or> c = Call_burnWithReference a amount r) \<longrightarrow>
        sender = contractOwner s \<and> \<not> usedReferences s r \<and> usedReferences (transacted sender c s) r)
    \<and> (\<not> accepted sender c s \<longrightarrow> transacted sender c s = s)"
proof -
  have "sender = contractOwner s \<and> \<not> usedReferences s r \<and> usedReferences (transacted sender c s) r"
    if acc: "accepted sender c s" "c = Call_mint a amount r \<or> c = Call_burnWithReference a amount r"
  proof -
    obtain vs where "result (dispatch sender c) s = Inr vs" using acc(1) accepted_run(1) by blast
    then show ?thesis
      using acc entry_dispatch [of c "Minted a amount r" sender s] entry_dispatch [of c "Burned a amount r" sender s]
        accepted_run(2) [of sender c s] by auto
  qed
  then show ?thesis
    using supply_step [OF on_chain_solvent [OF assms], of sender c] accepted_run(2) [of sender c s] by argo
qed

end
