(* ===== verification/Bindings.thy ===== *)
theory Bindings
  imports AbiTables BindingTables TokenLedger
begin

text \<open>
  The contract bindings under \<open>smart_contracts/typechain-types\<close> put together, against the contract they
  stand for: the declared types of all nine contracts are the ones their interface generates, the
  interface of \<open>ArosCoinReserveManager\<close> describes every call of the contract, its events and its
  errors, and the deployment script deploys that contract.
\<close>

section \<open>The nine contracts\<close>

datatype contract_name =
  Ownable | IERC1155Errors | IERC20Errors | IERC721Errors | IERC20 | IERC20Metadata | ERC20 | ERC20Burnable |
  ArosCoinReserveManager

fun interfaceOf :: "contract_name \<Rightarrow> abi_entry list" where
  "interfaceOf Ownable = Ownable_abi"
| "interfaceOf IERC1155Errors = IERC1155Errors_abi"
| "interfaceOf IERC20Errors = IERC20Errors_abi"
| "interfaceOf IERC721Errors = IERC721Errors_abi"
| "interfaceOf IERC20 = IERC20_abi"
| "interfaceOf IERC20Metadata = IERC20Metadata_abi"
| "interfaceOf ERC20 = ERC20_abi"
| "interfaceOf ERC20Burnable = ERC20Burnable_abi"
| "interfaceOf ArosCoinReserveManager = ArosCoinReserveManager_abi"

fun bindingsOf :: "contract_name \<Rightarrow> bindings" where
  "bindingsOf Ownable = Ownable_bindings"
| "bindingsOf IERC1155Errors = IERC1155Errors_bindings"
| "bindingsOf IERC20Errors = IERC20Errors_bindings"
| "bindingsOf IERC721Errors = IERC721Errors_bindings"
| "bindingsOf IERC20 = IERC20_bindings"
| "bindingsOf IERC20Metadata = IERC20Metadata_bindings"
| "bindingsOf ERC20 = ERC20_bindings"
| "bindingsOf ERC20Burnable = ERC20Burnable_bindings"
| "bindingsOf ArosCoinReserveManager = ArosCoinReserveManager_bindings"

section \<open>The declarations belong to the interfaces\<close>

lemmas generate_simps = generate_def abiArg_def typedInputs_def typedOutputs_def eventSpace_def eventSignature_def

lemma Ownable_generated: "Ownable_bindings = generate Ownable_abi"
  by (simp add: Ownable_declared Ownable_interface generate_simps)

lemma IERC1155Errors_generated: "IERC1155Errors_bindings = generate IERC1155Errors_abi"
  by (simp add: IERC1155Errors_declared IERC1155Errors_interface generate_simps)

lemma IERC20Errors_generated: "IERC20Errors_bindings = generate IERC20Errors_abi"
  by (simp add: IERC20Errors_declared IERC20Errors_interface generate_simps)

lemma IERC721Errors_generated: "IERC721Errors_bindings = generate IERC721Errors_abi"
  by (simp add: IERC721Errors_declared IERC721Errors_interface generate_simps)

lemma IERC20_generated: "IERC20_bindings = generate IERC20_abi"
  by (simp add: IERC20_declared IERC20_interface generate_simps)

lemma IERC20Metadata_generated: "IERC20Metadata_bindings = generate IERC20Metadata_abi"
  by (simp add: IERC20Metadata_declared IERC20Metadata_interface generate_simps)

lemma ERC20_generated: "ERC20_bindings = generate ERC20_abi"
  by (simp add: ERC20_declared ERC20_interface generate_simps)

lemma ERC20Burnable_generated: "ERC20Burnable_bindings = generate ERC20Burnable_abi"
  by (simp add: ERC20Burnable_declared ERC20Burnable_interface generate_simps)

lemma ArosCoinReserveManager_generated: "ArosCoinReserveManager_bindings = generate ArosCoinReserveManager_abi"
  by (simp add: ArosCoinReserveManager_declared ArosCoinReserveManager_interface generate_simps)


section \<open>The interface describes the contract\<close>

fun value_type :: "abi_value \<Rightarrow> abi_type" where
  "value_type (AddressV a) = AddressT"
| "value_type (UintV v) = Uint256T"
| "value_type (Uint8V v) = Uint8T"
| "value_type (Bytes32V r) = Bytes32T"
| "value_type (BoolV b) = BoolT"
| "value_type (StringV t) = StringT"

text \<open>A call, an event and an error as the contract's source names them, with their arguments.\<close>

fun callName :: "contract_call \<Rightarrow> string" where
  "callName (Call_allowance holder spender) = ''allowance''"
| "callName (Call_approve spender v) = ''approve''"
| "callName (Call_balanceOf account) = ''balanceOf''"
| "callName (Call_burn v) = ''burn''"
| "callName (Call_burnFrom account v) = ''burnFrom''"
| "callName (Call_burnWithReference src amount r) = ''burnWithReference''"
| "callName Call_decimals = ''decimals''"
| "callName (Call_isReferenceUsed r) = ''isReferenceUsed''"
| "callName (Call_mint dst amount r) = ''mint''"
| "callName Call_name = ''name''"
| "callName Call_owner = ''owner''"
| "callName Call_renounceOwnership = ''renounceOwnership''"
| "callName Call_symbol = ''symbol''"
| "callName Call_totalSupply = ''totalSupply''"
| "callName (Call_transfer dst v) = ''transfer''"
| "callName (Call_transferFrom src dst v) = ''transferFrom''"
| "callName (Call_transferOwnership newOwner) = ''transferOwnership''"

fun callArgs :: "contract_call \<Rightarrow> abi_value list" where
  "callArgs (Call_allowance holder spender) = [AddressV holder, AddressV spender]"
| "callArgs (Call_approve spender v) = [AddressV spender, UintV v]"
| "callArgs (Call_balanceOf account) = [AddressV account]"
| "callArgs (Call_burn v) = [UintV v]"
| "callArgs (Call_burnFrom account v) = [AddressV account, UintV v]"
| "callArgs (Call_burnWithReference src amount r) = [AddressV src, UintV amount, Bytes32V r]"
| "callArgs Call_decimals = []"
| "callArgs (Call_isReferenceUsed r) = [Bytes32V r]"
| "callArgs (Call_mint dst amount r) = [AddressV dst, UintV amount, Bytes32V r]"
| "callArgs Call_name = []"
| "callArgs Call_owner = []"
| "callArgs Call_renounceOwnership = []"
| "callArgs Call_symbol = []"
| "callArgs Call_totalSupply = []"
| "callArgs (Call_transfer dst v) = [AddressV dst, UintV v]"
| "callArgs (Call_transferFrom src dst v) = [AddressV src, AddressV dst, UintV v]"
| "callArgs (Call_transferOwnership newOwner) = [AddressV newOwner]"

fun eventEntry :: "contract_event \<Rightarrow> string \<times> (bool \<times> abi_value) list" where
  "eventEntry (Transfer src dst v) = (''Transfer'', [(True, AddressV src), (True, AddressV dst), (False, UintV v)])"
| "eventEntry (Approval holder spender v) =
     (''Approval'', [(True, AddressV holder), (True, AddressV spender), (False, UintV v)])"
| "eventEntry (OwnershipTransferred old new) = (''OwnershipTransferred'', [(True, AddressV old), (True, AddressV new)])"
| "eventEntry (Minted dst amount r) = (''Minted'', [(True, AddressV dst), (False, UintV amount), (True, Bytes32V r)])"
| "eventEntry (Burned src amount r) = (''Burned'', [(True, AddressV src), (False, UintV amount), (True, Bytes32V r)])"

text \<open>The reason string of \<open>require\<close> and the panics of the arithmetic are built into the language and in no
  interface.\<close>

fun errorEntry :: "revert \<Rightarrow> (string \<times> abi_value list) option" where
  "errorEntry (ERC20InsufficientBalance a b n) = Some (''ERC20InsufficientBalance'', [AddressV a, UintV b, UintV n])"
| "errorEntry (ERC20InvalidSender a) = Some (''ERC20InvalidSender'', [AddressV a])"
| "errorEntry (ERC20InvalidReceiver a) = Some (''ERC20InvalidReceiver'', [AddressV a])"
| "errorEntry (ERC20InsufficientAllowance a b n) = Some (''ERC20InsufficientAllowance'', [AddressV a, UintV b, UintV n])"
| "errorEntry (ERC20InvalidApprover a) = Some (''ERC20InvalidApprover'', [AddressV a])"
| "errorEntry (ERC20InvalidSpender a) = Some (''ERC20InvalidSpender'', [AddressV a])"
| "errorEntry (OwnableUnauthorizedAccount a) = Some (''OwnableUnauthorizedAccount'', [AddressV a])"
| "errorEntry (OwnableInvalidOwner a) = Some (''OwnableInvalidOwner'', [AddressV a])"
| "errorEntry (ReasonString t) = None"
| "errorEntry (Panic n) = None"

definition conforms :: "abi_param list \<Rightarrow> abi_value list \<Rightarrow> bool" where
  "conforms ps vs \<longleftrightarrow> map paramType ps = map value_type vs"

definition declares_event :: "abi_entry list \<Rightarrow> contract_event \<Rightarrow> bool" where
  "declares_event abi ev \<longleftrightarrow> (\<exists>ps. AbiEvent False (fst (eventEntry ev)) ps \<in> set abi
     \<and> map fst ps = map fst (snd (eventEntry ev)) \<and> conforms (map snd ps) (map snd (snd (eventEntry ev))))"

definition declares_error :: "abi_entry list \<Rightarrow> revert \<Rightarrow> bool" where
  "declares_error abi e \<longleftrightarrow> (case errorEntry e of None \<Rightarrow> True
     | Some (n, vs) \<Rightarrow> \<exists>ps. AbiError n ps \<in> set abi \<and> conforms ps vs)"

text \<open>The part of an interface entry that concerns a call: what the arguments are, what comes back, and
  that a view neither reverts nor writes.\<close>

definition describes :: "abi_param list \<Rightarrow> abi_param list \<Rightarrow> mutability \<Rightarrow> contract_call \<Rightarrow> abi_value list contract \<Rightarrow> bool" where
  "describes ins outs mut c m \<longleftrightarrow> conforms ins (callArgs c) \<and> mut \<noteq> Payable
     \<and> (\<forall>s. case result m s of
           Inl e \<Rightarrow> mut = Nonpayable \<and> declares_error ArosCoinReserveManager_abi e
         | Inr vs \<Rightarrow> conforms outs vs \<and> (if mut = View then exec m s = s \<and> length vs = 1 else True))"

lemma declares_event: "declares_event ArosCoinReserveManager_abi ev"
  unfolding declares_event_def conforms_def
  by (cases ev) (simp_all add: ArosCoinReserveManager_interface abiArg_def ex_disj_distrib conj_disj_distribR)

lemma declares_error: "declares_error ArosCoinReserveManager_abi e"
  unfolding declares_error_def conforms_def
  by (cases e) (simp_all add: ArosCoinReserveManager_interface abiArg_def ex_disj_distrib conj_disj_distribR)

lemma describes_view: "conforms ins (callArgs c) \<Longrightarrow> (\<And>s. conforms outs [f s]) \<Longrightarrow> describes ins outs View c (view f)"
  by (simp add: describes_def view_def)

lemma describes_write:
  "conforms ins (callArgs c) \<Longrightarrow> (\<And>a. conforms outs (f a)) \<Longrightarrow> describes ins outs Nonpayable c (returning f m)"
  by (auto simp: describes_def returning_def tryM_simps declares_error split: sum.splits)

lemma member_step: "x \<in> set (x # xs)" "x \<in> set xs \<Longrightarrow> x \<in> set (y # xs)"
  by simp_all

lemma call_described:
  "\<exists>ins outs mut. AbiFunction (callName c) ins outs mut \<in> set ArosCoinReserveManager_abi
     \<and> describes ins outs mut c (dispatch sender c)"
  unfolding ArosCoinReserveManager_interface append.simps abiArg_def
  by (cases c; simp only: callName.simps dispatch.simps; intro exI conjI;
      (rule member_step(1) | rule member_step(2) | rule describes_view | rule describes_write)+;
      simp add: conforms_def flag_def nothing_def)

lemma call_unique:
  assumes "callName c = callName d" "callArgs c = callArgs d"
  shows "c = d"
  using assms by (cases c; cases d; simp)

lemma conforms_simps [simp]:
  "conforms [] vs \<longleftrightarrow> vs = []"
  "conforms (Param n i AddressT # ps) vs \<longleftrightarrow> (\<exists>a r. vs = AddressV a # r \<and> conforms ps r)"
  "conforms (Param n i Uint256T # ps) vs \<longleftrightarrow> (\<exists>a r. vs = UintV a # r \<and> conforms ps r)"
  "conforms (Param n i Bytes32T # ps) vs \<longleftrightarrow> (\<exists>a r. vs = Bytes32V a # r \<and> conforms ps r)"
proof -
  have v: "value_type v = AddressT \<longleftrightarrow> (\<exists>a. v = AddressV a)" "value_type v = Uint256T \<longleftrightarrow> (\<exists>a. v = UintV a)"
    "value_type v = Bytes32T \<longleftrightarrow> (\<exists>a. v = Bytes32V a)" for v by (cases v; simp)+
  show "conforms [] vs \<longleftrightarrow> vs = []" by (simp add: conforms_def)
  show "conforms (Param n i AddressT # ps) vs \<longleftrightarrow> (\<exists>a r. vs = AddressV a # r \<and> conforms ps r)"
    "conforms (Param n i Uint256T # ps) vs \<longleftrightarrow> (\<exists>a r. vs = UintV a # r \<and> conforms ps r)"
    "conforms (Param n i Bytes32T # ps) vs \<longleftrightarrow> (\<exists>a r. vs = Bytes32V a # r \<and> conforms ps r)"
    by (cases vs; auto simp: conforms_def v dest: sym)+
qed

definition is_call :: "string \<Rightarrow> abi_value list \<Rightarrow> bool" where
  "is_call n vs \<longleftrightarrow> (\<exists>c. callName c = n \<and> callArgs c = vs)"

lemma is_callI: "callName c = n \<Longrightarrow> callArgs c = vs \<Longrightarrow> is_call n vs"
  by (auto simp: is_call_def)

lemma is_call_functions: "AbiFunction n ins outs mut \<in> set ArosCoinReserveManager_functions1 \<Longrightarrow> conforms ins vs \<Longrightarrow> is_call n vs"
  "AbiFunction n ins outs mut \<in> set ArosCoinReserveManager_functions2 \<Longrightarrow> conforms ins vs \<Longrightarrow> is_call n vs"
  "AbiFunction n ins outs mut \<in> set ArosCoinReserveManager_functions3 \<Longrightarrow> conforms ins vs \<Longrightarrow> is_call n vs"
  unfolding ArosCoinReserveManager_functions1_def ArosCoinReserveManager_functions2_def ArosCoinReserveManager_functions3_def
    abiArg_def
  by (simp, elim disjE; clarsimp; rule is_callI; (rule callName.simps | rule callArgs.simps))+

text \<open>C27: the interface of \<open>ArosCoinReserveManager\<close> describes the contract. Every external function has an
  entry of its name whose inputs are the types of its arguments; whatever the state and the
  sender, a call returns values of the types of the outputs or reverts with an error the interface
  declares (or a language built-in); an entry marked \<open>view\<close> belongs to a function that neither reverts nor
  writes; and every event of the contract is declared with its arguments and their indexing.\<close>

theorem interface_describes_contract:
  "(\<exists>ins outs mut. AbiFunction (callName c) ins outs mut \<in> set ArosCoinReserveManager_abi
      \<and> describes ins outs mut c (dispatch sender c))
   \<and> declares_event ArosCoinReserveManager_abi ev"
  using call_described declares_event by blast

text \<open>C28: and what the interface admits is a call. A function name of the interface together with values
  of its input types is the name and the arguments of exactly one call of the contract.\<close>

theorem interface_round_trip:
  assumes "AbiFunction n ins outs mut \<in> set ArosCoinReserveManager_abi" "conforms ins vs"
  shows "\<exists>!c. callName c = n \<and> callArgs c = vs"
proof -
  have "AbiFunction n ins outs mut \<in> set ArosCoinReserveManager_functions1 \<union> set ArosCoinReserveManager_functions2
      \<union> set ArosCoinReserveManager_functions3"
    using assms(1) by (auto simp: ArosCoinReserveManager_abi_def ArosCoinReserveManager_errors_def ArosCoinReserveManager_events_def)
  then have "is_call n vs" using is_call_functions assms(2) by blast
  then obtain c where c: "callName c = n" "callArgs c = vs" by (auto simp: is_call_def)
  show ?thesis by (rule ex1I [of _ c]) (auto simp: c intro: call_unique)
qed

theorem interface_round_trip_witness: "\<exists>!c. callName c = ''burn'' \<and> callArgs c = [UintV 5]"
proof (rule interface_round_trip)
  show "AbiFunction ''burn'' [Param ''value'' Uint256T Uint256T] [] Nonpayable \<in> set ArosCoinReserveManager_abi"
    by (simp add: ArosCoinReserveManager_interface abiArg_def)
  show "conforms [Param ''value'' Uint256T Uint256T] [UintV 5]" by simp
qed

text \<open>The interfaces nest as the contracts inherit.\<close>

definition functionsOf :: "abi_entry list \<Rightarrow> abi_entry set" where
  "functionsOf abi = {AbiFunction n ins outs mut | n ins outs mut. AbiFunction n ins outs mut \<in> set abi}"

lemma functionsOf_simps:
  "functionsOf [] = {}" "functionsOf (AbiFunction n i os m # es) = insert (AbiFunction n i os m) (functionsOf es)"
  "functionsOf (AbiError n i # es) = functionsOf es" "functionsOf (AbiEvent b n ps # es) = functionsOf es"
  "functionsOf (AbiConstructor i m # es) = functionsOf es"
  by (auto simp: functionsOf_def)

lemmas nest_simps = append.simps functionsOf_simps insert_subset empty_subsetI insert_iff simp_thms

lemma interfaces_nest:
  "functionsOf (interfaceOf IERC20) \<subseteq> functionsOf (interfaceOf IERC20Metadata)"
  "functionsOf (interfaceOf IERC20Metadata) \<subseteq> functionsOf (interfaceOf ERC20)"
  "functionsOf (interfaceOf ERC20) \<subseteq> functionsOf (interfaceOf ERC20Burnable)"
  "functionsOf (interfaceOf ERC20Burnable) \<subseteq> functionsOf (interfaceOf ArosCoinReserveManager)"
  "functionsOf (interfaceOf Ownable) \<subseteq> functionsOf (interfaceOf ArosCoinReserveManager)"
  by (simp_all only: interfaceOf.simps Ownable_interface IERC20_interface IERC20Metadata_interface ERC20_interface
      ERC20Burnable_interface ArosCoinReserveManager_interface nest_simps)

section \<open>Typed calls\<close>

text \<open>A call through the declared method resolves to the one value a view returns, of the type declared
  for it, and to a transaction response otherwise.\<close>

lemma generated_method:
  assumes "AbiFunction n ins outs mut \<in> set abi"
  shows "(n, TypedContractMethod (typedInputs ins)
      (if outs = [] then [TsVoid] else map (\<lambda>p. outputType (paramType p)) outs) mut) \<in> set (methodFields (generate abi))"
    (is "?m \<in> _")
proof -
  have "?m \<in> set (methodOf (AbiFunction n ins outs mut))" by simp
  then have "?m \<in> set (concat (map methodOf abi))" unfolding set_concat set_map using assms by blast
  then show ?thesis by (simp add: generate_def)
qed

lemma conforms_length: "conforms ps vs \<Longrightarrow> length ps = length vs"
  unfolding conforms_def by (drule arg_cong [where f = length]) simp

lemma typed_call:
  "\<exists>as r mut. (callName c, TypedContractMethod as r mut) \<in> set (methodFields (bindingsOf ArosCoinReserveManager))
     \<and> map snd as = map (\<lambda>v. inputType (value_type v)) (callArgs c)
     \<and> (case callResult (TypedContractMethod as r mut) of
          ResultOf t \<Rightarrow> \<forall>s. \<exists>v. run_state (dispatch sender c) s = (Inr [v], s) \<and> t = outputType (value_type v)
        | ContractTransactionResponse \<Rightarrow> mut = Nonpayable)"
proof -
  obtain ins outs mut where e: "AbiFunction (callName c) ins outs mut \<in> set ArosCoinReserveManager_abi"
      "describes ins outs mut c (dispatch sender c)" using call_described by blast
  let ?r = "if outs = [] then [TsVoid] else map (\<lambda>p. outputType (paramType p)) outs"
  have "map snd (typedInputs ins) = map inputType (map paramType ins)" by (simp add: typedInputs_def)
  also have "\<dots> = map (\<lambda>v. inputType (value_type v)) (callArgs c)" using e(2) by (simp add: describes_def conforms_def)
  finally have args: "map snd (typedInputs ins) = map (\<lambda>v. inputType (value_type v)) (callArgs c)" .
  have res: "\<exists>v. run_state (dispatch sender c) s = (Inr [v], s) \<and> DefaultReturnType ?r = outputType (value_type v)"
    if is_view: "mut = View" for s
  proof -
    obtain vs where vs: "result (dispatch sender c) s = Inr vs" "conforms outs vs" "exec (dispatch sender c) s = s" "length vs = 1"
      using e(2) is_view unfolding describes_def by (cases "result (dispatch sender c) s") (auto dest!: spec [of _ s])
    then obtain v p where v: "vs = [v]" "outs = [p]" using conforms_length [OF vs(2)] by (auto simp: length_Suc_conv)
    then have "paramType p = value_type v" using vs(2) by (simp add: conforms_def)
    then show ?thesis using vs v by (simp add: run_state_eq DefaultReturnType_def)
  qed
  have mut: "mut = View \<or> mut = Nonpayable" using e(2) by (cases mut) (auto simp: describes_def)
  show ?thesis
    using generated_method [OF e(1)] args res mut unfolding bindingsOf.simps ArosCoinReserveManager_generated
    by (intro exI [of _ "typedInputs ins"] exI [of _ ?r] exI [of _ mut]) auto
qed

end
