(* ===== verification/Deployment.thy ===== *)
theory Deployment
  imports Bindings
begin

text \<open>
  How the contract is reached from TypeScript: the generated factories, the entry point of the bindings
  (\<open>index.ts\<close>), the Hardhat declarations (\<open>hardhat.d.ts\<close>) and the deployment script
  (\<open>smart_contracts/scripts/deploy.ts\<close>). Hardhat itself is a parameter of the script.
\<close>

section \<open>Factories\<close>

text \<open>What a factory class holds: the interface, and the bytecode when the contract can be deployed. The
  bytecode, compiled from the contract that the token theories model, is a parameter.\<close>

record 'code factory =
  factoryAbi :: "abi_entry list"
  factoryBytecode :: "'code option"

text \<open>A client-side handle: \<open>new Contract(address, abi, runner)\<close>.\<close>

datatype 'runner attached = Attached address "abi_entry list" 'runner

definition connectTo :: "'code factory \<Rightarrow> address \<Rightarrow> 'runner \<Rightarrow> 'runner attached" where
  "connectTo F addr runner = Attached addr (factoryAbi F) runner"

definition Ownable_factory :: "'code factory" where
  "Ownable_factory = \<lparr>factoryAbi = Ownable_abi, factoryBytecode = None\<rparr>"

definition IERC1155Errors_factory :: "'code factory" where
  "IERC1155Errors_factory = \<lparr>factoryAbi = IERC1155Errors_abi, factoryBytecode = None\<rparr>"

definition IERC20Errors_factory :: "'code factory" where
  "IERC20Errors_factory = \<lparr>factoryAbi = IERC20Errors_abi, factoryBytecode = None\<rparr>"

definition IERC721Errors_factory :: "'code factory" where
  "IERC721Errors_factory = \<lparr>factoryAbi = IERC721Errors_abi, factoryBytecode = None\<rparr>"

definition IERC20_factory :: "'code factory" where
  "IERC20_factory = \<lparr>factoryAbi = IERC20_abi, factoryBytecode = None\<rparr>"

definition IERC20Metadata_factory :: "'code factory" where
  "IERC20Metadata_factory = \<lparr>factoryAbi = IERC20Metadata_abi, factoryBytecode = None\<rparr>"

definition ERC20_factory :: "'code factory" where
  "ERC20_factory = \<lparr>factoryAbi = ERC20_abi, factoryBytecode = None\<rparr>"

definition ERC20Burnable_factory :: "'code factory" where
  "ERC20Burnable_factory = \<lparr>factoryAbi = ERC20Burnable_abi, factoryBytecode = None\<rparr>"

definition ArosCoinReserveManager_factory :: "'code \<Rightarrow> 'code factory" where
  "ArosCoinReserveManager_factory bytecode =
     \<lparr>factoryAbi = ArosCoinReserveManager_abi, factoryBytecode = Some bytecode\<rparr>"

text \<open>Its constructor: with more than one argument the arguments go to \<open>ContractFactory\<close> as they are,
  otherwise the interface and the bytecode go there with the signer, if there is one.\<close>

datatype ('code, 'signer) super_args = Plain "'signer list" | Generated "abi_entry list" 'code "'signer option"

definition isSuperArgs :: "'a list \<Rightarrow> bool" where
  "isSuperArgs xs \<longleftrightarrow> length xs > 1"

definition new_factory :: "'code \<Rightarrow> 'signer list \<Rightarrow> ('code, 'signer) super_args" where
  "new_factory bytecode args =
     (if isSuperArgs args then Plain args
      else Generated ArosCoinReserveManager_abi bytecode (case args of [] \<Rightarrow> None | a # _ \<Rightarrow> Some a))"

fun factoryOf :: "'code \<Rightarrow> contract_name \<Rightarrow> 'code factory" where
  "factoryOf bytecode Ownable = Ownable_factory"
| "factoryOf bytecode IERC1155Errors = IERC1155Errors_factory"
| "factoryOf bytecode IERC20Errors = IERC20Errors_factory"
| "factoryOf bytecode IERC721Errors = IERC721Errors_factory"
| "factoryOf bytecode IERC20 = IERC20_factory"
| "factoryOf bytecode IERC20Metadata = IERC20Metadata_factory"
| "factoryOf bytecode ERC20 = ERC20_factory"
| "factoryOf bytecode ERC20Burnable = ERC20Burnable_factory"
| "factoryOf bytecode ArosCoinReserveManager = ArosCoinReserveManager_factory bytecode"

text \<open>Every factory carries the interface its declarations were made of, and only
  \<open>ArosCoinReserveManager\<close> can be deployed.\<close>

lemma factories:
  "bindingsOf c = generate (factoryAbi (factoryOf bytecode c))"
  "connectTo (factoryOf bytecode c) addr runner = Attached addr (interfaceOf c) runner"
  "factoryBytecode (factoryOf bytecode c) \<noteq> None \<longleftrightarrow> c = ArosCoinReserveManager"
proof -
  have "factoryAbi (factoryOf bytecode c) = interfaceOf c"
    by (cases c) (simp_all add: Ownable_factory_def IERC1155Errors_factory_def IERC20Errors_factory_def
        IERC721Errors_factory_def IERC20_factory_def IERC20Metadata_factory_def ERC20_factory_def
        ERC20Burnable_factory_def ArosCoinReserveManager_factory_def)
  then show "bindingsOf c = generate (factoryAbi (factoryOf bytecode c))"
    "connectTo (factoryOf bytecode c) addr runner = Attached addr (interfaceOf c) runner"
    by (cases c; simp add: Ownable_generated IERC1155Errors_generated IERC20Errors_generated
        IERC721Errors_generated IERC20_generated IERC20Metadata_generated ERC20_generated
        ERC20Burnable_generated ArosCoinReserveManager_generated connectTo_def)+
  show "factoryBytecode (factoryOf bytecode c) \<noteq> None \<longleftrightarrow> c = ArosCoinReserveManager"
    by (cases c) (simp_all add: Ownable_factory_def IERC1155Errors_factory_def IERC20Errors_factory_def
        IERC721Errors_factory_def IERC20_factory_def IERC20Metadata_factory_def ERC20_factory_def
        ERC20Burnable_factory_def ArosCoinReserveManager_factory_def)
qed

section \<open>Names\<close>

text \<open>\<open>index.ts\<close>: the exported names and the modules they come from.\<close>

definition typechain_exports :: "(string \<times> string) list" where
  "typechain_exports =
     [(''Ownable'',
       ''./@openzeppelin/contracts/access/Ownable''),
      (''Ownable__factory'',
       ''./factories/@openzeppelin/contracts/access/Ownable__factory''),
      (''IERC1155Errors'',
       ''./@openzeppelin/contracts/interfaces/draft-IERC6093.sol/IERC1155Errors''),
      (''IERC1155Errors__factory'',
       ''./factories/@openzeppelin/contracts/interfaces/draft-IERC6093.sol/IERC1155Errors__factory''),
      (''IERC20Errors'',
       ''./@openzeppelin/contracts/interfaces/draft-IERC6093.sol/IERC20Errors''),
      (''IERC20Errors__factory'',
       ''./factories/@openzeppelin/contracts/interfaces/draft-IERC6093.sol/IERC20Errors__factory''),
      (''IERC721Errors'',
       ''./@openzeppelin/contracts/interfaces/draft-IERC6093.sol/IERC721Errors''),
      (''IERC721Errors__factory'',
       ''./factories/@openzeppelin/contracts/interfaces/draft-IERC6093.sol/IERC721Errors__factory''),
      (''ERC20'',
       ''./@openzeppelin/contracts/token/ERC20/ERC20''),
      (''ERC20__factory'',
       ''./factories/@openzeppelin/contracts/token/ERC20/ERC20__factory''),
      (''ERC20Burnable'',
       ''./@openzeppelin/contracts/token/ERC20/extensions/ERC20Burnable''),
      (''ERC20Burnable__factory'',
       ''./factories/@openzeppelin/contracts/token/ERC20/extensions/ERC20Burnable__factory''),
      (''IERC20Metadata'',
       ''./@openzeppelin/contracts/token/ERC20/extensions/IERC20Metadata''),
      (''IERC20Metadata__factory'',
       ''./factories/@openzeppelin/contracts/token/ERC20/extensions/IERC20Metadata__factory''),
      (''IERC20'',
       ''./@openzeppelin/contracts/token/ERC20/IERC20''),
      (''IERC20__factory'',
       ''./factories/@openzeppelin/contracts/token/ERC20/IERC20__factory''),
      (''ArosCoinReserveManager'',
       ''./contracts/ArosCoinReserveManager''),
      (''ArosCoinReserveManager__factory'',
       ''./factories/contracts/ArosCoinReserveManager__factory'')]"

text \<open>\<open>hardhat.d.ts\<close>: the contract names the runtime accepts and the exported type of the promise.\<close>

definition hardhat_getContractFactory :: "(string \<times> string) list" where
  "hardhat_getContractFactory =
     [(''Ownable'', ''Ownable__factory''),
      (''IERC1155Errors'', ''IERC1155Errors__factory''),
      (''IERC20Errors'', ''IERC20Errors__factory''),
      (''IERC721Errors'', ''IERC721Errors__factory''),
      (''ERC20'', ''ERC20__factory''),
      (''ERC20Burnable'', ''ERC20Burnable__factory''),
      (''IERC20Metadata'', ''IERC20Metadata__factory''),
      (''IERC20'', ''IERC20__factory''),
      (''ArosCoinReserveManager'', ''ArosCoinReserveManager__factory'')]"

definition hardhat_getContractAt :: "(string \<times> string) list" where
  "hardhat_getContractAt =
     [(''Ownable'', ''Ownable''),
      (''IERC1155Errors'', ''IERC1155Errors''),
      (''IERC20Errors'', ''IERC20Errors''),
      (''IERC721Errors'', ''IERC721Errors''),
      (''ERC20'', ''ERC20''),
      (''ERC20Burnable'', ''ERC20Burnable''),
      (''IERC20Metadata'', ''IERC20Metadata''),
      (''IERC20'', ''IERC20''),
      (''ArosCoinReserveManager'', ''ArosCoinReserveManager'')]"

definition hardhat_deployContract :: "(string \<times> string) list" where
  "hardhat_deployContract =
     [(''Ownable'', ''Ownable''),
      (''IERC1155Errors'', ''IERC1155Errors''),
      (''IERC20Errors'', ''IERC20Errors''),
      (''IERC721Errors'', ''IERC721Errors''),
      (''ERC20'', ''ERC20''),
      (''ERC20Burnable'', ''ERC20Burnable''),
      (''IERC20Metadata'', ''IERC20Metadata''),
      (''IERC20'', ''IERC20''),
      (''ArosCoinReserveManager'', ''ArosCoinReserveManager'')]"

definition hardhat_deployContractArgs :: "(string \<times> string) list" where
  "hardhat_deployContractArgs =
     [(''Ownable'', ''Ownable''),
      (''IERC1155Errors'', ''IERC1155Errors''),
      (''IERC20Errors'', ''IERC20Errors''),
      (''IERC721Errors'', ''IERC721Errors''),
      (''ERC20'', ''ERC20''),
      (''ERC20Burnable'', ''ERC20Burnable''),
      (''IERC20Metadata'', ''IERC20Metadata''),
      (''IERC20'', ''IERC20''),
      (''ArosCoinReserveManager'', ''ArosCoinReserveManager'')]"

fun contractName :: "contract_name \<Rightarrow> string" where
  "contractName Ownable = ''Ownable''"
| "contractName IERC1155Errors = ''IERC1155Errors''"
| "contractName IERC20Errors = ''IERC20Errors''"
| "contractName IERC721Errors = ''IERC721Errors''"
| "contractName IERC20 = ''IERC20''"
| "contractName IERC20Metadata = ''IERC20Metadata''"
| "contractName ERC20 = ''ERC20''"
| "contractName ERC20Burnable = ''ERC20Burnable''"
| "contractName ArosCoinReserveManager = ''ArosCoinReserveManager''"

text \<open>Every contract can be named to Hardhat in each of the four ways, the promised type has the name of
  the contract or of its factory, and \<open>index.ts\<close> exports both.\<close>

lemma names_resolve:
  "(contractName c, contractName c @ ''__factory'') \<in> set hardhat_getContractFactory"
  "(contractName c, contractName c) \<in> set hardhat_getContractAt"
  "(contractName c, contractName c) \<in> set hardhat_deployContract"
  "(contractName c, contractName c) \<in> set hardhat_deployContractArgs"
  "contractName c \<in> fst ` set typechain_exports"
  "contractName c @ ''__factory'' \<in> fst ` set typechain_exports"
  unfolding hardhat_getContractFactory_def hardhat_getContractAt_def hardhat_deployContract_def
    hardhat_deployContractArgs_def typechain_exports_def
  by (cases c; simp only: contractName.simps append.simps list.set image_insert fst_conv insert_iff simp_thms)+

section \<open>Deployment\<close>

text \<open>\<open>hardhat.config.ts\<close>.\<close>

record hardhat_config =
  solidity :: string
  hardhatChainId :: nat

definition hardhatConfig :: hardhat_config where
  "hardhatConfig = \<lparr>solidity = ''0.8.20'', hardhatChainId = 1337\<rparr>"

text \<open>What the script asks of Hardhat. Any step may fail; \<open>submit\<close> gives the address the contract of that
  bytecode gets.\<close>

record ('code, 'signer) network =
  getSigners :: "error + 'signer list"
  signerAddress :: "'signer \<Rightarrow> address"
  getContractFactory :: "string \<Rightarrow> error + 'code factory"
  submit :: "'code \<Rightarrow> error + address"
  waitForDeployment :: "error + unit"
  addressText :: "address \<Rightarrow> string"

record deploy_state =
  deployOut :: "string list"
  deployErr :: "error list"
  exitCode :: nat
  contractsAt :: "address \<Rightarrow> contract_state option"

definition printOut :: "string \<Rightarrow> (deploy_state, error + unit) state" where
  "printOut t = do { modify (\<lambda>s. s\<lparr>deployOut := deployOut s @ [t]\<rparr>); return (Inr ()) }"

definition typeError :: error where
  "typeError = Error ''TypeError''"

text \<open>\<open>factory.deploy()\<close>: Hardhat deploys from the first signer; a factory without bytecode cannot, and a
  constructor that reverts deploys nothing.\<close>

definition deployFrom :: "('code, 'signer) network \<Rightarrow> 'signer \<Rightarrow> 'code factory \<Rightarrow> (deploy_state, error + address) state" where
  "deployFrom net deployer F =
     (case factoryBytecode F of
        None \<Rightarrow> throw typeError
      | Some code \<Rightarrow> tryM (return (submit net code)) (\<lambda>addr.
          case deployed (signerAddress net deployer) of
            None \<Rightarrow> throw (Error ''revert'')
          | Some st \<Rightarrow> do {
              modify (\<lambda>s. s\<lparr>contractsAt := (contractsAt s)(addr := Some st)\<rparr>);
              return (Inr addr)
            }))"

definition deployMain :: "('code, 'signer) network \<Rightarrow> (deploy_state, error + unit) state" where
  "deployMain net =
     tryM (return (getSigners net)) (\<lambda>signers.
     case signers of
       [] \<Rightarrow> throw typeError
     | deployer # _ \<Rightarrow>
         tryM (printOut (''Deploying contracts with the account: '' @ addressText net (signerAddress net deployer))) (\<lambda>_.
         tryM (return (getContractFactory net ''ArosCoinReserveManager'')) (\<lambda>F.
         tryM (deployFrom net deployer F) (\<lambda>token.
         tryM (return (waitForDeployment net)) (\<lambda>_.
         printOut (''ArosCoinReserveManager deployed to: '' @ addressText net token))))))"

text \<open>\<open>main().catch\<close>: the error is printed and the process exits with 1.\<close>

definition deployScript :: "('code, 'signer) network \<Rightarrow> (deploy_state, unit) state" where
  "deployScript net = do {
     r \<leftarrow> deployMain net;
     case r of
       Inl e \<Rightarrow> modify (\<lambda>s. s\<lparr>deployErr := deployErr s @ [e], exitCode := 1\<rparr>)
     | Inr _ \<Rightarrow> return ()
   }"

definition deploy_start :: deploy_state where
  "deploy_start = \<lparr>deployOut = [], deployErr = [], exitCode = 0, contractsAt = (\<lambda>_. None)\<rparr>"

text \<open>The script exits with 0 only after it has put on chain a token that the first signer owns, with no
  supply and no reference used; otherwise it printed exactly one error.\<close>

lemma deploy_outcome:
  assumes "getContractFactory net ''ArosCoinReserveManager'' = Inr (factoryOf bytecode ArosCoinReserveManager)"
  defines "t \<equiv> exec (deployScript net) deploy_start"
  shows "exitCode t = 0 \<Longrightarrow> \<exists>deployer rest addr st. getSigners net = Inr (deployer # rest) \<and> submit net bytecode = Inr addr
      \<and> contractsAt t addr = Some st \<and> on_chain st \<and> contractOwner st = signerAddress net deployer
      \<and> tokenSupply st = 0 \<and> (\<forall>r. \<not> usedReferences st r)
      \<and> deployOut t = [''Deploying contracts with the account: '' @ addressText net (signerAddress net deployer),
          ''ArosCoinReserveManager deployed to: '' @ addressText net addr]"
    and "exitCode t \<noteq> 0 \<Longrightarrow> exitCode t = 1 \<and> length (deployErr t) = 1"
proof -
  have st: "on_chain st \<and> contractOwner st = a \<and> tokenSupply st = 0 \<and> (\<forall>r. \<not> usedReferences st r)"
    if "deployed a = Some st" for a st
    using on_chain.deployment [OF that] deployed_state(1) [OF that] by (simp add: blank_def)
  note run = t_def deployScript_def deployMain_def deployFrom_def printOut_def deploy_start_def tryM_simps assms(1)
    ArosCoinReserveManager_factory_def
  show "exitCode t = 0 \<Longrightarrow> \<exists>deployer rest addr st. getSigners net = Inr (deployer # rest) \<and> submit net bytecode = Inr addr
      \<and> contractsAt t addr = Some st \<and> on_chain st \<and> contractOwner st = signerAddress net deployer
      \<and> tokenSupply st = 0 \<and> (\<forall>r. \<not> usedReferences st r)
      \<and> deployOut t = [''Deploying contracts with the account: '' @ addressText net (signerAddress net deployer),
          ''ArosCoinReserveManager deployed to: '' @ addressText net addr]"
    by (auto simp: run st split: sum.splits list.splits option.splits)
  show "exitCode t \<noteq> 0 \<Longrightarrow> exitCode t = 1 \<and> length (deployErr t) = 1"
    by (auto simp: run split: sum.splits list.splits option.splits)
qed

end
