(* ===== verification/Scenarios.thy ===== *)
theory Scenarios
  imports Reference
begin

text \<open>
  The two scenario scripts (\<open>scripts/simulate_flow.ts\<close>, \<open>scripts/test_governance.ts\<close>). They drive services
  that the repository does not contain (bridge, token, fee distribution, governance and an older
  NodeChain), so these are parameters: every method of \<open>services\<close> is any computation on a world of its
  own that ends in a value or throws. What is modelled is the scripts: the order of the calls and of
  the log lines, the price verdict, the handlers and the \<open>finally\<close> that closes the application.
\<close>

section \<open>Parsing numbers\<close>

definition is_digit :: "char \<Rightarrow> bool" where
  "is_digit c \<longleftrightarrow> c \<in> set ''0123456789''"

definition digitValue :: "char \<Rightarrow> nat" where
  "digitValue c = of_char c - 48"

definition digitsValue :: "string \<Rightarrow> nat" where
  "digitsValue ds = foldl (\<lambda>n d. 10 * n + digitValue d) 0 ds"

definition signOf :: "string \<Rightarrow> rat \<times> string" where
  "signOf t = (case t of [] \<Rightarrow> (1, []) | c # u \<Rightarrow> if c = CHR ''-'' then (- 1, u) else if c = CHR ''+'' then (1, u) else (1, t))"

definition exponentOf :: "string \<Rightarrow> int" where
  "exponentOf t = (case t of [] \<Rightarrow> 0 | c # u \<Rightarrow>
     if c = CHR ''e'' \<or> c = CHR ''E'' then
       let (sg, v) = signOf u; ds = takeWhile is_digit v
       in if ds = [] then 0 else (if sg < 0 then - int (digitsValue ds) else int (digitsValue ds))
     else 0)"

definition parseFloat :: "string \<Rightarrow> number" where
  "parseFloat t =
     (let (sg, u) = signOf (dropWhile (\<lambda>c. c \<in> {CHR '' '', CHR 0x09, CHR 0x0A, CHR 0x0B, CHR 0x0C, CHR 0x0D}) t)
      in if prefix ''Infinity'' u then (if sg < 0 then NInf else PInf)
         else
           let ds = takeWhile is_digit u; r = dropWhile is_digit u;
               fs = (case r of [] \<Rightarrow> [] | c # v \<Rightarrow> if c = CHR ''.'' then takeWhile is_digit v else []);
               r' = (case r of [] \<Rightarrow> [] | c # v \<Rightarrow> if c = CHR ''.'' then dropWhile is_digit v else r)
           in if ds = [] \<and> fs = [] then NaN
              else rnd (sg * of_nat (digitsValue (ds @ fs)) * 10 powi (exponentOf r' - int (length fs))))"

lemma digits_decimal: "set (decimal n) \<subseteq> set ''0123456789'' \<and> decimal n \<noteq> [] \<and> digitsValue (decimal n) = n"
proof (induction n rule: decimal.induct)
  case (1 n)
  have v: "''0123456789'' ! k \<in> set ''0123456789''" "digitValue (''0123456789'' ! k) = k" if "k < 10" for k
    using that by (auto simp: less_Suc_eq numeral_eq_Suc digitValue_def)
  show ?case
    using 1 v [of n] v [of "n mod 10"] by (subst (1 2 3) decimal.simps) (auto simp: digitsValue_def)
qed

lemma digitsValue_zeros: "digitsValue (replicate k (CHR ''0'') @ ds) = digitsValue ds"
  by (induction k) (auto simp: digitsValue_def digitValue_def)

lemma parse_point:
  assumes "set ds \<subseteq> set ''0123456789''" "set fs \<subseteq> set ''0123456789''" "ds \<noteq> []"
  shows "parseFloat (ds @ ''.'' @ fs) = rnd (of_nat (digitsValue (ds @ fs)) * 10 powi (- int (length fs)))"
proof -
  have d: "is_digit c" if "c \<in> set ds \<union> set fs" for c using assms(1,2) that unfolding is_digit_def by blast
  have dot: "\<not> is_digit (CHR ''.'')" by (simp add: is_digit_def)
  obtain c u where c: "ds = c # u" using assms(3) by (cases ds) auto
  have "c \<in> set ''0123456789''" using assms(1) c by simp
  moreover have "\<forall>c \<in> set ''0123456789''. c \<notin> {CHR '' '', CHR 0x09, CHR 0x0A, CHR 0x0B, CHR 0x0C, CHR 0x0D}
      \<and> c \<noteq> CHR ''-'' \<and> c \<noteq> CHR ''+'' \<and> c \<noteq> CHR ''I''" by simp
  ultimately have ne: "c \<notin> {CHR '' '', CHR 0x09, CHR 0x0A, CHR 0x0B, CHR 0x0C, CHR 0x0D}"
    "c \<noteq> CHR ''-''" "c \<noteq> CHR ''+''" "c \<noteq> CHR ''I''" by blast+
  have head: "dropWhile (\<lambda>c. c \<in> {CHR '' '', CHR 0x09, CHR 0x0A, CHR 0x0B, CHR 0x0C, CHR 0x0D}) (ds @ ''.'' @ fs) = ds @ ''.'' @ fs"
    "signOf (ds @ ''.'' @ fs) = (1, ds @ ''.'' @ fs)" "\<not> prefix ''Infinity'' (ds @ ''.'' @ fs)"
    using ne by (simp_all add: c signOf_def)
  have split: "takeWhile is_digit (ds @ ''.'' @ fs) = ds" "dropWhile is_digit (ds @ ''.'' @ fs) = ''.'' @ fs"
    "takeWhile is_digit fs = fs" "dropWhile is_digit fs = []"
    using d dot by (simp_all add: takeWhile_append2 dropWhile_append2)
  show ?thesis unfolding parseFloat_def head using assms(3)
    by (simp add: Let_def split(1,2) [simplified] split(3,4) head(3) [simplified] exponentOf_def)
qed

text \<open>What a printed price reads back as: the price rounded to six decimals.\<close>

lemma parse_fixed:
  assumes "0 \<le> r" "r < 10 ^ 21"
  shows "parseFloat (toFixed E 6 (Fin r)) = rnd (of_int \<lfloor>r * 10 ^ 6 + 1 / 2\<rfloor> / 10 ^ 6)"
proof -
  define n where "n = nat \<lfloor>r * 10 ^ 6 + 1 / 2\<rfloor>"
  define m where "m = replicate (6 + 1 - length (decimal n)) (CHR ''0'') @ decimal n"
  note dec = digits_decimal [of n]
  have len: "7 \<le> length m" by (simp add: m_def)
  have digits: "set m \<subseteq> set ''0123456789''" using dec by (auto simp: m_def)
  have printed: "toFixed E 6 (Fin r) = take (length m - 6) m @ ''.'' @ drop (length m - 6) m"
  proof -
    have "toFixed E 6 (Fin r) = fixed_point 6 n" using assms by (simp add: toFixed_def n_def)
    also have "\<dots> = take (length m - 6) m @ ''.'' @ drop (length m - 6) m"
      unfolding fixed_point_def Let_def m_def by simp
    finally show ?thesis .
  qed
  have "parseFloat (toFixed E 6 (Fin r)) = rnd (of_nat (digitsValue m) * 10 powi (- 6))"
  proof -
    have "set (take (length m - 6) m) \<subseteq> set ''0123456789''" "set (drop (length m - 6) m) \<subseteq> set ''0123456789''"
      using digits set_take_subset set_drop_subset by fast+
    moreover have "take (length m - 6) m \<noteq> []" using len by auto
    ultimately show ?thesis using parse_point [of "take (length m - 6) m" "drop (length m - 6) m"] len
      unfolding printed by simp
  qed
  also have "digitsValue m = n" unfolding m_def digitsValue_zeros using dec by blast
  also have "of_nat n = (of_int \<lfloor>r * 10 ^ 6 + 1 / 2\<rfloor> :: rat)" using assms(1) by (simp add: n_def add_increasing)
  finally show ?thesis by (simp add: power_int_def field_simps)
qed

section \<open>Services and effects\<close>

text \<open>What a \<open>throw\<close> throws: an error object with a message and a stack, or any other value, printed by
  \<open>String\<close>.\<close>

datatype thrown = ErrorObject string string | OtherThrown string

record deposit =
  depositId :: string
  depositAmount :: nat
  depositCurrency :: string
  depositWallet :: string

record proposal_row =
  proposalId :: string
  proposalHash :: "string option"

type_synonym ('w, 'a) service = "('w, thrown + 'a) state"

record ('w, 'v) services =
  createContext :: "('w, unit) service"
  provider :: "string \<Rightarrow> thrown + unit"
  VALIDATOR :: 'v
  MEDIUM :: 'v
  registerNode_svc :: "string \<Rightarrow> 'v \<Rightarrow> string \<Rightarrow> ('w, unit) service"
  handleFiatDepositWebhook :: "deposit \<Rightarrow> string \<Rightarrow> ('w, string) service"
  getCurrentPrice :: "('w, number) service"
  createProposal :: "string \<Rightarrow> string \<Rightarrow> string \<Rightarrow> 'v option \<Rightarrow> ('w, proposal_row) service"
  castVote :: "string \<Rightarrow> string \<Rightarrow> string \<Rightarrow> ('w, unit) service"
  tallyVotes :: "string \<Rightarrow> ('w, number \<times> number) service"
  triggerEpochCycle :: "('w, unit) service"
  getCurrentEpoch :: "('w, number option) service"
  burn_svc :: "string \<Rightarrow> string \<Rightarrow> string \<Rightarrow> ('w, string \<times> string) service"
  closeApp :: "('w, unit) service"

datatype log_level = LogLevel | WarnLevel | ErrorLevel

record 'w scenario =
  scenarioLog :: "(log_level \<times> string) list"
  appCloses :: nat
  scenarioWorld :: 'w

type_synonym ('w, 'a) script = "('w scenario, thrown + 'a) state"

definition logAt :: "log_level \<Rightarrow> string \<Rightarrow> ('w, unit) script" where
  "logAt l t = do { modify (\<lambda>s. s\<lparr>scenarioLog := scenarioLog s @ [(l, t)]\<rparr>); return (Inr ()) }"

definition service :: "('w, 'a) service \<Rightarrow> ('w, 'a) script" where
  "service m = State (\<lambda>s. case run_state m (scenarioWorld s) of (r, w) \<Rightarrow> (r, s\<lparr>scenarioWorld := w\<rparr>))"

definition close :: "('w, 'v) services \<Rightarrow> ('w, unit) script" where
  "close S = do { modify (\<lambda>s. s\<lparr>appCloses := appCloses s + 1\<rparr>); service (closeApp S) }"

text \<open>\<open>try { body } catch (e) { handler } finally { cleanup }\<close>; a \<open>cleanup\<close> that throws wins.\<close>

definition tryCatchFinally ::
  "('w, 'a) script \<Rightarrow> (thrown \<Rightarrow> ('w, 'a) script) \<Rightarrow> ('w, unit) script \<Rightarrow> ('w, 'a) script" where
  "tryCatchFinally body handler cleanup = do {
     r \<leftarrow> body;
     r' \<leftarrow> (case r of Inl e \<Rightarrow> handler e | Inr a \<Rightarrow> return (Inr a));
     tryM cleanup (\<lambda>_. return r')
   }"

definition tryCatch :: "('w, 'a) script \<Rightarrow> (thrown \<Rightarrow> ('w, 'a) script) \<Rightarrow> ('w, 'a) script" where
  "tryCatch body handler = do { r \<leftarrow> body; case r of Inl e \<Rightarrow> handler e | Inr a \<Rightarrow> return (Inr a) }"

fun providers :: "('w, 'v) services \<Rightarrow> string list \<Rightarrow> ('w, unit) script" where
  "providers S [] = return (Inr ())"
| "providers S (p # ps) = tryM (return (provider S p)) (\<lambda>_. providers S ps)"

section \<open>\<open>simulate_flow.ts\<close>\<close>

definition validatorId :: string where
  "validatorId = ''VALIDATOR_SIM_01''"

text \<open>\<open>app.get('TokenomicsService').getCurrentPrice()\<close>, printed with six decimals.\<close>

definition priceText :: "env \<Rightarrow> ('w, 'v) services \<Rightarrow> ('w, string) script" where
  "priceText E S =
     tryM (return (provider S ''TokenomicsService'')) (\<lambda>_.
     tryM (service (getCurrentPrice S)) (\<lambda>price. return (Inr (toFixed E 6 price))))"

definition epochText :: "env \<Rightarrow> number option \<Rightarrow> string" where
  "epochText E ep = (case ep of None \<Rightarrow> ''undefined'' | Some n \<Rightarrow> numStr E n)"

definition price_up :: string where
  "price_up = ''*** VERIFICATION SUCCESS: Price Appreciated! ***''"

definition price_flat :: string where
  "price_flat = ''*** VERIFICATION WARNING: Price did not appreciate. ***''"

definition completed_line :: string where
  "completed_line = ''--- SIMULATION COMPLETED SUCCESSFULLY ---''"

definition verdictLines :: "string \<Rightarrow> string \<Rightarrow> ('w, unit) script" where
  "verdictLines priceBefore priceFinal =
     tryM (if parseFloat priceBefore < parseFloat priceFinal then logAt LogLevel price_up else logAt WarnLevel price_flat) (\<lambda>_.
     logAt LogLevel completed_line)"

definition burnSteps :: "env \<Rightarrow> ('w, 'v) services \<Rightarrow> string \<Rightarrow> ('w, unit) script" where
  "burnSteps E S priceBefore =
     tryM (priceText E S) (\<lambda>priceMid.
     tryM (logAt LogLevel (''    Price MIDDLE check: '' @ priceMid)) (\<lambda>_.
     tryM (logAt LogLevel ''[5] Simulating Token Burn (Withdrawal)...'') (\<lambda>_.
     tryM (service (burn_svc S ''500'' validatorId ''BANK_DETAILS_ABC'')) (\<lambda>(txHash, bankTxId).
     tryM (priceText E S) (\<lambda>priceFinal.
     tryM (logAt LogLevel (''    Burn Success! TxHash: '' @ txHash)) (\<lambda>_.
     tryM (logAt LogLevel (''    Bank Payout Ref: '' @ bankTxId)) (\<lambda>_.
     tryM (logAt LogLevel (''    FINAL PRICE: '' @ priceFinal)) (\<lambda>_.
     verdictLines priceBefore priceFinal))))))))"

definition governanceSteps :: "env \<Rightarrow> ('w, 'v) services \<Rightarrow> string \<Rightarrow> ('w, unit) script" where
  "governanceSteps E S priceBefore =
     tryM (service (createProposal S ''Increase Fees'' ''Raise fees by 1%'' validatorId (Some (MEDIUM S)))) (\<lambda>proposal.
     tryM (logAt LogLevel (''    Proposal Created: '' @ proposalId proposal)) (\<lambda>_.
     tryM (logAt LogLevel ''[3] Governance: Voting...'') (\<lambda>_.
     tryM (service (castVote S (proposalId proposal) validatorId ''YES'')) (\<lambda>_.
     tryM (service (tallyVotes S (proposalId proposal))) (\<lambda>(yes, no).
     tryM (logAt LogLevel (''    Vote Tally: Yes='' @ numStr E yes @ '', No='' @ numStr E no)) (\<lambda>_.
     tryM (logAt LogLevel ''[4] Fee Distribution: Triggering Epoch...'') (\<lambda>_.
     tryM (service (triggerEpochCycle S)) (\<lambda>_.
     tryM (service (getCurrentEpoch S)) (\<lambda>currentEpoch.
     tryM (logAt LogLevel (''    New Active Epoch: '' @ epochText E currentEpoch)) (\<lambda>_.
     burnSteps E S priceBefore))))))))))"

definition flowSteps :: "env \<Rightarrow> number \<Rightarrow> ('w, 'v) services \<Rightarrow> ('w, unit) script" where
  "flowSteps E now S =
     tryM (logAt LogLevel ''[1] Registering Validator Node...'') (\<lambda>_.
     tryM (service (registerNode_svc S validatorId (VALIDATOR S) ''127.0.0.1'')) (\<lambda>_.
     tryM (logAt LogLevel ''[2] Simulating Fiat Deposit...'') (\<lambda>_.
     tryM (service (handleFiatDepositWebhook S
        \<lparr>depositId = ''DEPOSIT_'' @ numStr E now, depositAmount = 1000, depositCurrency = ''USD'', depositWallet = validatorId\<rparr>
        ''super_secret_bb_key_123'')) (\<lambda>txHash.
     tryM (logAt LogLevel (''    Mint Success! TxHash: '' @ txHash)) (\<lambda>_.
     tryM (logAt LogLevel ''[3] Governance: Creating Proposal...'') (\<lambda>_.
     tryM (priceText E S) (\<lambda>priceBefore.
     tryM (logAt LogLevel (''    Current Price BEFORE activity: '' @ priceBefore)) (\<lambda>_.
     governanceSteps E S priceBefore))))))))"

definition flowFailed :: "thrown \<Rightarrow> ('w, unit) script" where
  "flowFailed e =
     (case e of
        ErrorObject msg stack \<Rightarrow> tryM (logAt ErrorLevel (''SIMULATION FAILED: '' @ msg)) (\<lambda>_. logAt ErrorLevel stack)
      | OtherThrown txt \<Rightarrow> logAt ErrorLevel (''SIMULATION FAILED: '' @ txt))"

definition simulate_providers :: "string list" where
  "simulate_providers = [''NodeChainService'', ''BridgeService'', ''TokenService'', ''FeeDistributionService'', ''GovernanceService'']"

definition simulateFlow :: "env \<Rightarrow> number \<Rightarrow> ('w, 'v) services \<Rightarrow> ('w, unit) script" where
  "simulateFlow E now S =
     tryM (service (createContext S)) (\<lambda>_.
     tryM (providers S simulate_providers) (\<lambda>_.
     tryM (logAt LogLevel ''--- STARTING SIMULATION ---'') (\<lambda>_.
     tryCatchFinally (flowSteps E now S) flowFailed (close S))))"

section \<open>\<open>test_governance.ts\<close>\<close>

definition active_limit :: string where
  "active_limit = ''User already has an active proposal''"

text \<open>\<open>e.message.includes(...)\<close> on a thrown value without a message throws in turn.\<close>

definition noMessage :: thrown where
  "noMessage = ErrorObject ''Cannot read properties of undefined (reading 'includes')'' []"

definition secondProposal :: "('w, 'v) services \<Rightarrow> string \<Rightarrow> ('w, unit) script" where
  "secondProposal S validator =
     tryCatch
       (tryM (service (createProposal S ''Prop 2'' ''Should Fail'' validator None)) (\<lambda>_.
        logAt ErrorLevel ''    FAILED: Proposal 2 was created but should have been blocked by rate limit!''))
       (\<lambda>e. case e of
          ErrorObject msg stack \<Rightarrow>
            if sublist active_limit msg then logAt LogLevel (''    SUCCESS: Blocked by Active Limit. Error: '' @ msg)
            else return (Inl e)
        | OtherThrown txt \<Rightarrow> return (Inl noMessage))"

definition governanceTestSteps :: "string \<Rightarrow> ('w, 'v) services \<Rightarrow> ('w, unit) script" where
  "governanceTestSteps uuid S =
     tryM (service (registerNode_svc S uuid (VALIDATOR S) ''127.0.0.1'')) (\<lambda>_.
     tryM (logAt LogLevel (''[1] Registered Validator: '' @ uuid)) (\<lambda>_.
     tryM (logAt LogLevel ''[2] Creating Proposal 1...'') (\<lambda>_.
     tryM (service (createProposal S ''Prop 1'' ''Test Hash'' uuid None)) (\<lambda>p1.
     tryM (logAt LogLevel (''    Created: '' @ proposalId p1)) (\<lambda>_.
     case proposalHash p1 of
       None \<Rightarrow> return (Inl (ErrorObject ''Proposal 1 missing hash!'' []))
     | Some hsh \<Rightarrow>
         if hsh = [] then return (Inl (ErrorObject ''Proposal 1 missing hash!'' []))
         else
           tryM (logAt LogLevel (''    Hash Verified: '' @ hsh)) (\<lambda>_.
           tryM (logAt LogLevel ''[3] Attempting Proposal 2 (Should Fail)...'') (\<lambda>_.
           secondProposal S uuid)))))))"

definition governanceTestFailed :: "thrown \<Rightarrow> ('w, unit) script" where
  "governanceTestFailed e =
     logAt ErrorLevel (''TEST FAILED: '' @ (case e of ErrorObject msg stack \<Rightarrow> msg | OtherThrown txt \<Rightarrow> ''undefined''))"

definition governance_providers :: "string list" where
  "governance_providers = [''GovernanceService'', ''NodeChainService'']"

definition testGovernance :: "string \<Rightarrow> ('w, 'v) services \<Rightarrow> ('w, unit) script" where
  "testGovernance uuid S =
     tryM (service (createContext S)) (\<lambda>_.
     tryM (providers S governance_providers) (\<lambda>_.
     tryM (logAt LogLevel ''--- STARTING GOVERNANCE TEST ---'') (\<lambda>_.
     tryCatchFinally (governanceTestSteps uuid S) governanceTestFailed (close S))))"

section \<open>Outcomes\<close>

text \<open>What a script does to the log and to the count of closes: it only adds log lines and closes
  nothing.\<close>

definition only_grows :: "'w scenario \<Rightarrow> 'w scenario \<Rightarrow> bool" where
  "only_grows s t \<longleftrightarrow> appCloses t = appCloses s \<and> prefix (scenarioLog s) (scenarioLog t)"

interpretation scenario: preorder_rel only_grows
  by unfold_locales (auto simp: only_grows_def dest: prefix_order.trans)

abbreviation only_logs :: "('w scenario, 'a) state \<Rightarrow> bool" where
  "only_logs \<equiv> safe (\<lambda>_. True) only_grows"

lemma run_logAt [simp]: "exec (logAt l t) s = s\<lparr>scenarioLog := scenarioLog s @ [(l, t)]\<rparr>" "result (logAt l t) s = Inr ()"
  by (simp_all add: logAt_def)

lemma run_service [simp]:
  "exec (service m) s = s\<lparr>scenarioWorld := exec m (scenarioWorld s)\<rparr>" "result (service m) s = result m (scenarioWorld s)"
  by (simp_all add: service_def exec_def result_def split: prod.splits)

lemma only_logs_log: "only_logs (logAt l t)"
  by (rule safeI) (simp add: only_grows_def)

lemma only_logs_service: "only_logs (service m)"
  by (rule safeI) (simp add: only_grows_def)

lemma only_logs_providers: "only_logs (providers S ps)"
  by (induction ps) (auto intro!: scenario.safe_return scenario.safe_tryM)

lemma only_logs_priceText: "only_logs (priceText E S)"
  unfolding priceText_def by (intro scenario.safe_rules only_logs_service)

lemma only_logs_prod: "(\<And>a b. only_logs (f a b)) \<Longrightarrow> only_logs (case p of (a, b) \<Rightarrow> f a b)"
  by (cases p) simp

lemmas only_logs_rules = only_logs_prod scenario.safe_return scenario.safe_tryM scenario.safe_if only_logs_log only_logs_service
  only_logs_providers only_logs_priceText

lemma only_logs_steps:
  "only_logs (verdictLines a b)" "only_logs (burnSteps E S a)" "only_logs (governanceSteps E S a)" "only_logs (flowSteps E now S)"
proof -
  show v: "only_logs (verdictLines a b)" for a b unfolding verdictLines_def by (intro only_logs_rules)
  show b: "only_logs (burnSteps E S a)" for a
    unfolding burnSteps_def by (intro only_logs_rules v)
  show g: "only_logs (governanceSteps E S a)" for a
    unfolding governanceSteps_def by (intro only_logs_rules b)
  show "only_logs (flowSteps E now S)" unfolding flowSteps_def by (intro only_logs_rules g)
qed

lemma only_logs_governance: "only_logs (secondProposal S u)" "only_logs (governanceTestSteps uuid S)"
proof -
  have handler: "only_logs (tryCatch m h)" if "only_logs m" "\<And>e. only_logs (h e)" for m :: "('w, unit) script" and h
    unfolding tryCatch_def
    by (intro scenario.safe_bind) (auto intro: that scenario.safe_return split: sum.split)
  show sec: "only_logs (secondProposal S u)" for u
    unfolding secondProposal_def
    by (intro handler only_logs_rules) (auto split: thrown.split intro: only_logs_rules)
  show "only_logs (governanceTestSteps uuid S)"
    unfolding governanceTestSteps_def
    by (intro only_logs_rules) (auto split: option.split intro!: only_logs_rules sec)
qed

lemma only_logs_failed: "only_logs (flowFailed e)" "only_logs (governanceTestFailed e)"
  unfolding flowFailed_def governanceTestFailed_def by (cases e; simp; intro only_logs_rules)+

text \<open>Started: the application context was created and every service was found.\<close>

definition started_with :: "('w, 'v) services \<Rightarrow> string list \<Rightarrow> 'w scenario \<Rightarrow> bool" where
  "started_with S ps s \<longleftrightarrow> result (createContext S) (scenarioWorld s) = Inr () \<and> (\<forall>p \<in> set ps. provider S p = Inr ())"

lemma run_providers: "result (providers S ps) s = Inr () \<longleftrightarrow> (\<forall>p \<in> set ps. provider S p = Inr ())" "exec (providers S ps) s = s"
  by (induction ps) (auto simp: tryM_simps split: sum.splits)

lemma guarded_outcome:
  assumes "only_logs body" "\<And>e. only_logs (handler e)" "\<And>e s. result (handler e) s = Inr ()"
  shows "appCloses (exec (tryCatchFinally body handler (close S)) s) = appCloses s + 1"
    and "prefix (scenarioLog s) (scenarioLog (exec (tryCatchFinally body handler (close S)) s))"
    and "\<exists>w. result (tryCatchFinally body handler (close S)) s = result (closeApp S) w"
proof -
  have g: "appCloses (exec m s) = appCloses s" "prefix (scenarioLog s) (scenarioLog (exec m s))" if "only_logs m" for m :: "('w, unit) script" and s
    using safeD(2) [OF that, of s] by (simp_all add: only_grows_def)
  note b = g [OF assms(1)] and h = g [OF assms(2)]
  define u where "u = (case result body s of Inl e \<Rightarrow> exec (handler e) (exec body s) | Inr _ \<Rightarrow> exec body s)"
  have u: "appCloses u = appCloses s" "prefix (scenarioLog s) (scenarioLog u)"
    using b(1) [of s] prefix_order.trans [OF b(2) [of s] h(2)] h(1) b(2) [of s] unfolding u_def by (auto split: sum.splits)
  have run: "exec (tryCatchFinally body handler (close S)) s = exec (close S) u"
    "result (tryCatchFinally body handler (close S)) s = result (closeApp S) (scenarioWorld u)"
    by (cases "result body s"; cases "result (closeApp S) (scenarioWorld u)";
        simp add: tryCatchFinally_def tryM_simps close_def assms(3) u_def)+
  show "appCloses (exec (tryCatchFinally body handler (close S)) s) = appCloses s + 1"
    "prefix (scenarioLog s) (scenarioLog (exec (tryCatchFinally body handler (close S)) s))"
    "\<exists>w. result (tryCatchFinally body handler (close S)) s = result (closeApp S) w"
    unfolding run using u by (auto simp: close_def)
qed

lemma script_outcome:
  fixes S :: "('w, 'v) services" and ps :: "string list" and line :: string
  assumes "only_logs body" "\<And>e. only_logs (handler e)" "\<And>e s. result (handler e) s = Inr ()"
  defines "m \<equiv> tryM (service (createContext S)) (\<lambda>_. tryM (providers S ps) (\<lambda>_. tryM (logAt LogLevel line) (\<lambda>_.
    tryCatchFinally body handler (close S))))"
  shows "appCloses (exec m s) = appCloses s + (if started_with S ps s then 1 else 0)"
    and "if started_with S ps s then \<exists>w. result m s = result (closeApp S) w else \<exists>e. result m s = Inl e"
proof -
  let ?T = "tryCatchFinally body handler (close S)"
  let ?s1 = "s\<lparr>scenarioWorld := exec (createContext S) (scenarioWorld s)\<rparr>"
  note out = guarded_outcome [OF assms(1-3)]
  have prov: "result (providers S ps) ?s1 = (if \<forall>p \<in> set ps. provider S p = Inr () then Inr () else result (providers S ps) ?s1)"
    "\<not> (\<forall>p \<in> set ps. provider S p = Inr ()) \<Longrightarrow> \<exists>e. result (providers S ps) ?s1 = Inl e"
    using run_providers(1) [of S ps ?s1] by (cases "result (providers S ps) ?s1"; auto)+
  note run = m_def tryM_simps started_with_def run_providers(2)
  show "appCloses (exec m s) = appCloses s + (if started_with S ps s then 1 else 0)"
  proof (cases "\<forall>p \<in> set ps. provider S p = Inr ()")
    case True
    then have "result (providers S ps) ?s1 = Inr ()" using prov(1) by simp
    then show ?thesis using True by (auto simp: run out(1) split: sum.splits)
  next
    case False
    then obtain e where "result (providers S ps) ?s1 = Inl e" using prov(2) by blast
    then show ?thesis using False by (auto simp: run split: sum.splits)
  qed
  show "if started_with S ps s then \<exists>w. result m s = result (closeApp S) w else \<exists>e. result m s = Inl e"
  proof (cases "\<forall>p \<in> set ps. provider S p = Inr ()")
    case True
    then have "result (providers S ps) ?s1 = Inr ()" using prov(1) by simp
    then show ?thesis using True out(3) by (auto simp: run split: sum.splits)
  next
    case False
    then obtain e where "result (providers S ps) ?s1 = Inl e" using prov(2) by blast
    then show ?thesis using False by (auto simp: run split: sum.splits)
  qed
qed

text \<open>The scenario scripts always close the application they started. Whatever the services do, once
  the context exists and its services are found both scripts call \<open>close\<close> exactly once, and they end
  as \<open>close\<close> does: no exception of a service and no failed check escapes. When the context or a service
  is missing they reject and close nothing, even if the context had been created.\<close>

lemma scenarios_close_the_app:
  fixes S :: "('w, 'v) services"
  shows "(let t = exec (simulateFlow E now S) s; ok = started_with S simulate_providers s
      in appCloses t = appCloses s + (if ok then 1 else 0)
        \<and> (if ok then \<exists>w. result (simulateFlow E now S) s = result (closeApp S) w
           else \<exists>e. result (simulateFlow E now S) s = Inl e))
    \<and> (let t = exec (testGovernance uuid S) s; ok = started_with S governance_providers s
      in appCloses t = appCloses s + (if ok then 1 else 0)
        \<and> (if ok then \<exists>w. result (testGovernance uuid S) s = result (closeApp S) w
           else \<exists>e. result (testGovernance uuid S) s = Inl e))"
proof -
  have f: "result (flowFailed e) s = Inr ()" "result (governanceTestFailed e) s = Inr ()" for e and s :: "'w scenario"
    by (cases e; simp add: flowFailed_def governanceTestFailed_def tryM_simps)+
  note sim = script_outcome [OF only_logs_steps(4) only_logs_failed(1) f(1)]
  note gov = script_outcome [OF only_logs_governance(2) only_logs_failed(2) f(2)]
  show ?thesis
    unfolding Let_def simulateFlow_def testGovernance_def
    by (intro conjI sim gov)
qed

text \<open>The price verdict: both prices are compared as they were printed, so the script reports an
  appreciation only for a price that did rise, and never for a rise below the sixth decimal.\<close>

lemma le_not_less: "(x :: number) \<le> y \<Longrightarrow> \<not> y < x"
  by (cases x; cases y) (auto simp: less_eq_number_def)

lemma price_verdict:
  fixes E :: env and s :: "'w scenario"
  assumes "0 \<le> a" "a < 10 ^ 21" "0 \<le> b" "b < 10 ^ 21"
  defines "up \<equiv> exec (verdictLines (toFixed E 6 (Fin a)) (toFixed E 6 (Fin b))) s"
  shows "scenarioLog up = scenarioLog s @ [(LogLevel, price_up), (LogLevel, completed_line)] \<and> a < b
    \<or> scenarioLog up = scenarioLog s @ [(WarnLevel, price_flat), (LogLevel, completed_line)]"
proof (cases "parseFloat (toFixed E 6 (Fin a)) < parseFloat (toFixed E 6 (Fin b))")
  case True
  have "a < b"
  proof (rule ccontr)
    assume "\<not> a < b"
    then have "(of_int \<lfloor>b * 10 ^ 6 + 1 / 2\<rfloor> :: rat) / 10 ^ 6 \<le> of_int \<lfloor>a * 10 ^ 6 + 1 / 2\<rfloor> / 10 ^ 6"
      by (simp add: divide_right_mono floor_mono)
    then have "\<not> rnd (of_int \<lfloor>a * 10 ^ 6 + 1 / 2\<rfloor> / 10 ^ 6) < rnd (of_int \<lfloor>b * 10 ^ 6 + 1 / 2\<rfloor> / 10 ^ 6)"
      by (intro le_not_less rnd_mono)
    then show False using True parse_fixed [OF assms(1,2)] parse_fixed [OF assms(3,4)] by simp
  qed
  then show ?thesis using True by (simp add: up_def verdictLines_def tryM_simps)
qed (simp add: up_def verdictLines_def tryM_simps)

end
