(* ===== verification/Spec2Isabelle.thy ===== *)
theory Spec2Isabelle
  imports Restart Races Progress Wiring Mirror Demo Columns NightlyAudit AgentsStatus FixCi Views
    Bootstrap Deployment Scenarios
begin

text \<open>
  A verification of the AST backend, the NestJS service under \<open>src/\<close> of the repository that
  runs processes, judges them (Proof of Transaction), mints and burns the process unit, collects
  fees into epochs and pays nodes for confirmed work.

  \<^bold>\<open>The parts and how they interact.\<close> Every service writes its history to one
  append-only chain (\<open>nodechain\<close>) and stamps it with one counter (\<open>common/clock\<close>).
  \<open>state-recording\<close> forwards process events to the chain and remembers which kinds it has
  seen; \<open>pot\<close> turns that memory and the state of the chain into one stored verdict per process;
  \<open>emission\<close> mints and burns on the single row of \<open>aroscoin\<close>, behind the verdict;
  \<open>commission\<close> keeps the epoch pools and pays \<open>nodes\<close> by the weight of their confirmed
  work, sending the rest to \<open>reserve\<close>, whose index is recomputed from the chain;
  \<open>release\<close> opens circulation when index and velocity are high enough; the
  \<open>all-seeing-eye\<close> keeps a second hash chain of observations. \<open>orchestrator\<close> drives one
  process through all of them and is what the HTTP controllers call. Beside the service stand the
  token contract of \<open>smart_contracts\<close> with its TypeScript bindings, the reference program, the front end and
  the maintenance scripts.

  \<^bold>\<open>Theories.\<close>
  \<^item> \<open>JsNumber\<close>: ECMAScript numbers as IEEE doubles with the rounding written out (infinities,
    NaN, signed comparison, overflow); \<open>Prelude\<close>: the state monad with exceptions, the runtime
    parameters \<open>env\<close> (digest, \<open>Math.log10\<close>, number rendering), frame rules;
    \<open>Json\<close>: JSON values and \<open>JSON.stringify\<close>.
  \<^item> \<open>Entities\<close>: the records of the seven \<open>*.entity.ts\<close> files, and the TypeORM repository as
    a record of operations with the locale \<open>repository\<close> for what the code relies on (a row is found
    under its key, \<open>save\<close> inserts or replaces, ordered queries return every row in order);
    \<open>datastore\<close> puts the seven repositories together, and \<open>mem\<close> interprets it on tables
    that are lists.
  \<^item> \<open>HashChain\<close>: the locale \<open>hash_chain\<close> of a log whose entries digest their content and
    the previous digest, with tampering and append lemmas proved once; interpreted by
    \<open>NodeChain\<close> for \<open>reconstruct\<close> and by \<open>AllSeeingEye\<close> for \<open>verifyLog\<close>.
  \<^item> \<open>NodeChain\<close>, \<open>StateRecording\<close>, \<open>Pot\<close>, \<open>ArosCoin\<close>, \<open>Emission\<close>,
    \<open>Nodes\<close>, \<open>Reserve\<close>, \<open>Commission\<close>, \<open>Release\<close>, \<open>AllSeeingEye\<close>,
    \<open>Orchestrator\<close>: one theory for each service, one definition for each method under the
    method's name, each followed by what it returns and what it changes on every branch.
  \<^item> \<open>AppendOnly\<close>: the two logs only grow and stay linked, for every operation;
    \<open>Lifecycle\<close>: the outcome of a run by case; \<open>System\<close>: the HTTP requests, the reachable
    states and the invariant \<open>economy\<close>; \<open>Reconciliation\<close>: rounding bounds for sums, products
    and quotients of doubles; \<open>Settlement\<close>: what finalizing an epoch pays.
  \<^item> \<open>Threads\<close>: handlers cut at their awaits, their interleavings, what every piece keeps, and why no schedule
    goes on for ever; \<open>Concurrent\<close>: the services, \<open>runProcess\<close> and the finalization of an epoch
    as such threads, and that one thread alone is the operation of the other theories;
    \<open>Interleaving\<close>: the locale \<open>log_keeper\<close> of an invariant that the four things done to the logs and the
    clock respect, interpreted for linked logs and for logs with rising times; \<open>Progress\<close>: requests
    at the same time are never stuck; \<open>Races\<close>: what interleaved requests break.
  \<^item> \<open>Restart\<close>: the loss of the in-memory fields, at any turn, and what survives it.
  \<^item> \<open>Http\<close>: the request contracts, the validation pipe as the locale \<open>validation_pipe\<close> of what its
    documentation says, and the controller in front of \<open>runProcess\<close>; \<open>Wiring\<close>: the module
    declarations and constructors, and the settings read from the environment; \<open>Bootstrap\<close>: \<open>main.ts\<close>.
  \<^item> \<open>Token\<close>: the contract \<open>ArosCoinReserveManager\<close> with the OpenZeppelin contracts it inherits, as the build
    info holds them, on words of 256 and 160 bits; \<open>TokenLedger\<close>: the ledger of natural numbers it implements, and
    the references. \<open>Abi\<close>: interface entries, TypeScript types and the mapping between them, with
    \<open>typechain-types/common.ts\<close>; \<open>AbiTables\<close> and \<open>BindingTables\<close>: the interfaces of the nine factories and the
    nine declaration files, entry by entry; \<open>Bindings\<close>: that the declarations belong to the interfaces, and the
    interface to the contract; \<open>Deployment\<close>: the factories, Hardhat's overloads and \<open>scripts/deploy.ts\<close>.
  \<^item> \<open>Reference\<close>: every class of \<open>reference/ast-core\<close>, the in-memory program the services
    say they mirror, with its chain as a third interpretation of \<open>hash_chain\<close>; \<open>Mirror\<close>: the
    simulation between the two, from a fresh start, of one request; \<open>Demo\<close>: the program that prints a walk through
    the reference.
  \<^item> \<open>Columns\<close>: the number transformers of the entities' columns.
  \<^item> \<open>JsText\<close>: strings of UTF-16 units, the string methods and the regular expressions the
    scripts use; \<open>RepoTree\<close>: the file tree they read; \<open>NightlyAudit\<close>, \<open>AgentsStatus\<close>,
    \<open>FixCi\<close>: \<open>scripts/nightly-audit.ts\<close>, \<open>scripts/agents-status.ts\<close> and \<open>scripts/fix-ci.ts\<close>;
    \<open>Scenarios\<close>: \<open>scripts/simulate_flow.ts\<close> and \<open>scripts/test_governance.ts\<close>, with the services they drive as
    parameters.
  \<^item> \<open>Frontend\<close>: the polling hook of the front end; \<open>Views\<close>: its components, as functions from
    the polled data to the element tree they return.

  \<^bold>\<open>State and errors.\<close> The state is one record per service, each extending the one before it
  (\<open>clock_state\<close> up to \<open>sys\<close>), so an operation of a service is typed over every state that
  has its part. A method that may throw returns a sum; what it did before the throw stays done. Each
  \<open>await\<close> is one bind, and a request is served to its end before the next one begins, except in
  the theories from \<open>Threads\<close> to \<open>Races\<close>, where any thread may have the next turn at every database access, transaction and
  stretch of in-memory work; a transaction is one turn, as the comments of \<open>append\<close> and \<open>log\<close> say.

  \<^bold>\<open>What the theorems show.\<close> In this theory: value arises only behind a verdict, a verified run
  completes and has exactly the stated effects, the supply is the earned part in every reachable
  state, both logs grow only and replay cleanly, stored verdicts are on the chain, the confirmed
  volume never falls, and what the read endpoints return. \<open>Settlement\<close>: finalizing completes,
  pays by weight, once, and the pool reconciles to the last bit or within the bound the code tests.
  \<open>Restart\<close>: the participations of an open epoch, and so the nodes' pay, do not survive a restart; the books
  do. \<open>Http\<close>: the hypothesis that requests are valid is what the pipe enforces on every body.
  The component theories hold the verdict's criteria, the emission gate, maturity, tamper
  evidence of both chains, and the node scores' range. Some theorems record behaviour that the
  comments of the code do not promise: a repeated run mints again, a finalized epoch still accepts
  fees, a dropped tail of the chain is not noticed, the event type is not digested, the epoch margin
  enters the volume. The last section is about requests at the same time: both logs survive every
  interleaving of requests, cut off at any turn and started again; requests at the same time all come to an end; the
  tallies, the rule of one verdict per process and (\<open>Races\<close>) the rule that an epoch is settled once do not
  survive.

  \<open>Mirror\<close> says which answers of the service and of the reference agree and which do not.
  The script theories say when the audit and the status page report health and how they exit, and
  when the repair script crashes, escalates or changes a file; the scenario scripts close what they started.

  \<open>TokenLedger\<close> shows that in every state of a deployed contract the stored supply is the sum of the balances,
  so that the \<open>unchecked\<close> arithmetic never wraps, that the contract implements the ledger call by call, and that a
  reference issues or burns at most once. \<open>Bindings\<close> shows that what TypeScript is told about the contract is
  what the interface says, and that the interface tells the truth about the contract.

  \<^bold>\<open>Bounds.\<close> Loops are structural recursions over the lists the code iterates. There are two fuels.
  In the regular expressions a repetition is tried at most once per remaining character, and
  \<open>rounds_enough\<close> says more changes nothing. \<open>weighLoopT\<close> iterates over a list that other requests
  may lengthen meanwhile; what is kept is shown for every fuel, and a finalization alone needs
  one more than the participations there are (\<open>alone_finalize\<close>, \<open>ready_finalize\<close>). Numbers are not bounded by hand: overflow and rounding are those of doubles, and statements
  that need finite sums say so.

  \<^bold>\<open>Not modelled.\<close> The framework that reads the module declarations and the wire; bodies that
  are not JSON objects; of two finalizations of one epoch at the same time, the schedules in which one deletes the
  list of participations that the other still iterates over (\<open>weighLoopT\<close> ends there); what React does with the
  element trees. Of the contract: gas, ether sent with a call, and the compiler, so the bytecode is a parameter. Of
  the bindings: the event subscription members that every declaration repeats, and the files of the
  subdirectories that only re-export. The services the scenario scripts import are not in the repository. What a command
  run by \<open>fix-ci.ts\<close> does to the file tree. Finalizations are
  outside the progress half of the termination theorem, since a run that accrues meanwhile lengthens the
  list they iterate over. Strings of the service are their UTF-8 bytes, so \<open>sort\<close> is code point order,
  which differs from JavaScript's for characters outside the basic plane.
\<close>

section \<open>A concrete request\<close>

definition demo :: RunProcessDto where
  "demo = \<lparr>dtoProcessId = ''p1'', dtoAmount = 1, dtoType = ''transfer'', dtoAdmissible = True,
           dtoNodeIds = None, dtoEpoch = None\<rparr>"

lemma demo_valid: "valid_request (PostProcess demo)" "validRunProcessDto demo"
  by (simp_all add: validRunProcessDto_def demo_def one_number_def zero_number_def)

lemma demo_reachable: "reachable plain_env mem_db (serve plain_env mem_db (PostProcess demo) boot)"
  by (rule reachable.step [OF reachable.start demo_valid(1)])

lemma boot_views:
  "coin_ok mem_db boot" "intact plain_env mem_db boot" "verdict_of mem_db boot p = None" "entries mem_db boot = []"
  "tallies mem_db boot = zeroLedger" "epoch_of mem_db boot n = None" "parts_of boot n = []" "node_of mem_db boot i = None"
proof -
  show "verdict_of mem_db boot p = None" "entries mem_db boot = []" "tallies mem_db boot = zeroLedger"
    "epoch_of mem_db boot n = None" "parts_of boot n = []" "node_of mem_db boot i = None"
    by (simp_all add: verdict_of_def entries_def history_def tallies_def epoch_of_def parts_of_def node_of_def boot_def
        mem.verd.findOne_empty mem.snap.findAsc_empty mem.ledg.findOne_empty mem.epoc.findOne_empty mem.node.findOne_empty)
  show "coin_ok mem_db boot" "intact plain_env mem_db boot"
    using mem.boot_ok(1) mem.boot_ok(2) [of plain_env] by (simp_all add: economy_def books_def logs_ok_def)
qed

section \<open>The lifecycle of a process\<close>







section \<open>Every reachable state\<close>



text \<open>C4: both logs are append-only. Serving any valid request in a reachable state leaves the recorded
  NodeChain history and the Oversight Ledger as prefixes of the new ones, keeps every stored
  verdict, and never turns the clock back, whether or not the request ends in an exception.\<close>

theorem logs_append_only:
  assumes "datastore D" "reachable E D s" "valid_request r"
  shows "prefix (history D s) (history D (serve E D r s))
    \<and> prefix (ledger_log D s) (ledger_log D (serve E D r s))
    \<and> (\<forall>pid v. verdict_of D s pid = Some v \<longrightarrow> verdict_of D (serve E D r s) pid = Some v)
    \<and> clockT s \<le> clockT (serve E D r s)"
  using datastore.serve_ok [OF assms(1) _ _ assms(3)] datastore.reachable_ok [OF assms(1,2)]
  by (auto simp: extends_def)

theorem logs_append_only_witness:
  "prefix (history mem_db (serve plain_env mem_db (PostProcess demo) boot))
     (history mem_db (serve plain_env mem_db (PostFinalize 1) (serve plain_env mem_db (PostProcess demo) boot)))"
  using logs_append_only [OF mem.datastore_axioms demo_reachable, of "PostFinalize 1"] by simp

text \<open>C7: in every reachable state both self-audits succeed: NodeChain replays and the Oversight Ledger
  replays. Sequence numbers run from 1 without a gap, and within each log the timestamps rise
  strictly.\<close>

theorem logs_replay:
  assumes "datastore D" "reachable E D s"
  shows "ok (result (reconstruct E D) s) \<and> ok (result (verifyLog E D) s)
    \<and> map sequenceId (history D s) = map int [1 ..< length (history D s) + 1]
    \<and> sorted_wrt (<) (map timestamp (history D s)) \<and> sorted_wrt (<) (map logTimestamp (ledger_log D s))"
  using datastore.reachable_ok [OF assms]
  by (simp add: logs_ok_def intact_def numbered_def timed_def verifyLog_def getLog_def ledger_log_def Let_def)

theorem logs_replay_witness:
  "ok (result (reconstruct plain_env mem_db) (serve plain_env mem_db (PostProcess demo) boot))"
  using logs_replay [OF mem.datastore_axioms demo_reachable] by simp

text \<open>C8: in every reachable state each stored verdict is 0 or 1 and the sequence id it carries is that
  of a \<open>pot.verified\<close> snapshot of the chain whose payload names the process, the verdict and
  its reasons.\<close>

theorem verdicts_on_chain:
  assumes "datastore D" "reachable E D s" "verdict_of D s pid = Some v"
  shows "verified v \<in> {0, 1} \<and> (\<exists>x \<in> set (history D s). sequenceId x = snapshotSequenceId v
      \<and> eventType x = ''pot.verified'' \<and> payload x = verdict_payload pid (verified v) (reasons v))"
  using datastore.reachable_ok [OF assms(1,2)] assms(3) by (auto simp: logs_ok_def linked_def)

lemma demo_confirmed: "confirmed mem_db (serve plain_env mem_db (PostProcess demo) boot) ''p1''"
  using mem.verified_run(3) [OF boot_views(1,2), of demo] boot_views(3) by (simp add: demo_def)

theorem verdicts_on_chain_witness:
  "\<exists>v. verdict_of mem_db (serve plain_env mem_db (PostProcess demo) boot) ''p1'' = Some v
     \<and> (\<exists>x \<in> set (history mem_db (serve plain_env mem_db (PostProcess demo) boot)).
          sequenceId x = snapshotSequenceId v \<and> eventType x = ''pot.verified'')"
proof -
  obtain v where v: "verdict_of mem_db (serve plain_env mem_db (PostProcess demo) boot) ''p1'' = Some v"
    using demo_confirmed by (auto simp: confirmed_def split: option.splits)
  then show ?thesis using verdicts_on_chain [OF mem.datastore_axioms demo_reachable v] by auto
qed

text \<open>C33: the confirmed volume behind the reserve index never falls: serving a valid request in a
  state the service reaches, restarts included, leaves it at least as large, and with it the index, for every runtime whose
  \<open>Math.log10\<close> is monotone from 1 on.\<close>

theorem reserve_never_falls:
  assumes "datastore D" "lived E D s" "valid_request r"
    and "\<And>x y. 1 \<le> x \<Longrightarrow> x \<le> y \<Longrightarrow> log10 E x \<le> log10 E y"
  shows "result (totalProcessVolume D) s \<le> result (totalProcessVolume D) (serve E D r s)
    \<and> result (reserveIndex E D) s \<le> result (reserveIndex E D) (serve E D r s)"
proof -
  have s: "economy D s" and t: "economy D (serve E D r s)"
    using datastore.lived_economy [OF assms(1)] assms(2) lived_step [OF assms(2,3)] by blast+
  obtain es where es: "entries D (serve E D r s) = entries D s @ es"
    using datastore.served_grows [OF assms(1) datastore.lived_chains [OF assms(1,2)], of r]
    by (auto simp: grows_def entries_def prefix_def)
  then have le: "volume (entries D s) \<le> volume (entries D (serve E D r s))"
    using t volume_mono [of "entries D s" es] by (simp add: economy_def)
  moreover have "1 + volume (entries D s) \<le> 1 + volume (entries D (serve E D r s))"
    using plus_mono_right [OF le, of 1] by simp
  moreover have "1 \<le> 1 + volume (entries D s)"
    using volume_bounds [of "entries D s"] s le_plus_nonneg [of 1] by (simp add: economy_def)
  ultimately show ?thesis using assms(4) by (simp add: totalProcessVolume_run)
qed

lemma plain_log10_mono: "1 \<le> x \<Longrightarrow> x \<le> y \<Longrightarrow> log10 plain_env x \<le> log10 plain_env y"
  by (cases x; cases y) (auto simp: plain_env_def one_number_def minus_number_def rnd_mono)

theorem reserve_never_falls_witness:
  "result (totalProcessVolume mem_db) boot \<le>
   result (totalProcessVolume mem_db) (serve plain_env mem_db (PostProcess demo) boot)"
  using reserve_never_falls [OF mem.datastore_axioms lived_start demo_valid(1) plain_log10_mono] by simp

section \<open>What the API shows\<close>

text \<open>The process view is the recorded truth and changes nothing. It returns the stored verdict and
  the events whose payload names the process, in chain order; after a first verified run those are
  the earlier ones followed by exactly the ten events that the run itself reported.\<close>

theorem process_view_after_run:
  fixes s :: "'z sys_scheme"
  assumes "datastore D" "coin_ok D s" "intact E D s" "dtoAdmissible input"
    and "verdict_of D s (dtoProcessId input) = None" "assignable D s (dtoNodeIds input)"
    and "result (runProcess E D input) s = Inr r"
  shows "exec (getProcess D (dtoProcessId input)) s = s
    \<and> map pevEventType (pvEvents (result (getProcess D (dtoProcessId input)) (exec (runProcess E D input) s))) =
        map pevEventType (pvEvents (result (getProcess D (dtoProcessId input)) s)) @ runEvents r
    \<and> pvVerdict (result (getProcess D (dtoProcessId input)) s) = None
    \<and> map_option fst (pvVerdict (result (getProcess D (dtoProcessId input)) (exec (runProcess E D input) s))) = Some 1"
proof -
  let ?pid = "dtoProcessId input"
  define mine where "mine = (\<lambda>(e :: string, p). map_of p ''processId'' = Some (JStr ?pid))"
  have view: "map pevEventType (pvEvents (result (getProcess D ?pid) t)) = map fst (filter mine (entries D t))"
    for t :: "'z sys_scheme"
    by (simp add: getProcess_def entries_def mine_def filter_map comp_def Let_def)
  have "filter mine (map (\<lambda>(i, ty). (''node.registered'', registered_payload i ty)) ns) = []" for ns
    by (auto simp: filter_empty_conv mine_def registered_payload_def)
  then have ev: "map fst (filter mine (entries D (exec (runProcess E D input) s))) =
      map fst (filter mine (entries D s)) @ runEvents r"
    using datastore.verified_effects(1) [OF assms(1-6)] datastore.verified_run(1) [OF assms(1-6)] assms(7)
    by (simp add: mine_def recorded_def buildPayload_def verdict_payload_def minted_payload_def burned_payload_def)
  have "confirmed D (exec (runProcess E D input) s) ?pid" by (rule datastore.verified_run(3) [OF assms(1-6)])
  then show ?thesis using ev view assms(5)
    by (auto simp: getProcess_def confirmed_def Let_def split: option.splits)
qed

theorem process_view_after_run_witness:
  "map pevEventType (pvEvents (result (getProcess mem_db ''p1'') (exec (runProcess plain_env mem_db demo) boot))) =
   [''initiation'', ''task_assignment'', ''stage_transition'', ''execution_complete'', ''pot.verified'', ''pot_verdict'',
    ''emission.minted'', ''emission'', ''emission.burned'', ''final_status'']"
proof -
  have pre: "dtoAdmissible demo" "verdict_of mem_db boot (dtoProcessId demo) = None" "assignable mem_db boot (dtoNodeIds demo)"
    by (simp_all add: demo_def boot_views)
  note run = mem.verified_run(1) [OF boot_views(1,2) pre]
  have "pvEvents (result (getProcess mem_db ''p1'') boot) = []"
    using boot_views(4) by (simp add: getProcess_def entries_def Let_def)
  then show ?thesis using process_view_after_run [OF mem.datastore_axioms boot_views(1,2) pre run] by (simp add: demo_def)
qed

lemma verified_count:
  assumes "datastore D"
  shows "length (filter (\<lambda>v. verified v = 1) (find (verdicts D) (verdictTbl s))) = card {pid. confirmed D s pid}"
proof -
  let ?xs = "filter (\<lambda>v. verified v = 1) (find (verdicts D) (verdictTbl s))"
  note R = datastore.axioms(3) [OF assms]
  have mem: "v \<in> set ?xs \<longleftrightarrow> verdict_of D s (verdictProcessId v) = Some v \<and> verified v = 1" for v
    by (auto simp: repository.find_rows [OF R] verdict_of_def)
  have inj: "inj_on verdictProcessId (set ?xs)"
  proof (rule inj_onI)
    fix v w assume "v \<in> set ?xs" "w \<in> set ?xs" "verdictProcessId v = verdictProcessId w"
    then show "v = w" by (metis mem option.inject)
  qed
  have "pid \<in> verdictProcessId ` set ?xs \<longleftrightarrow> confirmed D s pid" for pid
  proof
    assume "pid \<in> verdictProcessId ` set ?xs"
    then obtain v where v: "v \<in> set ?xs" and pid: "pid = verdictProcessId v" by (elim imageE) 
    show "confirmed D s pid" using v unfolding mem pid confirmed_def by (elim conjE) (simp only: option.case)
  next
    assume "confirmed D s pid"
    then obtain v where v: "verdict_of D s pid = Some v" "verified v = 1"
      by (auto simp: confirmed_def split: option.splits)
    have k: "verdictProcessId v = pid" using v(1) repository.findOne_key [OF R, of pid] by (simp add: verdict_of_def)
    have "v \<in> set ?xs" unfolding mem k using v by simp
    then show "pid \<in> verdictProcessId ` set ?xs" unfolding k [symmetric] by (rule imageI)
  qed
  then have "verdictProcessId ` set ?xs = {pid. confirmed D s pid}" by blast
  moreover have "distinct ?xs" by (simp add: repository.find_distinct [OF R])
  ultimately show ?thesis using card_image [OF inj] distinct_card by metis
qed

text \<open>The metrics are the derived figures of the current state: supply and earned part of the ledger,
  the index of the recorded volume, the number of stored verdicts that are 1, the pool of the epoch
  (0 when there is none), the length of the chain and the release flag. Reading them leaves every
  one of these figures as it is.\<close>

lemma metrics_report_state:
  fixes s :: "'z sys_scheme"
  assumes "datastore D" "coin_ok D s"
  shows "result (metrics E D n) s = Inr \<lparr>metTotalSupply = supply_of (tallies D s),
      metEarnedRetained = earnedRetained (tallies D s), metReserveIndex = log10 E (1 + volume (entries D s)),
      metVerifiedProcessCount = card {pid. confirmed D s pid}, metCurrentEpoch = n,
      metEpochPool = (case epoch_of D s n of None \<Rightarrow> 0 | Some ep \<Rightarrow> totalFees ep),
      metNodeChainLength = length (history D s), metReleaseActive = active (phase_of D s)\<rparr>
    \<and> tallies D (exec (metrics E D n) s) = tallies D s \<and> history D (exec (metrics E D n) s) = history D s
    \<and> phase_of D (exec (metrics E D n) s) = phase_of D s"
proof -
  note cnt = verified_count [OF assms(1), of s]
  have ok: "coin_ok D (with_ledger D s)" using datastore.with_ledger_ok [OF assms] by simp
  note rr = datastore.read_run [OF assms(1)] datastore.with_ledger_ok [OF assms(1)]
  have state: "exec (metrics E D n) s = with_phase D (with_ledger D (with_ledger D s))"
    using assms(2) ok by (simp add: metrics_def rr isActive_run listVerdicts_def getEpoch_def)
  have frames: "entries D (with_ledger D t) = entries D t" "history D (with_ledger D t) = history D t"
    "phase_of D (with_ledger D t) = phase_of D t" for t :: "'z sys_scheme"
    using datastore.chain_coin(1) [OF assms(1)] datastore.history_coin(1) [OF assms(1)]
      datastore.phase_of_ledger [OF assms(1)] by blast+
  show ?thesis unfolding state
    using assms(2) ok cnt
    by (simp add: metrics_def rr isActive_run listVerdicts_def getEpoch_def frames epoch_of_def
        datastore.phase_of_with_phase [OF assms(1)] datastore.commission_lower [OF assms(1)])
qed

section \<open>Runs outside the normal course\<close>



text \<open>C35: a run that names an unregistered node throws, and names one of the unregistered ids it was
  given. By then the initiation, the assignment, the stage transition and the completion are
  recorded and stay recorded, although no verdict is issued and no value moves.\<close>

theorem unregistered_node_throws:
  fixes s :: "'z sys_scheme"
  assumes "datastore D" "dtoAdmissible input" "dtoNodeIds input = Some (i # is)" "j \<in> set (i # is)" "node_of D s j = None"
  shows "(\<exists>k \<in> set (i # is). node_of D s k = None \<and> result (runProcess E D input) s = Inl (nodeNotFound k))
    \<and> map fst (entries D (exec (runProcess E D input) s)) =
        map fst (entries D s) @ [''initiation'', ''task_assignment'', ''stage_transition'', ''execution_complete'']
    \<and> tallies D (exec (runProcess E D input) s) = tallies D s
    \<and> verdict_of D (exec (runProcess E D input) s) (dtoProcessId input) = verdict_of D s (dtoProcessId input)"
  using datastore.unregistered_run [OF assms] by (simp add: recorded_def)

theorem unregistered_node_throws_witness:
  "result (runProcess plain_env mem_db (demo\<lparr>dtoNodeIds := Some [''ghost'']\<rparr>)) boot = Inl (nodeNotFound ''ghost'')"
proof -
  have "dtoAdmissible (demo\<lparr>dtoNodeIds := Some [''ghost'']\<rparr>)"
    "dtoNodeIds (demo\<lparr>dtoNodeIds := Some [''ghost'']\<rparr>) = Some (''ghost'' # [])" "''ghost'' \<in> set (''ghost'' # [])"
    by (simp_all add: demo_def)
  from unregistered_node_throws [OF mem.datastore_axioms this boot_views(8), of plain_env] show ?thesis by simp
qed

section \<open>Requests at the same time\<close>







text \<open>C18: the tallies do not survive it. Two emissions for confirmed processes can interleave so that
  both report success while one of the two mints is overwritten and both burns are booked: from a
  reachable state, in which the supply is the earned part, the supply falls short of it by the lost
  amount (up to rounding).\<close>

theorem concurrent_emissions_lose_a_mint:
  assumes "datastore D" "reachable E D s" "coinInit s" "confirmed D s p" "confirmed D s q"
  shows "\<exists>s'. turns (s, [emitT E D p a, emitT E D q b])
           (s', [Ret (Inr \<lparr>authorized = True, emitMinted = a, emitBurned = a, emitProcessId = p\<rparr>),
                 Ret (Inr \<lparr>authorized = True, emitMinted = b, emitBurned = b, emitProcessId = q\<rparr>)])
     \<and> (let m = processMinted (tallies D s)
        in supply_of (tallies D s') = ((m + b) - (m + a + b)) + earnedRetained (tallies D s))"
proof -
  have b: "books D s" using datastore.reachable_ok [OF assms(1,2)] by (simp add: economy_def)
  then obtain r where r: "findOne (ledgers D) LEDGER_ID (ledgerTbl s) = Some r"
    using assms(3) by (auto simp: books_def coin_ok_def)
  moreover from this b have "processBurned r = processMinted r" by (simp add: books_def tallies_def)
  ultimately show ?thesis
    using datastore.emissions_race [OF assms(1,3) r assms(4,5), of E a b] by (auto simp: tallies_def supply_of_def Let_def)
qed

lemma demo_metrics:
  defines "s \<equiv> serve plain_env mem_db (GetMetrics 1) (serve plain_env mem_db (PostProcess demo) boot)"
  shows "reachable plain_env mem_db s" "coinInit s" "confirmed mem_db s ''p1''"
    "tallies mem_db s = zeroLedger\<lparr>processMinted := 1, processBurned := 1\<rparr>"
proof -
  let ?t = "serve plain_env mem_db (PostProcess demo) boot"
  show "reachable plain_env mem_db s" unfolding s_def by (rule reachable.step [OF demo_reachable]) simp
  have ok: "coin_ok mem_db ?t" using mem.reachable_ok [OF demo_reachable] by (simp add: economy_def books_def)
  then have s: "s = with_phase mem_db (with_ledger mem_db (with_ledger mem_db ?t))"
    by (simp add: s_def metrics_def mem.read_run isActive_run listVerdicts_def getEpoch_def)
  show "coinInit s" by (simp add: s with_ledger_def ensureLedger_def)
  show "confirmed mem_db s ''p1''" using demo_confirmed by (simp add: s confirmed_def verdict_of_def)
  show "tallies mem_db s = zeroLedger\<lparr>processMinted := 1, processBurned := 1\<rparr>"
    using mem.verified_effects(2) [OF boot_views(1,2), of demo] boot_views(3) ok
    by (simp add: s demo_def boot_views zeroLedger_def zero_plus_double)
qed

theorem concurrent_emissions_lose_a_mint_witness:
  "\<exists>s s'. reachable plain_env mem_db s \<and> supply_of (tallies mem_db s) = 0 \<and> supply_of (tallies mem_db s') = Fin (- 1)
     \<and> turns (s, [emitT plain_env mem_db ''p1'' 1, emitT plain_env mem_db ''p1'' 1])
         (s', [Ret (Inr \<lparr>authorized = True, emitMinted = 1, emitBurned = 1, emitProcessId = ''p1''\<rparr>),
               Ret (Inr \<lparr>authorized = True, emitMinted = 1, emitBurned = 1, emitProcessId = ''p1''\<rparr>)])"
proof -
  obtain s where d: "reachable plain_env mem_db s" "coinInit s" "confirmed mem_db s ''p1''"
    and t: "tallies mem_db s = zeroLedger\<lparr>processMinted := 1, processBurned := 1\<rparr>" using demo_metrics by blast
  have "rnd (- 1) = Fin (- 1)" by (intro rnd_representable representable_minus representable_1)
  then have n: "supply_of (tallies mem_db s) = 0" "((1 + 1) - (1 + 1 + 1)) + (0::number) = Fin (- 1)"
    by (simp_all add: t zeroLedger_def supply_of_def one_number_def zero_number_def minus_number_def)
  then show ?thesis
    using concurrent_emissions_lose_a_mint [OF mem.datastore_axioms d(1,2,3,3), of 1 1] d(1)
    by (auto simp: t zeroLedger_def Let_def)
qed

text \<open>C19: nor does the rule of one verdict per process. Two runs of the same process that reach the
  verdict together both find none, both write \<open>pot.verified\<close> to the chain and both get a verdict of
  their own; the later one overwrites the stored row, so the first caller holds a snapshot number
  that is not the stored one.\<close>

theorem concurrent_verdicts_are_duplicated:
  fixes s :: "'z sys_scheme"
  assumes "datastore D" "verdict_of D s pid = None"
  shows "\<exists>s' x y u v. turns (s, [verifyT E D pid, verifyT E D pid]) (s', [Ret u, Ret v])
    \<and> history D s' = history D s @ [x, y] \<and> eventType x = ''pot.verified'' \<and> eventType y = ''pot.verified''
    \<and> resVerified u = (if evidence_complete E D s pid then 1 else 0) \<and> resVerified v = resVerified u
    \<and> resSnapshotSequenceId u < resSnapshotSequenceId v
    \<and> map_option snapshotSequenceId (verdict_of D s' pid) = Some (resSnapshotSequenceId v)"
  using datastore.verdicts_race [OF assms, of E] by fastforce

theorem concurrent_verdicts_are_duplicated_witness:
  "\<exists>(s'::sys) x y. history mem_db s' = [x, y] \<and> eventType x = ''pot.verified'' \<and> eventType y = ''pot.verified''"
  using concurrent_verdicts_are_duplicated [OF mem.datastore_axioms boot_views(3), of plain_env "''p1''"] boot_views(4)
  by (simp add: entries_def) blast

end
